(* ===== verification/Kernel_Base.thy ===== *)
theory Kernel_Base
  imports Main "HOL-Library.Word"
begin

text \<open>
  Shared vocabulary of the development: C integer types, the errno values a system call
  returns (negated), what a system call sees of a user pointer, runs of system calls, and
  the three interfaces (as locales) that the component theories instantiate.

  A system call is a function from its arguments and the kernel state it touches to the
  \<open>long\<close> it returns and the new state. Code outside \<^verbatim>\<open>src/\<close> (security modules, allocators,
  the scheduler, id namespaces, page tables) enters through the fields of an environment
  record that each component declares, so that every branch of the source remains a branch
  of the model.
\<close>

unbundle bit_operations_syntax

section \<open>C types and error numbers\<close>

type_synonym u8 = "8 word"
type_synonym u16 = "16 word"
type_synonym u32 = "32 word"
type_synonym u64 = "64 word"

abbreviation EPERM :: int where "EPERM \<equiv> 1"
abbreviation ESRCH :: int where "ESRCH \<equiv> 3"
abbreviation EINTR :: int where "EINTR \<equiv> 4"
abbreviation EBADF :: int where "EBADF \<equiv> 9"
abbreviation EAGAIN :: int where "EAGAIN \<equiv> 11"
abbreviation ENOMEM :: int where "ENOMEM \<equiv> 12"
abbreviation EACCES :: int where "EACCES \<equiv> 13"
abbreviation EFAULT :: int where "EFAULT \<equiv> 14"
abbreviation EINVAL :: int where "EINVAL \<equiv> 22"
abbreviation ENOSYS :: int where "ENOSYS \<equiv> 38"

section \<open>Flag words\<close>

text \<open>\<open>has_flag flags f\<close>: the C test \<open>flags & f\<close>.\<close>

definition has_flag :: "u64 \<Rightarrow> u64 \<Rightarrow> bool" where
  "has_flag flags f \<longleftrightarrow> flags AND f \<noteq> 0"

lemma has_and: "has_flag (x AND m) f = has_flag x (m AND f)"
  by (simp add: has_flag_def and.assoc)

lemma has_or: "has_flag (x OR y) f \<longleftrightarrow> has_flag x f \<or> has_flag y f"
  by (auto simp: has_flag_def bit.conj_disj_distrib2 or_eq_0_iff)

lemma has_or_flag: "has_flag x (f OR g) \<longleftrightarrow> has_flag x f \<or> has_flag x g"
  by (auto simp: has_flag_def bit.conj_disj_distrib or_eq_0_iff)

lemma has_0 [simp]: "\<not> has_flag x 0" "\<not> has_flag 0 x"
  by (simp_all add: has_flag_def)

lemma has_num: "has_flag (numeral a) (numeral b) \<longleftrightarrow> (numeral a AND numeral b :: u64) \<noteq> 0"
  by (simp add: has_flag_def)

lemma and_exp: "x AND 2 ^ n = (if bit x n then 2 ^ n else 0)" for x :: u64
  by (rule bit_eqI) (auto simp: bit_and_iff bit_exp_iff)

lemmas has_mask = has_and has_or has_or_flag

section \<open>User pointers\<close>

text \<open>
  A pointer argument is classified by what accessing it does. For reading: it is null, the
  access faults, or it yields the object stored there. For writing: it is null, the access
  faults, or the write takes place; the model then returns the object written as an
  \<open>option\<close>, with \<open>None\<close> when nothing was completely written.
\<close>

datatype 'a user_in = Null_in | Fault_in | Readable 'a

datatype user_out = Null_out | Fault_out | Writable

definition copy_from_user :: "'a user_in \<Rightarrow> 'a option" where
  "copy_from_user p = (case p of Readable v \<Rightarrow> Some v | _ \<Rightarrow> None)"

definition copy_to_user :: "user_out \<Rightarrow> 'a \<Rightarrow> 'a option" where
  "copy_to_user p v = (if p = Writable then Some v else None)"

lemma copy_from_user_simps [simp]:
  "copy_from_user (Readable v) = Some v"
  "copy_from_user Null_in = None"
  "copy_from_user Fault_in = None"
  by (simp_all add: copy_from_user_def)

lemma copy_to_user_simps [simp]:
  "copy_to_user Writable v = Some v"
  "copy_to_user Null_out v = None"
  "copy_to_user Fault_out v = None"
  by (simp_all add: copy_to_user_def)

lemma copy_to_user_SomeD: "copy_to_user p v = Some w \<Longrightarrow> p = Writable \<and> w = v"
  by (simp add: copy_to_user_def split: if_splits)

section \<open>Outcomes of a call\<close>

text \<open>
  The bodies of the system calls are chains of guards and local bindings that end in a
  returned value and a state. \<open>ends Q p\<close> says that the outcome \<open>p\<close> satisfies \<open>Q\<close>; the rules
  of the collection \<open>ends_intro\<close> follow the shape of the body, one goal per early return, each
  with the conditions that lead to it.
\<close>

definition ends :: "('r \<Rightarrow> 's \<Rightarrow> bool) \<Rightarrow> 'r \<times> 's \<Rightarrow> bool" where
  "ends Q p \<longleftrightarrow> Q (fst p) (snd p)"

named_theorems ends_intro

lemma ends_pair: "Q r s \<Longrightarrow> ends Q (r, s)"
  by (simp add: ends_def)

lemma ends_if [ends_intro]: "\<lbrakk>b \<Longrightarrow> ends Q x; \<not> b \<Longrightarrow> ends Q y\<rbrakk> \<Longrightarrow> ends Q (if b then x else y)"
  by simp

lemma ends_Let [ends_intro]: "(\<And>v. v = e \<Longrightarrow> ends Q (f v)) \<Longrightarrow> ends Q (let v = e in f v)"
  by simp

lemma ends_case_prod [ends_intro]:
  "(\<And>a b. p = (a, b) \<Longrightarrow> ends Q (f a b)) \<Longrightarrow> ends Q (case p of (a, b) \<Rightarrow> f a b)"
  by (cases p) simp

lemma ends_case_option [ends_intro]:
  "\<lbrakk>x = None \<Longrightarrow> ends Q n; \<And>v. x = Some v \<Longrightarrow> ends Q (f v)\<rbrakk> \<Longrightarrow>
   ends Q (case x of None \<Rightarrow> n | Some v \<Rightarrow> f v)"
  by (cases x) simp_all

lemma endsD: "ends Q p \<Longrightarrow> Q (fst p) (snd p)"
  by (simp add: ends_def)

lemma ends_mono: "\<lbrakk>ends Q p; \<And>r s. Q r s \<Longrightarrow> Q' r s\<rbrakk> \<Longrightarrow> ends Q' p"
  by (simp add: ends_def)

text \<open>An error return leaves the state \<open>s\<close> as it was.\<close>

abbreviation unchanged_on_error :: "'s \<Rightarrow> int \<times> 's \<Rightarrow> bool" where
  "unchanged_on_error s \<equiv> ends (\<lambda>r s'. r < 0 \<longrightarrow> s' = s)"

lemma unchanged_same [ends_intro]: "unchanged_on_error s (r, s)"
  by (simp add: ends_def)

section \<open>Runs of system calls\<close>

text \<open>A sequence of calls, each executed in the state the one before left.\<close>

primrec run_calls :: "('c \<Rightarrow> 's \<Rightarrow> int \<times> 's) \<Rightarrow> 'c list \<Rightarrow> 's \<Rightarrow> 's" where
  "run_calls exec [] s = s"
| "run_calls exec (c # cs) s = run_calls exec cs (snd (exec c s))"

lemma run_calls_append: "run_calls exec (cs @ ds) s = run_calls exec ds (run_calls exec cs s)"
  by (induction cs arbitrary: s) auto

text \<open>The calls of a run that returned a non-negative value.\<close>

primrec succeeded :: "('c \<Rightarrow> 's \<Rightarrow> int \<times> 's) \<Rightarrow> 'c list \<Rightarrow> 's \<Rightarrow> 'c list" where
  "succeeded exec [] s = []"
| "succeeded exec (c # cs) s =
     (if fst (exec c s) < 0 then succeeded exec cs (snd (exec c s))
      else c # succeeded exec cs (snd (exec c s)))"

section \<open>Interfaces shared by the components\<close>

text \<open>A family of calls \<open>P\<close> that keeps an invariant.\<close>

locale syscall_invariant =
  fixes exec :: "'c \<Rightarrow> 's \<Rightarrow> int \<times> 's"
    and P :: "'c \<Rightarrow> bool"
    and I :: "'s \<Rightarrow> bool"
  assumes exec_inv: "\<lbrakk>P c; I s\<rbrakk> \<Longrightarrow> I (snd (exec c s))"
begin

lemma run_inv: "\<lbrakk>list_all P cs; I s\<rbrakk> \<Longrightarrow> I (run_calls exec cs s)"
  by (induction cs arbitrary: s) (auto intro: exec_inv)

end

text \<open>A family of calls that only moves the state along a preorder.\<close>

locale syscall_order =
  fixes exec :: "'c \<Rightarrow> 's \<Rightarrow> int \<times> 's"
    and P :: "'c \<Rightarrow> bool"
    and R :: "'s \<Rightarrow> 's \<Rightarrow> bool"
  assumes R_refl: "R s s"
    and R_trans: "\<lbrakk>R s t; R t u\<rbrakk> \<Longrightarrow> R s u"
    and exec_R: "P c \<Longrightarrow> R s (snd (exec c s))"
begin

lemma run_R: "list_all P cs \<Longrightarrow> R s (run_calls exec cs s)"
proof (induction cs arbitrary: s)
  case Nil
  show ?case by (simp add: R_refl)
next
  case (Cons c cs)
  then have "R s (snd (exec c s))" and "R (snd (exec c s)) (run_calls exec cs (snd (exec c s)))"
    by (simp_all add: exec_R)
  then show ?case by (auto intro: R_trans)
qed

end

text \<open>A family of calls that changes nothing when it returns an error.\<close>

locale syscall_atomic =
  fixes exec :: "'c \<Rightarrow> 's \<Rightarrow> int \<times> 's"
  assumes exec_error: "fst (exec c s) < 0 \<Longrightarrow> snd (exec c s) = s"
begin

lemma run_succeeded: "run_calls exec (succeeded exec cs s) s = run_calls exec cs s"
  by (induction cs arbitrary: s) (auto simp: exec_error)

lemma run_all_failed:
  assumes "succeeded exec cs s = []"
  shows "run_calls exec cs s = s"
  using run_succeeded [of cs s] assms by simp

end

end
