(* ===== verification/Credentials.thy ===== *)
theory Credentials
  imports Kernel_Base
begin

text \<open>
  The credential system calls of \<^verbatim>\<open>src/Kernel/kernel/sys.c\<close>: \<open>setregid\<close>, \<open>setgid\<close>,
  \<open>setreuid\<close>, \<open>setuid\<close>, \<open>setresuid\<close>, \<open>setresgid\<close>, \<open>setfsuid\<close>, \<open>setfsgid\<close> and the
  calls that read the ids back. The state is the credential set of the current task and its
  \<open>flags\<close> word; \<open>prepare_creds\<close>/\<open>commit_creds\<close>/\<open>abort_creds\<close> become building a copy of
  the record and installing or dropping it.
\<close>

section \<open>State and environment\<close>

record cred =
  cr_uid :: u32
  cr_gid :: u32
  cr_suid :: u32
  cr_sgid :: u32
  cr_euid :: u32
  cr_egid :: u32
  cr_fsuid :: u32
  cr_fsgid :: u32
  cr_user :: nat
  cr_ucounts :: nat
  cr_caps :: "nat set"

record cred_task =
  ct_cred :: cred
  ct_flags :: u32

datatype lsm_setid = LSM_SETID_ID | LSM_SETID_RE | LSM_SETID_RES | LSM_SETID_FS

text \<open>
  What the calls use from outside the file: the id mapping of the caller's user namespace
  (\<open>make_kuid\<close>, \<open>from_kuid_munged\<close> and the validity tests), \<open>ns_capable_setid\<close> for
  \<open>CAP_SETUID\<close> and \<open>CAP_SETGID\<close> (a function of the subjective credentials), whether
  \<open>prepare_creds\<close> gets memory, \<open>alloc_uid\<close>, the security hooks (which may adjust the new
  credentials), \<open>set_cred_ucounts\<close> and \<open>is_rlimit_overlimit\<close>.
\<close>

record cred_env =
  make_kuid :: "u32 \<Rightarrow> u32"
  make_kgid :: "u32 \<Rightarrow> u32"
  uid_valid :: "u32 \<Rightarrow> bool"
  gid_valid :: "u32 \<Rightarrow> bool"
  from_kuid_munged :: "u32 \<Rightarrow> u32"
  from_kgid_munged :: "u32 \<Rightarrow> u32"
  ns_capable_setuid :: "cred \<Rightarrow> bool"
  ns_capable_setgid :: "cred \<Rightarrow> bool"
  prepare_creds_ok :: bool
  alloc_uid :: "u32 \<Rightarrow> nat option"
  security_task_fix_setuid :: "cred \<Rightarrow> cred \<Rightarrow> lsm_setid \<Rightarrow> int \<times> cred"
  security_task_fix_setgid :: "cred \<Rightarrow> cred \<Rightarrow> lsm_setid \<Rightarrow> int \<times> cred"
  set_cred_ucounts :: "cred \<Rightarrow> int \<times> cred"
  is_rlimit_overlimit :: "nat \<Rightarrow> bool"
  INIT_USER :: nat

abbreviation NO_ID :: u32 where "NO_ID \<equiv> - 1"

abbreviation PF_NPROC_EXCEEDED :: u32 where "PF_NPROC_EXCEEDED \<equiv> 0x1000"

text \<open>\<open>commit_creds\<close> installs the new set and returns 0.\<close>

definition commit_creds :: "cred \<Rightarrow> cred_task \<Rightarrow> int \<times> cred_task" where
  "commit_creds new t = (0, t\<lparr>ct_cred := new\<rparr>)"

section \<open>Group ids\<close>

definition sys_setregid :: "cred_env \<Rightarrow> u32 \<Rightarrow> u32 \<Rightarrow> cred_task \<Rightarrow> int \<times> cred_task" where
  "sys_setregid E rgid egid t =
     (let krgid = make_kgid E rgid; kegid = make_kgid E egid; old = ct_cred t in
      if rgid \<noteq> NO_ID \<and> \<not> gid_valid E krgid then (- EINVAL, t)
      else if egid \<noteq> NO_ID \<and> \<not> gid_valid E kegid then (- EINVAL, t)
      else if \<not> prepare_creds_ok E then (- ENOMEM, t)
      else if rgid \<noteq> NO_ID \<and>
        \<not> (cr_gid old = krgid \<or> cr_egid old = krgid \<or> ns_capable_setgid E old) then (- EPERM, t)
      else let new1 = (if rgid \<noteq> NO_ID then old\<lparr>cr_gid := krgid\<rparr> else old) in
      if egid \<noteq> NO_ID \<and>
        \<not> (cr_gid old = kegid \<or> cr_egid old = kegid \<or> cr_sgid old = kegid \<or>
           ns_capable_setgid E old) then (- EPERM, t)
      else let new2 = (if egid \<noteq> NO_ID then new1\<lparr>cr_egid := kegid\<rparr> else new1);
               new3 = (if rgid \<noteq> NO_ID \<or> egid \<noteq> NO_ID \<and> kegid \<noteq> cr_gid old
                       then new2\<lparr>cr_sgid := cr_egid new2\<rparr> else new2);
               new4 = new3\<lparr>cr_fsgid := cr_egid new3\<rparr>
      in case security_task_fix_setgid E new4 old LSM_SETID_RE of (retval, new) \<Rightarrow>
           if retval < 0 then (retval, t) else commit_creds new t)"

definition sys_setgid :: "cred_env \<Rightarrow> u32 \<Rightarrow> cred_task \<Rightarrow> int \<times> cred_task" where
  "sys_setgid E gid t =
     (let kgid = make_kgid E gid; old = ct_cred t in
      if \<not> gid_valid E kgid then (- EINVAL, t)
      else if \<not> prepare_creds_ok E then (- ENOMEM, t)
      else if \<not> ns_capable_setgid E old \<and> kgid \<noteq> cr_gid old \<and> kgid \<noteq> cr_sgid old then (- EPERM, t)
      else let new1 = (if ns_capable_setgid E old
                       then old\<lparr>cr_gid := kgid, cr_egid := kgid, cr_sgid := kgid, cr_fsgid := kgid\<rparr>
                       else old\<lparr>cr_egid := kgid, cr_fsgid := kgid\<rparr>)
      in case security_task_fix_setgid E new1 old LSM_SETID_ID of (retval, new) \<Rightarrow>
           if retval < 0 then (retval, t) else commit_creds new t)"

definition sys_setresgid :: "cred_env \<Rightarrow> u32 \<Rightarrow> u32 \<Rightarrow> u32 \<Rightarrow> cred_task \<Rightarrow> int \<times> cred_task" where
  "sys_setresgid E rgid egid sgid t =
     (let krgid = make_kgid E rgid; kegid = make_kgid E egid; ksgid = make_kgid E sgid;
          old = ct_cred t;
          is_new = (\<lambda>g kg. g \<noteq> NO_ID \<and> kg \<noteq> cr_gid old \<and> kg \<noteq> cr_egid old \<and> kg \<noteq> cr_sgid old) in
      if rgid \<noteq> NO_ID \<and> \<not> gid_valid E krgid then (- EINVAL, t)
      else if egid \<noteq> NO_ID \<and> \<not> gid_valid E kegid then (- EINVAL, t)
      else if sgid \<noteq> NO_ID \<and> \<not> gid_valid E ksgid then (- EINVAL, t)
      else if (rgid = NO_ID \<or> krgid = cr_gid old) \<and>
              (egid = NO_ID \<or> kegid = cr_egid old \<and> kegid = cr_fsgid old) \<and>
              (sgid = NO_ID \<or> ksgid = cr_sgid old) then (0, t)
      else if (is_new rgid krgid \<or> is_new egid kegid \<or> is_new sgid ksgid) \<and>
              \<not> ns_capable_setgid E old then (- EPERM, t)
      else if \<not> prepare_creds_ok E then (- ENOMEM, t)
      else let new1 = (if rgid \<noteq> NO_ID then old\<lparr>cr_gid := krgid\<rparr> else old);
               new2 = (if egid \<noteq> NO_ID then new1\<lparr>cr_egid := kegid\<rparr> else new1);
               new3 = (if sgid \<noteq> NO_ID then new2\<lparr>cr_sgid := ksgid\<rparr> else new2);
               new4 = new3\<lparr>cr_fsgid := cr_egid new3\<rparr>
      in case security_task_fix_setgid E new4 old LSM_SETID_RES of (retval, new) \<Rightarrow>
           if retval < 0 then (retval, t) else commit_creds new t)"

definition sys_setfsgid :: "cred_env \<Rightarrow> u32 \<Rightarrow> cred_task \<Rightarrow> int \<times> cred_task" where
  "sys_setfsgid E gid t =
     (let old = ct_cred t; old_fsgid = uint (from_kgid_munged E (cr_fsgid old));
          kgid = make_kgid E gid in
      if \<not> gid_valid E kgid then (old_fsgid, t)
      else if \<not> prepare_creds_ok E then (old_fsgid, t)
      else if (kgid = cr_gid old \<or> kgid = cr_egid old \<or> kgid = cr_sgid old \<or>
               kgid = cr_fsgid old \<or> ns_capable_setgid E old) \<and> kgid \<noteq> cr_fsgid old
      then (case security_task_fix_setgid E (old\<lparr>cr_fsgid := kgid\<rparr>) old LSM_SETID_FS of
              (r, new) \<Rightarrow> if r = 0 then (old_fsgid, snd (commit_creds new t)) else (old_fsgid, t))
      else (old_fsgid, t))"

section \<open>User ids\<close>

definition set_user :: "cred_env \<Rightarrow> cred \<Rightarrow> int \<times> cred" where
  "set_user E new =
     (case alloc_uid E (cr_uid new) of
        None \<Rightarrow> (- EAGAIN, new)
      | Some new_user \<Rightarrow> (0, new\<lparr>cr_user := new_user\<rparr>))"

definition flag_nproc_exceeded :: "cred_env \<Rightarrow> cred \<Rightarrow> cred_task \<Rightarrow> cred_task" where
  "flag_nproc_exceeded E new t =
     (if cr_ucounts new = cr_ucounts (ct_cred t) then t
      else if is_rlimit_overlimit E (cr_ucounts new) \<and> cr_user new \<noteq> INIT_USER E
      then t\<lparr>ct_flags := ct_flags t OR PF_NPROC_EXCEEDED\<rparr>
      else t\<lparr>ct_flags := ct_flags t AND NOT PF_NPROC_EXCEEDED\<rparr>)"

text \<open>
  The tail the three real/effective/saved calls share: the security hook, the
  per-user process count, the deferred \<open>RLIMIT_NPROC\<close> flag and the commit.
\<close>

definition finish_setuid ::
  "cred_env \<Rightarrow> cred \<Rightarrow> cred \<Rightarrow> lsm_setid \<Rightarrow> cred_task \<Rightarrow> int \<times> cred_task" where
  "finish_setuid E new old how t =
     (case security_task_fix_setuid E new old how of (retval, new1) \<Rightarrow>
      if retval < 0 then (retval, t)
      else case set_cred_ucounts E new1 of (retval, new2) \<Rightarrow>
      if retval < 0 then (retval, t)
      else commit_creds new2 (flag_nproc_exceeded E new2 t))"

definition sys_setreuid :: "cred_env \<Rightarrow> u32 \<Rightarrow> u32 \<Rightarrow> cred_task \<Rightarrow> int \<times> cred_task" where
  "sys_setreuid E ruid euid t =
     (let kruid = make_kuid E ruid; keuid = make_kuid E euid; old = ct_cred t in
      if ruid \<noteq> NO_ID \<and> \<not> uid_valid E kruid then (- EINVAL, t)
      else if euid \<noteq> NO_ID \<and> \<not> uid_valid E keuid then (- EINVAL, t)
      else if \<not> prepare_creds_ok E then (- ENOMEM, t)
      else if ruid \<noteq> NO_ID \<and> cr_uid old \<noteq> kruid \<and> cr_euid old \<noteq> kruid \<and>
              \<not> ns_capable_setuid E old then (- EPERM, t)
      else let new1 = (if ruid \<noteq> NO_ID then old\<lparr>cr_uid := kruid\<rparr> else old) in
      if euid \<noteq> NO_ID \<and> cr_uid old \<noteq> keuid \<and> cr_euid old \<noteq> keuid \<and> cr_suid old \<noteq> keuid \<and>
         \<not> ns_capable_setuid E old then (- EPERM, t)
      else let new2 = (if euid \<noteq> NO_ID then new1\<lparr>cr_euid := keuid\<rparr> else new1) in
      case (if cr_uid new2 \<noteq> cr_uid old then set_user E new2 else (0, new2)) of (retval, new3) \<Rightarrow>
      if retval < 0 then (retval, t)
      else let new4 = (if ruid \<noteq> NO_ID \<or> euid \<noteq> NO_ID \<and> keuid \<noteq> cr_uid old
                       then new3\<lparr>cr_suid := cr_euid new3\<rparr> else new3)
      in finish_setuid E (new4\<lparr>cr_fsuid := cr_euid new4\<rparr>) old LSM_SETID_RE t)"

definition sys_setuid :: "cred_env \<Rightarrow> u32 \<Rightarrow> cred_task \<Rightarrow> int \<times> cred_task" where
  "sys_setuid E uid t =
     (let kuid = make_kuid E uid; old = ct_cred t in
      if \<not> uid_valid E kuid then (- EINVAL, t)
      else if \<not> prepare_creds_ok E then (- ENOMEM, t)
      else if \<not> ns_capable_setuid E old \<and> kuid \<noteq> cr_uid old \<and> kuid \<noteq> cr_suid old
      then (- EPERM, t)
      else case (if ns_capable_setuid E old
                 then (let new = old\<lparr>cr_suid := kuid, cr_uid := kuid\<rparr> in
                       if kuid \<noteq> cr_uid old then set_user E new else (0, new))
                 else (0, old)) of (retval, new1) \<Rightarrow>
      if retval < 0 then (retval, t)
      else finish_setuid E (new1\<lparr>cr_fsuid := kuid, cr_euid := kuid\<rparr>) old LSM_SETID_ID t)"

definition sys_setresuid :: "cred_env \<Rightarrow> u32 \<Rightarrow> u32 \<Rightarrow> u32 \<Rightarrow> cred_task \<Rightarrow> int \<times> cred_task" where
  "sys_setresuid E ruid euid suid t =
     (let kruid = make_kuid E ruid; keuid = make_kuid E euid; ksuid = make_kuid E suid;
          old = ct_cred t;
          is_new = (\<lambda>u ku. u \<noteq> NO_ID \<and> ku \<noteq> cr_uid old \<and> ku \<noteq> cr_euid old \<and> ku \<noteq> cr_suid old) in
      if ruid \<noteq> NO_ID \<and> \<not> uid_valid E kruid then (- EINVAL, t)
      else if euid \<noteq> NO_ID \<and> \<not> uid_valid E keuid then (- EINVAL, t)
      else if suid \<noteq> NO_ID \<and> \<not> uid_valid E ksuid then (- EINVAL, t)
      else if (ruid = NO_ID \<or> kruid = cr_uid old) \<and>
              (euid = NO_ID \<or> keuid = cr_euid old \<and> keuid = cr_fsuid old) \<and>
              (suid = NO_ID \<or> ksuid = cr_suid old) then (0, t)
      else if (is_new ruid kruid \<or> is_new euid keuid \<or> is_new suid ksuid) \<and>
              \<not> ns_capable_setuid E old then (- EPERM, t)
      else if \<not> prepare_creds_ok E then (- ENOMEM, t)
      else let new1 = (if ruid \<noteq> NO_ID then old\<lparr>cr_uid := kruid\<rparr> else old) in
      case (if ruid \<noteq> NO_ID \<and> kruid \<noteq> cr_uid old then set_user E new1
            else (0, new1)) of (retval, new2) \<Rightarrow>
      if retval < 0 then (retval, t)
      else let new3 = (if euid \<noteq> NO_ID then new2\<lparr>cr_euid := keuid\<rparr> else new2);
               new4 = (if suid \<noteq> NO_ID then new3\<lparr>cr_suid := ksuid\<rparr> else new3)
      in finish_setuid E (new4\<lparr>cr_fsuid := cr_euid new4\<rparr>) old LSM_SETID_RES t)"

definition sys_setfsuid :: "cred_env \<Rightarrow> u32 \<Rightarrow> cred_task \<Rightarrow> int \<times> cred_task" where
  "sys_setfsuid E uid t =
     (let old = ct_cred t; old_fsuid = uint (from_kuid_munged E (cr_fsuid old));
          kuid = make_kuid E uid in
      if \<not> uid_valid E kuid then (old_fsuid, t)
      else if \<not> prepare_creds_ok E then (old_fsuid, t)
      else if (kuid = cr_uid old \<or> kuid = cr_euid old \<or> kuid = cr_suid old \<or>
               kuid = cr_fsuid old \<or> ns_capable_setuid E old) \<and> kuid \<noteq> cr_fsuid old
      then (case security_task_fix_setuid E (old\<lparr>cr_fsuid := kuid\<rparr>) old LSM_SETID_FS of
              (r, new) \<Rightarrow> if r = 0 then (old_fsuid, snd (commit_creds new t)) else (old_fsuid, t))
      else (old_fsuid, t))"

section \<open>Reading ids\<close>

definition sys_getresuid ::
  "cred_env \<Rightarrow> user_out \<Rightarrow> user_out \<Rightarrow> user_out \<Rightarrow> cred_task \<Rightarrow> int \<times> u32 option \<times> u32 option \<times> u32 option" where
  "sys_getresuid E ruidp euidp suidp t =
     (let c = ct_cred t;
          ruid = from_kuid_munged E (cr_uid c);
          euid = from_kuid_munged E (cr_euid c);
          suid = from_kuid_munged E (cr_suid c) in
      case copy_to_user ruidp ruid of
        None \<Rightarrow> (- EFAULT, None, None, None)
      | Some r \<Rightarrow> (case copy_to_user euidp euid of
          None \<Rightarrow> (- EFAULT, Some r, None, None)
        | Some e \<Rightarrow> (case copy_to_user suidp suid of
            None \<Rightarrow> (- EFAULT, Some r, Some e, None)
          | Some s \<Rightarrow> (0, Some r, Some e, Some s))))"

definition sys_getresgid ::
  "cred_env \<Rightarrow> user_out \<Rightarrow> user_out \<Rightarrow> user_out \<Rightarrow> cred_task \<Rightarrow> int \<times> u32 option \<times> u32 option \<times> u32 option" where
  "sys_getresgid E rgidp egidp sgidp t =
     (let c = ct_cred t;
          rgid = from_kgid_munged E (cr_gid c);
          egid = from_kgid_munged E (cr_egid c);
          sgid = from_kgid_munged E (cr_sgid c) in
      case copy_to_user rgidp rgid of
        None \<Rightarrow> (- EFAULT, None, None, None)
      | Some r \<Rightarrow> (case copy_to_user egidp egid of
          None \<Rightarrow> (- EFAULT, Some r, None, None)
        | Some e \<Rightarrow> (case copy_to_user sgidp sgid of
            None \<Rightarrow> (- EFAULT, Some r, Some e, None)
          | Some s \<Rightarrow> (0, Some r, Some e, Some s))))"

definition sys_getuid :: "cred_env \<Rightarrow> cred_task \<Rightarrow> int" where
  "sys_getuid E t = uint (from_kuid_munged E (cr_uid (ct_cred t)))"

definition sys_geteuid :: "cred_env \<Rightarrow> cred_task \<Rightarrow> int" where
  "sys_geteuid E t = uint (from_kuid_munged E (cr_euid (ct_cred t)))"

definition sys_getgid :: "cred_env \<Rightarrow> cred_task \<Rightarrow> int" where
  "sys_getgid E t = uint (from_kgid_munged E (cr_gid (ct_cred t)))"

definition sys_getegid :: "cred_env \<Rightarrow> cred_task \<Rightarrow> int" where
  "sys_getegid E t = uint (from_kgid_munged E (cr_egid (ct_cred t)))"

section \<open>The calls as one family\<close>

datatype cred_op =
    Setregid u32 u32
  | Setgid u32
  | Setresgid u32 u32 u32
  | Setfsgid u32
  | Setreuid u32 u32
  | Setuid u32
  | Setresuid u32 u32 u32
  | Setfsuid u32

text \<open>A call is made in an environment of its own: capabilities and allocations vary.\<close>

fun exec_cred :: "cred_env \<times> cred_op \<Rightarrow> cred_task \<Rightarrow> int \<times> cred_task" where
  "exec_cred (E, Setregid r e) t = sys_setregid E r e t"
| "exec_cred (E, Setgid g) t = sys_setgid E g t"
| "exec_cred (E, Setresgid r e s) t = sys_setresgid E r e s t"
| "exec_cred (E, Setfsgid g) t = sys_setfsgid E g t"
| "exec_cred (E, Setreuid r e) t = sys_setreuid E r e t"
| "exec_cred (E, Setuid u) t = sys_setuid E u t"
| "exec_cred (E, Setresuid r e s) t = sys_setresuid E r e s t"
| "exec_cred (E, Setfsuid u) t = sys_setfsuid E u t"


section \<open>Failed calls change nothing\<close>

lemmas cred_call_defs =
  sys_setregid_def sys_setgid_def sys_setresgid_def sys_setfsgid_def
  sys_setreuid_def sys_setuid_def sys_setresuid_def sys_setfsuid_def

lemma commit_creds_simps [simp]:
  "fst (commit_creds new t) = 0"
  "ct_cred (snd (commit_creds new t)) = new"
  by (simp_all add: commit_creds_def)

lemma commit_creds_keeps [ends_intro]: "unchanged_on_error s (commit_creds new t)"
  by (simp add: ends_def)

lemma finish_setuid_keeps [ends_intro]: "unchanged_on_error t (finish_setuid E new old how t)"
  unfolding finish_setuid_def by (intro ends_intro)

lemma keeps_nonneg: "0 \<le> r \<Longrightarrow> unchanged_on_error s (r, s')"
  by (simp add: ends_def)

lemma exec_cred_keeps: "unchanged_on_error t (exec_cred c t)"
proof (cases "(c, t)" rule: exec_cred.cases)
  case (4 E g t')
  then show ?thesis
    by (simp add: ends_def sys_setfsgid_def Let_def split: prod.split)
next
  case (8 E u t')
  then show ?thesis
    by (simp add: ends_def sys_setfsuid_def Let_def split: prod.split)
qed (simp; unfold cred_call_defs; intro ends_intro)+

interpretation cred: syscall_atomic exec_cred
  using exec_cred_keeps by unfold_locales (simp add: ends_def)

section \<open>No call without capability adds an identity\<close>

definition uids :: "cred \<Rightarrow> u32 set" where
  "uids c = {cr_uid c, cr_euid c, cr_suid c}"

definition gids :: "cred \<Rightarrow> u32 set" where
  "gids c = {cr_gid c, cr_egid c, cr_sgid c}"

text \<open>The ids of the second set all occur in the first.\<close>

definition ids_shrink :: "cred \<Rightarrow> cred \<Rightarrow> bool" where
  "ids_shrink old new \<longleftrightarrow>
     uids new \<subseteq> uids old \<and> cr_fsuid new \<in> insert (cr_fsuid old) (uids old) \<and>
     gids new \<subseteq> gids old \<and> cr_fsgid new \<in> insert (cr_fsgid old) (gids old)"

definition same_ids :: "cred \<Rightarrow> cred \<Rightarrow> bool" where
  "same_ids a b \<longleftrightarrow>
     cr_uid a = cr_uid b \<and> cr_euid a = cr_euid b \<and> cr_suid a = cr_suid b \<and> cr_fsuid a = cr_fsuid b \<and>
     cr_gid a = cr_gid b \<and> cr_egid a = cr_egid b \<and> cr_sgid a = cr_sgid b \<and> cr_fsgid a = cr_fsgid b"

text \<open>
  Documented behaviour of the code outside the file: the \<open>task_fix_setuid\<close> and
  \<open>task_fix_setgid\<close> hooks update the security attributes of the new credentials (their
  capability sets), and \<open>set_cred_ucounts\<close> their counters; none of them rewrites an id.
\<close>

definition hooks_keep_ids :: "cred_env \<Rightarrow> bool" where
  "hooks_keep_ids E \<longleftrightarrow>
     (\<forall>new old how. same_ids (snd (security_task_fix_setuid E new old how)) new) \<and>
     (\<forall>new old how. same_ids (snd (security_task_fix_setgid E new old how)) new) \<and>
     (\<forall>new. same_ids (snd (set_cred_ucounts E new)) new)"

definition unprivileged :: "cred_env \<Rightarrow> bool" where
  "unprivileged E \<longleftrightarrow> (\<forall>c. \<not> ns_capable_setuid E c \<and> \<not> ns_capable_setgid E c)"

lemma ids_shrink_refl: "ids_shrink c c"
  by (simp add: ids_shrink_def)

lemma ids_shrink_trans: "\<lbrakk>ids_shrink a b; ids_shrink b c\<rbrakk> \<Longrightarrow> ids_shrink a c"
  unfolding ids_shrink_def by auto

lemma ids_shrink_same: "\<lbrakk>ids_shrink a b; same_ids c b\<rbrakk> \<Longrightarrow> ids_shrink a c"
  by (simp add: ids_shrink_def same_ids_def uids_def gids_def)

lemma same_ids_trans: "\<lbrakk>same_ids a b; same_ids b c\<rbrakk> \<Longrightarrow> same_ids a c"
  by (simp add: same_ids_def)

lemma hooks_keep_idsD:
  assumes "hooks_keep_ids E"
  shows "security_task_fix_setuid E new old how = (r, c) \<Longrightarrow> same_ids c new"
    and "security_task_fix_setgid E new old how = (r, c) \<Longrightarrow> same_ids c new"
    and "set_cred_ucounts E new = (r, c) \<Longrightarrow> same_ids c new"
  using assms unfolding hooks_keep_ids_def by (metis snd_conv)+

lemma flag_nproc_exceeded_cred [simp]: "ct_cred (flag_nproc_exceeded E new t) = ct_cred t"
  by (simp add: flag_nproc_exceeded_def)

abbreviation shrinks :: "cred_task \<Rightarrow> int \<times> cred_task \<Rightarrow> bool" where
  "shrinks t \<equiv> ends (\<lambda>r t'. ids_shrink (ct_cred t) (ct_cred t'))"

lemma shrinks_same [ends_intro]: "shrinks t (r, t)"
  by (simp add: ends_def ids_shrink_refl)

lemma shrinks_commit: "ids_shrink (ct_cred t) new \<Longrightarrow> shrinks t (commit_creds new t')"
  by (simp add: ends_def)

lemma shrinks_finish_setuid:
  assumes E: "hooks_keep_ids E" and new: "ids_shrink (ct_cred t) new"
  shows "shrinks t (finish_setuid E new old how t)"
  unfolding finish_setuid_def
  by (intro ends_intro shrinks_commit ids_shrink_same [OF new])
    (auto dest: hooks_keep_idsD [OF E] intro: same_ids_trans)

lemma set_user_ids: "set_user E new = (r, new') \<Longrightarrow> same_ids new' new"
  by (auto simp: set_user_def same_ids_def split: option.splits)

lemma shrinks_fix_setid:
  assumes "hooks_keep_ids E"
  shows "\<lbrakk>security_task_fix_setuid E new old how = (r, c); ids_shrink (ct_cred t) new\<rbrakk> \<Longrightarrow>
      shrinks t (r', snd (commit_creds c t))"
    and "\<lbrakk>security_task_fix_setgid E new old how = (r, c); ids_shrink (ct_cred t) new\<rbrakk> \<Longrightarrow>
      shrinks t (r', snd (commit_creds c t))"
    and "\<lbrakk>security_task_fix_setgid E new old how = (r, c); ids_shrink (ct_cred t) new\<rbrakk> \<Longrightarrow>
      shrinks t (commit_creds c t)"
  using hooks_keep_idsD [OF assms] by (auto simp: ends_def intro: ids_shrink_same)

lemma set_user_step:
  "(if b then set_user E new else (0, new)) = (r, new') \<Longrightarrow> same_ids new' new"
  by (auto simp: set_user_def same_ids_def split: option.splits if_splits)

lemmas ids_defs = ids_shrink_def uids_def gids_def

lemma exec_cred_shrinks:
  assumes E: "hooks_keep_ids E" and U: "unprivileged E"
  shows "shrinks t (exec_cred (E, op) t)"
proof (cases op)
qed (simp only: exec_cred.simps cred_call_defs,
     intro ends_intro shrinks_fix_setid [OF E] shrinks_finish_setuid [OF E],
     (assumption | drule set_user_step)?,
     use U in \<open>simp add: ids_defs unprivileged_def same_ids_def\<close>, argo)+

text \<open>A call by a task without \<open>CAP_SETUID\<close> and \<open>CAP_SETGID\<close>.\<close>

definition unpriv_call :: "cred_env \<times> cred_op \<Rightarrow> bool" where
  "unpriv_call c \<longleftrightarrow> hooks_keep_ids (fst c) \<and> unprivileged (fst c)"

interpretation cred_ids: syscall_order exec_cred unpriv_call
  "\<lambda>t t'. ids_shrink (ct_cred t) (ct_cred t')"
proof unfold_locales
  fix c t assume "unpriv_call c"
  then show "ids_shrink (ct_cred t) (ct_cred (snd (exec_cred c t)))"
    using exec_cred_shrinks [of "fst c" t "snd c"]
    by (simp add: unpriv_call_def ends_def)
qed (auto intro: ids_shrink_refl ids_shrink_trans)

section \<open>What a successful call installs\<close>

text \<open>
  The effect of a call on the ids, for one that got through: the new credentials carry
  exactly the ids handed to the security hook.
\<close>

lemma finish_setuid_installs:
  assumes E: "hooks_keep_ids E"
  shows "ends (\<lambda>r t'. 0 \<le> r \<longrightarrow> same_ids (ct_cred t') new) (finish_setuid E new old how t)"
  unfolding finish_setuid_def
  by (intro ends_intro)
    (auto simp: ends_def dest: hooks_keep_idsD [OF E] intro: same_ids_trans)

lemma ends_installs:
  assumes "hooks_keep_ids E" and "\<And>c. same_ids c new \<Longrightarrow> Q c"
  shows "ends (\<lambda>r t'. 0 \<le> r \<longrightarrow> Q (ct_cred t')) (finish_setuid E new old how t)"
  by (rule ends_mono [OF finish_setuid_installs [OF assms(1)]]) (auto intro: assms(2))

lemma setuid_privileged_ids:
  assumes E: "hooks_keep_ids E" and cap: "ns_capable_setuid E (ct_cred t)"
  shows "ends (\<lambda>r t'. 0 \<le> r \<longrightarrow>
     uids (ct_cred t') = {make_kuid E u} \<and> cr_fsuid (ct_cred t') = make_kuid E u) (sys_setuid E u t)"
  unfolding sys_setuid_def
  by (intro ends_intro ends_installs [OF E] ends_pair)
    (use cap in \<open>auto simp: uids_def same_ids_def Let_def set_user_def
      split: if_splits option.splits\<close>)

lemma setresuid_ids:
  assumes E: "hooks_keep_ids E"
  shows "ends (\<lambda>r t'. 0 \<le> r \<longrightarrow>
     (ruid \<noteq> NO_ID \<longrightarrow> cr_uid (ct_cred t') = make_kuid E ruid) \<and>
     (euid \<noteq> NO_ID \<longrightarrow> cr_euid (ct_cred t') = make_kuid E euid) \<and>
     (suid \<noteq> NO_ID \<longrightarrow> cr_suid (ct_cred t') = make_kuid E suid)) (sys_setresuid E ruid euid suid t)"
  unfolding sys_setresuid_def
  by (intro ends_intro ends_installs [OF E] ends_pair; (drule set_user_step)?;
      simp add: same_ids_def; argo?)

text \<open>What \<open>setreuid\<close> needs from its environment to go through.\<close>

definition setuid_resources :: "cred_env \<Rightarrow> bool" where
  "setuid_resources E \<longleftrightarrow> prepare_creds_ok E \<and> (\<forall>u. alloc_uid E u \<noteq> None) \<and>
     (\<forall>new old how. 0 \<le> fst (security_task_fix_setuid E new old how)) \<and>
     (\<forall>new. 0 \<le> fst (set_cred_ucounts E new))"

lemma finish_setuid_succeeds:
  assumes E: "hooks_keep_ids E" and ok: "setuid_resources E" and "\<And>c. same_ids c new \<Longrightarrow> Q c"
  shows "ends (\<lambda>r t'. r = 0 \<and> Q (ct_cred t')) (finish_setuid E new old how t)"
proof -
  obtain r1 c1 where 1: "security_task_fix_setuid E new old how = (r1, c1)" by fastforce
  obtain r2 c2 where 2: "set_cred_ucounts E c1 = (r2, c2)" by fastforce
  from ok have "\<not> r1 < 0" "\<not> r2 < 0"
    using 1 2 unfolding setuid_resources_def by (metis fst_conv linorder_not_le)+
  moreover have "same_ids c2 new"
    using hooks_keep_idsD(1) [OF E 1] hooks_keep_idsD(3) [OF E 2] by (blast intro: same_ids_trans)
  ultimately show ?thesis
    using assms(3) by (simp add: finish_setuid_def 1 2 ends_def)
qed

lemma setreuid_swap:
  assumes E: "hooks_keep_ids E" and ok: "setuid_resources E"
    and ids: "r \<noteq> NO_ID" "e \<noteq> NO_ID" "uid_valid E (make_kuid E r)" "uid_valid E (make_kuid E e)"
      "cr_uid (ct_cred t) = make_kuid E r" "cr_euid (ct_cred t) = make_kuid E e"
  shows "ends (\<lambda>ret t'. ret = 0 \<and> cr_uid (ct_cred t') = make_kuid E e \<and>
     cr_euid (ct_cred t') = make_kuid E r) (sys_setreuid E e r t)"
proof -
  from ok have alloc: "prepare_creds_ok E" "\<And>u. alloc_uid E u \<noteq> None"
    by (simp_all add: setuid_resources_def)
  show ?thesis
    unfolding sys_setreuid_def
    by (intro ends_intro finish_setuid_succeeds [OF E ok] ends_pair)
      (use ids in \<open>auto simp: alloc set_user_def same_ids_def split: if_splits option.splits\<close>)
qed

section \<open>Properties\<close>

text \<open>An environment with the identity mapping and permissive hooks, for the examples.\<close>

definition init_ns_env :: "bool \<Rightarrow> cred_env" where
  "init_ns_env cap =
     \<lparr>make_kuid = (\<lambda>u. u), make_kgid = (\<lambda>g. g),
      uid_valid = (\<lambda>u. u \<noteq> NO_ID), gid_valid = (\<lambda>g. g \<noteq> NO_ID),
      from_kuid_munged = (\<lambda>u. u), from_kgid_munged = (\<lambda>g. g),
      ns_capable_setuid = (\<lambda>c. cap), ns_capable_setgid = (\<lambda>c. cap),
      prepare_creds_ok = True, alloc_uid = (\<lambda>u. Some (unat u)),
      security_task_fix_setuid = (\<lambda>new old how. (0, new)),
      security_task_fix_setgid = (\<lambda>new old how. (0, new)),
      set_cred_ucounts = (\<lambda>new. (0, new)),
      is_rlimit_overlimit = (\<lambda>u. False), INIT_USER = 0\<rparr>"

definition cred_of :: "u32 \<Rightarrow> u32 \<Rightarrow> u32 \<Rightarrow> cred_task" where
  "cred_of r e s =
     \<lparr>ct_cred = \<lparr>cr_uid = r, cr_gid = r, cr_suid = s, cr_sgid = s, cr_euid = e, cr_egid = e,
        cr_fsuid = e, cr_fsgid = e, cr_user = 0, cr_ucounts = 0, cr_caps = {}\<rparr>, ct_flags = 0\<rparr>"

lemma init_ns_env_hooks: "hooks_keep_ids (init_ns_env cap)" "unprivileged (init_ns_env False)"
  "setuid_resources (init_ns_env cap)"
  by (simp_all add: hooks_keep_ids_def unprivileged_def setuid_resources_def init_ns_env_def same_ids_def)

text \<open>
  C3: no sequence of the eight id-changing calls made without \<open>CAP_SETUID\<close> and \<open>CAP_SETGID\<close>
  gives the task a real, effective or saved uid (gid) that was not among its three uids
  (gids) before; the filesystem id stays within those or keeps its value.
\<close>

theorem cred_no_escalation:
  assumes "list_all unpriv_call cs"
  shows "ids_shrink (ct_cred t) (ct_cred (run_calls exec_cred cs t))"
  using assms by (rule cred_ids.run_R)

theorem cred_no_escalation_witness:
  "ids_shrink (ct_cred (cred_of 1000 0 0))
     (ct_cred (run_calls exec_cred [(init_ns_env False, Setuid 1000), (init_ns_env False, Setresuid 0 0 0)]
        (cred_of 1000 0 0)))"
  by (rule cred_no_escalation) (simp add: unpriv_call_def init_ns_env_hooks)

text \<open>
  C9: a privileged \<open>setuid\<close> drops privilege for good: it sets the real, effective, saved and
  filesystem uid to the one given, and no later sequence of calls made without the
  capabilities changes any of the four.
\<close>

theorem setuid_drops_for_good:
  assumes "hooks_keep_ids E" and "ns_capable_setuid E (ct_cred t)"
    and "sys_setuid E u t = (0, t')" and "list_all unpriv_call cs"
  shows "uids (ct_cred (run_calls exec_cred cs t')) = {make_kuid E u} \<and>
         cr_fsuid (ct_cred (run_calls exec_cred cs t')) = make_kuid E u"
proof -
  from setuid_privileged_ids [OF assms(1,2), of u] assms(3)
  have "uids (ct_cred t') = {make_kuid E u}" "cr_fsuid (ct_cred t') = make_kuid E u"
    by (simp_all add: ends_def)
  with cred_ids.run_R [OF assms(4), of t'] show ?thesis
    by (auto simp: ids_shrink_def uids_def)
qed

theorem setuid_drops_for_good_witness:
  "fst (sys_setuid (init_ns_env True) 1000 (cred_of 0 0 0)) = 0 \<and>
   uids (ct_cred (run_calls exec_cred [(init_ns_env False, Setresuid 0 0 0)]
     (snd (sys_setuid (init_ns_env True) 1000 (cred_of 0 0 0))))) = {1000}"
proof -
  let ?t = "snd (sys_setuid (init_ns_env True) 1000 (cred_of 0 0 0))"
  have ok: "fst (sys_setuid (init_ns_env True) 1000 (cred_of 0 0 0)) = 0"
    by (simp add: sys_setuid_def finish_setuid_def set_user_def init_ns_env_def cred_of_def Let_def)
  then have call: "sys_setuid (init_ns_env True) 1000 (cred_of 0 0 0) = (0, ?t)"
    by (metis prod.collapse)
  have cap: "ns_capable_setuid (init_ns_env True) (ct_cred (cred_of 0 0 0))"
    by (simp add: init_ns_env_def)
  have "list_all unpriv_call [(init_ns_env False, Setresuid 0 0 0)]"
    by (simp add: unpriv_call_def init_ns_env_hooks)
  from setuid_drops_for_good [OF init_ns_env_hooks(1) cap call this] ok
  show ?thesis by (simp add: init_ns_env_def)
qed

text \<open>
  An id-changing call that returns an error leaves the credentials and the task flags as
  they were, so the state after any sequence of calls is the state after its successful
  calls alone.
\<close>

theorem cred_errors_are_atomic:
  "run_calls exec_cred (succeeded exec_cred cs t) t = run_calls exec_cred cs t"
  by (rule cred.run_succeeded)

text \<open>
  Reading back: when \<open>setresuid\<close> with three explicit ids returns 0 and the namespace maps
  them back and forth, \<open>getresuid\<close> stores exactly these three ids.
\<close>

theorem setresuid_getresuid:
  assumes "hooks_keep_ids E" and "sys_setresuid E r e s t = (0, t')"
    and "r \<noteq> NO_ID" "e \<noteq> NO_ID" "s \<noteq> NO_ID"
    and "from_kuid_munged E (make_kuid E r) = r" "from_kuid_munged E (make_kuid E e) = e"
      "from_kuid_munged E (make_kuid E s) = s"
  shows "sys_getresuid E Writable Writable Writable t' = (0, Some r, Some e, Some s)"
  using setresuid_ids [OF assms(1), of r e s t] assms(2-)
  by (simp add: ends_def sys_getresuid_def)

theorem setresuid_getresuid_witness:
  "fst (sys_setresuid (init_ns_env False) 0 1000 0 (cred_of 1000 0 0)) = 0 \<and>
   sys_getresuid (init_ns_env False) Writable Writable Writable
     (snd (sys_setresuid (init_ns_env False) 0 1000 0 (cred_of 1000 0 0))) = (0, Some 0, Some 1000, Some 0)"
proof -
  let ?c = "sys_setresuid (init_ns_env False) 0 1000 0 (cred_of 1000 0 0)"
  have ok: "fst ?c = 0"
    by (simp add: sys_setresuid_def finish_setuid_def set_user_def init_ns_env_def cred_of_def Let_def)
  then have "?c = (0, snd ?c)" by (metis prod.collapse)
  from setresuid_getresuid [OF init_ns_env_hooks(1) this] ok
  show ?thesis by (simp add: init_ns_env_def)
qed

text \<open>
  \<open>setreuid\<close> lets a task drop an identity temporarily: without any capability, swapping
  the real and the effective uid succeeds, and swapping them again restores both.
\<close>

theorem setreuid_swap_twice:
  assumes "hooks_keep_ids E" and "setuid_resources E"
    and "r \<noteq> NO_ID" "e \<noteq> NO_ID" "uid_valid E (make_kuid E r)" "uid_valid E (make_kuid E e)"
    and "cr_uid (ct_cred t) = make_kuid E r" "cr_euid (ct_cred t) = make_kuid E e"
  shows "ends (\<lambda>ret t1. ret = 0 \<and> cr_uid (ct_cred t1) = make_kuid E e \<and> cr_euid (ct_cred t1) = make_kuid E r \<and>
     ends (\<lambda>ret t2. ret = 0 \<and> cr_uid (ct_cred t2) = make_kuid E r \<and> cr_euid (ct_cred t2) = make_kuid E e)
       (sys_setreuid E r e t1)) (sys_setreuid E e r t)"
  by (rule ends_mono [OF setreuid_swap [OF assms]]) (use assms in \<open>auto intro: setreuid_swap\<close>)

theorem setreuid_swap_twice_witness:
  "ends (\<lambda>ret t1. ret = 0 \<and> cr_uid (ct_cred t1) = 0 \<and> cr_euid (ct_cred t1) = 1000 \<and>
     ends (\<lambda>ret t2. ret = 0 \<and> cr_uid (ct_cred t2) = 1000 \<and> cr_euid (ct_cred t2) = 0)
       (sys_setreuid (init_ns_env False) 1000 0 t1)) (sys_setreuid (init_ns_env False) 0 1000 (cred_of 1000 0 0))"
  using setreuid_swap_twice [OF init_ns_env_hooks(1) [of False]
      init_ns_env_hooks(3) [of False], of 1000 0 "cred_of 1000 0 0"]
  by (simp add: init_ns_env_def cred_of_def)

end
