(* ===== verification/Rlimits.thy ===== *)
theory Rlimits
  imports Credentials
begin

text \<open>
  Resource limits, \<^verbatim>\<open>src/Kernel/kernel/sys.c\<close>: \<open>do_prlimit\<close> and the calls built on it. The
  limits live in the \<open>signal_struct\<close> that the threads of a process share, so the state maps a
  signal structure and a resource number to its pair of limits. The call
  \<open>update_rlimit_cpu\<close> into the timer code is recorded as an event.
\<close>

section \<open>State and environment\<close>

record rlimit =
  rlim_cur :: u64
  rlim_max :: u64

record rlimit64 =
  rlim64_cur :: u64
  rlim64_max :: u64

record compat_rlimit =
  crlim_cur :: u32
  crlim_max :: u32

text \<open>The part of a \<open>task_struct\<close> used here; structures are named by their address.\<close>

record rtask =
  rt_task :: nat
  rt_signal :: nat
  rt_leader :: nat
  rt_cred :: cred

record rlim_state =
  rlims :: "nat \<Rightarrow> u32 \<Rightarrow> rlimit"
  cpu_timer_updates :: "(nat \<times> u64) list"

record rlim_env =
  sysctl_nr_open :: u64
  cap_sys_resource :: bool
  security_task_setrlimit :: "rtask \<Rightarrow> u32 \<Rightarrow> rlimit \<Rightarrow> int"
  config_posix_timers :: bool
  rl_current :: rtask
  find_task_by_vpid :: "int \<Rightarrow> rtask option"
  ns_capable_resource :: "rtask \<Rightarrow> bool"
  security_task_prlimit :: "cred \<Rightarrow> cred \<Rightarrow> u32 \<Rightarrow> int"

abbreviation RLIM_NLIMITS :: u32 where "RLIM_NLIMITS \<equiv> 16"
abbreviation RLIMIT_CPU :: u32 where "RLIMIT_CPU \<equiv> 0"
abbreviation RLIMIT_NOFILE :: u32 where "RLIMIT_NOFILE \<equiv> 7"
abbreviation RLIMIT_AS :: u32 where "RLIMIT_AS \<equiv> 9"
abbreviation RLIM_INFINITY :: u64 where "RLIM_INFINITY \<equiv> - 1"
abbreviation RLIM64_INFINITY :: u64 where "RLIM64_INFINITY \<equiv> - 1"
abbreviation COMPAT_RLIM_INFINITY :: u32 where "COMPAT_RLIM_INFINITY \<equiv> 0xFFFFFFFF"
abbreviation LSM_PRLIMIT_READ :: u32 where "LSM_PRLIMIT_READ \<equiv> 1"
abbreviation LSM_PRLIMIT_WRITE :: u32 where "LSM_PRLIMIT_WRITE \<equiv> 2"

text \<open>\<open>*rlim = *new_rlim\<close> for the slot \<open>rlim = tsk->signal->rlim + resource\<close>.\<close>

definition set_rlim :: "nat \<Rightarrow> u32 \<Rightarrow> rlimit \<Rightarrow> rlim_state \<Rightarrow> rlim_state" where
  "set_rlim sig res new st = st\<lparr>rlims := (rlims st)(sig := (rlims st sig)(res := new))\<rparr>"

section \<open>do\_prlimit\<close>

text \<open>
  The last argument says whether the caller passed an \<open>old_rlim\<close> buffer; the second component
  of the result is what the code stored in it.
\<close>

definition do_prlimit ::
  "rlim_env \<Rightarrow> rtask \<Rightarrow> u32 \<Rightarrow> rlimit option \<Rightarrow> bool \<Rightarrow> rlim_state \<Rightarrow> int \<times> rlimit option \<times> rlim_state" where
  "do_prlimit E tsk resource new_rlim want_old st =
     (if resource \<ge> RLIM_NLIMITS then (- EINVAL, None, st)
      else if (case new_rlim of None \<Rightarrow> False | Some new \<Rightarrow> rlim_cur new > rlim_max new)
      then (- EINVAL, None, st)
      else if (case new_rlim of None \<Rightarrow> False
               | Some new \<Rightarrow> resource = RLIMIT_NOFILE \<and> rlim_max new > sysctl_nr_open E)
      then (- EPERM, None, st)
      else let rlim = rlims st (rt_signal tsk) resource;
               retval = (case new_rlim of
                   None \<Rightarrow> 0
                 | Some new \<Rightarrow>
                     if rlim_max new > rlim_max rlim \<and> \<not> cap_sys_resource E then - EPERM
                     else security_task_setrlimit E tsk resource new)
      in if retval \<noteq> 0 then (retval, None, st)
      else let old = (if want_old then Some rlim else None);
               st1 = (case new_rlim of
                   None \<Rightarrow> st
                 | Some new \<Rightarrow> set_rlim (rt_signal tsk) resource new st);
               st2 = (case new_rlim of
                   None \<Rightarrow> st1
                 | Some new \<Rightarrow>
                     if resource = RLIMIT_CPU \<and> rlim_cur new \<noteq> RLIM_INFINITY \<and> config_posix_timers E
                     then st1\<lparr>cpu_timer_updates := cpu_timer_updates st1 @ [(rt_leader tsk, rlim_cur new)]\<rparr>
                     else st1)
      in (retval, old, st2))"

section \<open>The calls\<close>

definition sys_getrlimit :: "rlim_env \<Rightarrow> u32 \<Rightarrow> user_out \<Rightarrow> rlim_state \<Rightarrow> int \<times> rlimit option" where
  "sys_getrlimit E resource rlim st =
     (case do_prlimit E (rl_current E) resource None True st of (ret, value, _) \<Rightarrow>
      if ret \<noteq> 0 then (ret, None)
      else case Option.bind value (copy_to_user rlim) of
             None \<Rightarrow> (- EFAULT, None)
           | Some v \<Rightarrow> (0, Some v))"

definition sys_setrlimit :: "rlim_env \<Rightarrow> u32 \<Rightarrow> rlimit user_in \<Rightarrow> rlim_state \<Rightarrow> int \<times> rlim_state" where
  "sys_setrlimit E resource rlim st =
     (case copy_from_user rlim of
        None \<Rightarrow> (- EFAULT, st)
      | Some new_rlim \<Rightarrow>
          (case do_prlimit E (rl_current E) resource (Some new_rlim) False st of
             (ret, _, st') \<Rightarrow> (ret, st')))"

definition compat_to_rlim :: "u32 \<Rightarrow> u64" where
  "compat_to_rlim x = (if x = COMPAT_RLIM_INFINITY then RLIM_INFINITY else ucast x)"

definition rlim_to_compat :: "u64 \<Rightarrow> u32" where
  "rlim_to_compat x = (if x > ucast COMPAT_RLIM_INFINITY then COMPAT_RLIM_INFINITY else ucast x)"

definition compat_sys_setrlimit ::
  "rlim_env \<Rightarrow> u32 \<Rightarrow> compat_rlimit user_in \<Rightarrow> rlim_state \<Rightarrow> int \<times> rlim_state" where
  "compat_sys_setrlimit E resource rlim st =
     (case copy_from_user rlim of
        None \<Rightarrow> (- EFAULT, st)
      | Some r32 \<Rightarrow>
          (let r = \<lparr>rlim_cur = compat_to_rlim (crlim_cur r32), rlim_max = compat_to_rlim (crlim_max r32)\<rparr> in
           case do_prlimit E (rl_current E) resource (Some r) False st of (ret, _, st') \<Rightarrow> (ret, st')))"

definition compat_sys_getrlimit ::
  "rlim_env \<Rightarrow> u32 \<Rightarrow> user_out \<Rightarrow> rlim_state \<Rightarrow> int \<times> compat_rlimit option" where
  "compat_sys_getrlimit E resource rlim st =
     (case do_prlimit E (rl_current E) resource None True st of (ret, value, _) \<Rightarrow>
      if ret \<noteq> 0 then (ret, None)
      else case Option.bind value (\<lambda>r. copy_to_user rlim
                  \<lparr>crlim_cur = rlim_to_compat (rlim_cur r), crlim_max = rlim_to_compat (rlim_max r)\<rparr>) of
             None \<Rightarrow> (- EFAULT, None)
           | Some v \<Rightarrow> (ret, Some v))"

text \<open>The two \<open>old_getrlimit\<close> calls cap both values at the largest positive 32-bit int.\<close>

definition cap_31 :: "u64 \<Rightarrow> u64" where
  "cap_31 x = (if x > 0x7FFFFFFF then 0x7FFFFFFF else x)"

definition sys_old_getrlimit :: "rlim_env \<Rightarrow> u32 \<Rightarrow> user_out \<Rightarrow> rlim_state \<Rightarrow> int \<times> rlimit option" where
  "sys_old_getrlimit E resource rlim st =
     (if resource \<ge> RLIM_NLIMITS then (- EINVAL, None)
      else let x = rlims st (rt_signal (rl_current E)) resource in
      case copy_to_user rlim \<lparr>rlim_cur = cap_31 (rlim_cur x), rlim_max = cap_31 (rlim_max x)\<rparr> of
        None \<Rightarrow> (- EFAULT, None)
      | Some v \<Rightarrow> (0, Some v))"

text \<open>The compat version stores the two members one after the other.\<close>

definition compat_sys_old_getrlimit ::
  "rlim_env \<Rightarrow> u32 \<Rightarrow> user_out \<Rightarrow> user_out \<Rightarrow> rlim_state \<Rightarrow> int \<times> u32 option \<times> u32 option" where
  "compat_sys_old_getrlimit E resource curp maxp st =
     (if resource \<ge> RLIM_NLIMITS then (- EINVAL, None, None)
      else let r = rlims st (rt_signal (rl_current E)) resource in
      case copy_to_user curp (ucast (cap_31 (rlim_cur r))) of
        None \<Rightarrow> (- EFAULT, None, None)
      | Some c \<Rightarrow> (case copy_to_user maxp (ucast (cap_31 (rlim_max r))) of
          None \<Rightarrow> (- EFAULT, Some c, None)
        | Some m \<Rightarrow> (0, Some c, Some m)))"

definition rlim64_is_infinity :: "u64 \<Rightarrow> bool" where
  "rlim64_is_infinity rlim64 \<longleftrightarrow> rlim64 = RLIM64_INFINITY"

definition rlim_to_rlim64 :: "rlimit \<Rightarrow> rlimit64" where
  "rlim_to_rlim64 rlim =
     \<lparr>rlim64_cur = (if rlim_cur rlim = RLIM_INFINITY then RLIM64_INFINITY else rlim_cur rlim),
      rlim64_max = (if rlim_max rlim = RLIM_INFINITY then RLIM64_INFINITY else rlim_max rlim)\<rparr>"

definition rlim64_to_rlim :: "rlimit64 \<Rightarrow> rlimit" where
  "rlim64_to_rlim rlim64 =
     \<lparr>rlim_cur = (if rlim64_is_infinity (rlim64_cur rlim64) then RLIM_INFINITY else rlim64_cur rlim64),
      rlim_max = (if rlim64_is_infinity (rlim64_max rlim64) then RLIM_INFINITY else rlim64_max rlim64)\<rparr>"

definition check_prlimit_permission :: "rlim_env \<Rightarrow> rtask \<Rightarrow> u32 \<Rightarrow> int" where
  "check_prlimit_permission E task flags =
     (if rt_task (rl_current E) = rt_task task then 0
      else let cred = rt_cred (rl_current E); tcred = rt_cred task;
               id_match = (cr_uid cred = cr_euid tcred \<and> cr_uid cred = cr_suid tcred \<and>
                           cr_uid cred = cr_uid tcred \<and> cr_gid cred = cr_egid tcred \<and>
                           cr_gid cred = cr_sgid tcred \<and> cr_gid cred = cr_gid tcred)
      in if \<not> id_match \<and> \<not> ns_capable_resource E task then - EPERM
         else security_task_prlimit E cred tcred flags)"

definition sys_prlimit64 ::
  "rlim_env \<Rightarrow> int \<Rightarrow> u32 \<Rightarrow> rlimit64 user_in \<Rightarrow> user_out \<Rightarrow> rlim_state \<Rightarrow>
     int \<times> rlimit64 option \<times> rlim_state" where
  "sys_prlimit64 E pid resource new_rlim old_rlim st =
     (if new_rlim \<noteq> Null_in \<and> copy_from_user new_rlim = None then (- EFAULT, None, st)
      else let new = map_option rlim64_to_rlim (copy_from_user new_rlim);
               checkflags = (if old_rlim \<noteq> Null_out then LSM_PRLIMIT_READ else 0) OR
                            (if new_rlim \<noteq> Null_in then LSM_PRLIMIT_WRITE else 0) in
      case (if pid \<noteq> 0 then find_task_by_vpid E pid else Some (rl_current E)) of
        None \<Rightarrow> (- ESRCH, None, st)
      | Some tsk \<Rightarrow>
          (let ret = check_prlimit_permission E tsk checkflags in
           if ret \<noteq> 0 then (ret, None, st)
           else case do_prlimit E tsk resource new (old_rlim \<noteq> Null_out) st of (ret, old, st') \<Rightarrow>
             if ret = 0 \<and> old_rlim \<noteq> Null_out
             then (case Option.bind old (\<lambda>o'. copy_to_user old_rlim (rlim_to_rlim64 o')) of
                     None \<Rightarrow> (- EFAULT, None, st')
                   | Some v \<Rightarrow> (ret, Some v, st'))
             else (ret, None, st')))"

section \<open>The calls as one family\<close>

datatype rlim_op =
    Setrlimit u32 "rlimit user_in"
  | Compat_setrlimit u32 "compat_rlimit user_in"
  | Prlimit64 int u32 "rlimit64 user_in" user_out

fun exec_rlim :: "rlim_env \<times> rlim_op \<Rightarrow> rlim_state \<Rightarrow> int \<times> rlim_state" where
  "exec_rlim (E, Setrlimit res p) st = sys_setrlimit E res p st"
| "exec_rlim (E, Compat_setrlimit res p) st = compat_sys_setrlimit E res p st"
| "exec_rlim (E, Prlimit64 pid res p q) st =
     (case sys_prlimit64 E pid res p q st of (ret, _, st') \<Rightarrow> (ret, st'))"

section \<open>What a call may do to the limits\<close>

text \<open>
  The only change a call makes to the limits: one slot of one process receives a pair whose
  soft limit does not exceed its hard limit, and whose hard limit exceeds the one it replaces
  only if the caller has \<open>CAP_SYS_RESOURCE\<close>.
\<close>

definition limit_update :: "bool \<Rightarrow> rlim_state \<Rightarrow> rlim_state \<Rightarrow> bool" where
  "limit_update cap st st' \<longleftrightarrow>
     rlims st' = rlims st \<or>
     (\<exists>sig res new. rlims st' = (rlims st)(sig := (rlims st sig)(res := new)) \<and> res < RLIM_NLIMITS \<and>
        rlim_cur new \<le> rlim_max new \<and> (rlim_max new \<le> rlim_max (rlims st sig res) \<or> cap))"

lemma limit_update_same [simp]: "limit_update cap st st"
  by (simp add: limit_update_def)

lemma set_rlim_rlims [simp]:
  "rlims (set_rlim sig res new st) = (rlims st)(sig := (rlims st sig)(res := new))"
  "cpu_timer_updates (set_rlim sig res new st) = cpu_timer_updates st"
  by (simp_all add: set_rlim_def)

text \<open>The outcomes of \<open>do_prlimit\<close>: an error that changes nothing, a read, or a write.\<close>

lemma do_prlimit_error:
  "do_prlimit E tsk res new want st = (ret, old, st') \<Longrightarrow> ret \<noteq> 0 \<Longrightarrow> st' = st \<and> old = None"
  by (auto simp: do_prlimit_def Let_def split: if_splits)

lemma do_prlimit_read:
  "do_prlimit E tsk res None want st =
     (if res \<ge> RLIM_NLIMITS then (- EINVAL, None, st)
      else (0, (if want then Some (rlims st (rt_signal tsk) res) else None), st))"
  by (simp add: do_prlimit_def Let_def)

lemma do_prlimit_write:
  assumes "do_prlimit E tsk res (Some new) want st = (0, old, st')"
  shows "rlims st' = (rlims st)(rt_signal tsk := (rlims st (rt_signal tsk))(res := new))"
    and "res < RLIM_NLIMITS" and "rlim_cur new \<le> rlim_max new"
    and "rlim_max new \<le> rlim_max (rlims st (rt_signal tsk) res) \<or> cap_sys_resource E"
    and "old = (if want then Some (rlims st (rt_signal tsk) res) else None)"
  using assms by (auto simp: do_prlimit_def Let_def not_le not_less split: if_splits)

lemma do_prlimit_update:
  assumes "do_prlimit E tsk res new want st = (ret, old, st')"
  shows "limit_update (cap_sys_resource E) st st'"
proof (cases "ret = 0")
  case False
  with do_prlimit_error [OF assms] show ?thesis by simp
next
  case True
  show ?thesis
  proof (cases new)
    case None
    with assms show ?thesis by (simp add: do_prlimit_read split: if_splits)
  next
    case (Some n)
    with assms True have "do_prlimit E tsk res (Some n) want st = (0, old, st')" by simp
    from do_prlimit_write [OF this] show ?thesis unfolding limit_update_def by blast
  qed
qed

abbreviation updates :: "bool \<Rightarrow> rlim_state \<Rightarrow> int \<times> rlim_state \<Rightarrow> bool" where
  "updates cap st \<equiv> ends (\<lambda>r st'. limit_update cap st st')"

lemma sys_prlimit64_update:
  "ends (\<lambda>r p. limit_update (cap_sys_resource E) st (snd p)) (sys_prlimit64 E pid res p q st)"
  unfolding sys_prlimit64_def
  by (intro ends_intro ends_pair) (simp_all add: do_prlimit_update)

lemma exec_rlim_update: "updates (cap_sys_resource (fst c)) st (exec_rlim c st)"
proof (cases "(c, st)" rule: exec_rlim.cases)
  case (3 E pid res p q st')
  then show ?thesis
    using sys_prlimit64_update [of E st pid res p q] by (simp add: ends_def split_beta)
qed (simp only: exec_rlim.simps fst_conv prod.inject sys_setrlimit_def compat_sys_setrlimit_def,
     intro ends_intro ends_pair; simp add: do_prlimit_update)+

section \<open>Invariants over runs\<close>

definition limits_ordered :: "rlim_state \<Rightarrow> bool" where
  "limits_ordered st \<longleftrightarrow> (\<forall>sig res. rlim_cur (rlims st sig res) \<le> rlim_max (rlims st sig res))"

definition hard_limits_le :: "rlim_state \<Rightarrow> rlim_state \<Rightarrow> bool" where
  "hard_limits_le st st' \<longleftrightarrow>
     (\<forall>sig res. rlim_max (rlims st' sig res) \<le> rlim_max (rlims st sig res))"

lemma limit_update_ordered: "\<lbrakk>limit_update cap st st'; limits_ordered st\<rbrakk> \<Longrightarrow> limits_ordered st'"
  by (auto simp: limit_update_def limits_ordered_def)

lemma limit_update_hard: "limit_update False st st' \<Longrightarrow> hard_limits_le st st'"
  by (auto simp: limit_update_def hard_limits_le_def)

interpretation rlim_ordered: syscall_invariant exec_rlim "\<lambda>c. True" limits_ordered
  by unfold_locales (blast intro: limit_update_ordered endsD [OF exec_rlim_update])

interpretation rlim_hard: syscall_order exec_rlim "\<lambda>c. \<not> cap_sys_resource (fst c)" hard_limits_le
proof unfold_locales
  fix c :: "rlim_env \<times> rlim_op" and st assume "\<not> cap_sys_resource (fst c)"
  with exec_rlim_update [of c st] show "hard_limits_le st (snd (exec_rlim c st))"
    by (simp add: ends_def limit_update_hard)
qed (simp add: hard_limits_le_def, unfold hard_limits_le_def, meson order_trans)

section \<open>Conversions\<close>

lemma rlim64_round_trip: "rlim_to_rlim64 (rlim64_to_rlim r) = r"
  by (cases r) (simp add: rlim_to_rlim64_def rlim64_to_rlim_def rlim64_is_infinity_def)

lemma compat_round_trip: "rlim_to_compat (compat_to_rlim x) = x"
proof (cases "x = COMPAT_RLIM_INFINITY")
  case False
  have "uint x < 2 ^ 32"
    using uint_lt2p [of x] by simp
  then have "\<not> (0xFFFFFFFF :: u64) < ucast x"
    by (simp add: word_less_def unsigned_ucast_eq take_bit_int_eq_self)
  with False show ?thesis
    by (simp add: rlim_to_compat_def compat_to_rlim_def ucast_up_ucast_id is_up)
qed (simp add: rlim_to_compat_def compat_to_rlim_def)

section \<open>Properties\<close>

text \<open>When a new pair of limits is acceptable, as one condition.\<close>

definition prlimit_allowed :: "rlim_env \<Rightarrow> rtask \<Rightarrow> u32 \<Rightarrow> rlimit \<Rightarrow> rlim_state \<Rightarrow> bool" where
  "prlimit_allowed E tsk res new st \<longleftrightarrow>
     res < RLIM_NLIMITS \<and> rlim_cur new \<le> rlim_max new \<and>
     (res = RLIMIT_NOFILE \<longrightarrow> rlim_max new \<le> sysctl_nr_open E) \<and>
     (rlim_max new \<le> rlim_max (rlims st (rt_signal tsk) res) \<or> cap_sys_resource E) \<and>
     security_task_setrlimit E tsk res new = 0"

text \<open>A caller, a second process and an environment for the examples.\<close>

definition rtask_of :: "nat \<Rightarrow> u32 \<Rightarrow> rtask" where
  "rtask_of n u = \<lparr>rt_task = n, rt_signal = n, rt_leader = n, rt_cred = ct_cred (cred_of u u u)\<rparr>"

definition rlim_env_of :: "bool \<Rightarrow> rlim_env" where
  "rlim_env_of cap =
     \<lparr>sysctl_nr_open = 1048576, cap_sys_resource = cap,
      security_task_setrlimit = (\<lambda>t r n. 0), config_posix_timers = True,
      rl_current = rtask_of 1 1000,
      find_task_by_vpid = (\<lambda>p. if p = 1 then Some (rtask_of 1 1000) else if p = 2 then Some (rtask_of 2 0) else None),
      ns_capable_resource = (\<lambda>t. cap), security_task_prlimit = (\<lambda>c t f. 0)\<rparr>"

definition rlim_state0 :: rlim_state where
  "rlim_state0 = \<lparr>rlims = (\<lambda>sig res. \<lparr>rlim_cur = 100, rlim_max = 200\<rparr>), cpu_timer_updates = []\<rparr>"

text \<open>
  C8: whatever sequence of \<open>setrlimit\<close>, compat \<open>setrlimit\<close> and \<open>prlimit64\<close> calls any
  processes make, no soft limit ever exceeds its hard limit.
\<close>

theorem rlimits_stay_ordered:
  assumes "limits_ordered st"
  shows "limits_ordered (run_calls exec_rlim cs st)"
  using assms by (simp add: rlim_ordered.run_inv list_all_iff)

theorem rlimits_stay_ordered_witness:
  "limits_ordered (run_calls exec_rlim
     [(rlim_env_of False, Setrlimit 9 (Readable \<lparr>rlim_cur = 150, rlim_max = 150\<rparr>))] rlim_state0)"
  by (rule rlimits_stay_ordered) (simp add: limits_ordered_def rlim_state0_def)

text \<open>
  C7: without \<open>CAP_SYS_RESOURCE\<close> no sequence of calls raises any hard limit of any process.
\<close>

theorem hard_limits_only_shrink:
  assumes "list_all (\<lambda>c. \<not> cap_sys_resource (fst c)) cs"
  shows "rlim_max (rlims (run_calls exec_rlim cs st) sig res) \<le> rlim_max (rlims st sig res)"
  using rlim_hard.run_R [OF assms, of st] by (simp add: hard_limits_le_def)

theorem hard_limits_only_shrink_witness:
  "rlim_max (rlims (run_calls exec_rlim
     [(rlim_env_of False, Prlimit64 0 9 (Readable \<lparr>rlim64_cur = 0, rlim64_max = 500\<rparr>) Null_out)] rlim_state0) 1 9) \<le> 200"
proof -
  have "list_all (\<lambda>c. \<not> cap_sys_resource (fst c))
     [(rlim_env_of False, Prlimit64 0 9 (Readable \<lparr>rlim64_cur = 0, rlim64_max = 500\<rparr>) Null_out)]"
    by (simp add: rlim_env_of_def)
  from hard_limits_only_shrink [OF this, of rlim_state0 1 9] show ?thesis
    by (simp add: rlim_state0_def)
qed



text \<open>
  A limit set with \<open>prlimit64\<close> reads back: if setting it returned 0 and the caller may
  read the target's limits, a second \<open>prlimit64\<close> stores exactly the pair that was passed
  (the infinite value included) and changes nothing.
\<close>

theorem prlimit64_set_get:
  assumes "sys_prlimit64 E pid res (Readable new) Null_out st = (0, old, st')"
    and "(if pid \<noteq> 0 then find_task_by_vpid E pid else Some (rl_current E)) = Some tsk"
    and "check_prlimit_permission E tsk LSM_PRLIMIT_READ = 0"
  shows "sys_prlimit64 E pid res Null_in Writable st' = (0, Some new, st')"
proof -
  from assms(1,2) obtain o1 where
    "do_prlimit E tsk res (Some (rlim64_to_rlim new)) False st = (0, o1, st')"
    by (auto simp: sys_prlimit64_def Let_def split: if_splits prod.splits)
  from do_prlimit_write [OF this] assms(2,3) show ?thesis
    by (simp add: sys_prlimit64_def do_prlimit_read rlim64_round_trip not_le)
qed

theorem prlimit64_set_get_witness:
  "sys_prlimit64 (rlim_env_of True) 2 9 Null_in Writable
     (snd (snd (sys_prlimit64 (rlim_env_of True) 2 9 (Readable \<lparr>rlim64_cur = 7, rlim64_max = -1\<rparr>) Null_out rlim_state0)))
   = (0, Some \<lparr>rlim64_cur = 7, rlim64_max = -1\<rparr>,
      snd (snd (sys_prlimit64 (rlim_env_of True) 2 9 (Readable \<lparr>rlim64_cur = 7, rlim64_max = -1\<rparr>) Null_out rlim_state0)))"
proof -
  let ?c = "sys_prlimit64 (rlim_env_of True) 2 9 (Readable \<lparr>rlim64_cur = 7, rlim64_max = -1\<rparr>) Null_out rlim_state0"
  have "fst ?c = 0"
    by (simp add: sys_prlimit64_def do_prlimit_def check_prlimit_permission_def rlim_env_of_def
      rtask_of_def rlim_state0_def rlim64_to_rlim_def rlim64_is_infinity_def Let_def)
  then have "?c = (0, fst (snd ?c), snd (snd ?c))" by (metis prod.collapse)
  from prlimit64_set_get [OF this, of "rtask_of 2 0"] show ?thesis
    by (simp add: rlim_env_of_def check_prlimit_permission_def)
qed

text \<open>
  The 32-bit view loses nothing it can express: after a compat \<open>setrlimit\<close> that returned
  0, compat \<open>getrlimit\<close> stores the same pair, the infinite value included.
\<close>

theorem compat_setrlimit_getrlimit:
  assumes "compat_sys_setrlimit E res (Readable new) st = (0, st')"
  shows "compat_sys_getrlimit E res Writable st' = (0, Some new)"
proof -
  let ?r = "\<lparr>rlim_cur = compat_to_rlim (crlim_cur new), rlim_max = compat_to_rlim (crlim_max new)\<rparr>"
  from assms obtain o1 where "do_prlimit E (rl_current E) res (Some ?r) False st = (0, o1, st')"
    by (auto simp: compat_sys_setrlimit_def Let_def split: prod.splits)
  from do_prlimit_write [OF this] show ?thesis
    by (simp add: compat_sys_getrlimit_def do_prlimit_read compat_round_trip not_le)
qed

theorem compat_setrlimit_getrlimit_witness:
  "compat_sys_getrlimit (rlim_env_of True) 9 Writable
     (snd (compat_sys_setrlimit (rlim_env_of True) 9 (Readable \<lparr>crlim_cur = 4096, crlim_max = 0xFFFFFFFF\<rparr>) rlim_state0))
   = (0, Some \<lparr>crlim_cur = 4096, crlim_max = 0xFFFFFFFF\<rparr>)"
proof -
  let ?c = "compat_sys_setrlimit (rlim_env_of True) 9 (Readable \<lparr>crlim_cur = 4096, crlim_max = 0xFFFFFFFF\<rparr>) rlim_state0"
  have "fst ?c = 0"
    by (simp add: compat_sys_setrlimit_def do_prlimit_def rlim_env_of_def compat_to_rlim_def Let_def)
  then have "?c = (0, snd ?c)" by (metis prod.collapse)
  from compat_setrlimit_getrlimit [OF this] show ?thesis .
qed

text \<open>All three uids and all three gids of the target are the real ones of the caller.\<close>

definition ids_match :: "cred \<Rightarrow> cred \<Rightarrow> bool" where
  "ids_match c t \<longleftrightarrow> list_all (\<lambda>u. u = cr_uid c) [cr_uid t, cr_euid t, cr_suid t] \<and>
     list_all (\<lambda>g. g = cr_gid c) [cr_gid t, cr_egid t, cr_sgid t]"

text \<open>
  C11: \<open>prlimit64\<close> on a process that is not the caller's, whose ids do not all match the
  caller's real ids and over which the caller has no capability, returns \<open>-EPERM\<close> and
  changes nothing; and no \<open>prlimit64\<close> call changes a slot other than the addressed one.
\<close>

theorem prlimit64_isolation:
  assumes "(if pid \<noteq> 0 then find_task_by_vpid E pid else Some (rl_current E)) = Some tsk"
  shows "(rt_task (rl_current E) \<noteq> rt_task tsk \<and> \<not> ids_match (rt_cred (rl_current E)) (rt_cred tsk) \<and>
          \<not> ns_capable_resource E tsk \<and> new \<noteq> Fault_in \<longrightarrow>
            sys_prlimit64 E pid res new old st = (- EPERM, None, st)) \<and>
         (sig \<noteq> rt_signal tsk \<or> r \<noteq> res \<longrightarrow>
            rlims (snd (snd (sys_prlimit64 E pid res new old st))) sig r = rlims st sig r)"
proof (intro conjI impI)
  assume "rt_task (rl_current E) \<noteq> rt_task tsk \<and> \<not> ids_match (rt_cred (rl_current E)) (rt_cred tsk) \<and>
    \<not> ns_capable_resource E tsk \<and> new \<noteq> Fault_in"
  with assms show "sys_prlimit64 E pid res new old st = (- EPERM, None, st)"
    by (cases new) (auto simp: sys_prlimit64_def check_prlimit_permission_def ids_match_def Let_def)
next
  assume other: "sig \<noteq> rt_signal tsk \<or> r \<noteq> res"
  have slot: "rlims st' sig r = rlims st sig r"
    if "do_prlimit E tsk res n want st = (ret, o1, st')" for n want ret o1 st'
    using that other do_prlimit_error [OF that]
    by (cases n; cases "ret = 0") (auto simp: do_prlimit_read dest: do_prlimit_write(1) split: if_splits)
  have "ends (\<lambda>ret p. rlims (snd p) sig r = rlims st sig r) (sys_prlimit64 E pid res new old st)"
    unfolding sys_prlimit64_def assms by (intro ends_intro ends_pair) (simp_all add: slot)
  then show "rlims (snd (snd (sys_prlimit64 E pid res new old st))) sig r = rlims st sig r"
    by (simp add: ends_def)
qed

theorem prlimit64_isolation_witness:
  "sys_prlimit64 (rlim_env_of False) 2 9 (Readable \<lparr>rlim64_cur = 0, rlim64_max = 0\<rparr>) Null_out rlim_state0
   = (- EPERM, None, rlim_state0)"
proof -
  have "(if (2::int) \<noteq> 0 then find_task_by_vpid (rlim_env_of False) 2 else Some (rl_current (rlim_env_of False)))
      = Some (rtask_of 2 0)"
    by (simp add: rlim_env_of_def)
  from prlimit64_isolation [OF this] show ?thesis
    by (simp add: rlim_env_of_def rtask_of_def ids_match_def cred_of_def)
qed

end
