(* ===== verification/Memory_Limits.thy ===== *)
theory Memory_Limits
  imports Rlimits
begin

text \<open>
  The process memory limiter, \<^verbatim>\<open>src/Kernel/kernel/fase3/syscall3.c\<close>: a list of
  (pid, limit) nodes allocated with \<open>kmalloc\<close>, and four system calls that keep it in step with
  the \<open>RLIMIT_AS\<close> of the processes through \<open>do_prlimit\<close>.

  The nodes live in an explicit heap; \<open>memory_limitation_head\<close> is the sequence of node
  addresses in the order \<open>list_for_each_entry\<close> visits them (\<open>list_add\<close> inserts at the front,
  \<open>list_del\<close> unlinks a node, \<open>kfree\<close> gives its memory back). \<open>kmalloc\<close>, the task lookup, the
  capability test and \<open>get_task_mm\<close> are parameters. In the file the argument check of
  \<open>luis_add_memory_limit\<close> lacks its closing brace, which leaves the file's braces
  unbalanced; the model closes it where the indentation and the listing in
  \<^verbatim>\<open>src/Documentacion_fase3/README.md\<close> close it.
\<close>

section \<open>State and environment\<close>

record memory_limitation =
  ml_pid :: int
  ml_limit :: u64

type_synonym node_heap = "nat \<rightharpoonup> memory_limitation"

record mlim_state =
  node_heap :: node_heap
  memory_limitation_head :: "nat list"
  task_limits :: rlim_state

record mlim_env =
  cap_sys_admin :: bool
  kmalloc :: "node_heap \<Rightarrow> nat option"
  task_total_vm :: "rtask \<Rightarrow> u64 option"
  rlim_part :: rlim_env

abbreviation PAGE_SHIFT :: nat where "PAGE_SHIFT \<equiv> 12"

section \<open>Helper functions\<close>

definition set_process_memory_limit ::
  "mlim_env \<Rightarrow> rtask \<Rightarrow> u64 \<Rightarrow> mlim_state \<Rightarrow> int \<times> mlim_state" where
  "set_process_memory_limit E task memory_limit st =
     (case do_prlimit (rlim_part E) task RLIMIT_AS
         (Some \<lparr>rlim_cur = memory_limit, rlim_max = memory_limit\<rparr>) False (task_limits st) of
        (ret, _, rs) \<Rightarrow> (ret, st\<lparr>task_limits := rs\<rparr>))"

definition find_node_by_pid :: "int \<Rightarrow> mlim_state \<Rightarrow> nat option" where
  "find_node_by_pid pid st =
     find (\<lambda>a. case node_heap st a of None \<Rightarrow> False | Some n \<Rightarrow> ml_pid n = pid)
       (memory_limitation_head st)"

definition get_process_memory_usage :: "mlim_env \<Rightarrow> rtask \<Rightarrow> u64" where
  "get_process_memory_usage E task =
     (case task_total_vm E task of None \<Rightarrow> 0 | Some total_vm \<Rightarrow> push_bit PAGE_SHIFT total_vm)"

text \<open>The memory writes of \<open>list_add\<close> on a fresh node, and of \<open>list_del\<close> with \<open>kfree\<close>.\<close>

definition link_node :: "nat \<Rightarrow> memory_limitation \<Rightarrow> mlim_state \<Rightarrow> mlim_state" where
  "link_node a n st = st\<lparr>node_heap := (node_heap st)(a \<mapsto> n),
     memory_limitation_head := a # memory_limitation_head st\<rparr>"

definition unlink_node :: "nat \<Rightarrow> mlim_state \<Rightarrow> mlim_state" where
  "unlink_node a st = st\<lparr>node_heap := (node_heap st)(a := None),
     memory_limitation_head := remove1 a (memory_limitation_head st)\<rparr>"

definition store_limit :: "nat \<Rightarrow> u64 \<Rightarrow> mlim_state \<Rightarrow> mlim_state" where
  "store_limit a memory_limit st =
     st\<lparr>node_heap := (node_heap st)(a := map_option (\<lambda>n. n\<lparr>ml_limit := memory_limit\<rparr>) (node_heap st a))\<rparr>"

definition add_memory_limitation_node ::
  "mlim_env \<Rightarrow> int \<Rightarrow> u64 \<Rightarrow> mlim_state \<Rightarrow> int \<times> mlim_state" where
  "add_memory_limitation_node E pid memory_limit st =
     (if find_node_by_pid pid st \<noteq> None then (- 101, st)
      else case kmalloc E (node_heap st) of
        None \<Rightarrow> (- ENOMEM, st)
      | Some new_entry \<Rightarrow> (0, link_node new_entry \<lparr>ml_pid = pid, ml_limit = memory_limit\<rparr> st))"

section \<open>The system calls\<close>

definition luis_add_memory_limit ::
  "mlim_env \<Rightarrow> int \<Rightarrow> u64 \<Rightarrow> mlim_state \<Rightarrow> int \<times> mlim_state" where
  "luis_add_memory_limit E process_pid memory_limit st =
     (if \<not> cap_sys_admin E then (- EPERM, st)
      else if process_pid \<le> 0 \<or> memory_limit \<le> 0 then (- EINVAL, st)
      else case find_task_by_vpid (rlim_part E) process_pid of
        None \<Rightarrow> (- ESRCH, st)
      | Some task \<Rightarrow>
          if find_node_by_pid process_pid st \<noteq> None then (- 101, st)
          else if get_process_memory_usage E task > memory_limit then (- 100, st)
          else case set_process_memory_limit E task memory_limit st of (ret, st1) \<Rightarrow>
            if ret \<noteq> 0 then (ret, st1)
            else add_memory_limitation_node E process_pid memory_limit st1)"

definition luis_update_memory_limit ::
  "mlim_env \<Rightarrow> int \<Rightarrow> u64 \<Rightarrow> mlim_state \<Rightarrow> int \<times> mlim_state" where
  "luis_update_memory_limit E process_pid memory_limit st =
     (if \<not> cap_sys_admin E then (- EPERM, st)
      else if process_pid \<le> 0 \<or> memory_limit \<le> 0 then (- EINVAL, st)
      else case find_task_by_vpid (rlim_part E) process_pid of
        None \<Rightarrow> (- ESRCH, st)
      | Some task \<Rightarrow>
          (case find_node_by_pid process_pid st of
             None \<Rightarrow> (- 102, st)
           | Some node \<Rightarrow>
               if get_process_memory_usage E task > memory_limit then (- 100, st)
               else case set_process_memory_limit E task memory_limit st of (ret, st1) \<Rightarrow>
                 if ret \<noteq> 0 then (ret, st1) else (0, store_limit node memory_limit st1)))"

definition luis_remove_memory_limit :: "mlim_env \<Rightarrow> int \<Rightarrow> mlim_state \<Rightarrow> int \<times> mlim_state" where
  "luis_remove_memory_limit E process_pid st =
     (if \<not> cap_sys_admin E then (- EPERM, st)
      else if process_pid \<le> 0 then (- EINVAL, st)
      else case find_task_by_vpid (rlim_part E) process_pid of
        None \<Rightarrow> (- ESRCH, st)
      | Some task \<Rightarrow>
          (case find_node_by_pid process_pid st of
             None \<Rightarrow> (- 102, st)
           | Some node \<Rightarrow>
               (case set_process_memory_limit E task (110 * 1024 * 1024) st of (ret, st1) \<Rightarrow>
                  if ret \<noteq> 0 then (ret, st1) else (0, unlink_node node st1))))"

text \<open>
  Reading the list. The pointer checks \<open>access_ok\<close> and the buffer allocation
  \<open>kmalloc_array\<close> are given as predicates on the sizes the code passes to them; the result is
  the returned value, the entries copied to the user's buffer and the count stored.
\<close>

record get_env =
  access_ok_buffer :: "u64 \<Rightarrow> bool"
  access_ok_size :: "u64 \<Rightarrow> bool"
  kmalloc_array :: "u64 \<Rightarrow> u64 \<Rightarrow> bool"
  u_processes_buffer :: user_out
  processes_buffer_size :: user_out

abbreviation sizeof_memory_limitation :: u64 where "sizeof_memory_limitation \<equiv> 16"

text \<open>The nodes in list order.\<close>

definition list_entries :: "mlim_state \<Rightarrow> memory_limitation list" where
  "list_entries st = List.map_filter (node_heap st) (memory_limitation_head st)"

text \<open>The copying loop; the accumulator is the filled prefix of \<open>k_processes_buffer\<close>.\<close>

fun fill_buffer :: "u64 \<Rightarrow> memory_limitation list \<Rightarrow> memory_limitation list \<Rightarrow> memory_limitation list" where
  "fill_buffer max_entries [] k_buffer = k_buffer"
| "fill_buffer max_entries (e # es) k_buffer =
     (if of_nat (length k_buffer) \<ge> max_entries then k_buffer
      else fill_buffer max_entries es (k_buffer @ [\<lparr>ml_pid = ml_pid e, ml_limit = ml_limit e\<rparr>]))"

definition luis_get_memory_limits ::
  "get_env \<Rightarrow> u64 \<Rightarrow> mlim_state \<Rightarrow> int \<times> memory_limitation list option \<times> nat option" where
  "luis_get_memory_limits G max_entries st =
     (if max_entries \<le> 0 then (- EINVAL, None, None)
      else if \<not> access_ok_buffer G (max_entries * sizeof_memory_limitation) \<or> \<not> access_ok_size G 4
      then (- EINVAL, None, None)
      else if \<not> kmalloc_array G max_entries sizeof_memory_limitation then (- ENOMEM, None, None)
      else let k_buffer = fill_buffer max_entries (list_entries st) []; count = length k_buffer in
      case copy_to_user (u_processes_buffer G) k_buffer of
        None \<Rightarrow> (- EFAULT, None, None)
      | Some copied \<Rightarrow>
          (case copy_to_user (processes_buffer_size G) count of
             None \<Rightarrow> (- EFAULT, Some copied, None)
           | Some n \<Rightarrow> (0, Some copied, Some n)))"

section \<open>The calls as one family\<close>

datatype mlim_op =
    Add_limit int u64
  | Update_limit int u64
  | Remove_limit int

fun exec_mlim :: "mlim_env \<times> mlim_op \<Rightarrow> mlim_state \<Rightarrow> int \<times> mlim_state" where
  "exec_mlim (E, Add_limit pid lim) st = luis_add_memory_limit E pid lim st"
| "exec_mlim (E, Update_limit pid lim) st = luis_update_memory_limit E pid lim st"
| "exec_mlim (E, Remove_limit pid) st = luis_remove_memory_limit E pid st"

section \<open>The list as a registry of limits\<close>

text \<open>The finite map a list of nodes stands for.\<close>

definition limits_of :: "memory_limitation list \<Rightarrow> int \<rightharpoonup> u64" where
  "limits_of ns = map_of (map (\<lambda>n. (ml_pid n, ml_limit n)) ns)"

lemma limits_of_simps [simp]:
  "limits_of [] = Map.empty"
  "limits_of (n # ns) = (limits_of ns)(ml_pid n \<mapsto> ml_limit n)"
  by (simp_all add: limits_of_def)

lemma dom_limits_of: "dom (limits_of ns) = ml_pid ` set ns"
  by (simp add: limits_of_def dom_map_of_conv_image_fst image_image)

lemma limits_of_change:
  "limits_of (map (\<lambda>n. if ml_pid n = p then n\<lparr>ml_limit := l\<rparr> else n) ns) =
     (if p \<in> ml_pid ` set ns then (limits_of ns)(p \<mapsto> l) else limits_of ns)"
  by (induction ns) (auto simp: fun_eq_iff)

lemma limits_of_remove: "limits_of (filter (\<lambda>n. ml_pid n \<noteq> p) ns) = (limits_of ns)(p := None)"
  by (induction ns) (auto simp: fun_eq_iff)

text \<open>
  The interface between the list code and the system calls: looking a pid up, linking a node
  with a fresh address, changing and unlinking the node that was found, and what each does to
  the sequence of entries.
\<close>

locale limit_registry =
  fixes invar :: "'s \<Rightarrow> bool"
    and entries :: "'s \<Rightarrow> memory_limitation list"
    and look :: "int \<Rightarrow> 's \<Rightarrow> 'a option"
    and fresh :: "'a \<Rightarrow> 's \<Rightarrow> bool"
    and ins :: "'a \<Rightarrow> memory_limitation \<Rightarrow> 's \<Rightarrow> 's"
    and upd :: "'a \<Rightarrow> u64 \<Rightarrow> 's \<Rightarrow> 's"
    and del :: "'a \<Rightarrow> 's \<Rightarrow> 's"
  assumes distinct_pids: "invar s \<Longrightarrow> distinct (map ml_pid (entries s))"
    and look_None: "invar s \<Longrightarrow> look p s = None \<longleftrightarrow> p \<notin> ml_pid ` set (entries s)"
    and entries_ins: "\<lbrakk>invar s; fresh a s\<rbrakk> \<Longrightarrow> entries (ins a n s) = n # entries s"
    and entries_upd: "\<lbrakk>invar s; look p s = Some a\<rbrakk> \<Longrightarrow>
      entries (upd a l s) = map (\<lambda>n. if ml_pid n = p then n\<lparr>ml_limit := l\<rparr> else n) (entries s)"
    and entries_del: "\<lbrakk>invar s; look p s = Some a\<rbrakk> \<Longrightarrow>
      entries (del a s) = filter (\<lambda>n. ml_pid n \<noteq> p) (entries s)"
    and invar_ins: "\<lbrakk>invar s; fresh a s; look (ml_pid n) s = None; 0 < ml_pid n; ml_limit n \<noteq> 0\<rbrakk> \<Longrightarrow>
      invar (ins a n s)"
    and invar_upd: "\<lbrakk>invar s; look p s = Some a; l \<noteq> 0\<rbrakk> \<Longrightarrow> invar (upd a l s)"
    and invar_del: "\<lbrakk>invar s; look p s = Some a\<rbrakk> \<Longrightarrow> invar (del a s)"
begin

lemma limits_look: "invar s \<Longrightarrow> limits_of (entries s) p = None \<longleftrightarrow> look p s = None"
  using dom_limits_of [of "entries s"] by (auto simp: look_None)

lemma limits_ins:
  "\<lbrakk>invar s; fresh a s\<rbrakk> \<Longrightarrow> limits_of (entries (ins a n s)) = (limits_of (entries s))(ml_pid n \<mapsto> ml_limit n)"
  by (simp add: entries_ins)

lemma limits_upd:
  "\<lbrakk>invar s; look p s = Some a\<rbrakk> \<Longrightarrow> limits_of (entries (upd a l s)) = (limits_of (entries s))(p \<mapsto> l)"
  using look_None [of s p] by (simp add: entries_upd limits_of_change)

lemma limits_del:
  "\<lbrakk>invar s; look p s = Some a\<rbrakk> \<Longrightarrow> limits_of (entries (del a s)) = (limits_of (entries s))(p := None)"
  by (simp add: entries_del limits_of_remove)

lemma length_entries: "invar s \<Longrightarrow> length (entries s) = card (dom (limits_of (entries s)))"
  using distinct_pids [of s] distinct_card [of "map ml_pid (entries s)"] by (simp add: dom_limits_of)

end

text \<open>
  The invariant of the limiter: the list visits each allocated node exactly once (no leaked
  and no freed node), the pids are positive and pairwise different, and no limit is zero.
\<close>

definition mlim_inv :: "mlim_state \<Rightarrow> bool" where
  "mlim_inv st \<longleftrightarrow>
     distinct (memory_limitation_head st) \<and> set (memory_limitation_head st) = dom (node_heap st) \<and>
     distinct (map ml_pid (list_entries st)) \<and>
     list_all (\<lambda>n. 0 < ml_pid n \<and> ml_limit n \<noteq> 0) (list_entries st)"

lemma list_entries_map:
  assumes "set as \<subseteq> dom h"
  shows "List.map_filter h as = map (\<lambda>a. the (h a)) as"
proof -
  have "filter (\<lambda>x. h x \<noteq> None) as = as"
    using assms by (auto intro!: filter_True)
  then show ?thesis by (simp add: map_filter_def)
qed

lemma entries_eq: "mlim_inv st \<Longrightarrow> list_entries st = map (\<lambda>a. the (node_heap st a)) (memory_limitation_head st)"
  by (simp add: list_entries_def list_entries_map mlim_inv_def)

lemma head_heap: "mlim_inv st \<Longrightarrow> a \<in> set (memory_limitation_head st) \<longleftrightarrow> (\<exists>n. node_heap st a = Some n)"
  by (auto simp: mlim_inv_def)

lemma find_node_SomeD:
  assumes "mlim_inv st" and "find_node_by_pid p st = Some a"
  shows "a \<in> set (memory_limitation_head st)" "\<exists>n. node_heap st a = Some n \<and> ml_pid n = p"
  using assms unfolding find_node_by_pid_def
  by (auto simp: find_Some_iff in_set_conv_nth split: option.splits)

lemma find_node_None:
  assumes "mlim_inv st"
  shows "find_node_by_pid p st = None \<longleftrightarrow> p \<notin> ml_pid ` set (list_entries st)"
proof -
  have "find_node_by_pid p st = None \<longleftrightarrow>
      (\<forall>a \<in> set (memory_limitation_head st). ml_pid (the (node_heap st a)) \<noteq> p)"
    using head_heap [OF assms] unfolding find_node_by_pid_def find_None_iff by fastforce
  then show ?thesis by (auto simp: entries_eq [OF assms])
qed

lemma node_pid_inj:
  assumes "mlim_inv st"
  shows "inj_on (\<lambda>a. ml_pid (the (node_heap st a))) (set (memory_limitation_head st))"
proof -
  have "distinct (map ml_pid (list_entries st))"
    using assms by (simp add: mlim_inv_def)
  then show ?thesis by (simp add: entries_eq [OF assms] comp_def distinct_map)
qed

text \<open>The found node is the only one with its pid.\<close>

lemma found_node_iff:
  assumes "mlim_inv st" and "find_node_by_pid p st = Some a" and "b \<in> set (memory_limitation_head st)"
  shows "ml_pid (the (node_heap st b)) = p \<longleftrightarrow> b = a"
  using find_node_SomeD [OF assms(1,2)] inj_onD [OF node_pid_inj [OF assms(1)]] assms(3) by fastforce

lemma entries_link:
  assumes "mlim_inv st" and "a \<notin> dom (node_heap st)"
  shows "list_entries (link_node a n st) = n # list_entries st"
proof -
  have a: "a \<notin> set (memory_limitation_head st)"
    using assms by (auto simp: mlim_inv_def)
  have "set (a # memory_limitation_head st) \<subseteq> dom ((node_heap st)(a \<mapsto> n))"
    using assms by (auto simp: mlim_inv_def)
  from list_entries_map [OF this] a show ?thesis
    unfolding list_entries_def [of "link_node a n st"] entries_eq [OF assms(1)]
    by (auto simp: link_node_def)
qed

lemma entries_store:
  assumes "mlim_inv st" and "find_node_by_pid p st = Some a"
  shows "list_entries (store_limit a l st) =
     map (\<lambda>n. if ml_pid n = p then n\<lparr>ml_limit := l\<rparr> else n) (list_entries st)"
proof -
  let ?h = "(node_heap st)(a := map_option (\<lambda>n. n\<lparr>ml_limit := l\<rparr>) (node_heap st a))"
  have "set (memory_limitation_head st) \<subseteq> dom ?h"
    using find_node_SomeD [OF assms] assms(1) by (auto simp: mlim_inv_def)
  from list_entries_map [OF this]
  have "list_entries (store_limit a l st) = map (\<lambda>b. the (?h b)) (memory_limitation_head st)"
    by (simp add: list_entries_def store_limit_def)
  also have "\<dots> = map (\<lambda>n. if ml_pid n = p then n\<lparr>ml_limit := l\<rparr> else n) (list_entries st)"
    using found_node_iff [OF assms] find_node_SomeD [OF assms] by (auto simp: entries_eq [OF assms(1)])
  finally show ?thesis .
qed

lemma entries_unlink:
  assumes "mlim_inv st" and "find_node_by_pid p st = Some a"
  shows "list_entries (unlink_node a st) = filter (\<lambda>n. ml_pid n \<noteq> p) (list_entries st)"
proof -
  have head: "distinct (memory_limitation_head st)" "set (memory_limitation_head st) = dom (node_heap st)"
    using assms(1) by (simp_all add: mlim_inv_def)
  then have "set (remove1 a (memory_limitation_head st)) \<subseteq> dom ((node_heap st)(a := None))"
    by auto
  from list_entries_map [OF this] head
  have "list_entries (unlink_node a st) = map (\<lambda>b. the (node_heap st b)) (filter (\<lambda>b. b \<noteq> a) (memory_limitation_head st))"
    by (simp add: list_entries_def unlink_node_def distinct_remove1_removeAll removeAll_filter_not_eq
      eq_commute [of a])
  also have "\<dots> = filter (\<lambda>n. ml_pid n \<noteq> p) (list_entries st)"
    using found_node_iff [OF assms]
    by (simp add: entries_eq [OF assms(1)] filter_map comp_def cong: filter_cong)
  finally show ?thesis .
qed

lemma mlim_inv_link:
  assumes "mlim_inv s" "a \<notin> dom (node_heap s)" "find_node_by_pid (ml_pid n) s = None"
    "0 < ml_pid n" "ml_limit n \<noteq> 0"
  shows "mlim_inv (link_node a n s)"
proof -
  have "ml_pid n \<notin> ml_pid ` set (list_entries s)"
    using assms find_node_None by blast
  with assms show ?thesis
    unfolding mlim_inv_def [of "link_node a n s"] entries_link [OF assms(1,2)]
    by (simp add: link_node_def mlim_inv_def)
qed

lemma mlim_inv_store:
  assumes s: "mlim_inv s" "find_node_by_pid p s = Some a" "l \<noteq> 0"
  shows "mlim_inv (store_limit a l s)"
proof -
  have "map ml_pid (list_entries (store_limit a l s)) = map ml_pid (list_entries s)"
    using s by (simp add: entries_store)
  moreover have "list_all (\<lambda>n. 0 < ml_pid n \<and> ml_limit n \<noteq> 0) (list_entries (store_limit a l s))"
    using s by (auto simp: entries_store mlim_inv_def list_all_iff)
  moreover have "dom (node_heap (store_limit a l s)) = dom (node_heap s)"
    using find_node_SomeD [OF s(1,2)] by (auto simp: store_limit_def)
  ultimately show ?thesis
    using s(1) by (simp add: mlim_inv_def store_limit_def)
qed

lemma mlim_inv_unlink:
  assumes s: "mlim_inv s" "find_node_by_pid p s = Some a"
  shows "mlim_inv (unlink_node a s)"
proof -
  have "distinct (map ml_pid (list_entries (unlink_node a s)))"
    using s by (simp add: entries_unlink distinct_map_filter mlim_inv_def)
  moreover have "list_all (\<lambda>n. 0 < ml_pid n \<and> ml_limit n \<noteq> 0) (list_entries (unlink_node a s))"
    using s by (simp add: entries_unlink mlim_inv_def list_all_iff)
  ultimately show ?thesis
    using s(1) by (auto simp: mlim_inv_def unlink_node_def)
qed

interpretation reg: limit_registry mlim_inv list_entries find_node_by_pid
  "\<lambda>a st. a \<notin> dom (node_heap st)" link_node store_limit unlink_node
  by unfold_locales
    (simp_all add: find_node_None entries_link entries_store entries_unlink
      mlim_inv_link mlim_inv_store mlim_inv_unlink, simp add: mlim_inv_def)

section \<open>The calls refine the registry\<close>

text \<open>\<open>kmalloc\<close> returns memory that is not in use.\<close>

definition kmalloc_fresh :: "mlim_env \<Rightarrow> bool" where
  "kmalloc_fresh E \<longleftrightarrow> (\<forall>h a. kmalloc E h = Some a \<longrightarrow> a \<notin> dom h)"

text \<open>The registered limits as a finite map.\<close>

definition registered :: "mlim_state \<Rightarrow> int \<rightharpoonup> u64" where
  "registered st = limits_of (list_entries st)"

lemma task_limits_only [simp]:
  "list_entries (st\<lparr>task_limits := rs\<rparr>) = list_entries st"
  "find_node_by_pid p (st\<lparr>task_limits := rs\<rparr>) = find_node_by_pid p st"
  "mlim_inv (st\<lparr>task_limits := rs\<rparr>) = mlim_inv st"
  "registered (st\<lparr>task_limits := rs\<rparr>) = registered st"
  by (simp_all add: list_entries_def find_node_by_pid_def mlim_inv_def registered_def)

lemma node_ops_limits [simp]:
  "task_limits (link_node a n st) = task_limits st"
  "task_limits (unlink_node a st) = task_limits st"
  "task_limits (store_limit a l st) = task_limits st"
  by (simp_all add: link_node_def unlink_node_def store_limit_def)

lemma set_process_memory_limit_frame:
  "set_process_memory_limit E task l st = (ret, st1) \<Longrightarrow> \<exists>rs. st1 = st\<lparr>task_limits := rs\<rparr>"
  by (auto simp: set_process_memory_limit_def split: prod.splits)

lemma set_process_memory_limit_error:
  "set_process_memory_limit E task l st = (ret, st1) \<Longrightarrow> ret \<noteq> 0 \<Longrightarrow> st1 = st"
  by (auto simp: set_process_memory_limit_def split: prod.splits dest: do_prlimit_error)

lemma set_process_memory_limit_ok:
  assumes "set_process_memory_limit E task l st = (0, st1)"
  shows "rlims (task_limits st1) = (rlims (task_limits st))(rt_signal task :=
     (rlims (task_limits st) (rt_signal task))(RLIMIT_AS := \<lparr>rlim_cur = l, rlim_max = l\<rparr>))"
  using assms by (auto simp: set_process_memory_limit_def split: prod.splits dest: do_prlimit_write(1))

text \<open>
  The abstract operation of each call on the map, given the value the call returned: an
  error changes no registration.
\<close>

fun spec_mlim :: "mlim_op \<Rightarrow> int \<Rightarrow> (int \<rightharpoonup> u64) \<Rightarrow> int \<rightharpoonup> u64" where
  "spec_mlim (Add_limit pid lim) ret m = (if ret = 0 then m(pid \<mapsto> lim) else m)"
| "spec_mlim (Update_limit pid lim) ret m = (if ret = 0 then m(pid \<mapsto> lim) else m)"
| "spec_mlim (Remove_limit pid) ret m = (if ret = 0 then m(pid := None) else m)"

abbreviation simulates :: "mlim_op \<Rightarrow> mlim_state \<Rightarrow> int \<times> mlim_state \<Rightarrow> bool" where
  "simulates op st \<equiv> ends (\<lambda>ret st'. mlim_inv st' \<and> registered st' = spec_mlim op ret (registered st))"

lemma exec_mlim_simulates:
  assumes inv: "mlim_inv st" and fresh: "kmalloc_fresh E"
  shows "simulates op st (exec_mlim (E, op) st)"
proof (cases op)
  case (Add_limit pid lim)
  have new: "a \<notin> dom h" if "kmalloc E h = Some a" for a h
    using fresh that by (simp add: kmalloc_fresh_def)
  show ?thesis
    unfolding Add_limit exec_mlim.simps luis_add_memory_limit_def add_memory_limitation_node_def
    by (intro ends_intro ends_pair; (drule set_process_memory_limit_frame)?;
        use inv new in \<open>auto simp: registered_def reg.limits_ins reg.invar_ins\<close>)
next
  case (Update_limit pid lim)
  show ?thesis
    unfolding Update_limit exec_mlim.simps luis_update_memory_limit_def
    by (intro ends_intro ends_pair; (drule set_process_memory_limit_frame)?;
        use inv in \<open>auto simp: registered_def reg.limits_upd reg.invar_upd\<close>)
next
  case (Remove_limit pid)
  show ?thesis
    unfolding Remove_limit exec_mlim.simps luis_remove_memory_limit_def
    by (intro ends_intro ends_pair; (drule set_process_memory_limit_frame)?;
        use inv in \<open>auto simp: registered_def reg.limits_del reg.invar_del\<close>)
qed

interpretation mlim: syscall_invariant exec_mlim "\<lambda>c. kmalloc_fresh (fst c)" mlim_inv
proof unfold_locales
  fix c :: "mlim_env \<times> mlim_op" and st assume "kmalloc_fresh (fst c)" "mlim_inv st"
  then show "mlim_inv (snd (exec_mlim c st))"
    using exec_mlim_simulates [of st "fst c" "snd c"] by (simp add: ends_def)
qed

section \<open>Copying the list out\<close>

lemma fill_buffer_take:
  "length k \<le> unat max_entries \<Longrightarrow>
     fill_buffer max_entries es k = k @ take (unat max_entries - length k) es"
proof (induction es arbitrary: k)
  case Nil
  then show ?case by simp
next
  case (Cons e es)
  have "length k < 2 ^ 64"
    using Cons.prems unsigned_less [of max_entries, where 'a = nat] by simp
  then have guard: "max_entries \<le> of_nat (length k) \<longleftrightarrow> unat max_entries \<le> length k"
    by (simp add: word_le_nat_alt unat_of_nat)
  show ?case
  proof (cases "unat max_entries \<le> length k")
    case True
    with Cons.prems guard show ?thesis by simp
  next
    case False
    with Cons guard show ?thesis
      by (simp add: take_Cons' Suc_diff_Suc not_le)
  qed
qed

corollary fill_buffer_from_start: "fill_buffer max_entries es [] = take (unat max_entries) es"
  by (simp add: fill_buffer_take)

section \<open>The registry and the resource limits\<close>

text \<open>Every registered process has both its address-space limits at the registered value.\<close>

definition in_step :: "(int \<Rightarrow> rtask option) \<Rightarrow> mlim_state \<Rightarrow> bool" where
  "in_step ft st \<longleftrightarrow> (\<forall>pid lim. registered st pid = Some lim \<longrightarrow>
     (\<exists>task. ft pid = Some task \<and>
        rlims (task_limits st) (rt_signal task) RLIMIT_AS = \<lparr>rlim_cur = lim, rlim_max = lim\<rparr>))"

text \<open>
  Documented behaviour of the pid table, for a period in which no process comes or goes:
  different process ids name processes with different signal structures (only the thread ids
  of one process share one).
\<close>

definition distinct_processes :: "(int \<Rightarrow> rtask option) \<Rightarrow> bool" where
  "distinct_processes ft \<longleftrightarrow>
     (\<forall>p q t u. ft p = Some t \<and> ft q = Some u \<and> rt_signal t = rt_signal u \<longrightarrow> p = q)"

definition limiter_call :: "(int \<Rightarrow> rtask option) \<Rightarrow> mlim_env \<times> mlim_op \<Rightarrow> bool" where
  "limiter_call ft c \<longleftrightarrow> kmalloc_fresh (fst c) \<and> find_task_by_vpid (rlim_part (fst c)) = ft"

text \<open>
  Every call either leaves the limiter as it was or gives one process new address-space
  limits; in the second case it registers exactly this value for the process or leaves the
  process unregistered.
\<close>

definition limiter_step :: "(int \<Rightarrow> rtask option) \<Rightarrow> mlim_state \<Rightarrow> mlim_state \<Rightarrow> bool" where
  "limiter_step ft st st' \<longleftrightarrow> st' = st \<or>
     (\<exists>pid task l. ft pid = Some task \<and>
        rlims (task_limits st') = (rlims (task_limits st))(rt_signal task :=
          (rlims (task_limits st) (rt_signal task))(RLIMIT_AS := \<lparr>rlim_cur = l, rlim_max = l\<rparr>)) \<and>
        (\<forall>q. q \<noteq> pid \<longrightarrow> registered st' q = registered st q) \<and>
        (registered st' pid = Some l \<or> registered st' pid = None))"

lemma limiter_stepI:
  assumes "set_process_memory_limit E task l st = (0, st1)" "ft pid = Some task"
    "task_limits st' = task_limits st1"
    "registered st' = (registered st)(pid \<mapsto> l) \<or> registered st' = (registered st)(pid := None)"
  shows "limiter_step ft st st'"
  using assms(2-4) set_process_memory_limit_ok [OF assms(1)]
  unfolding limiter_step_def by (intro disjI2 exI [of _ pid] exI [of _ task] exI [of _ l]) auto

lemma registered_None: "mlim_inv st \<Longrightarrow> registered st pid = None \<longleftrightarrow> find_node_by_pid pid st = None"
  by (simp add: registered_def reg.limits_look)

lemma exec_mlim_step:
  assumes inv: "mlim_inv st" and c: "limiter_call ft (E, op)"
  shows "ends (\<lambda>ret st'. limiter_step ft st st') (exec_mlim (E, op) st)"
proof -
  have ft: "find_task_by_vpid (rlim_part E) = ft" and new: "\<And>a h. kmalloc E h = Some a \<Longrightarrow> a \<notin> dom h"
    using c by (auto simp: limiter_call_def kmalloc_fresh_def)
  have same: "limiter_step ft st st"
    and failed: "\<And>task l ret st1. \<lbrakk>set_process_memory_limit E task l st = (ret, st1); ret \<noteq> 0\<rbrakk> \<Longrightarrow> limiter_step ft st st1"
    by (auto simp: limiter_step_def dest: set_process_memory_limit_error)
  have unreg: "registered st = (registered st)(pid := None)" if "find_node_by_pid pid st = None" for pid
    using that inv registered_None by fastforce
  note regs = registered_def reg.limits_ins reg.limits_upd reg.limits_del
  show ?thesis
  proof (cases op)
    case (Add_limit pid lim)
    show ?thesis
      unfolding Add_limit exec_mlim.simps luis_add_memory_limit_def add_memory_limitation_node_def ft
      by (intro ends_intro ends_pair same; (erule (1) failed)?; (rule limiter_stepI; simp)?;
          drule set_process_memory_limit_frame; use inv new unreg in \<open>auto simp: regs\<close>)
  next
    case (Update_limit pid lim)
    show ?thesis
      unfolding Update_limit exec_mlim.simps luis_update_memory_limit_def ft
      by (intro ends_intro ends_pair same; (erule (1) failed)?; (rule limiter_stepI; simp)?;
          drule set_process_memory_limit_frame; use inv in \<open>auto simp: regs\<close>)
  next
    case (Remove_limit pid)
    show ?thesis
      unfolding Remove_limit exec_mlim.simps luis_remove_memory_limit_def ft
      by (intro ends_intro ends_pair same; (erule (1) failed)?; (rule limiter_stepI; simp)?;
          drule set_process_memory_limit_frame; use inv in \<open>auto simp: regs\<close>)
  qed
qed

lemma limiter_step_in_step:
  assumes "limiter_step ft st st'" and "distinct_processes ft" and "in_step ft st"
  shows "in_step ft st'"
proof (cases "st' = st")
  case False
  with assms(1) obtain pid task l where task: "ft pid = Some task"
    and lims: "rlims (task_limits st') = (rlims (task_limits st))(rt_signal task :=
      (rlims (task_limits st) (rt_signal task))(RLIMIT_AS := \<lparr>rlim_cur = l, rlim_max = l\<rparr>))"
    and other: "\<forall>q. q \<noteq> pid \<longrightarrow> registered st' q = registered st q"
    and this_pid: "registered st' pid = Some l \<or> registered st' pid = None"
    unfolding limiter_step_def by blast
  show ?thesis
    unfolding in_step_def
  proof (intro allI impI)
    fix q lim assume q: "registered st' q = Some lim"
    show "\<exists>u. ft q = Some u \<and>
        rlims (task_limits st') (rt_signal u) RLIMIT_AS = \<lparr>rlim_cur = lim, rlim_max = lim\<rparr>"
    proof (cases "q = pid")
      case True
      with q this_pid task lims show ?thesis by auto
    next
      case False
      with q other assms(3) obtain u where u: "ft q = Some u"
        "rlims (task_limits st) (rt_signal u) RLIMIT_AS = \<lparr>rlim_cur = lim, rlim_max = lim\<rparr>"
        unfolding in_step_def by metis
      moreover have "rt_signal u \<noteq> rt_signal task"
        using assms(2) u(1) task False unfolding distinct_processes_def by blast
      ultimately show ?thesis using lims by simp
    qed
  qed
qed (use assms(3) in simp)

interpretation mlim_sync: syscall_invariant exec_mlim
  "\<lambda>c. limiter_call ft c \<and> distinct_processes ft" "\<lambda>st. mlim_inv st \<and> in_step ft st"
proof unfold_locales
  fix c :: "mlim_env \<times> mlim_op" and st
  assume c: "limiter_call ft c \<and> distinct_processes ft" and st: "mlim_inv st \<and> in_step ft st"
  then have "mlim_inv (snd (exec_mlim c st))"
    by (intro mlim.exec_inv) (simp_all add: limiter_call_def)
  moreover have "limiter_step ft st (snd (exec_mlim c st))"
    using c st exec_mlim_step [of st ft "fst c" "snd c"] by (simp add: ends_def)
  ultimately show "mlim_inv (snd (exec_mlim c st)) \<and> in_step ft (snd (exec_mlim c st))"
    using c st limiter_step_in_step by blast
qed

section \<open>Properties\<close>

text \<open>An empty limiter, and an environment with an address counter for \<open>kmalloc\<close>.\<close>

definition mlim_env_of :: "mlim_env" where
  "mlim_env_of =
     \<lparr>cap_sys_admin = True, kmalloc = (\<lambda>h. find (\<lambda>a. h a = None) [1000, 1001]),
      task_total_vm = (\<lambda>t. Some 600), rlim_part = rlim_env_of True\<rparr>"

definition mlim_state0 :: mlim_state where
  "mlim_state0 = \<lparr>node_heap = Map.empty, memory_limitation_head = [], task_limits = rlim_state0\<rparr>"

lemma mlim_state0_inv: "mlim_inv mlim_state0" "in_step ft mlim_state0"
  by (simp_all add: mlim_inv_def mlim_state0_def list_entries_def in_step_def registered_def map_filter_def)

lemma mlim_env_of_fresh: "kmalloc_fresh mlim_env_of"
  by (auto simp: kmalloc_fresh_def mlim_env_of_def)

text \<open>
  C5: from a sound state every sequence of add, update and remove calls, failed ones
  included, leaves the list sound: each allocated node is linked exactly once (none leaked,
  none used after \<open>kfree\<close>), no pid occurs twice, pids are positive and limits non-zero.
\<close>

theorem limiter_list_sound:
  assumes "mlim_inv st" and "list_all (\<lambda>c. kmalloc_fresh (fst c)) cs"
  shows "mlim_inv (run_calls exec_mlim cs st)"
  using assms by (intro mlim.run_inv)

theorem limiter_list_sound_witness:
  "mlim_inv (run_calls exec_mlim [(mlim_env_of, Add_limit 1 4194304), (mlim_env_of, Add_limit 2 4194304),
     (mlim_env_of, Remove_limit 1), (mlim_env_of, Add_limit 2 1)] mlim_state0)"
  by (rule limiter_list_sound) (simp_all add: mlim_state0_inv mlim_env_of_fresh)

text \<open>
  C2: the linked list implements a finite map from pids to limits: each call maps the
  registered limits the way its specification does for the value it returned. A successful
  add or update binds the pid to the limit, a successful remove deletes it, and a call that
  returns an error changes no registration.
\<close>

theorem limiter_refines_map:
  assumes "mlim_inv st" and "kmalloc_fresh E"
  shows "registered (snd (exec_mlim (E, op) st)) =
     spec_mlim op (fst (exec_mlim (E, op) st)) (registered st)"
  using exec_mlim_simulates [OF assms, of op] by (simp add: ends_def)

theorem limiter_refines_map_witness:
  "registered (snd (exec_mlim (mlim_env_of, Add_limit 2 4194304) mlim_state0)) 2 = Some 4194304"
proof -
  have "fst (exec_mlim (mlim_env_of, Add_limit 2 4194304) mlim_state0) = 0"
    by (simp add: luis_add_memory_limit_def mlim_env_of_def mlim_state0_def rlim_env_of_def
      find_node_by_pid_def get_process_memory_usage_def set_process_memory_limit_def do_prlimit_def
      add_memory_limitation_node_def Let_def)
  with limiter_refines_map [OF mlim_state0_inv(1) mlim_env_of_fresh, of "Add_limit 2 4194304"]
  show ?thesis by simp
qed



text \<open>
  C10: a \<open>luis_get_memory_limits\<close> that returns 0 has stored the first \<open>max_entries\<close> entries of
  the list and their number, never more than \<open>max_entries\<close> of them; when the buffer is large
  enough for every registered process, the stored entries are exactly the registered limits.
\<close>

theorem get_memory_limits_correct:
  assumes "mlim_inv st" and "luis_get_memory_limits G max_entries st = (0, copied, stored)"
  shows "\<exists>es. copied = Some es \<and> stored = Some (length es) \<and> es = take (unat max_entries) (list_entries st) \<and>
     length es \<le> unat max_entries \<and>
     (card (dom (registered st)) \<le> unat max_entries \<longrightarrow> limits_of es = registered st)"
proof -
  from assms(2) have "copied = Some (take (unat max_entries) (list_entries st))"
    "stored = Some (length (take (unat max_entries) (list_entries st)))"
    by (auto simp: luis_get_memory_limits_def fill_buffer_from_start copy_to_user_def Let_def
      split: if_splits)
  then show ?thesis
    using reg.length_entries [OF assms(1)] by (auto simp: registered_def)
qed

theorem get_memory_limits_correct_witness:
  "\<exists>es. luis_get_memory_limits \<lparr>access_ok_buffer = (\<lambda>n. True), access_ok_size = (\<lambda>n. True),
       kmalloc_array = (\<lambda>n m. True), u_processes_buffer = Writable, processes_buffer_size = Writable\<rparr> 1
       (link_node 1 \<lparr>ml_pid = 7, ml_limit = 5\<rparr> mlim_state0) = (0, Some es, Some (length es)) \<and>
     limits_of es = [7 \<mapsto> 5]"
proof -
  let ?G = "\<lparr>access_ok_buffer = (\<lambda>n. True), access_ok_size = (\<lambda>n. True),
       kmalloc_array = (\<lambda>n m. True), u_processes_buffer = Writable, processes_buffer_size = Writable\<rparr>"
  let ?st = "link_node 1 \<lparr>ml_pid = 7, ml_limit = 5\<rparr> mlim_state0"
  have inv: "mlim_inv ?st"
    by (rule mlim_inv_link) (simp_all add: mlim_state0_inv(1), simp_all add: mlim_state0_def find_node_by_pid_def)
  have "fst (luis_get_memory_limits ?G 1 ?st) = 0"
    by (simp add: luis_get_memory_limits_def Let_def)
  then have call: "luis_get_memory_limits ?G 1 ?st =
      (0, fst (snd (luis_get_memory_limits ?G 1 ?st)), snd (snd (luis_get_memory_limits ?G 1 ?st)))"
    by (metis prod.collapse)
  have "registered ?st = [7 \<mapsto> 5]"
    by (simp add: registered_def list_entries_def link_node_def mlim_state0_def map_filter_def)
  with get_memory_limits_correct [OF inv call] call show ?thesis by auto
qed

text \<open>
  A successful \<open>luis_remove_memory_limit\<close> does not lift the limit: it leaves the process
  with a soft and hard address-space limit of 110 MiB, whatever its limits were before it was
  registered.
\<close>

theorem remove_leaves_110_MiB:
  assumes "luis_remove_memory_limit E pid st = (0, st')"
    and "find_task_by_vpid (rlim_part E) pid = Some task"
  shows "rlims (task_limits st') (rt_signal task) RLIMIT_AS = \<lparr>rlim_cur = 115343360, rlim_max = 115343360\<rparr>"
  using assms
  by (auto simp: luis_remove_memory_limit_def split: if_splits option.splits prod.splits
    dest: set_process_memory_limit_ok)

theorem remove_leaves_110_MiB_witness:
  "rlims (task_limits (run_calls exec_mlim [(mlim_env_of, Add_limit 2 4194304), (mlim_env_of, Remove_limit 2)] mlim_state0)) 2 RLIMIT_AS
     = \<lparr>rlim_cur = 115343360, rlim_max = 115343360\<rparr>"
proof -
  let ?st = "snd (luis_add_memory_limit mlim_env_of 2 4194304 mlim_state0)"
  have "fst (luis_remove_memory_limit mlim_env_of 2 ?st) = 0"
    by (simp add: luis_add_memory_limit_def luis_remove_memory_limit_def mlim_env_of_def mlim_state0_def rlim_env_of_def
      find_node_by_pid_def get_process_memory_usage_def set_process_memory_limit_def do_prlimit_def
      add_memory_limitation_node_def link_node_def Let_def)
  then have "luis_remove_memory_limit mlim_env_of 2 ?st = (0, snd (luis_remove_memory_limit mlim_env_of 2 ?st))"
    by (metis prod.collapse)
  from remove_leaves_110_MiB [OF this, of "rtask_of 2 0"] show ?thesis
    by (simp add: mlim_env_of_def rlim_env_of_def rtask_of_def)
qed

text \<open>
  When the node allocation fails, \<open>luis_add_memory_limit\<close> returns \<open>-ENOMEM\<close> and registers
  nothing, but the process keeps the new address-space limits: the call is not atomic.
\<close>

theorem add_without_memory_keeps_limit:
  assumes "luis_add_memory_limit E pid lim st = (- ENOMEM, st')"
    and "find_task_by_vpid (rlim_part E) pid = Some task"
    and "\<forall>t r n. security_task_setrlimit (rlim_part E) t r n = 0"
  shows "list_entries st' = list_entries st \<and>
     rlims (task_limits st') (rt_signal task) RLIMIT_AS = \<lparr>rlim_cur = lim, rlim_max = lim\<rparr>"
proof -
  have "ret \<noteq> - ENOMEM" if "set_process_memory_limit E task lim st = (ret, st1)" for ret st1
    using that assms(3) by (auto simp: set_process_memory_limit_def do_prlimit_def Let_def split: if_splits)
  with assms(1,2) obtain st1 where ok: "set_process_memory_limit E task lim st = (0, st1)" and st': "st' = st1"
    by (auto simp: luis_add_memory_limit_def add_memory_limitation_node_def
      split: if_splits option.splits prod.splits)
  from set_process_memory_limit_frame [OF ok] set_process_memory_limit_ok [OF ok] show ?thesis
    unfolding st' by auto
qed

theorem add_without_memory_keeps_limit_witness:
  "rlims (task_limits (snd (luis_add_memory_limit (mlim_env_of\<lparr>kmalloc := \<lambda>h. None\<rparr>) 2 4194304 mlim_state0))) 2 RLIMIT_AS
     = \<lparr>rlim_cur = 4194304, rlim_max = 4194304\<rparr>"
proof -
  let ?E = "mlim_env_of\<lparr>kmalloc := \<lambda>h. None\<rparr>"
  have "fst (luis_add_memory_limit ?E 2 4194304 mlim_state0) = - ENOMEM"
    by (simp add: luis_add_memory_limit_def mlim_env_of_def mlim_state0_def rlim_env_of_def
      find_node_by_pid_def get_process_memory_usage_def set_process_memory_limit_def do_prlimit_def
      add_memory_limitation_node_def Let_def)
  then have "luis_add_memory_limit ?E 2 4194304 mlim_state0 = (- ENOMEM, snd (luis_add_memory_limit ?E 2 4194304 mlim_state0))"
    by (metis prod.collapse)
  from add_without_memory_keeps_limit [OF this, of "rtask_of 2 0"] show ?thesis
    by (simp add: mlim_env_of_def rlim_env_of_def rtask_of_def)
qed

end
