(* ===== verification/Priorities.thy ===== *)
theory Priorities
  imports Kernel_Base
begin

text \<open>
  \<open>setpriority\<close> and \<open>getpriority\<close> of \<^verbatim>\<open>src/Kernel/kernel/sys.c\<close>. Tasks are
  addresses; the state is the nice value of every task. The iteration macros of the kernel
  (\<open>do_each_pid_thread\<close>, \<open>for_each_process_thread\<close>) become recursion over the list of
  tasks they visit.
\<close>

section \<open>State and environment\<close>

type_synonym nice_state = "nat \<Rightarrow> int"

abbreviation MIN_NICE :: int where "MIN_NICE \<equiv> - 20"
abbreviation MAX_NICE :: int where "MAX_NICE \<equiv> 19"
abbreviation PRIO_PROCESS :: int where "PRIO_PROCESS \<equiv> 0"
abbreviation PRIO_PGRP :: int where "PRIO_PGRP \<equiv> 1"
abbreviation PRIO_USER :: int where "PRIO_USER \<equiv> 2"

text \<open>
  From outside the file: the credentials of the caller and of each task, the capability and
  scheduler tests, the security hook, the scheduler's \<open>set_user_nice\<close> and
  \<open>nice_to_rlimit\<close>, the pid lookups, the threads of a process group and of the system in the
  order the macros visit them, and the user table.
\<close>

record prio_env =
  pr_current :: nat
  pr_uid :: u32
  pr_euid :: u32
  pr_task_uid :: "nat \<Rightarrow> u32"
  pr_task_euid :: "nat \<Rightarrow> u32"
  pr_cap_sys_nice :: "nat \<Rightarrow> bool"
  can_nice :: "nat \<Rightarrow> int \<Rightarrow> bool"
  security_task_setnice :: "nat \<Rightarrow> int \<Rightarrow> int"
  set_user_nice :: "nat \<Rightarrow> int \<Rightarrow> nice_state \<Rightarrow> nice_state"
  nice_to_rlimit :: "int \<Rightarrow> int"
  pr_find_task_by_vpid :: "int \<Rightarrow> nat option"
  pr_find_vpid :: "int \<Rightarrow> nat option"
  pr_task_pgrp :: "nat \<Rightarrow> nat option"
  pgrp_threads :: "nat \<Rightarrow> nat list"
  process_threads :: "nat list"
  pr_task_pid_vnr :: "nat \<Rightarrow> int"
  pr_make_kuid :: "u32 \<Rightarrow> u32"
  pr_find_user :: "u32 \<Rightarrow> bool"

section \<open>Operations\<close>

definition set_one_prio_perm :: "prio_env \<Rightarrow> nat \<Rightarrow> bool" where
  "set_one_prio_perm E p =
     (if pr_task_uid E p = pr_euid E \<or> pr_task_euid E p = pr_euid E then True
      else if pr_cap_sys_nice E p then True
      else False)"

definition set_one_prio :: "prio_env \<Rightarrow> nat \<Rightarrow> int \<Rightarrow> int \<Rightarrow> nice_state \<Rightarrow> int \<times> nice_state" where
  "set_one_prio E p niceval error st =
     (if \<not> set_one_prio_perm E p then (- EPERM, st)
      else if niceval < st p \<and> \<not> can_nice E p niceval then (- EACCES, st)
      else let no_nice = security_task_setnice E p niceval
      in if no_nice \<noteq> 0 then (no_nice, st)
      else (if error = - ESRCH then 0 else error, set_user_nice E p niceval st))"

text \<open>The body of the iterations of \<open>setpriority\<close>: the error of one task is passed on to the next.\<close>

primrec set_each_prio :: "prio_env \<Rightarrow> int \<Rightarrow> nat list \<Rightarrow> int \<Rightarrow> nice_state \<Rightarrow> int \<times> nice_state" where
  "set_each_prio E niceval [] error st = (error, st)"
| "set_each_prio E niceval (p # ps) error st =
     (case set_one_prio E p niceval error st of (error', st') \<Rightarrow> set_each_prio E niceval ps error' st')"

definition pgrp_of :: "prio_env \<Rightarrow> int \<Rightarrow> nat option" where
  "pgrp_of E who = (if who \<noteq> 0 then pr_find_vpid E who else pr_task_pgrp E (pr_current E))"

definition user_threads :: "prio_env \<Rightarrow> u32 \<Rightarrow> nat list" where
  "user_threads E uid = filter (\<lambda>p. pr_task_uid E p = uid \<and> pr_task_pid_vnr E p \<noteq> 0) (process_threads E)"

definition sys_setpriority :: "prio_env \<Rightarrow> int \<Rightarrow> int \<Rightarrow> int \<Rightarrow> nice_state \<Rightarrow> int \<times> nice_state" where
  "sys_setpriority E which who niceval st =
     (if which > PRIO_USER \<or> which < PRIO_PROCESS then (- EINVAL, st)
      else let error = - ESRCH;
               niceval = (if niceval < MIN_NICE then MIN_NICE else niceval);
               niceval = (if niceval > MAX_NICE then MAX_NICE else niceval)
      in if which = PRIO_PROCESS then
           (case (if who \<noteq> 0 then pr_find_task_by_vpid E who else Some (pr_current E)) of
              None \<Rightarrow> (error, st)
            | Some p \<Rightarrow> set_one_prio E p niceval error st)
         else if which = PRIO_PGRP then
           (case pgrp_of E who of
              None \<Rightarrow> (error, st)
            | Some pgrp \<Rightarrow> set_each_prio E niceval (pgrp_threads E pgrp) error st)
         else let uid = (if who = 0 then pr_uid E else pr_make_kuid E (word_of_int who))
           in if who \<noteq> 0 \<and> uid \<noteq> pr_uid E \<and> \<not> pr_find_user E uid then (error, st)
              else set_each_prio E niceval (user_threads E uid) error st)"

primrec max_prio :: "prio_env \<Rightarrow> nat list \<Rightarrow> int \<Rightarrow> nice_state \<Rightarrow> int" where
  "max_prio E [] retval st = retval"
| "max_prio E (p # ps) retval st =
     (let niceval = nice_to_rlimit E (st p)
      in max_prio E ps (if niceval > retval then niceval else retval) st)"

definition sys_getpriority :: "prio_env \<Rightarrow> int \<Rightarrow> int \<Rightarrow> nice_state \<Rightarrow> int" where
  "sys_getpriority E which who st =
     (if which > PRIO_USER \<or> which < PRIO_PROCESS then - EINVAL
      else let retval = - ESRCH
      in if which = PRIO_PROCESS then
           (case (if who \<noteq> 0 then pr_find_task_by_vpid E who else Some (pr_current E)) of
              None \<Rightarrow> retval
            | Some p \<Rightarrow> max_prio E [p] retval st)
         else if which = PRIO_PGRP then
           (case pgrp_of E who of
              None \<Rightarrow> retval
            | Some pgrp \<Rightarrow> max_prio E (pgrp_threads E pgrp) retval st)
         else let uid = (if who = 0 then pr_uid E else pr_make_kuid E (word_of_int who))
           in if who \<noteq> 0 \<and> uid \<noteq> pr_uid E \<and> \<not> pr_find_user E uid then retval
              else max_prio E (user_threads E uid) retval st)"

fun exec_prio :: "prio_env \<times> int \<times> int \<times> int \<Rightarrow> nice_state \<Rightarrow> int \<times> nice_state" where
  "exec_prio (E, which, who, niceval) st = sys_setpriority E which who niceval st"

section \<open>The tasks a call is about\<close>

definition prio_targets :: "prio_env \<Rightarrow> int \<Rightarrow> int \<Rightarrow> nat list" where
  "prio_targets E which who =
     (if which = PRIO_PROCESS then
        (case (if who \<noteq> 0 then pr_find_task_by_vpid E who else Some (pr_current E)) of None \<Rightarrow> [] | Some p \<Rightarrow> [p])
      else if which = PRIO_PGRP then (case pgrp_of E who of None \<Rightarrow> [] | Some g \<Rightarrow> pgrp_threads E g)
      else let uid = (if who = 0 then pr_uid E else pr_make_kuid E (word_of_int who))
        in if who \<noteq> 0 \<and> uid \<noteq> pr_uid E \<and> \<not> pr_find_user E uid then [] else user_threads E uid)"

abbreviation valid_which :: "int \<Rightarrow> bool" where "valid_which which \<equiv> which \<in> {PRIO_PROCESS .. PRIO_USER}"

definition clamp_nice :: "int \<Rightarrow> int" where
  "clamp_nice n = max MIN_NICE (min MAX_NICE n)"

lemma clamp_nice_range: "MIN_NICE \<le> clamp_nice n" "clamp_nice n \<le> MAX_NICE"
  by (simp_all add: clamp_nice_def)

text \<open>Both calls are an iteration over the same tasks.\<close>

lemma setpriority_targets:
  "sys_setpriority E which who n st =
     (if valid_which which then set_each_prio E (clamp_nice n) (prio_targets E which who) (- ESRCH) st
      else (- EINVAL, st))"
proof -
  have "(if (if n < MIN_NICE then MIN_NICE else n) > MAX_NICE then MAX_NICE else if n < MIN_NICE then MIN_NICE else n) = clamp_nice n"
    by (simp add: clamp_nice_def)
  then show ?thesis
    unfolding sys_setpriority_def prio_targets_def Let_def
    by (simp only: not_less split: option.split) auto
qed

lemma getpriority_targets:
  "sys_getpriority E which who st =
     (if valid_which which then max_prio E (prio_targets E which who) (- ESRCH) st else - EINVAL)"
  by (simp add: sys_getpriority_def prio_targets_def Let_def split: option.split)

section \<open>What the iterations compute\<close>

text \<open>
  The documented behaviour of the two scheduler functions: \<open>set_user_nice\<close> stores a value in
  the nice range and touches no other task, \<open>nice_to_rlimit\<close> maps \<open>[19,-20]\<close> to \<open>[1,40]\<close>.
\<close>

definition nice_stores :: "prio_env \<Rightarrow> bool" where
  "nice_stores E \<longleftrightarrow> (\<forall>p n st. MIN_NICE \<le> n \<longrightarrow> n \<le> MAX_NICE \<longrightarrow> set_user_nice E p n st = st(p := n))"

definition prio_allowed :: "prio_env \<Rightarrow> int \<Rightarrow> nice_state \<Rightarrow> nat \<Rightarrow> bool" where
  "prio_allowed E n st p \<longleftrightarrow> set_one_prio_perm E p \<and> (n < st p \<longrightarrow> can_nice E p n) \<and> security_task_setnice E p n = 0"

lemma set_one_prio_allowed:
  assumes "nice_stores E" "MIN_NICE \<le> n" "n \<le> MAX_NICE"
  shows "prio_allowed E n st p \<Longrightarrow> set_one_prio E p n e st = (if e = - ESRCH then 0 else e, st(p := n))"
    and "\<not> prio_allowed E n st p \<Longrightarrow> snd (set_one_prio E p n e st) = st"
    and "\<lbrakk>\<not> prio_allowed E n st p; security_task_setnice E p n \<noteq> - ESRCH\<rbrakk> \<Longrightarrow>
      fst (set_one_prio E p n e st) \<notin> {0, - ESRCH}"
  using assms by (auto simp: set_one_prio_def prio_allowed_def nice_stores_def Let_def)

lemma set_each_prio_state:
  assumes "nice_stores E" "MIN_NICE \<le> n" "n \<le> MAX_NICE"
  shows "snd (set_each_prio E n ps e st) = (\<lambda>p. if p \<in> set ps \<and> prio_allowed E n st p then n else st p)"
proof (induction ps arbitrary: e st)
  case (Cons p ps)
  obtain e' st' where one: "set_one_prio E p n e st = (e', st')" by fastforce
  then have "st' = (if prio_allowed E n st p then st(p := n) else st)"
    using set_one_prio_allowed [OF assms, of st p e] by (auto split: if_splits)
  with one Cons show ?case by (auto simp: fun_eq_iff prio_allowed_def)
qed simp

lemma set_each_prio_result:
  assumes "nice_stores E" "MIN_NICE \<le> n" "n \<le> MAX_NICE" "\<And>p. security_task_setnice E p n \<noteq> - ESRCH"
  shows "(fst (set_each_prio E n ps e st) = 0 \<longleftrightarrow>
      (e = 0 \<or> e = - ESRCH \<and> ps \<noteq> []) \<and> (\<forall>p\<in>set ps. prio_allowed E n st p)) \<and>
    (fst (set_each_prio E n ps e st) = - ESRCH \<longleftrightarrow> e = - ESRCH \<and> ps = [])"
proof (induction ps arbitrary: e st)
  case (Cons p ps)
  show ?case
  proof (cases "prio_allowed E n st p")
    case True
    then have same: "prio_allowed E n (st(p := n)) q \<longleftrightarrow> prio_allowed E n st q" for q
      by (auto simp: prio_allowed_def)
    have "set_each_prio E n (p # ps) e st = set_each_prio E n ps (if e = - ESRCH then 0 else e) (st(p := n))"
      by (simp add: set_one_prio_allowed(1) [OF assms(1-3) True])
    then show ?thesis
      using Cons.IH [of "if e = - ESRCH then 0 else e" "st(p := n)"] True by (simp only: same) simp
  next
    case False
    obtain e' st' where one: "set_one_prio E p n e st = (e', st')" by fastforce
    with set_one_prio_allowed(3) [OF assms(1-3) False assms(4), of e] Cons.IH [of e' st'] False show ?thesis
      by auto
  qed
qed auto

lemma max_prio_fold: "max_prio E ps r st = fold max (map (\<lambda>p. nice_to_rlimit E (st p)) ps) r"
  by (induction ps arbitrary: r) (auto simp: Let_def max_def)

lemma max_prio_Max: "max_prio E ps r st = Max (insert r ((\<lambda>p. nice_to_rlimit E (st p)) ` set ps))"
  using Max.set_eq_fold [of r "map (\<lambda>p. nice_to_rlimit E (st p)) ps"] by (simp add: max_prio_fold)

section \<open>Invariants over runs\<close>

definition nice_in_range :: "nice_state \<Rightarrow> bool" where
  "nice_in_range st \<longleftrightarrow> (\<forall>p. MIN_NICE \<le> st p \<and> st p \<le> MAX_NICE)"

interpretation nice_range: syscall_invariant exec_prio "\<lambda>c. nice_stores (fst c)" nice_in_range
proof unfold_locales
  fix c :: "prio_env \<times> int \<times> int \<times> int" and st assume "nice_stores (fst c)" "nice_in_range st"
  then show "nice_in_range (snd (exec_prio c st))"
    by (cases "(c, st)" rule: exec_prio.cases)
      (auto simp: setpriority_targets set_each_prio_state clamp_nice_range nice_in_range_def)
qed

text \<open>
  A caller with effective uid \<open>u\<close>, without \<open>CAP_SYS_NICE\<close> over any task and without the right
  to lower a nice value.
\<close>

definition plain_prio_call :: "(nat \<Rightarrow> bool) \<Rightarrow> prio_env \<times> int \<times> int \<times> int \<Rightarrow> bool" where
  "plain_prio_call mine c \<longleftrightarrow> nice_stores (fst c) \<and> (\<forall>p. \<not> pr_cap_sys_nice (fst c) p) \<and>
     (\<forall>p n. \<not> can_nice (fst c) p n) \<and>
     (\<forall>p. pr_task_uid (fst c) p = pr_euid (fst c) \<or> pr_task_euid (fst c) p = pr_euid (fst c) \<longrightarrow> mine p)"

definition only_nicer :: "(nat \<Rightarrow> bool) \<Rightarrow> nice_state \<Rightarrow> nice_state \<Rightarrow> bool" where
  "only_nicer mine st st' \<longleftrightarrow> (\<forall>p. st p \<le> st' p \<and> (\<not> mine p \<longrightarrow> st' p = st p))"

interpretation nicer: syscall_order exec_prio "plain_prio_call mine" "only_nicer mine" for mine
proof unfold_locales
  fix c :: "prio_env \<times> int \<times> int \<times> int" and st assume "plain_prio_call mine c"
  then show "only_nicer mine st (snd (exec_prio c st))"
    by (cases "(c, st)" rule: exec_prio.cases)
      (auto simp: setpriority_targets set_each_prio_state clamp_nice_range plain_prio_call_def only_nicer_def
        prio_allowed_def set_one_prio_perm_def not_less)
qed (auto simp: only_nicer_def intro: order_trans)

section \<open>Properties\<close>

definition prio_env_of :: prio_env where
  "prio_env_of = \<lparr>pr_current = 1, pr_uid = 1000, pr_euid = 1000,
     pr_task_uid = (\<lambda>p. if p < 3 then 1000 else 0), pr_task_euid = (\<lambda>p. if p < 3 then 1000 else 0),
     pr_cap_sys_nice = (\<lambda>p. False), can_nice = (\<lambda>p n. False), security_task_setnice = (\<lambda>p n. 0),
     set_user_nice = (\<lambda>p n st. st(p := n)), nice_to_rlimit = (\<lambda>n. 20 - n),
     pr_find_task_by_vpid = (\<lambda>p. if p = 3 then Some 3 else None), pr_find_vpid = (\<lambda>p. None),
     pr_task_pgrp = (\<lambda>p. Some 1), pgrp_threads = (\<lambda>g. [1, 2]), process_threads = [1, 2, 3],
     pr_task_pid_vnr = int, pr_make_kuid = id, pr_find_user = (\<lambda>u. True)\<rparr>"

lemma prio_env_of_stores: "nice_stores prio_env_of"
  by (simp add: nice_stores_def prio_env_of_def)

text \<open>
  \<open>setpriority\<close> with a valid selector gives exactly the selected tasks that the caller may
  change the clamped nice value and leaves every other task alone; it returns 0 exactly when
  there are selected tasks and all of them could be changed, and \<open>-ESRCH\<close> exactly when none
  is selected.
\<close>

theorem setpriority_correct:
  assumes "nice_stores E" and "\<forall>p n. security_task_setnice E p n \<noteq> - ESRCH"
    and "valid_which which" and "sys_setpriority E which who n st = (ret, st')"
  shows "st' = (\<lambda>p. if p \<in> set (prio_targets E which who) \<and> prio_allowed E (clamp_nice n) st p
       then clamp_nice n else st p) \<and>
     (ret = 0 \<longleftrightarrow> prio_targets E which who \<noteq> [] \<and>
       (\<forall>p\<in>set (prio_targets E which who). prio_allowed E (clamp_nice n) st p)) \<and>
     (ret = - ESRCH \<longleftrightarrow> prio_targets E which who = [])"
  using assms(3,4) set_each_prio_state [OF assms(1) clamp_nice_range [of n], of "prio_targets E which who" "- ESRCH" st]
    set_each_prio_result [OF assms(1) clamp_nice_range [of n] assms(2) [rule_format], of "prio_targets E which who" "- ESRCH" st]
  by (simp add: setpriority_targets)

theorem setpriority_correct_witness:
  "snd (sys_setpriority prio_env_of PRIO_PGRP 0 100 (\<lambda>p. 5)) 2 = 19 \<and>
   snd (sys_setpriority prio_env_of PRIO_PGRP 0 100 (\<lambda>p. 5)) 3 = 5"
proof -
  have "\<forall>p n. security_task_setnice prio_env_of p n \<noteq> - ESRCH" by (simp add: prio_env_of_def)
  note c = setpriority_correct [OF prio_env_of_stores this _ prod.collapse [symmetric], of PRIO_PGRP 0 100 "\<lambda>p. 5"]
  have "prio_targets prio_env_of PRIO_PGRP 0 = [1, 2]" "clamp_nice 100 = 19"
    by (simp_all add: prio_targets_def pgrp_of_def prio_env_of_def clamp_nice_def)
  moreover have "prio_allowed prio_env_of 19 (\<lambda>p. 5) 2"
    by (simp add: prio_allowed_def set_one_prio_perm_def prio_env_of_def)
  ultimately show ?thesis using c by simp
qed

text \<open>
  What a successful \<open>setpriority\<close> set is what \<open>getpriority\<close> reports for the same selector,
  as \<open>20\<close> minus the clamped value, a number from 1 to 40.
\<close>

theorem setpriority_getpriority:
  assumes "nice_stores E" and "\<forall>n. nice_to_rlimit E n = 20 - n" and "\<forall>p n. security_task_setnice E p n \<noteq> - ESRCH"
    and "sys_setpriority E which who n st = (0, st')"
  shows "sys_getpriority E which who st' = 20 - clamp_nice n \<and> sys_getpriority E which who st' \<in> {1..40}"
proof -
  let ?ts = "prio_targets E which who"
  have v: "valid_which which"
    using assms(4) by (auto simp: setpriority_targets split: if_splits)
  with assms(4) have "st' = snd (set_each_prio E (clamp_nice n) ?ts (- ESRCH) st)"
    "fst (set_each_prio E (clamp_nice n) ?ts (- ESRCH) st) = 0"
    by (simp_all add: setpriority_targets)
  with set_each_prio_state [OF assms(1) clamp_nice_range [of n], of ?ts "- ESRCH" st]
    set_each_prio_result [OF assms(1) clamp_nice_range [of n] assms(3) [rule_format], of ?ts "- ESRCH" st]
  have "\<forall>p\<in>set ?ts. st' p = clamp_nice n" "?ts \<noteq> []"
    by auto
  then have "(\<lambda>p. nice_to_rlimit E (st' p)) ` set ?ts = {20 - clamp_nice n}"
    using assms(2) by (auto simp: image_iff neq_Nil_conv)
  with v clamp_nice_range [of n] show ?thesis
    by (simp add: getpriority_targets max_prio_Max)
qed

theorem setpriority_getpriority_witness:
  "sys_getpriority prio_env_of PRIO_USER 0 (snd (sys_setpriority prio_env_of PRIO_USER 0 12 (\<lambda>p. 5))) = 8"
proof -
  have "fst (sys_setpriority prio_env_of PRIO_USER 0 12 (\<lambda>p. 5)) = 0"
    by (simp add: sys_setpriority_def user_threads_def set_one_prio_def set_one_prio_perm_def prio_env_of_def)
  then have "sys_setpriority prio_env_of PRIO_USER 0 12 (\<lambda>p. 5) =
      (0, snd (sys_setpriority prio_env_of PRIO_USER 0 12 (\<lambda>p. 5)))"
    by (metis prod.collapse)
  from setpriority_getpriority [OF prio_env_of_stores _ _ this] show ?thesis
    by (simp add: prio_env_of_def clamp_nice_def)
qed

text \<open>
  A caller without \<open>CAP_SYS_NICE\<close> and without the right to lower nice values only ever
  raises nice values, and only of its own tasks, whatever sequence of calls it makes; all
  values stay in the nice range.
\<close>

theorem unprivileged_only_nicer:
  assumes "list_all (plain_prio_call mine) cs" and "nice_in_range st"
  shows "only_nicer mine st (run_calls exec_prio cs st) \<and> nice_in_range (run_calls exec_prio cs st)"
proof -
  have "list_all (\<lambda>c. nice_stores (fst c)) cs"
    using assms(1) by (auto simp: list_all_iff plain_prio_call_def)
  with assms show ?thesis by (blast intro: nicer.run_R nice_range.run_inv)
qed

theorem unprivileged_only_nicer_witness:
  "only_nicer (\<lambda>p. p < 3) (\<lambda>p. 0) (run_calls exec_prio [(prio_env_of, PRIO_USER, 0, - 5), (prio_env_of, PRIO_PROCESS, 3, 5)] (\<lambda>p. 0))"
proof -
  have "plain_prio_call (\<lambda>p. p < 3) (prio_env_of, c)" for c
    using prio_env_of_stores by (simp add: plain_prio_call_def) (simp add: prio_env_of_def)
  then show ?thesis
    using unprivileged_only_nicer
      [of "\<lambda>p. p < 3" "[(prio_env_of, PRIO_USER, 0, - 5), (prio_env_of, PRIO_PROCESS, 3, 5)]" "\<lambda>p. 0"]
    by (simp add: nice_in_range_def)
qed

end
