(* ===== verification/Process_Groups.thy ===== *)
theory Process_Groups
  imports Kernel_Base
begin

text \<open>
  Process groups and sessions in \<^verbatim>\<open>src/Kernel/kernel/sys.c\<close>: \<open>setpgid\<close>,
  \<open>getpgid\<close>, \<open>getpgrp\<close>, \<open>getsid\<close>, \<open>setsid\<close> and the identity calls \<open>getpid\<close>, \<open>gettid\<close>,
  \<open>getppid\<close>. Tasks and \<open>struct pid\<close> objects are addresses. \<open>signal->pids[PIDTYPE_PGID]\<close>,
  \<open>signal->pids[PIDTYPE_SID]\<close> and \<open>signal->leader\<close> belong to the thread group, so the state
  indexes them by the group leader; None is the NULL of a task that has been detached.
\<close>

section \<open>State and environment\<close>

record pg_state =
  sig_pgrp :: "nat \<rightharpoonup> nat"
  sig_session :: "nat \<rightharpoonup> nat"
  sig_leader :: "nat \<Rightarrow> bool"
  sig_tty :: "nat \<rightharpoonup> nat"
  sid_notified :: "nat list"

text \<open>
  From outside the file: the task table (group leader, parent, pid of each task), the pid
  lookups \<open>find_task_by_vpid\<close>, \<open>find_vpid\<close>, \<open>pid_vnr\<close> and \<open>pid_task\<close>, \<open>change_pid\<close>, the
  security hooks and \<open>proc_clear_tty\<close>. The connector and autogroup notifications of \<open>setsid\<close>
  are recorded in \<open>sid_notified\<close>.
\<close>

record pg_env =
  pg_current :: nat
  pg_group_leader :: "nat \<Rightarrow> nat"
  pg_real_parent :: "nat \<Rightarrow> nat"
  pg_task_pid :: "nat \<Rightarrow> nat"
  pg_forknoexec :: "nat \<Rightarrow> bool"
  thread_group_leader :: "nat \<Rightarrow> bool"
  pg_find_task_by_vpid :: "int \<Rightarrow> nat option"
  pg_find_vpid :: "int \<Rightarrow> nat option"
  pid_vnr :: "nat option \<Rightarrow> int"
  pid_task_pgid :: "nat \<Rightarrow> (nat \<rightharpoonup> nat) \<Rightarrow> nat option"
  change_pid :: "nat \<Rightarrow> nat \<Rightarrow> (nat \<rightharpoonup> nat) \<Rightarrow> (nat \<rightharpoonup> nat)"
  security_task_setpgid :: "nat \<Rightarrow> int \<Rightarrow> int"
  security_task_getpgid :: "nat \<Rightarrow> int"
  security_task_getsid :: "nat \<Rightarrow> int"
  proc_clear_tty :: "nat \<Rightarrow> (nat \<rightharpoonup> nat) \<Rightarrow> (nat \<rightharpoonup> nat)"

definition task_pgrp :: "pg_env \<Rightarrow> pg_state \<Rightarrow> nat \<Rightarrow> nat option" where
  "task_pgrp E st p = sig_pgrp st (pg_group_leader E p)"

definition task_session :: "pg_env \<Rightarrow> pg_state \<Rightarrow> nat \<Rightarrow> nat option" where
  "task_session E st p = sig_session st (pg_group_leader E p)"

definition same_thread_group :: "pg_env \<Rightarrow> nat \<Rightarrow> nat \<Rightarrow> bool" where
  "same_thread_group E p q \<longleftrightarrow> pg_group_leader E p = pg_group_leader E q"

section \<open>Operations\<close>

definition sys_getpid :: "pg_env \<Rightarrow> int" where
  "sys_getpid E = pid_vnr E (Some (pg_task_pid E (pg_group_leader E (pg_current E))))"

definition sys_gettid :: "pg_env \<Rightarrow> int" where
  "sys_gettid E = pid_vnr E (Some (pg_task_pid E (pg_current E)))"

definition sys_getppid :: "pg_env \<Rightarrow> int" where
  "sys_getppid E =
     pid_vnr E (Some (pg_task_pid E (pg_group_leader E (pg_real_parent E (pg_current E)))))"

text \<open>The group \<open>setpgid\<close> moves \<open>p\<close> to: its own pid, or an existing group of the caller's session.\<close>

definition setpgid_target :: "pg_env \<Rightarrow> nat \<Rightarrow> int \<Rightarrow> int \<Rightarrow> pg_state \<Rightarrow> nat option" where
  "setpgid_target E p pid pgid st =
     (if pgid \<noteq> pid
      then case pg_find_vpid E pgid of None \<Rightarrow> None | Some pgrp \<Rightarrow>
           case pid_task_pgid E pgrp (sig_pgrp st) of None \<Rightarrow> None | Some g \<Rightarrow>
           if task_session E st g \<noteq> task_session E st (pg_group_leader E (pg_current E)) then None else Some pgrp
      else Some (pg_task_pid E p))"

definition sys_setpgid :: "pg_env \<Rightarrow> int \<Rightarrow> int \<Rightarrow> pg_state \<Rightarrow> int \<times> pg_state" where
  "sys_setpgid E pid pgid st =
     (let group_leader = pg_group_leader E (pg_current E);
          pid = (if pid = 0 then pid_vnr E (Some (pg_task_pid E group_leader)) else pid);
          pgid = (if pgid = 0 then pid else pgid)
      in if pgid < 0 then (- EINVAL, st)
      else case pg_find_task_by_vpid E pid of None \<Rightarrow> (- ESRCH, st) | Some p \<Rightarrow>
      if \<not> thread_group_leader E p then (- EINVAL, st)
      else if same_thread_group E (pg_real_parent E p) group_leader \<and>
              task_session E st p \<noteq> task_session E st group_leader then (- EPERM, st)
      else if same_thread_group E (pg_real_parent E p) group_leader \<and> \<not> pg_forknoexec E p then (- EACCES, st)
      else if \<not> same_thread_group E (pg_real_parent E p) group_leader \<and> p \<noteq> group_leader then (- ESRCH, st)
      else if sig_leader st (pg_group_leader E p) then (- EPERM, st)
      else case setpgid_target E p pid pgid st of None \<Rightarrow> (- EPERM, st) | Some pgrp \<Rightarrow>
      let err = security_task_setpgid E p pgid
      in if err \<noteq> 0 then (err, st)
      else (0, if task_pgrp E st p \<noteq> Some pgrp
               then st\<lparr>sig_pgrp := change_pid E (pg_group_leader E p) pgrp (sig_pgrp st)\<rparr> else st))"

definition do_getpgid :: "pg_env \<Rightarrow> int \<Rightarrow> pg_state \<Rightarrow> int" where
  "do_getpgid E pid st =
     (if pid = 0 then pid_vnr E (task_pgrp E st (pg_current E))
      else case pg_find_task_by_vpid E pid of None \<Rightarrow> - ESRCH | Some p \<Rightarrow>
      case task_pgrp E st p of None \<Rightarrow> - ESRCH | Some grp \<Rightarrow>
      let retval = security_task_getpgid E p
      in if retval \<noteq> 0 then retval else pid_vnr E (Some grp))"

definition sys_getpgid :: "pg_env \<Rightarrow> int \<Rightarrow> pg_state \<Rightarrow> int" where
  "sys_getpgid E pid st = do_getpgid E pid st"

definition sys_getpgrp :: "pg_env \<Rightarrow> pg_state \<Rightarrow> int" where
  "sys_getpgrp E st = do_getpgid E 0 st"

definition sys_getsid :: "pg_env \<Rightarrow> int \<Rightarrow> pg_state \<Rightarrow> int" where
  "sys_getsid E pid st =
     (if pid = 0 then pid_vnr E (task_session E st (pg_current E))
      else case pg_find_task_by_vpid E pid of None \<Rightarrow> - ESRCH | Some p \<Rightarrow>
      case task_session E st p of None \<Rightarrow> - ESRCH | Some sid \<Rightarrow>
      let retval = security_task_getsid E p
      in if retval \<noteq> 0 then retval else pid_vnr E (Some sid))"

definition set_special_pids :: "pg_env \<Rightarrow> nat \<Rightarrow> pg_state \<Rightarrow> pg_state" where
  "set_special_pids E pid st =
     (let curr = pg_group_leader E (pg_current E);
          st = (if task_session E st curr \<noteq> Some pid
                then st\<lparr>sig_session := change_pid E (pg_group_leader E curr) pid (sig_session st)\<rparr> else st)
      in if task_pgrp E st curr \<noteq> Some pid
         then st\<lparr>sig_pgrp := change_pid E (pg_group_leader E curr) pid (sig_pgrp st)\<rparr> else st)"

definition ksys_setsid :: "pg_env \<Rightarrow> pg_state \<Rightarrow> int \<times> pg_state" where
  "ksys_setsid E st =
     (let group_leader = pg_group_leader E (pg_current E);
          sid = pg_task_pid E group_leader;
          session = pid_vnr E (Some sid)
      in if sig_leader st (pg_group_leader E group_leader) then (- EPERM, st)
      else if pid_task_pgid E sid (sig_pgrp st) \<noteq> None then (- EPERM, st)
      else let st = st\<lparr>sig_leader := (sig_leader st)(pg_group_leader E group_leader := True)\<rparr>;
               st = set_special_pids E sid st;
               st = st\<lparr>sig_tty := proc_clear_tty E (pg_group_leader E group_leader) (sig_tty st)\<rparr>
      in (session, if session > 0 then st\<lparr>sid_notified := group_leader # sid_notified st\<rparr> else st))"

datatype pg_op = Setpgid int int | Setsid

fun exec_pg :: "pg_env \<times> pg_op \<Rightarrow> pg_state \<Rightarrow> int \<times> pg_state" where
  "exec_pg (E, Setpgid pid pgid) st = sys_setpgid E pid pgid st"
| "exec_pg (E, Setsid) st = ksys_setsid E st"

section \<open>What the pid layer promises\<close>

text \<open>
  Distinct tasks have distinct pids, a group leader leads its own group, \<open>change_pid\<close> moves
  one task, and \<open>pid_task\<close> with \<open>PIDTYPE_PGID\<close> finds a member of the group when it has one.
\<close>

definition pid_laws :: "pg_env \<Rightarrow> bool" where
  "pid_laws E \<longleftrightarrow> inj (pg_task_pid E) \<and>
     (\<forall>p. pg_group_leader E (pg_group_leader E p) = pg_group_leader E p) \<and>
     (\<forall>p. thread_group_leader E p \<longrightarrow> pg_group_leader E p = p) \<and>
     (\<forall>p pid f. change_pid E p pid f = f(p \<mapsto> pid)) \<and>
     (\<forall>g f. case pid_task_pgid E g f of
        None \<Rightarrow> (\<forall>q. f q \<noteq> Some g) | Some q \<Rightarrow> f q = Some g \<and> pg_group_leader E q = q)"

lemma pid_lawsD:
  assumes "pid_laws E"
  shows "pg_task_pid E p = pg_task_pid E q \<longleftrightarrow> p = q"
    and "pg_group_leader E (pg_group_leader E p) = pg_group_leader E p"
    and "thread_group_leader E p \<Longrightarrow> pg_group_leader E p = p"
    and "change_pid E p pid f = f(p \<mapsto> pid)"
    and "pid_task_pgid E g f = None \<Longrightarrow> f r \<noteq> Some g"
    and "pid_task_pgid E g f = Some r \<Longrightarrow> f r = Some g \<and> pg_group_leader E r = r"
proof -
  from assms show "pg_task_pid E p = pg_task_pid E q \<longleftrightarrow> p = q"
    "pg_group_leader E (pg_group_leader E p) = pg_group_leader E p"
    "thread_group_leader E p \<Longrightarrow> pg_group_leader E p = p"
    "change_pid E p pid f = f(p \<mapsto> pid)"
    by (auto simp: pid_laws_def dest: injD)
  from assms have "case pid_task_pgid E g f of
        None \<Rightarrow> (\<forall>q. f q \<noteq> Some g) | Some q \<Rightarrow> f q = Some g \<and> pg_group_leader E q = q"
    by (simp add: pid_laws_def)
  then show "pid_task_pgid E g f = None \<Longrightarrow> f r \<noteq> Some g"
    and "pid_task_pgid E g f = Some r \<Longrightarrow> f r = Some g \<and> pg_group_leader E r = r"
    by simp_all
qed

text \<open>
  The effect of \<open>setsid\<close> and of \<open>setpgid\<close>: nothing, or one process leads a new session, or
  one process moves to a group of its own session.
\<close>

definition new_session :: "pg_env \<Rightarrow> pg_state \<Rightarrow> pg_state \<Rightarrow> bool" where
  "new_session E st st' \<longleftrightarrow> (let l = pg_group_leader E (pg_current E); sid = pg_task_pid E l in
     \<not> sig_leader st l \<and> (\<forall>q. sig_pgrp st q \<noteq> Some sid) \<and>
     sig_leader st' = (sig_leader st)(l := True) \<and>
     sig_session st' = (sig_session st)(l \<mapsto> sid) \<and> sig_pgrp st' = (sig_pgrp st)(l \<mapsto> sid))"

definition group_move :: "pg_env \<Rightarrow> nat \<Rightarrow> nat \<Rightarrow> pg_state \<Rightarrow> pg_state \<Rightarrow> bool" where
  "group_move E p pgrp st st' \<longleftrightarrow> \<not> sig_leader st p \<and>
     (pgrp = pg_task_pid E p \<or> (\<exists>g. sig_pgrp st g = Some pgrp \<and> sig_session st g = sig_session st p)) \<and>
     st' = st\<lparr>sig_pgrp := (sig_pgrp st)(p \<mapsto> pgrp)\<rparr>"

lemma pg_update_triv: "sig_pgrp st p = Some g \<Longrightarrow> st\<lparr>sig_pgrp := (sig_pgrp st)(p \<mapsto> g)\<rparr> = st"
  by (simp add: fun_upd_idem)

lemma set_special_pids_eq:
  assumes "pid_laws E"
  shows "set_special_pids E sid st = (let l = pg_group_leader E (pg_current E) in
     st\<lparr>sig_session := (sig_session st)(l \<mapsto> sid), sig_pgrp := (sig_pgrp st)(l \<mapsto> sid)\<rparr>)"
  by (cases st) (auto simp: set_special_pids_def task_session_def task_pgrp_def pid_lawsD(2,4) [OF assms] Let_def fun_upd_idem)

lemma setsid_effect:
  assumes "pid_laws E"
  shows "ends (\<lambda>ret st'. if sig_leader st (pg_group_leader E (pg_current E)) \<or>
         (\<exists>q. sig_pgrp st q = Some (pg_task_pid E (pg_group_leader E (pg_current E))))
       then ret = - EPERM \<and> st' = st else ret = sys_getpid E \<and> new_session E st st') (ksys_setsid E st)"
  unfolding ksys_setsid_def
  by (intro ends_intro ends_pair)
    (auto simp: pid_lawsD(2,5) [OF assms] set_special_pids_eq [OF assms] new_session_def sys_getpid_def Let_def
      dest: pid_lawsD(6) [OF assms])

text \<open>The arguments \<open>setpgid\<close> works with once a zero has been replaced.\<close>

definition arg_pid :: "pg_env \<Rightarrow> int \<Rightarrow> int" where
  "arg_pid E pid = (if pid = 0 then sys_getpid E else pid)"

definition arg_pgid :: "pg_env \<Rightarrow> int \<Rightarrow> int \<Rightarrow> int" where
  "arg_pgid E pid pgid = (if pgid = 0 then arg_pid E pid else pgid)"

definition may_move :: "pg_env \<Rightarrow> nat \<Rightarrow> bool" where
  "may_move E p \<longleftrightarrow> p = pg_group_leader E (pg_current E) \<or>
     same_thread_group E (pg_real_parent E p) (pg_current E) \<and> pg_forknoexec E p"

definition named_group :: "pg_env \<Rightarrow> nat \<Rightarrow> int \<Rightarrow> int \<Rightarrow> nat \<Rightarrow> bool" where
  "named_group E p pid pgid pgrp \<longleftrightarrow>
     (if pgid = pid then pgrp = pg_task_pid E p else pg_find_vpid E pgid = Some pgrp)"

lemma setpgid_target_SomeD:
  assumes "pid_laws E" and "setpgid_target E p pid pgid st = Some pgrp"
  shows "named_group E p pid pgid pgrp \<and> (pgrp = pg_task_pid E p \<or>
     (\<exists>g. sig_pgrp st g = Some pgrp \<and> sig_session st g = sig_session st (pg_group_leader E (pg_current E))))"
  using assms(2) pid_lawsD(2,6) [OF assms(1)]
  by (fastforce simp: setpgid_target_def named_group_def task_session_def split: if_splits option.splits)

lemma group_moveI:
  assumes "\<not> sig_leader st p"
    and "pgrp = pg_task_pid E p \<or> (\<exists>g. sig_pgrp st g = Some pgrp \<and> sig_session st g = sig_session st p)"
  shows "group_move E p pgrp st (if sig_pgrp st p \<noteq> Some pgrp
     then st\<lparr>sig_pgrp := (sig_pgrp st)(p \<mapsto> pgrp)\<rparr> else st)"
  using assms by (auto simp: group_move_def pg_update_triv)

lemma setpgid_effect:
  assumes L: "pid_laws E"
  shows "ends (\<lambda>ret st'. if ret = 0 then \<exists>p pgrp. group_move E p pgrp st st' \<and> may_move E p \<and>
        pg_find_task_by_vpid E (arg_pid E pid) = Some p \<and> pg_group_leader E p = p \<and>
        named_group E p (arg_pid E pid) (arg_pgid E pid pgid) pgrp
      else st' = st) (sys_setpgid E pid pgid st)"
proof -
  have args: "(if pid = 0 then pid_vnr E (Some (pg_task_pid E (pg_group_leader E (pg_current E)))) else pid) = arg_pid E pid"
    by (simp add: arg_pid_def sys_getpid_def)
  have moved: "\<exists>p pgrp. group_move E p pgrp st (if task_pgrp E st q \<noteq> Some g
        then st\<lparr>sig_pgrp := change_pid E (pg_group_leader E q) g (sig_pgrp st)\<rparr> else st) \<and> may_move E p \<and>
        pg_find_task_by_vpid E (arg_pid E pid) = Some p \<and> pg_group_leader E p = p \<and>
        named_group E p (arg_pid E pid) (arg_pgid E pid pgid) pgrp"
    if q: "pg_find_task_by_vpid E (arg_pid E pid) = Some q" "thread_group_leader E q"
      "\<not> sig_leader st (pg_group_leader E q)"
      and child: "\<not> (same_thread_group E (pg_real_parent E q) (pg_group_leader E (pg_current E)) \<and>
         task_session E st q \<noteq> task_session E st (pg_group_leader E (pg_current E)))"
        "\<not> (same_thread_group E (pg_real_parent E q) (pg_group_leader E (pg_current E)) \<and> \<not> pg_forknoexec E q)"
        "\<not> (\<not> same_thread_group E (pg_real_parent E q) (pg_group_leader E (pg_current E)) \<and>
         q \<noteq> pg_group_leader E (pg_current E))"
      and g: "setpgid_target E q (arg_pid E pid) (arg_pgid E pid pgid) st = Some g" for q g
  proof -
    have ql: "pg_group_leader E q = q" using pid_lawsD(3) [OF L] q(2) .
    have "sig_session st q = sig_session st (pg_group_leader E (pg_current E))"
      using child ql by (auto simp: task_session_def pid_lawsD(2) [OF L])
    with setpgid_target_SomeD [OF L g] q(3) ql have "group_move E q g st (if task_pgrp E st q \<noteq> Some g
        then st\<lparr>sig_pgrp := change_pid E (pg_group_leader E q) g (sig_pgrp st)\<rparr> else st)"
      unfolding task_pgrp_def pid_lawsD(4) [OF L] by (simp only: ql) (rule group_moveI; simp)
    moreover have "may_move E q"
      using child by (auto simp: may_move_def same_thread_group_def pid_lawsD(2) [OF L])
    ultimately show ?thesis using q(1) ql setpgid_target_SomeD [OF L g] by blast
  qed
  show ?thesis
    unfolding sys_setpgid_def Let_def args arg_pgid_def [symmetric]
    by (intro ends_intro ends_pair;
        ((rule if_P [THEN iffD2, OF refl], (rule moved; (assumption | (erule notnotD)))) | simp))
qed

section \<open>Sessions stay well formed\<close>

text \<open>
  The members of a process group are in one session, which is the session of the process the
  group is named after; a session leader leads the session and the group named after it.
\<close>

definition sessions_wf :: "(nat \<Rightarrow> nat) \<Rightarrow> pg_state \<Rightarrow> bool" where
  "sessions_wf pid_of st \<longleftrightarrow>
     (\<forall>p q g. sig_pgrp st p = Some g \<and> sig_pgrp st q = Some g \<longrightarrow> sig_session st p = sig_session st q) \<and>
     (\<forall>p q. sig_pgrp st q = Some (pid_of p) \<longrightarrow> sig_session st q = sig_session st p) \<and>
     (\<forall>p. sig_leader st p \<longrightarrow> sig_session st p = Some (pid_of p) \<and> sig_pgrp st p = Some (pid_of p))"

lemma sessions_wfI:
  assumes "\<And>p q g. \<lbrakk>sig_pgrp st p = Some g; sig_pgrp st q = Some g\<rbrakk> \<Longrightarrow> sig_session st p = sig_session st q"
    and "\<And>p q. sig_pgrp st q = Some (pid_of p) \<Longrightarrow> sig_session st q = sig_session st p"
    and "\<And>p. sig_leader st p \<Longrightarrow> sig_session st p = Some (pid_of p) \<and> sig_pgrp st p = Some (pid_of p)"
  shows "sessions_wf pid_of st"
  using assms unfolding sessions_wf_def by blast

lemma sessions_wfD:
  assumes "sessions_wf pid_of st"
  shows "\<lbrakk>sig_pgrp st p = Some g; sig_pgrp st q = Some g\<rbrakk> \<Longrightarrow> sig_session st p = sig_session st q"
    and "sig_pgrp st q = Some (pid_of p) \<Longrightarrow> sig_session st q = sig_session st p"
    and "sig_leader st p \<Longrightarrow> sig_session st p = Some (pid_of p) \<and> sig_pgrp st p = Some (pid_of p)"
  using assms unfolding sessions_wf_def by blast+

lemma new_session_wf:
  assumes L: "pid_laws E" and wf: "sessions_wf (pg_task_pid E) st" and ns: "new_session E st st'"
  shows "sessions_wf (pg_task_pid E) st'"
proof -
  let ?l = "pg_group_leader E (pg_current E)"
  have st': "sig_leader st' = (sig_leader st)(?l := True)"
      "sig_session st' = (sig_session st)(?l \<mapsto> pg_task_pid E ?l)"
      "sig_pgrp st' = (sig_pgrp st)(?l \<mapsto> pg_task_pid E ?l)"
    and none: "\<And>q. sig_pgrp st q \<noteq> Some (pg_task_pid E ?l)"
    using ns by (simp_all add: new_session_def Let_def)
  show ?thesis
  proof (rule sessions_wfI)
    fix p q g assume "sig_pgrp st' p = Some g" "sig_pgrp st' q = Some g"
    then show "sig_session st' p = sig_session st' q"
      using none [of p] none [of q] sessions_wfD(1) [OF wf, of p g q] by (auto simp: st' split: if_splits)
  next
    fix p q assume "sig_pgrp st' q = Some (pg_task_pid E p)"
    then show "sig_session st' q = sig_session st' p"
      using none [of q] sessions_wfD(2) [OF wf, of q p] by (auto simp: st' pid_lawsD(1) [OF L] split: if_splits)
  next
    fix p assume "sig_leader st' p"
    then show "sig_session st' p = Some (pg_task_pid E p) \<and> sig_pgrp st' p = Some (pg_task_pid E p)"
      using sessions_wfD(3) [OF wf, of p] by (auto simp: st' split: if_splits)
  qed
qed

lemma group_move_wf:
  assumes L: "pid_laws E" and wf: "sessions_wf (pg_task_pid E) st" and mv: "group_move E p pgrp st st'"
  shows "sessions_wf (pg_task_pid E) st'"
proof -
  have st': "st' = st\<lparr>sig_pgrp := (sig_pgrp st)(p \<mapsto> pgrp)\<rparr>" and nl: "\<not> sig_leader st p"
    and to: "pgrp = pg_task_pid E p \<or> (\<exists>g. sig_pgrp st g = Some pgrp \<and> sig_session st g = sig_session st p)"
    using mv unfolding group_move_def by blast+
  have member: "sig_session st q = sig_session st p" if "sig_pgrp st q = Some pgrp" for q
    using to sessions_wfD(2) [OF wf, of q p] sessions_wfD(1) [OF wf that] that by metis
  have owner: "sig_session st p = sig_session st r" if "pgrp = pg_task_pid E r" for r
    using to that sessions_wfD(2) [OF wf, of _ r] pid_lawsD(1) [OF L, of p r] by metis
  have upd: "sig_pgrp st' q = (if q = p then Some pgrp else sig_pgrp st q)"
    "sig_session st' = sig_session st" "sig_leader st' = sig_leader st" for q
    by (simp_all add: st')
  show ?thesis
  proof (rule sessions_wfI, unfold upd)
    fix a b g assume "(if a = p then Some pgrp else sig_pgrp st a) = Some g"
      "(if b = p then Some pgrp else sig_pgrp st b) = Some g"
    then show "sig_session st a = sig_session st b"
      using member [of a] member [of b] sessions_wfD(1) [OF wf, of a g b] by (metis option.inject)
  next
    fix a b assume "(if b = p then Some pgrp else sig_pgrp st b) = Some (pg_task_pid E a)"
    then show "sig_session st b = sig_session st a"
      using owner [of a] sessions_wfD(2) [OF wf, of b a] by (metis option.inject)
  next
    fix a assume "sig_leader st a"
    with nl have "a \<noteq> p" by blast
    with sessions_wfD(3) [OF wf \<open>sig_leader st a\<close>]
    show "sig_session st a = Some (pg_task_pid E a) \<and> (if a = p then Some pgrp else sig_pgrp st a) = Some (pg_task_pid E a)"
      by simp
  qed
qed

interpretation sessions: syscall_invariant exec_pg
  "\<lambda>c. pid_laws (fst c) \<and> pg_task_pid (fst c) = pid_of" "sessions_wf pid_of" for pid_of
proof unfold_locales
  fix c :: "pg_env \<times> pg_op" and st
  assume c: "pid_laws (fst c) \<and> pg_task_pid (fst c) = pid_of" and wf: "sessions_wf pid_of st"
  show "sessions_wf pid_of (snd (exec_pg c st))"
  proof (cases "(c, st)" rule: exec_pg.cases)
    case (1 E pid pgid st)
    with c wf setpgid_effect [of E st pid pgid] show ?thesis
      by (auto simp: ends_def split: if_splits intro: group_move_wf)
  next
    case (2 E st)
    with c wf setsid_effect [of E st] show ?thesis
      by (auto simp: ends_def split: if_splits intro: new_session_wf)
  qed
qed

section \<open>Properties\<close>

text \<open>A process 10 with pid 100 in a session of its own, its child 11, and an unrelated process 12.\<close>

definition pg_env_of :: "nat \<Rightarrow> pg_env" where
  "pg_env_of cur = \<lparr>pg_current = cur, pg_group_leader = id, pg_real_parent = (\<lambda>p. if p = 11 then 10 else 1),
     pg_task_pid = (\<lambda>p. p + 90), pg_forknoexec = (\<lambda>p. True), thread_group_leader = (\<lambda>p. True),
     pg_find_task_by_vpid = (\<lambda>n. if n \<in> {100, 101, 102} then Some (nat n - 90) else None),
     pg_find_vpid = (\<lambda>n. if n \<in> {100, 101, 102} then Some (nat n) else None),
     pid_vnr = (\<lambda>x. case x of None \<Rightarrow> 0 | Some n \<Rightarrow> int n),
     pid_task_pgid = (\<lambda>g f. if \<exists>q. f q = Some g then Some (LEAST q. f q = Some g) else None),
     change_pid = (\<lambda>p n f. f(p \<mapsto> n)), security_task_setpgid = (\<lambda>p n. 0), security_task_getpgid = (\<lambda>p. 0),
     security_task_getsid = (\<lambda>p. 0), proc_clear_tty = (\<lambda>p f. f(p := None))\<rparr>"

definition pg_state0 :: pg_state where
  "pg_state0 = \<lparr>sig_pgrp = [10 \<mapsto> 100, 11 \<mapsto> 100, 12 \<mapsto> 7], sig_session = [10 \<mapsto> 100, 11 \<mapsto> 100, 12 \<mapsto> 7],
     sig_leader = (\<lambda>p. p = 10), sig_tty = [10 \<mapsto> 4], sid_notified = []\<rparr>"

lemma pg_env_of_laws: "pid_laws (pg_env_of cur)"
proof -
  have "f (LEAST q. f q = Some g) = Some g" if "f q = Some g" for f :: "nat \<rightharpoonup> nat" and q g
    by (rule LeastI [of "\<lambda>q. f q = Some g", OF that])
  then show ?thesis by (auto simp: pid_laws_def pg_env_of_def inj_def)
qed

lemma pg_state0_wf: "sessions_wf (pg_task_pid (pg_env_of 11)) pg_state0"
  by (rule sessions_wfI) (auto simp: pg_state0_def pg_env_of_def split: if_splits)



text \<open>
  \<open>setsid\<close> fails with \<open>-EPERM\<close> and no change exactly when the caller leads a session or a
  process group has its pid as name; otherwise it returns the caller's pid, the caller leads a
  session and a group of which it is the only group member, and no other process moves.
\<close>

theorem setsid_correct:
  assumes "pid_laws E" and "ksys_setsid E st = (ret, st')"
    and "l = pg_group_leader E (pg_current E)" and "sid = pg_task_pid E l"
  shows "if sig_leader st l \<or> (\<exists>q. sig_pgrp st q = Some sid) then ret = - EPERM \<and> st' = st
     else ret = sys_getpid E \<and> sig_leader st' l \<and> sig_session st' l = Some sid \<and>
       (\<forall>q. sig_pgrp st' q = Some sid \<longleftrightarrow> q = l) \<and>
       (\<forall>q. q \<noteq> l \<longrightarrow> sig_session st' q = sig_session st q \<and> sig_pgrp st' q = sig_pgrp st q \<and> sig_leader st' q = sig_leader st q)"
  using setsid_effect [OF assms(1), of st] assms(2-4)
  by (simp add: ends_def new_session_def Let_def split: if_splits)

theorem setsid_correct_witness:
  "sig_leader (snd (ksys_setsid (pg_env_of 11) pg_state0)) 11 \<and> fst (ksys_setsid (pg_env_of 11) pg_state0) = 101"
proof -
  have "\<not> sig_leader pg_state0 11" "\<not> (\<exists>q. sig_pgrp pg_state0 q = Some 101)" "sys_getpid (pg_env_of 11) = 101"
    by (auto simp: pg_state0_def sys_getpid_def pg_env_of_def split: if_splits)
  moreover have "pg_group_leader (pg_env_of 11) (pg_current (pg_env_of 11)) = 11" "pg_task_pid (pg_env_of 11) 11 = 101"
    by (simp_all add: pg_env_of_def)
  ultimately show ?thesis
    using setsid_correct [OF pg_env_of_laws [of 11] prod.collapse [symmetric] refl refl, where st = pg_state0] by simp
qed

text \<open>
  A successful \<open>setpgid\<close> moves one process, the caller or one of its children that has not
  called exec, which is not a session leader, and \<open>getpgid\<close> then returns the requested group;
  a failed call moves nobody.
\<close>

theorem setpgid_getpgid:
  assumes "pid_laws E" and "sys_setpgid E pid pgid st = (ret, st')"
    and "\<forall>p. security_task_getpgid E p = 0"
    and "\<forall>n p. pg_find_task_by_vpid E n = Some p \<longrightarrow> n \<noteq> 0 \<and> pid_vnr E (Some (pg_task_pid E p)) = n"
    and "\<forall>n g. pg_find_vpid E n = Some g \<longrightarrow> pid_vnr E (Some g) = n"
  shows "if ret = 0 then sys_getpgid E (arg_pid E pid) st' = arg_pgid E pid pgid \<and>
       (\<exists>p. pg_find_task_by_vpid E (arg_pid E pid) = Some p \<and> may_move E p \<and> \<not> sig_leader st p \<and>
         (\<forall>q. q \<noteq> p \<longrightarrow> sig_pgrp st' q = sig_pgrp st q) \<and> sig_session st' = sig_session st)
     else st' = st"
proof (cases "ret = 0")
  case True
  with setpgid_effect [OF assms(1), of st pid pgid] assms(2) obtain p pgrp where
    mv: "group_move E p pgrp st st'" and p: "may_move E p" "pg_find_task_by_vpid E (arg_pid E pid) = Some p"
      "pg_group_leader E p = p" and g: "named_group E p (arg_pid E pid) (arg_pgid E pid pgid) pgrp"
    by (auto simp: ends_def)
  from p(2) assms(4) have "arg_pid E pid \<noteq> 0" "pid_vnr E (Some (pg_task_pid E p)) = arg_pid E pid" by blast+
  with g assms(5) have "pid_vnr E (Some pgrp) = arg_pgid E pid pgid"
    by (auto simp: named_group_def split: if_splits)
  with mv p assms(3) \<open>arg_pid E pid \<noteq> 0\<close> have "sys_getpgid E (arg_pid E pid) st' = arg_pgid E pid pgid"
    by (simp add: sys_getpgid_def do_getpgid_def task_pgrp_def group_move_def)
  with True mv p show ?thesis by (auto simp: group_move_def)
next
  case False
  with setpgid_effect [OF assms(1), of st pid pgid] assms(2) show ?thesis by (simp add: ends_def)
qed

theorem setpgid_getpgid_witness:
  "sys_getpgid (pg_env_of 10) 101 (snd (sys_setpgid (pg_env_of 10) 101 0 pg_state0)) = 101"
proof -
  have "fst (sys_setpgid (pg_env_of 10) 101 0 pg_state0) = 0"
    by (simp add: sys_setpgid_def setpgid_target_def same_thread_group_def task_session_def pg_env_of_def pg_state0_def)
  moreover have "arg_pid (pg_env_of 10) 101 = 101" "arg_pgid (pg_env_of 10) 101 0 = 101"
    by (simp_all add: arg_pid_def arg_pgid_def)
  moreover have "\<forall>p. security_task_getpgid (pg_env_of 10) p = 0"
    "\<forall>n p. pg_find_task_by_vpid (pg_env_of 10) n = Some p \<longrightarrow> n \<noteq> 0 \<and> pid_vnr (pg_env_of 10) (Some (pg_task_pid (pg_env_of 10) p)) = n"
    "\<forall>n g. pg_find_vpid (pg_env_of 10) n = Some g \<longrightarrow> pid_vnr (pg_env_of 10) (Some g) = n"
    by (auto simp: pg_env_of_def split: if_splits)
  ultimately show ?thesis
    using setpgid_getpgid [OF pg_env_of_laws [of 10] prod.collapse [symmetric], where st = pg_state0 and pid = 101 and pgid = 0] by simp
qed

end
