(* ===== verification/Byte_Text.thy ===== *)
theory Byte_Text
  imports Kernel_Base
begin

text \<open>
  Strings as lists of bytes, with the conversions the sources take from the kernel's string
  library: printing a number in decimal (\<open>%u\<close>, \<open>%lu\<close>), the character tests, and the parts of
  \<open>sscanf\<close> that are used. Numbers are read modulo the width of the target, as the C code does.
\<close>

definition isdigit :: "u8 \<Rightarrow> bool" where
  "isdigit c \<longleftrightarrow> 48 \<le> c \<and> c \<le> 57"

definition isspace :: "u8 \<Rightarrow> bool" where
  "isspace c \<longleftrightarrow> c = 32 \<or> (9 \<le> c \<and> c \<le> 13) \<or> c = 160"

definition skip_spaces :: "u8 list \<Rightarrow> u8 list" where
  "skip_spaces = dropWhile isspace"

text \<open>The characters of a C string, up to its NUL.\<close>

definition c_string :: "u8 list \<Rightarrow> u8 list" where
  "c_string = takeWhile (\<lambda>c. c \<noteq> 0)"

section \<open>Bytes at a user pointer\<close>

text \<open>
  Byte buffers in user memory: reading \<open>n\<close> bytes yields them in order; a copy of no bytes
  always succeeds.
\<close>

definition bytes_from_user :: "(nat \<Rightarrow> u8) user_in \<Rightarrow> nat \<Rightarrow> u8 list option" where
  "bytes_from_user p n =
     (if n = 0 then Some [] else case p of Readable f \<Rightarrow> Some (map f [0..<n]) | _ \<Rightarrow> None)"

definition bytes_to_user :: "user_out \<Rightarrow> u8 list \<Rightarrow> u8 list option" where
  "bytes_to_user p bs = (if bs = [] then Some [] else copy_to_user p bs)"

lemma bytes_to_user_Writable [simp]: "bytes_to_user Writable bs = Some bs"
  by (simp add: bytes_to_user_def)

lemma bytes_from_user_length: "bytes_from_user p n = Some bs \<Longrightarrow> length bs = n"
  by (auto simp: bytes_from_user_def split: if_splits user_in.splits)

section \<open>Printing numbers\<close>

definition digit :: "nat \<Rightarrow> u8" where
  "digit d = of_nat (48 + d)"

fun decimal :: "nat \<Rightarrow> u8 list" where
  "decimal n = (if n < 10 then [digit n] else decimal (n div 10) @ [digit (n mod 10)])"

declare decimal.simps [simp del]

section \<open>Reading numbers\<close>

fun scan_digits :: "u64 \<Rightarrow> u8 list \<Rightarrow> u64 \<times> u8 list" where
  "scan_digits acc [] = (acc, [])"
| "scan_digits acc (c # cs) =
     (if isdigit c then scan_digits (acc * 10 + ucast (c - 48)) cs else (acc, c # cs))"

text \<open>\<open>%llu\<close>; None when there is no number.\<close>

definition scan_llu :: "u8 list \<Rightarrow> (u64 \<times> u8 list) option" where
  "scan_llu s = (case skip_spaces s of [] \<Rightarrow> None
     | c # cs \<Rightarrow> if isdigit c then Some (scan_digits 0 (c # cs)) else None)"

text \<open>Up to \<open>n\<close> conversions \<open>%llu\<close>, ending at the first that fails.\<close>

fun scan_llus :: "nat \<Rightarrow> u8 list \<Rightarrow> u64 list" where
  "scan_llus 0 s = []"
| "scan_llus (Suc n) s = (case scan_llu s of None \<Rightarrow> [] | Some (v, rest) \<Rightarrow> v # scan_llus n rest)"

text \<open>\<open>%*llu\<close>: white space and then everything up to the next white space.\<close>

definition skip_token :: "u8 list \<Rightarrow> u8 list" where
  "skip_token s = dropWhile (\<lambda>c. \<not> isspace c) (skip_spaces s)"

text \<open>Literal characters of a format.\<close>

fun match_literal :: "u8 list \<Rightarrow> u8 list \<Rightarrow> u8 list option" where
  "match_literal [] s = Some s"
| "match_literal (f # fs) [] = None"
| "match_literal (f # fs) (c # cs) = (if f = c then match_literal fs cs else None)"

text \<open>\<open>%d\<close> into an \<open>int\<close>.\<close>

definition scan_d :: "u8 list \<Rightarrow> u32 option" where
  "scan_d s = (case skip_spaces s of [] \<Rightarrow> None
     | c # cs \<Rightarrow>
        if c = 45 then (case cs of [] \<Rightarrow> None
          | d # ds \<Rightarrow> if isdigit d then Some (- ucast (fst (scan_digits 0 (d # ds)))) else None)
        else if isdigit c then Some (ucast (fst (scan_digits 0 (c # cs)))) else None)"

section \<open>A printed number is read back\<close>

lemma unat_digit: "d < 10 \<Longrightarrow> unat (digit d) = 48 + d"
  unfolding digit_def by (simp only: unat_of_nat) simp

lemma isdigit_digit: "d < 10 \<Longrightarrow> isdigit (digit d)"
  by (simp add: isdigit_def word_le_nat_alt unat_digit)

lemma digit_value: "d < 10 \<Longrightarrow> ucast (digit d - 48) = (of_nat d :: u64)"
  by (simp add: digit_def unsigned_of_nat take_bit_nat_eq_self)

lemma decimal_digits: "list_all isdigit (decimal n)"
  by (induction n rule: decimal.induct) (subst decimal.simps, auto simp: isdigit_digit)

lemma decimal_not_Nil [simp]: "decimal n \<noteq> []"
  by (subst decimal.simps) simp

lemma digit_not_space: "isdigit c \<Longrightarrow> \<not> isspace c"
  by (auto simp: isdigit_def isspace_def word_le_nat_alt)

lemma scan_digits_append:
  "list_all isdigit ds \<Longrightarrow> scan_digits acc (ds @ s) = scan_digits (fst (scan_digits acc ds)) s"
  by (induction acc ds rule: scan_digits.induct) auto

lemma scan_decimal_value: "fst (scan_digits 0 (decimal n)) = of_nat n"
proof (induction n rule: decimal.induct)
  case (1 n)
  show ?case
  proof (cases "n < 10")
    case True
    then show ?thesis by (subst decimal.simps) (simp add: isdigit_digit digit_value)
  next
    case False
    have "(of_nat (n div 10) * 10 + of_nat (n mod 10) :: u64) = of_nat (n div 10 * 10 + n mod 10)"
      by (simp only: of_nat_add of_nat_mult of_nat_numeral)
    also have "\<dots> = of_nat n" by (simp only: div_mult_mod_eq)
    finally show ?thesis
      using False 1 decimal_digits [of "n div 10"]
      by (subst decimal.simps) (simp add: scan_digits_append isdigit_digit digit_value)
  qed
qed

text \<open>What may follow a number without becoming part of it.\<close>

definition number_ends :: "u8 list \<Rightarrow> bool" where
  "number_ends s \<longleftrightarrow> s = [] \<or> \<not> isdigit (hd s)"

lemma scan_decimal: "number_ends s \<Longrightarrow> scan_digits 0 (decimal n @ s) = (of_nat n, s)"
  unfolding scan_digits_append [OF decimal_digits] scan_decimal_value
  by (cases s) (auto simp: number_ends_def)

lemma skip_spaces_decimal: "skip_spaces (decimal n @ s) = decimal n @ s"
  using decimal_digits [of n] digit_not_space
  by (cases "decimal n") (auto simp: skip_spaces_def)

lemma scan_llu_decimal: "number_ends s \<Longrightarrow> scan_llu (decimal n @ s) = Some (of_nat n, s)"
  using decimal_digits [of n] scan_decimal [of s n] skip_spaces_decimal [of n s]
  by (cases "decimal n") (auto simp: scan_llu_def)

lemma scan_llu_space: "scan_llu (32 # s) = scan_llu s"
  by (simp add: scan_llu_def skip_spaces_def isspace_def)

text \<open>Numbers, each after one blank.\<close>

definition spaced :: "nat list \<Rightarrow> u8 list" where
  "spaced ns = concat (map (\<lambda>n. 32 # decimal n) ns)"

lemma number_ends_spaced: "number_ends s \<Longrightarrow> number_ends (spaced ns @ s)"
  by (cases ns) (auto simp: spaced_def number_ends_def isdigit_def)

lemma scan_llus_spaced:
  assumes "number_ends s"
  shows "scan_llus (length ns) (spaced ns @ s) = map of_nat ns"
proof (induction ns)
  case (Cons n ns)
  have "scan_llu (spaced (n # ns) @ s) = Some (of_nat n, spaced ns @ s)"
    using scan_llu_decimal [OF number_ends_spaced [OF assms], of n ns]
    by (simp add: spaced_def scan_llu_space)
  then show ?case using Cons by simp
qed (simp add: spaced_def)

lemma scan_llus_take:
  assumes "number_ends s"
  shows "k \<le> length ns \<Longrightarrow> scan_llus k (spaced ns @ s) = map of_nat (take k ns)"
proof -
  assume "k \<le> length ns"
  then have "spaced ns @ s = spaced (take k ns) @ spaced (drop k ns) @ s"
    by (simp add: spaced_def flip: append_assoc concat_append map_append)
  with scan_llus_spaced [OF number_ends_spaced [OF assms, of "drop k ns"], of "take k ns"] \<open>k \<le> length ns\<close>
  show ?thesis by simp
qed

lemma skip_token_spaced:
  assumes "s = [] \<or> isspace (hd s)"
  shows "skip_token (spaced (n # ns) @ s) = spaced ns @ s"
proof -
  have rest: "dropWhile (\<lambda>c. \<not> isspace c) (spaced ns @ s) = spaced ns @ s"
    using assms by (cases ns; cases s) (auto simp: spaced_def isspace_def)
  have "dropWhile (\<lambda>c. \<not> isspace c) (decimal n @ t) = dropWhile (\<lambda>c. \<not> isspace c) t" for t
    using decimal_digits [of n] digit_not_space by (intro dropWhile_append2) (auto simp: list_all_iff)
  moreover have "skip_spaces (spaced (n # ns) @ s) = decimal n @ spaced ns @ s"
    using skip_spaces_decimal [of n "spaced ns @ s"] by (simp add: spaced_def skip_spaces_def isspace_def)
  ultimately show ?thesis by (simp add: skip_token_def rest)
qed

lemma scan_d_decimal: "number_ends s \<Longrightarrow> scan_d (decimal n @ s) = Some (of_nat n)"
proof -
  assume s: "number_ends s"
  obtain c cs where d: "decimal n @ s = c # cs" "isdigit c"
    using decimal_digits [of n] by (cases "decimal n") auto
  moreover have "c \<noteq> 45" using d(2) by (auto simp: isdigit_def)
  ultimately show ?thesis
    using scan_decimal [OF s, of n] skip_spaces_decimal [of n s]
    by (simp add: scan_d_def unsigned_of_nat of_nat_take_bit take_bit_word_eq_self)
qed

end
