(* ===== verification/Uts_Names.thy ===== *)
theory Uts_Names
  imports Byte_Text
begin

text \<open>
  The system-name calls of \<^verbatim>\<open>src/Kernel/kernel/sys.c\<close>: \<open>newuname\<close>, \<open>uname\<close>, \<open>olduname\<close>
  with \<open>override_release\<close> and \<open>override_architecture\<close>, and \<open>sethostname\<close>, \<open>gethostname\<close>,
  \<open>setdomainname\<close>. Strings are lists of bytes; a field of \<open>struct new_utsname\<close> is a list of 65
  bytes that holds a NUL-terminated string.
\<close>

section \<open>State and environment\<close>

abbreviation NEW_UTS_LEN :: nat where "NEW_UTS_LEN \<equiv> 64"
abbreviation OLD_UTS_LEN :: nat where "OLD_UTS_LEN \<equiv> 8"

record new_utsname =
  uts_sysname :: "u8 list"
  uts_nodename :: "u8 list"
  uts_release :: "u8 list"
  uts_version :: "u8 list"
  uts_machine :: "u8 list"
  uts_domainname :: "u8 list"

record old_utsname =
  old_sysname :: "u8 list"
  old_nodename :: "u8 list"
  old_release :: "u8 list"
  old_version :: "u8 list"
  old_machine :: "u8 list"

datatype uts_proc = UTS_PROC_HOSTNAME | UTS_PROC_DOMAINNAME

record uts_state =
  utsname :: new_utsname
  uts_notified :: "uts_proc list"

text \<open>
  From outside the file: the release string and patch level of the build, the personality of
  the caller (the \<open>UNAME26\<close> flag and whether it is \<open>PER_LINUX32\<close>), the machine name for
  32-bit callers, with its NUL, where the architecture defines one, and the capability test.
\<close>

record uts_env =
  UTS_RELEASE :: "u8 list"
  LINUX_VERSION_PATCHLEVEL :: u32
  personality_UNAME26 :: bool
  personality_LINUX32 :: bool
  COMPAT_UTS_MACHINE :: "u8 list option"
  uts_cap_sys_admin :: bool

text \<open>Storing \<open>bs\<close> over the first bytes of a field.\<close>

definition overwrite :: "u8 list \<Rightarrow> u8 list \<Rightarrow> u8 list" where
  "overwrite bs field = bs @ drop (length bs) field"

definition strlen :: "u8 list \<Rightarrow> nat" where
  "strlen bs = length (takeWhile (\<lambda>c. c \<noteq> 0) bs)"

section \<open>The reported release\<close>

text \<open>The loop that skips the version number at the start of the release string.\<close>

fun skip_version :: "nat \<Rightarrow> u8 list \<Rightarrow> u8 list" where
  "skip_version ndots [] = []"
| "skip_version ndots (c # rest) =
     (if c = 46 \<and> ndots + 1 \<ge> 3 then c # rest
      else if \<not> isdigit c \<and> c \<noteq> 46 then c # rest
      else skip_version (if c = 46 then ndots + 1 else ndots) rest)"

text \<open>\<open>scnprintf(buf, size, "2.6.%u%s", v, rest)\<close>: what it stores before the terminating NUL.\<close>

definition scnprintf_26 :: "nat \<Rightarrow> u32 \<Rightarrow> u8 list \<Rightarrow> u8 list" where
  "scnprintf_26 n v rest = take (n - 1) ([50, 46, 54, 46] @ decimal (unat v) @ rest)"

text \<open>Success and the bytes stored at \<open>release\<close>; None is a fault.\<close>

definition override_release :: "uts_env \<Rightarrow> user_out \<Rightarrow> nat \<Rightarrow> u8 list option" where
  "override_release E release len =
     (if personality_UNAME26 E then
        let rest = skip_version 0 (UTS_RELEASE E);
            v = LINUX_VERSION_PATCHLEVEL E + 60;
            copy = max 1 (min len 65)
        in bytes_to_user release (scnprintf_26 copy v rest @ [0])
      else Some [])"

definition override_architecture :: "uts_env \<Rightarrow> user_out \<Rightarrow> u8 list option" where
  "override_architecture E machine =
     (case COMPAT_UTS_MACHINE E of None \<Rightarrow> Some []
      | Some m \<Rightarrow> if personality_LINUX32 E then copy_to_user machine m else Some [])"

section \<open>Operations\<close>

text \<open>
  The three pointers are the user structure and the fields \<open>release\<close> and \<open>machine\<close> in it. The
  second result is what the structure holds when the call succeeds.
\<close>

definition sys_newuname ::
  "uts_env \<Rightarrow> user_out \<Rightarrow> user_out \<Rightarrow> user_out \<Rightarrow> uts_state \<Rightarrow> int \<times> new_utsname option" where
  "sys_newuname E name release machine st =
     (let tmp = utsname st
      in case copy_to_user name tmp of None \<Rightarrow> (- EFAULT, None) | Some u \<Rightarrow>
      case override_release E release 65 of None \<Rightarrow> (- EFAULT, None) | Some r \<Rightarrow>
      case override_architecture E machine of None \<Rightarrow> (- EFAULT, None) | Some m \<Rightarrow>
      (0, Some (u\<lparr>uts_release := overwrite r (uts_release u), uts_machine := overwrite m (uts_machine u)\<rparr>)))"

text \<open>\<open>struct old_utsname\<close> is \<open>struct new_utsname\<close> without its last field.\<close>

definition sys_uname ::
  "uts_env \<Rightarrow> user_out \<Rightarrow> user_out \<Rightarrow> user_out \<Rightarrow> uts_state \<Rightarrow> int \<times> old_utsname option" where
  "sys_uname E name release machine st =
     (if name = Null_out then (- EFAULT, None)
      else let u = utsname st;
               tmp = \<lparr>old_sysname = uts_sysname u, old_nodename = uts_nodename u, old_release = uts_release u,
                      old_version = uts_version u, old_machine = uts_machine u\<rparr>
      in case copy_to_user name tmp of None \<Rightarrow> (- EFAULT, None) | Some u \<Rightarrow>
      case override_release E release 65 of None \<Rightarrow> (- EFAULT, None) | Some r \<Rightarrow>
      case override_architecture E machine of None \<Rightarrow> (- EFAULT, None) | Some m \<Rightarrow>
      (0, Some (u\<lparr>old_release := overwrite r (old_release u), old_machine := overwrite m (old_machine u)\<rparr>)))"

definition old_field :: "u8 list \<Rightarrow> u8 list" where
  "old_field f = overwrite (take OLD_UTS_LEN f) (replicate (OLD_UTS_LEN + 1) 0)"

definition sys_olduname ::
  "uts_env \<Rightarrow> user_out \<Rightarrow> user_out \<Rightarrow> user_out \<Rightarrow> uts_state \<Rightarrow> int \<times> old_utsname option" where
  "sys_olduname E name release machine st =
     (if name = Null_out then (- EFAULT, None)
      else let u = utsname st;
               tmp = \<lparr>old_sysname = old_field (uts_sysname u), old_nodename = old_field (uts_nodename u),
                      old_release = old_field (uts_release u), old_version = old_field (uts_version u),
                      old_machine = old_field (uts_machine u)\<rparr>
      in case copy_to_user name tmp of None \<Rightarrow> (- EFAULT, None) | Some u \<Rightarrow>
      case override_architecture E machine of None \<Rightarrow> (- EFAULT, None) | Some m \<Rightarrow>
      case override_release E release 9 of None \<Rightarrow> (- EFAULT, None) | Some r \<Rightarrow>
      (0, Some (u\<lparr>old_machine := overwrite m (old_machine u), old_release := overwrite r (old_release u)\<rparr>)))"

text \<open>\<open>memcpy\<close> of the new name and \<open>memset\<close> of the rest of the field.\<close>

definition set_field :: "u8 list \<Rightarrow> u8 list" where
  "set_field tmp = tmp @ replicate (NEW_UTS_LEN + 1 - length tmp) 0"

definition sys_sethostname :: "uts_env \<Rightarrow> (nat \<Rightarrow> u8) user_in \<Rightarrow> int \<Rightarrow> uts_state \<Rightarrow> int \<times> uts_state" where
  "sys_sethostname E name len st =
     (if \<not> uts_cap_sys_admin E then (- EPERM, st)
      else if len < 0 \<or> len > int NEW_UTS_LEN then (- EINVAL, st)
      else case bytes_from_user name (nat len) of None \<Rightarrow> (- EFAULT, st) | Some tmp \<Rightarrow>
      (0, st\<lparr>utsname := (utsname st)\<lparr>uts_nodename := set_field tmp\<rparr>,
             uts_notified := UTS_PROC_HOSTNAME # uts_notified st\<rparr>))"

definition sys_gethostname :: "user_out \<Rightarrow> int \<Rightarrow> uts_state \<Rightarrow> int \<times> u8 list option" where
  "sys_gethostname name len st =
     (if len < 0 then (- EINVAL, None)
      else let i = 1 + int (strlen (uts_nodename (utsname st)));
               i = (if i > len then len else i);
               tmp = take (nat i) (uts_nodename (utsname st))
      in case bytes_to_user name tmp of None \<Rightarrow> (- EFAULT, None) | Some bs \<Rightarrow> (0, Some bs))"

definition sys_setdomainname :: "uts_env \<Rightarrow> (nat \<Rightarrow> u8) user_in \<Rightarrow> int \<Rightarrow> uts_state \<Rightarrow> int \<times> uts_state" where
  "sys_setdomainname E name len st =
     (if \<not> uts_cap_sys_admin E then (- EPERM, st)
      else if len < 0 \<or> len > int NEW_UTS_LEN then (- EINVAL, st)
      else case bytes_from_user name (nat len) of None \<Rightarrow> (- EFAULT, st) | Some tmp \<Rightarrow>
      (0, st\<lparr>utsname := (utsname st)\<lparr>uts_domainname := set_field tmp\<rparr>,
             uts_notified := UTS_PROC_DOMAINNAME # uts_notified st\<rparr>))"

datatype uts_op = Sethostname "(nat \<Rightarrow> u8) user_in" int | Setdomainname "(nat \<Rightarrow> u8) user_in" int

fun exec_uts :: "uts_env \<times> uts_op \<Rightarrow> uts_state \<Rightarrow> int \<times> uts_state" where
  "exec_uts (E, Sethostname name len) st = sys_sethostname E name len st"
| "exec_uts (E, Setdomainname name len) st = sys_setdomainname E name len st"

section \<open>Fields stay terminated\<close>

definition uts_field :: "u8 list \<Rightarrow> bool" where
  "uts_field f \<longleftrightarrow> length f = NEW_UTS_LEN + 1 \<and> last f = 0"

definition uts_wf :: "uts_state \<Rightarrow> bool" where
  "uts_wf st \<longleftrightarrow> (let u = utsname st in uts_field (uts_sysname u) \<and> uts_field (uts_nodename u) \<and>
     uts_field (uts_release u) \<and> uts_field (uts_version u) \<and> uts_field (uts_machine u) \<and> uts_field (uts_domainname u))"

lemma set_field_ok: "length tmp \<le> NEW_UTS_LEN \<Longrightarrow> uts_field (set_field tmp)"
  by (simp add: uts_field_def set_field_def)

lemma takeWhile_nul: "takeWhile (\<lambda>c. c \<noteq> 0) (xs @ 0 # ys) = takeWhile (\<lambda>c. c \<noteq> 0) xs"
  for xs :: "u8 list"
  by (induction xs) auto

lemma takeWhile_set_field:
  assumes "length tmp \<le> NEW_UTS_LEN"
  shows "takeWhile (\<lambda>c. c \<noteq> 0) (set_field tmp) = takeWhile (\<lambda>c. c \<noteq> 0) tmp"
proof -
  have "NEW_UTS_LEN + 1 - length tmp = Suc (NEW_UTS_LEN - length tmp)" using assms by simp
  then show ?thesis by (simp only: set_field_def replicate_Suc takeWhile_nul)
qed

text \<open>A terminated field holds its string and then a NUL.\<close>

lemma terminated_split:
  assumes "uts_field f"
  obtains zs where "f = takeWhile (\<lambda>c. c \<noteq> 0) f @ 0 # zs"
proof -
  have "f \<noteq> []" "last f = 0" using assms by (auto simp: uts_field_def)
  then have "0 \<in> set f" by (metis last_in_set)
  then obtain ys zs where f: "f = ys @ 0 # zs" and ys: "0 \<notin> set ys"
    by (metis split_list_first)
  from ys have "takeWhile (\<lambda>c. c \<noteq> 0) f = ys"
    unfolding f takeWhile_nul by (auto simp: takeWhile_eq_all_conv)
  with f show ?thesis using that by metis
qed

lemma take_terminated:
  assumes "uts_field f"
  shows "take (1 + strlen f) f = takeWhile (\<lambda>c. c \<noteq> 0) f @ [0]"
proof -
  obtain zs where f: "f = takeWhile (\<lambda>c. c \<noteq> 0) f @ 0 # zs" using terminated_split [OF assms] .
  have "take (1 + strlen f) (takeWhile (\<lambda>c. c \<noteq> 0) f @ 0 # zs) = takeWhile (\<lambda>c. c \<noteq> 0) f @ [0]"
    by (simp add: strlen_def)
  then show ?thesis by (simp only: f [symmetric])
qed

lemma exec_uts_wf: "uts_wf st \<Longrightarrow> uts_wf (snd (exec_uts c st))"
  by (cases "(c, st)" rule: exec_uts.cases)
    (auto simp: sys_sethostname_def sys_setdomainname_def uts_wf_def Let_def nat_le_iff
      split: option.split dest!: bytes_from_user_length intro!: set_field_ok)

interpretation uts: syscall_invariant exec_uts "\<lambda>c. True" uts_wf
  by unfold_locales (rule exec_uts_wf)

interpretation uts_calls: syscall_atomic exec_uts
proof unfold_locales
  fix c st assume "fst (exec_uts c st) < 0"
  then show "snd (exec_uts c st) = st"
    by (cases "(c, st)" rule: exec_uts.cases)
      (auto simp: sys_sethostname_def sys_setdomainname_def split: if_splits option.splits)
qed

text \<open>What \<open>gethostname\<close> stores: the string and its NUL, cut to the length asked for.\<close>

lemma gethostname_eq:
  assumes "uts_wf st" and "0 \<le> len"
  shows "sys_gethostname name len st =
    (case bytes_to_user name (take (nat len) (takeWhile (\<lambda>c. c \<noteq> 0) (uts_nodename (utsname st)) @ [0])) of
       None \<Rightarrow> (- EFAULT, None) | Some bs \<Rightarrow> (0, Some bs))"
proof -
  let ?f = "uts_nodename (utsname st)"
  have "uts_field ?f" using assms(1) by (simp add: uts_wf_def Let_def)
  note t = take_terminated [OF this]
  have "nat (if 1 + int (strlen ?f) > len then len else 1 + int (strlen ?f)) = min (nat len) (1 + strlen ?f)"
    using assms(2) by (cases "1 + int (strlen ?f) > len") (simp_all add: min_def nat_add_distrib, linarith)
  then have "take (nat (if 1 + int (strlen ?f) > len then len else 1 + int (strlen ?f))) ?f =
      take (nat len) (takeWhile (\<lambda>c. c \<noteq> 0) ?f @ [0])"
    by (simp only: take_take [symmetric] t)
  then show ?thesis using assms(2) unfolding sys_gethostname_def Let_def by simp
qed

section \<open>The release string\<close>

lemma skip_version_digits:
  assumes "list_all isdigit ds"
  shows "skip_version n (ds @ rest) = skip_version n rest"
proof -
  have "isdigit c \<Longrightarrow> c \<noteq> 46" for c by (auto simp: isdigit_def)
  with assms show ?thesis by (induction ds) auto
qed

lemma skip_version_stop:
  assumes "tail = [] \<or> \<not> isdigit (hd tail)"
  shows "skip_version 2 tail = tail"
  using assms by (cases tail) auto

lemma skip_version_number:
  assumes "list_all isdigit a" "list_all isdigit b" "list_all isdigit c" "tail = [] \<or> \<not> isdigit (hd tail)"
  shows "skip_version 0 (a @ 46 # b @ 46 # c @ tail) = tail"
  using assms by (simp add: skip_version_digits skip_version_stop numeral_2_eq_2 [symmetric])

section \<open>Properties\<close>

definition uts_env_of :: uts_env where
  "uts_env_of = \<lparr>UTS_RELEASE = [54, 46, 56, 46, 48, 45, 103], LINUX_VERSION_PATCHLEVEL = 8, personality_UNAME26 = True,
     personality_LINUX32 = True, COMPAT_UTS_MACHINE = Some [105, 54, 56, 54, 0], uts_cap_sys_admin = True\<rparr>"

definition uts_state0 :: uts_state where
  "uts_state0 = (let f = set_field [76] in
     \<lparr>utsname = \<lparr>uts_sysname = f, uts_nodename = f, uts_release = f, uts_version = f, uts_machine = f, uts_domainname = f\<rparr>,
      uts_notified = []\<rparr>)"

lemma uts_state0_wf: "uts_wf uts_state0"
  by (simp add: uts_wf_def uts_state0_def set_field_ok Let_def)

text \<open>
  After any sequence of \<open>sethostname\<close> and \<open>setdomainname\<close> calls every field is a
  NUL-terminated string of 65 bytes, and a failed call has changed nothing.
\<close>

theorem uts_fields_terminated:
  assumes "uts_wf st"
  shows "uts_wf (run_calls exec_uts cs st) \<and>
     run_calls exec_uts cs st = run_calls exec_uts (succeeded exec_uts cs st) st"
  using assms by (simp add: uts.run_inv uts_calls.run_succeeded list_all_iff)

theorem uts_fields_terminated_witness:
  "uts_wf (run_calls exec_uts [(uts_env_of, Sethostname (Readable (\<lambda>i. 65)) 64), (uts_env_of, Setdomainname Fault_in 3)] uts_state0)"
  using uts_fields_terminated [OF uts_state0_wf] by blast

text \<open>
  After a successful \<open>sethostname\<close> of \<open>len\<close> bytes, \<open>gethostname\<close> with room for \<open>len2\<close> bytes
  stores the name up to its first NUL and one NUL, cut to \<open>len2\<close> bytes; it never stores more
  than the 65 bytes of its buffer.
\<close>

theorem sethostname_gethostname:
  assumes "uts_wf st" and "sys_sethostname E name len st = (0, st')"
    and "sys_gethostname buf len2 st' = (0, Some bs)"
  shows "\<exists>tmp. bytes_from_user name (nat len) = Some tmp \<and>
     bs = take (nat len2) (takeWhile (\<lambda>c. c \<noteq> 0) tmp @ [0]) \<and> length bs \<le> NEW_UTS_LEN + 1"
proof -
  from assms(2) obtain tmp where tmp: "bytes_from_user name (nat len) = Some tmp" "len \<le> int NEW_UTS_LEN"
    and st': "st' = st\<lparr>utsname := (utsname st)\<lparr>uts_nodename := set_field tmp\<rparr>,
       uts_notified := UTS_PROC_HOSTNAME # uts_notified st\<rparr>"
    by (auto simp: sys_sethostname_def split: if_splits option.splits)
  have short: "length tmp \<le> NEW_UTS_LEN" using bytes_from_user_length [OF tmp(1)] tmp(2) by simp
  have "uts_wf st'" using exec_uts_wf [OF assms(1), of "(E, Sethostname name len)"] assms(2) by simp
  moreover have "0 \<le> len2" using assms(3) by (auto simp: sys_gethostname_def split: if_splits)
  ultimately have bs: "bs = take (nat len2) (takeWhile (\<lambda>c. c \<noteq> 0) tmp @ [0])"
    using assms(3) unfolding gethostname_eq [OF \<open>uts_wf st'\<close> \<open>0 \<le> len2\<close>]
    by (auto simp: st' takeWhile_set_field [OF short] bytes_to_user_def copy_to_user_def split: if_splits option.splits)
  with tmp(1) short length_takeWhile_le [of "\<lambda>c. c \<noteq> 0" tmp] show ?thesis
    by (intro exI [of _ tmp]) (simp add: min_def)
qed

theorem sethostname_gethostname_witness:
  "\<exists>bs. sys_gethostname Writable 10 (snd (sys_sethostname uts_env_of (Readable (\<lambda>i. 65)) 3 uts_state0)) = (0, Some bs) \<and>
     bs = [65, 65, 65, 0]"
proof -
  let ?st = "snd (sys_sethostname uts_env_of (Readable (\<lambda>i. 65)) 3 uts_state0)"
  have set: "sys_sethostname uts_env_of (Readable (\<lambda>i. 65)) 3 uts_state0 = (0, ?st)"
    by (simp add: sys_sethostname_def uts_env_of_def bytes_from_user_def)
  obtain bs where get: "sys_gethostname Writable 10 ?st = (0, Some bs)"
    by (simp add: sys_gethostname_def Let_def)
  from sethostname_gethostname [OF uts_state0_wf set get] get show ?thesis
    by (simp add: bytes_from_user_def upt_rec)
qed

text \<open>
  For a caller with the \<open>UNAME26\<close> personality and a release \<open>a.b.c\<close> followed by a suffix,
  \<open>override_release\<close> reports \<open>2.6.\<close>, the patch level plus 60 and the suffix, NUL-terminated
  and cut so that it fits the field.
\<close>

theorem override_release_correct:
  assumes "personality_UNAME26 E" and "1 \<le> len" and "len \<le> 65"
    and "UTS_RELEASE E = a @ 46 # b @ 46 # c @ tail"
    and "list_all isdigit a" and "list_all isdigit b" and "list_all isdigit c"
    and "tail = [] \<or> \<not> isdigit (hd tail)"
    and "override_release E release len = Some bs"
  shows "bs = take (len - 1) ([50, 46, 54, 46] @ decimal (unat (LINUX_VERSION_PATCHLEVEL E + 60)) @ tail) @ [0] \<and>
     length bs \<le> len"
proof -
  have "skip_version 0 (UTS_RELEASE E) = tail"
    unfolding assms(4) by (rule skip_version_number [OF assms(5-8)])
  with assms show ?thesis
    by (auto simp: override_release_def scnprintf_26_def bytes_to_user_def copy_to_user_def max_def min_def Let_def split: if_splits)
qed

theorem override_release_correct_witness:
  "override_release uts_env_of Writable 65 = Some [50, 46, 54, 46, 54, 56, 45, 103, 0]"
proof -
  obtain bs where bs: "override_release uts_env_of Writable 65 = Some bs"
    by (simp add: override_release_def uts_env_of_def Let_def)
  have "UTS_RELEASE uts_env_of = [54] @ 46 # [56] @ 46 # [48] @ [45, 103]" "personality_UNAME26 uts_env_of"
    by (simp_all add: uts_env_of_def)
  moreover have "decimal (unat (LINUX_VERSION_PATCHLEVEL uts_env_of + 60)) = [54, 56]"
    by (simp add: uts_env_of_def decimal.simps digit_def)
  ultimately show ?thesis
    using override_release_correct [of uts_env_of 65 "[54]" "[56]" "[48]" "[45, 103]" Writable bs] bs
    by (simp add: isdigit_def)
qed

end
