(* ===== verification/Resource_Usage.thy ===== *)
theory Resource_Usage
  imports Kernel_Base
begin

text \<open>
  Accounting calls of \<^verbatim>\<open>src/Kernel/kernel/sys.c\<close>: \<open>times\<close>, \<open>getrusage\<close> with its
  32-bit compatible forms, and \<open>umask\<close>. Counters are 64-bit words and wrap as the C code does.
\<close>

section \<open>Process times\<close>

record tms =
  tms_utime :: u64
  tms_stime :: u64
  tms_cutime :: u64
  tms_cstime :: u64

record compat_tms =
  compat_utime :: u32
  compat_stime :: u32
  compat_cutime :: u32
  compat_cstime :: u32

text \<open>
  From outside the file: the adjusted cpu times of the thread group, the times of its reaped
  children, the conversions between nanoseconds, ticks and \<open>clock_t\<close>, and the tick counter.
\<close>

record times_env =
  tg_utime :: u64
  tg_stime :: u64
  tm_cutime :: u64
  tm_cstime :: u64
  nsec_to_clock_t :: "u64 \<Rightarrow> u64"
  jiffies_64_to_clock_t :: "u64 \<Rightarrow> u64"
  clock_t_to_jiffies :: "u64 \<Rightarrow> u64"
  compat_jiffies_to_clock_t :: "u64 \<Rightarrow> u32"
  jiffies_64 :: u64

definition do_sys_times :: "times_env \<Rightarrow> tms" where
  "do_sys_times E =
     \<lparr>tms_utime = nsec_to_clock_t E (tg_utime E), tms_stime = nsec_to_clock_t E (tg_stime E),
      tms_cutime = nsec_to_clock_t E (tm_cutime E), tms_cstime = nsec_to_clock_t E (tm_cstime E)\<rparr>"

definition sys_times :: "times_env \<Rightarrow> user_out \<Rightarrow> int \<times> tms option" where
  "sys_times E tbuf =
     (if tbuf \<noteq> Null_out \<and> copy_to_user tbuf (do_sys_times E) = None then (- EFAULT, None)
      else (sint (jiffies_64_to_clock_t E (jiffies_64 E)), copy_to_user tbuf (do_sys_times E)))"

definition clock_t_to_compat_clock_t :: "times_env \<Rightarrow> u64 \<Rightarrow> u32" where
  "clock_t_to_compat_clock_t E x = compat_jiffies_to_clock_t E (clock_t_to_jiffies E x)"

definition compat_sys_times :: "times_env \<Rightarrow> user_out \<Rightarrow> int \<times> compat_tms option" where
  "compat_sys_times E tbuf =
     (let tms = do_sys_times E;
          tmp = \<lparr>compat_utime = clock_t_to_compat_clock_t E (tms_utime tms),
                 compat_stime = clock_t_to_compat_clock_t E (tms_stime tms),
                 compat_cutime = clock_t_to_compat_clock_t E (tms_cutime tms),
                 compat_cstime = clock_t_to_compat_clock_t E (tms_cstime tms)\<rparr>
      in if tbuf \<noteq> Null_out \<and> copy_to_user tbuf tmp = None then (- EFAULT, None)
      else (sint (compat_jiffies_to_clock_t E (jiffies_64 E)), copy_to_user tbuf tmp))"

section \<open>Resource usage\<close>

abbreviation RUSAGE_SELF :: int where "RUSAGE_SELF \<equiv> 0"
abbreviation RUSAGE_CHILDREN :: int where "RUSAGE_CHILDREN \<equiv> - 1"
abbreviation RUSAGE_BOTH :: int where "RUSAGE_BOTH \<equiv> - 2"
abbreviation RUSAGE_THREAD :: int where "RUSAGE_THREAD \<equiv> 1"

record thread_acct =
  t_nvcsw :: u64
  t_nivcsw :: u64
  t_min_flt :: u64
  t_maj_flt :: u64
  t_inblock :: u64
  t_oublock :: u64

text \<open>
  The accounting fields of \<open>struct signal_struct\<close>, the counters of exited threads and of reaped
  children each grouped as one set of counters, and the live threads of the group.
\<close>

record sig_acct =
  sg_own :: thread_acct
  sg_children :: thread_acct
  sg_cutime :: u64
  sg_cstime :: u64
  sg_maxrss :: u64
  sg_cmaxrss :: u64
  sg_threads :: "thread_acct list"

record rusage =
  ru_utime :: "u64 \<times> u64"
  ru_stime :: "u64 \<times> u64"
  ru_maxrss :: u64
  ru_nvcsw :: u64
  ru_nivcsw :: u64
  ru_minflt :: u64
  ru_majflt :: u64
  ru_inblock :: u64
  ru_oublock :: u64

text \<open>
  From outside the file: what \<open>p->signal\<close> holds when it is read without the lock
  (\<open>seq\<close> 0) and with it (\<open>seq\<close> 1), the seqlock test, the cpu times, the memory map of the
  task, if it has one, with its high-water mark, and the conversion of nanoseconds.
\<close>

record rusage_env =
  ru_signal :: "nat \<Rightarrow> sig_acct"
  ru_task :: thread_acct
  need_seqretry :: "nat \<Rightarrow> bool"
  task_cputime :: "u64 \<times> u64"
  thread_group_cputime :: "u64 \<times> u64"
  mm_hiwater_rss :: "u64 option"
  ns_to_kernel_old_timeval :: "u64 \<Rightarrow> u64 \<times> u64"
  put_compat_rusage :: "rusage \<Rightarrow> int"

definition zero_rusage :: rusage where
  "zero_rusage = \<lparr>ru_utime = (0, 0), ru_stime = (0, 0), ru_maxrss = 0, ru_nvcsw = 0, ru_nivcsw = 0,
     ru_minflt = 0, ru_majflt = 0, ru_inblock = 0, ru_oublock = 0\<rparr>"

definition accumulate_thread_rusage :: "thread_acct \<Rightarrow> rusage \<Rightarrow> rusage" where
  "accumulate_thread_rusage t r =
     r\<lparr>ru_nvcsw := ru_nvcsw r + t_nvcsw t, ru_nivcsw := ru_nivcsw r + t_nivcsw t,
       ru_minflt := ru_minflt r + t_min_flt t, ru_majflt := ru_majflt r + t_maj_flt t,
       ru_inblock := ru_inblock r + t_inblock t, ru_oublock := ru_oublock r + t_oublock t\<rparr>"

text \<open>The stores under the cases \<open>RUSAGE_BOTH\<close> and \<open>RUSAGE_CHILDREN\<close>.\<close>

definition children_rusage :: "sig_acct \<Rightarrow> rusage \<Rightarrow> rusage" where
  "children_rusage sig r =
     (let c = sg_children sig in
      r\<lparr>ru_nvcsw := t_nvcsw c, ru_nivcsw := t_nivcsw c, ru_minflt := t_min_flt c,
        ru_majflt := t_maj_flt c, ru_inblock := t_inblock c, ru_oublock := t_oublock c\<rparr>)"

text \<open>The case \<open>RUSAGE_SELF\<close>: the exited threads, then every live one.\<close>

definition self_rusage :: "sig_acct \<Rightarrow> rusage \<Rightarrow> rusage" where
  "self_rusage sig r = fold accumulate_thread_rusage (sg_threads sig) (accumulate_thread_rusage (sg_own sig) r)"

definition setmax_hiwater :: "rusage_env \<Rightarrow> u64 \<Rightarrow> u64" where
  "setmax_hiwater E maxrss =
     (case mm_hiwater_rss E of None \<Rightarrow> maxrss | Some h \<Rightarrow> if maxrss < h then h else maxrss)"

text \<open>The stores at \<open>out_children\<close>; a page is 4 KiB.\<close>

definition finish_rusage :: "rusage_env \<Rightarrow> u64 \<Rightarrow> u64 \<Rightarrow> u64 \<Rightarrow> rusage \<Rightarrow> rusage" where
  "finish_rusage E maxrss utime stime r =
     r\<lparr>ru_maxrss := maxrss * (4096 div 1024), ru_utime := ns_to_kernel_old_timeval E utime,
       ru_stime := ns_to_kernel_old_timeval E stime\<rparr>"

datatype rusage_result = BUG | Usage rusage

text \<open>
  \<open>getrusage\<close> from the label \<open>retry\<close> on. A lockless pass that raced with a writer is repeated
  with the lock; a pass that never gets through is the value None.
\<close>

partial_function (option) getrusage_retry :: "rusage_env \<Rightarrow> int \<Rightarrow> nat \<Rightarrow> rusage_result option" where
  "getrusage_retry E who sq =
     (let r = zero_rusage; sig = ru_signal E sq in
      if who = RUSAGE_THREAD then
        Some (Usage (finish_rusage E (setmax_hiwater E (sg_maxrss sig))
          (fst (task_cputime E)) (snd (task_cputime E)) (accumulate_thread_rusage (ru_task E) r)))
      else if who \<notin> {RUSAGE_BOTH, RUSAGE_CHILDREN, RUSAGE_SELF} then Some BUG
      else
        let utime = (if who = RUSAGE_SELF then 0 else sg_cutime sig);
            stime = (if who = RUSAGE_SELF then 0 else sg_cstime sig);
            r = (if who = RUSAGE_SELF then r else children_rusage sig r);
            maxrss = (if who = RUSAGE_SELF then 0 else sg_cmaxrss sig);
            r = (if who = RUSAGE_CHILDREN then r else self_rusage sig r);
            maxrss = (if who \<noteq> RUSAGE_CHILDREN \<and> maxrss < sg_maxrss sig then sg_maxrss sig else maxrss)
        in if need_seqretry E sq then getrusage_retry E who 1
           else if who = RUSAGE_CHILDREN then Some (Usage (finish_rusage E maxrss utime stime r))
           else Some (Usage (finish_rusage E (setmax_hiwater E maxrss)
             (utime + fst (thread_group_cputime E)) (stime + snd (thread_group_cputime E)) r)))"

definition getrusage :: "rusage_env \<Rightarrow> int \<Rightarrow> rusage_result option" where
  "getrusage E who = getrusage_retry E who 0"

definition sys_getrusage :: "rusage_env \<Rightarrow> int \<Rightarrow> user_out \<Rightarrow> (int \<times> rusage option) option" where
  "sys_getrusage E who ru =
     (if who \<noteq> RUSAGE_SELF \<and> who \<noteq> RUSAGE_CHILDREN \<and> who \<noteq> RUSAGE_THREAD then Some (- EINVAL, None)
      else case getrusage E who of
        Some (Usage r) \<Rightarrow> Some (if copy_to_user ru r = None then (- EFAULT, None) else (0, copy_to_user ru r))
      | _ \<Rightarrow> None)"

definition compat_sys_getrusage :: "rusage_env \<Rightarrow> int \<Rightarrow> int option" where
  "compat_sys_getrusage E who =
     (if who \<noteq> RUSAGE_SELF \<and> who \<noteq> RUSAGE_CHILDREN \<and> who \<noteq> RUSAGE_THREAD then Some (- EINVAL)
      else case getrusage E who of Some (Usage r) \<Rightarrow> Some (put_compat_rusage E r) | _ \<Rightarrow> None)"

section \<open>File mode creation mask\<close>

abbreviation S_IRWXUGO :: u32 where "S_IRWXUGO \<equiv> 0x1FF"

definition sys_umask :: "u32 \<Rightarrow> u32 \<Rightarrow> int \<times> u32" where
  "sys_umask m st = (sint st, m AND S_IRWXUGO)"

section \<open>Sums of counters\<close>

lemma fold_accumulate:
  "ru_nvcsw (fold accumulate_thread_rusage ts r) = ru_nvcsw r + sum_list (map t_nvcsw ts)"
  "ru_nivcsw (fold accumulate_thread_rusage ts r) = ru_nivcsw r + sum_list (map t_nivcsw ts)"
  "ru_minflt (fold accumulate_thread_rusage ts r) = ru_minflt r + sum_list (map t_min_flt ts)"
  "ru_majflt (fold accumulate_thread_rusage ts r) = ru_majflt r + sum_list (map t_maj_flt ts)"
  "ru_inblock (fold accumulate_thread_rusage ts r) = ru_inblock r + sum_list (map t_inblock ts)"
  "ru_oublock (fold accumulate_thread_rusage ts r) = ru_oublock r + sum_list (map t_oublock ts)"
  by (induction ts arbitrary: r) (simp_all add: accumulate_thread_rusage_def add.assoc)

text \<open>One counter of the result, by the way it is read from a thread.\<close>

definition total :: "(thread_acct \<Rightarrow> u64) \<Rightarrow> int \<Rightarrow> sig_acct \<Rightarrow> u64" where
  "total f who sig = (if who = RUSAGE_SELF then 0 else f (sg_children sig)) +
     (if who = RUSAGE_CHILDREN then 0 else f (sg_own sig) + sum_list (map f (sg_threads sig)))"

definition counters_total :: "rusage \<Rightarrow> int \<Rightarrow> sig_acct \<Rightarrow> bool" where
  "counters_total r who sig \<longleftrightarrow>
     ru_nvcsw r = total t_nvcsw who sig \<and> ru_nivcsw r = total t_nivcsw who sig \<and>
     ru_minflt r = total t_min_flt who sig \<and> ru_majflt r = total t_maj_flt who sig \<and>
     ru_inblock r = total t_inblock who sig \<and> ru_oublock r = total t_oublock who sig"

definition maxrss_total :: "rusage_env \<Rightarrow> int \<Rightarrow> sig_acct \<Rightarrow> u64" where
  "maxrss_total E who sig =
     (if who = RUSAGE_CHILDREN then sg_cmaxrss sig
      else let own = max (sg_maxrss sig) (case mm_hiwater_rss E of None \<Rightarrow> 0 | Some h \<Rightarrow> h)
        in if who = RUSAGE_SELF then own else max (sg_cmaxrss sig) own)"

lemma word_max_zero: "max 0 x = x" "max x 0 = x" for x :: u64
  by (simp_all add: max_def)

lemma raise_max: "(if a < b then b else a) = max a b" for a b :: u64
  by (auto simp: max_def)

lemma setmax_hiwater_max: "setmax_hiwater E m = max m (case mm_hiwater_rss E of None \<Rightarrow> 0 | Some h \<Rightarrow> h)"
  by (simp add: setmax_hiwater_def raise_max word_max_zero split: option.split)

definition utime_total :: "rusage_env \<Rightarrow> int \<Rightarrow> sig_acct \<Rightarrow> u64" where
  "utime_total E who sig = (if who = RUSAGE_SELF then 0 else sg_cutime sig) +
     (if who = RUSAGE_CHILDREN then 0 else fst (thread_group_cputime E))"

definition stime_total :: "rusage_env \<Rightarrow> int \<Rightarrow> sig_acct \<Rightarrow> u64" where
  "stime_total E who sig = (if who = RUSAGE_SELF then 0 else sg_cstime sig) +
     (if who = RUSAGE_CHILDREN then 0 else snd (thread_group_cputime E))"

definition usage_of :: "rusage_env \<Rightarrow> int \<Rightarrow> sig_acct \<Rightarrow> rusage \<Rightarrow> bool" where
  "usage_of E who sig r \<longleftrightarrow> counters_total r who sig \<and> ru_maxrss r = 4 * maxrss_total E who sig \<and>
     ru_utime r = ns_to_kernel_old_timeval E (utime_total E who sig) \<and>
     ru_stime r = ns_to_kernel_old_timeval E (stime_total E who sig)"

lemmas usage_defs = usage_of_def counters_total_def total_def maxrss_total_def utime_total_def stime_total_def

lemma getrusage_pass:
  assumes "who \<in> {RUSAGE_BOTH, RUSAGE_CHILDREN, RUSAGE_SELF}" and "\<not> need_seqretry E sq"
  shows "\<exists>r. getrusage_retry E who sq = Some (Usage r) \<and> usage_of E who (ru_signal E sq) r"
  using assms
  by (subst getrusage_retry.simps)
    (auto simp: Let_def finish_rusage_def usage_defs fold_accumulate self_rusage_def children_rusage_def
      accumulate_thread_rusage_def zero_rusage_def add.assoc setmax_hiwater_max raise_max word_max_zero max.assoc)

lemma getrusage_raced:
  assumes "who \<in> {RUSAGE_BOTH, RUSAGE_CHILDREN, RUSAGE_SELF}" and "need_seqretry E sq"
  shows "getrusage_retry E who sq = getrusage_retry E who 1"
  using assms by (subst getrusage_retry.simps) (auto simp: Let_def)

section \<open>Properties\<close>

definition rusage_env_of :: rusage_env where
  "rusage_env_of = (let t = \<lparr>t_nvcsw = 1, t_nivcsw = 2, t_min_flt = 3, t_maj_flt = 4, t_inblock = 5, t_oublock = 6\<rparr> in
     \<lparr>ru_signal = (\<lambda>sq. \<lparr>sg_own = t, sg_children = t, sg_cutime = 7, sg_cstime = 8, sg_maxrss = 9, sg_cmaxrss = 10, sg_threads = [t, t]\<rparr>),
      ru_task = t, need_seqretry = (\<lambda>sq. sq = 0), task_cputime = (1, 1), thread_group_cputime = (20, 30),
      mm_hiwater_rss = Some 11, ns_to_kernel_old_timeval = (\<lambda>n. (0, n)), put_compat_rusage = (\<lambda>r. 0)\<rparr>)"

text \<open>
  \<open>getrusage\<close> on a process always returns, in at most two passes, since a pass with the
  lock is not repeated. The result is the accounting of the pass that counted: each counter is
  the sum over the children (for \<open>RUSAGE_CHILDREN\<close> and \<open>RUSAGE_BOTH\<close>) and over the exited and
  live threads (for \<open>RUSAGE_SELF\<close> and \<open>RUSAGE_BOTH\<close>), the times are added alike, and the
  resident set size is the maximum, in KiB.
\<close>

theorem getrusage_correct:
  assumes "who \<in> {RUSAGE_BOTH, RUSAGE_CHILDREN, RUSAGE_SELF}" and "\<not> need_seqretry E 1"
  shows "\<exists>r. getrusage E who = Some (Usage r) \<and>
     usage_of E who (ru_signal E (if need_seqretry E 0 then 1 else 0)) r"
  using getrusage_pass [OF assms] getrusage_pass [OF assms(1), of E 0] getrusage_raced [OF assms(1), of E 0]
  unfolding getrusage_def by auto

theorem getrusage_correct_witness:
  "\<exists>r. getrusage rusage_env_of RUSAGE_BOTH = Some (Usage r) \<and> ru_nvcsw r = 4 \<and> ru_maxrss r = 44 \<and> ru_utime r = (0, 27)"
  using getrusage_correct [of RUSAGE_BOTH rusage_env_of]
  by (simp add: rusage_env_of_def usage_defs Let_def max_def) blast

text \<open>
  \<open>umask\<close> keeps only the nine permission bits and returns the previous mask, so that setting
  a mask and restoring the returned one gives the original mask back.
\<close>

theorem umask_restore:
  assumes "st AND S_IRWXUGO = st"
  shows "fst (sys_umask n (snd (sys_umask m st))) = sint (m AND S_IRWXUGO) \<and>
     snd (sys_umask (word_of_int (fst (sys_umask m st))) (snd (sys_umask m st))) = st"
  using assms by (simp add: sys_umask_def)

theorem umask_restore_witness:
  "snd (sys_umask (word_of_int (fst (sys_umask 0xFFFF 0x12))) (snd (sys_umask 0xFFFF 0x12))) = 0x12"
  using umask_restore [of "0x12" 0 "0xFFFF"] by simp

end
