(* ===== verification/Mm_Layout.thy ===== *)
theory Mm_Layout
  imports Kernel_Base
begin

text \<open>
  The memory-map controls behind \<open>prctl\<close> in \<^verbatim>\<open>src/Kernel/kernel/sys.c\<close>:
  \<open>prctl_set_mm_exe_file\<close>, \<open>validate_prctl_map_addr\<close>, \<open>prctl_set_mm_map\<close>, \<open>prctl_set_auxv\<close>,
  \<open>prctl_set_mm\<close>, \<open>prctl_get_auxv\<close>, \<open>prctl_set_vma\<close> and the memory-deny-write-execute flags.
  The state is the part of \<open>struct mm_struct\<close> they touch; the saved auxiliary vector is kept as
  bytes, since the copies are counted in bytes.
\<close>

section \<open>State and environment\<close>

record mm_layout =
  start_code :: u64
  end_code :: u64
  start_data :: u64
  end_data :: u64
  start_brk :: u64
  brk :: u64
  start_stack :: u64
  arg_start :: u64
  arg_end :: u64
  env_start :: u64
  env_end :: u64

record prctl_mm_map =
  map_layout :: mm_layout
  map_auxv :: u64
  map_auxv_size :: u32
  map_exe_fd :: u32

record mm_struct =
  layout :: mm_layout
  saved_auxv :: "u8 list"
  exe_file :: nat
  has_mdwe :: bool
  has_mdwe_no_inherit :: bool
  anon_name_requests :: "(u64 \<times> u64 \<times> u8 list option) list"

text \<open>
  From outside the file: the address-space bounds, the file layer behind
  \<open>PR_SET_MM_EXE_FILE\<close>, \<open>check_data_rlimit\<close>, the capability tests, \<open>find_vma\<close>, what user
  memory holds and where it can be written, \<open>strndup_user\<close>, the allocation of the name and
  \<open>madvise_set_anon_name\<close>, and the configuration.
\<close>

record mm_env =
  TASK_SIZE :: u64
  mmap_min_addr :: u64
  fdget :: "u32 \<Rightarrow> nat option"
  S_ISREG :: "nat \<Rightarrow> bool"
  path_noexec :: "nat \<Rightarrow> bool"
  file_permission_exec :: "nat \<Rightarrow> int"
  replace_mm_exe_file :: "nat \<Rightarrow> nat \<Rightarrow> int \<times> nat"
  rlimit_data :: u64
  check_data_rlimit :: "u64 \<Rightarrow> u64 \<Rightarrow> u64 \<Rightarrow> u64 \<Rightarrow> u64 \<Rightarrow> bool"
  mm_cap_sys_resource :: bool
  checkpoint_restore_capable :: bool
  find_vma :: "u64 \<Rightarrow> bool"
  user_bytes :: "u64 \<Rightarrow> u8 option"
  user_map :: "u64 \<Rightarrow> prctl_mm_map user_in"
  user_writable :: "u64 \<Rightarrow> user_out"
  strndup_user :: "u64 \<Rightarrow> int + u8 list"
  anon_vma_name_alloc :: bool
  madvise_set_anon_name :: "u64 \<Rightarrow> u64 \<Rightarrow> u8 list option \<Rightarrow> int"
  config_checkpoint_restore :: bool
  config_anon_vma_name :: bool
  config_parisc :: bool

abbreviation PR_SET_MM_START_CODE :: int where "PR_SET_MM_START_CODE \<equiv> 1"
abbreviation PR_SET_MM_END_CODE :: int where "PR_SET_MM_END_CODE \<equiv> 2"
abbreviation PR_SET_MM_START_DATA :: int where "PR_SET_MM_START_DATA \<equiv> 3"
abbreviation PR_SET_MM_END_DATA :: int where "PR_SET_MM_END_DATA \<equiv> 4"
abbreviation PR_SET_MM_START_STACK :: int where "PR_SET_MM_START_STACK \<equiv> 5"
abbreviation PR_SET_MM_START_BRK :: int where "PR_SET_MM_START_BRK \<equiv> 6"
abbreviation PR_SET_MM_BRK :: int where "PR_SET_MM_BRK \<equiv> 7"
abbreviation PR_SET_MM_ARG_START :: int where "PR_SET_MM_ARG_START \<equiv> 8"
abbreviation PR_SET_MM_ARG_END :: int where "PR_SET_MM_ARG_END \<equiv> 9"
abbreviation PR_SET_MM_ENV_START :: int where "PR_SET_MM_ENV_START \<equiv> 10"
abbreviation PR_SET_MM_ENV_END :: int where "PR_SET_MM_ENV_END \<equiv> 11"
abbreviation PR_SET_MM_AUXV :: int where "PR_SET_MM_AUXV \<equiv> 12"
abbreviation PR_SET_MM_EXE_FILE :: int where "PR_SET_MM_EXE_FILE \<equiv> 13"
abbreviation PR_SET_MM_MAP :: int where "PR_SET_MM_MAP \<equiv> 14"
abbreviation PR_SET_MM_MAP_SIZE :: int where "PR_SET_MM_MAP_SIZE \<equiv> 15"

text \<open>\<open>copy_from_user\<close> of \<open>n\<close> bytes at an address.\<close>

definition read_user :: "mm_env \<Rightarrow> u64 \<Rightarrow> nat \<Rightarrow> u8 list option" where
  "read_user E addr n =
     (if list_all (\<lambda>i. user_bytes E (addr + of_nat i) \<noteq> None) [0..<n]
      then Some (map (\<lambda>i. the (user_bytes E (addr + of_nat i))) [0..<n]) else None)"

section \<open>The executable\<close>

definition prctl_set_mm_exe_file :: "mm_env \<Rightarrow> u32 \<Rightarrow> mm_struct \<Rightarrow> int \<times> mm_struct" where
  "prctl_set_mm_exe_file E fd mm =
     (case fdget E fd of None \<Rightarrow> (- EBADF, mm) | Some exe \<Rightarrow>
      if \<not> S_ISREG E exe \<or> path_noexec E exe then (- EACCES, mm)
      else let err = file_permission_exec E exe
      in if err \<noteq> 0 then (err, mm)
      else case replace_mm_exe_file E exe (exe_file mm) of (err, f) \<Rightarrow> (err, mm\<lparr>exe_file := f\<rparr>))"

section \<open>Validation\<close>

text \<open>The members that \<open>offsets[]\<close> lists.\<close>

definition layout_values :: "mm_layout \<Rightarrow> u64 list" where
  "layout_values l = [start_code l, end_code l, start_data l, end_data l, start_brk l, brk l, start_stack l,
     arg_start l, arg_end l, env_start l, env_end l]"

definition prctl_check_order :: "bool \<Rightarrow> int" where
  "prctl_check_order b = (if b then 0 else - EINVAL)"

definition validate_prctl_map_addr :: "mm_env \<Rightarrow> mm_layout \<Rightarrow> int" where
  "validate_prctl_map_addr E m =
     (let mmap_max_addr = TASK_SIZE E in
      if list_ex (\<lambda>val. val \<ge> mmap_max_addr \<or> val < mmap_min_addr E) (layout_values m) then - EINVAL
      else let error = prctl_check_order (start_code m < end_code m);
               error = error OR prctl_check_order (start_data m \<le> end_data m);
               error = error OR prctl_check_order (start_brk m \<le> brk m);
               error = error OR prctl_check_order (arg_start m \<le> arg_end m);
               error = error OR prctl_check_order (env_start m \<le> env_end m)
      in if error \<noteq> 0 then error
      else if check_data_rlimit E (rlimit_data E) (brk m) (start_brk m) (end_data m) (start_data m) then - EINVAL
      else 0)"

section \<open>The auxiliary vector\<close>

text \<open>The local \<open>user_auxv\<close>: zeroed, filled from user memory, its last two words set to \<open>AT_NULL\<close>.\<close>

definition fill_auxv :: "nat \<Rightarrow> u8 list \<Rightarrow> u8 list" where
  "fill_auxv sz bs = take (sz - 16) (bs @ replicate (sz - length bs) 0) @ replicate (min sz 16) 0"

definition prctl_set_auxv :: "mm_env \<Rightarrow> u64 \<Rightarrow> u64 \<Rightarrow> mm_struct \<Rightarrow> int \<times> mm_struct" where
  "prctl_set_auxv E addr len mm =
     (let sz = length (saved_auxv mm) in
      if unat len > sz then (- EINVAL, mm)
      else case read_user E addr (unat len) of None \<Rightarrow> (- EFAULT, mm) | Some bs \<Rightarrow>
      (0, mm\<lparr>saved_auxv := take (unat len) (fill_auxv sz bs) @ drop (unat len) (saved_auxv mm)\<rparr>))"

definition prctl_get_auxv :: "user_out \<Rightarrow> u64 \<Rightarrow> mm_struct \<Rightarrow> int \<times> u8 list option" where
  "prctl_get_auxv addr len mm =
     (let size' = min (length (saved_auxv mm)) (unat len) in
      if size' \<noteq> 0 \<and> copy_to_user addr (take size' (saved_auxv mm)) = None then (- EFAULT, None)
      else (int (length (saved_auxv mm)), Some (take size' (saved_auxv mm))))"

section \<open>The whole map at once\<close>

abbreviation sizeof_prctl_mm_map :: u64 where "sizeof_prctl_mm_map \<equiv> 104"

text \<open>The copy of a new auxiliary vector, where the request names one.\<close>

definition map_user_auxv :: "mm_env \<Rightarrow> prctl_mm_map \<Rightarrow> mm_struct \<Rightarrow> int + u8 list" where
  "map_user_auxv E m mm =
     (let sz = length (saved_auxv mm) in
      if map_auxv_size m = 0 then Inr (saved_auxv mm)
      else if map_auxv m = 0 \<or> unat (map_auxv_size m) > sz then Inl (- EINVAL)
      else case read_user E (map_auxv m) (unat (map_auxv_size m)) of None \<Rightarrow> Inl (- EFAULT)
      | Some bs \<Rightarrow> Inr (fill_auxv sz bs))"

definition prctl_set_mm_map :: "mm_env \<Rightarrow> int \<Rightarrow> u64 \<Rightarrow> u64 \<Rightarrow> mm_struct \<Rightarrow> int \<times> mm_struct" where
  "prctl_set_mm_map E opt addr data_size mm =
     (if opt = PR_SET_MM_MAP_SIZE
      then (case copy_to_user (user_writable E addr) sizeof_prctl_mm_map of None \<Rightarrow> (- EFAULT, mm) | Some n \<Rightarrow> (0, mm))
      else if data_size \<noteq> sizeof_prctl_mm_map then (- EINVAL, mm)
      else case copy_from_user (user_map E addr) of None \<Rightarrow> (- EFAULT, mm) | Some m \<Rightarrow>
      let error = validate_prctl_map_addr E (map_layout m)
      in if error \<noteq> 0 then (error, mm)
      else case map_user_auxv E m mm of Inl error \<Rightarrow> (error, mm) | Inr user_auxv \<Rightarrow>
      if map_exe_fd m \<noteq> - 1 \<and> \<not> checkpoint_restore_capable E then (- EPERM, mm)
      else case (if map_exe_fd m \<noteq> - 1 then prctl_set_mm_exe_file E (map_exe_fd m) mm else (0, mm)) of (error, mm') \<Rightarrow>
      if error \<noteq> 0 then (error, mm')
      else (0, mm'\<lparr>layout := map_layout m, saved_auxv := user_auxv\<rparr>))"

section \<open>One member at a time\<close>

definition set_layout_member :: "int \<Rightarrow> u64 \<Rightarrow> mm_layout \<Rightarrow> mm_layout option" where
  "set_layout_member opt addr m =
     (if opt = PR_SET_MM_START_CODE then Some (m\<lparr>start_code := addr\<rparr>)
      else if opt = PR_SET_MM_END_CODE then Some (m\<lparr>end_code := addr\<rparr>)
      else if opt = PR_SET_MM_START_DATA then Some (m\<lparr>start_data := addr\<rparr>)
      else if opt = PR_SET_MM_END_DATA then Some (m\<lparr>end_data := addr\<rparr>)
      else if opt = PR_SET_MM_START_STACK then Some (m\<lparr>start_stack := addr\<rparr>)
      else if opt = PR_SET_MM_START_BRK then Some (m\<lparr>start_brk := addr\<rparr>)
      else if opt = PR_SET_MM_BRK then Some (m\<lparr>brk := addr\<rparr>)
      else if opt = PR_SET_MM_ARG_START then Some (m\<lparr>arg_start := addr\<rparr>)
      else if opt = PR_SET_MM_ARG_END then Some (m\<lparr>arg_end := addr\<rparr>)
      else if opt = PR_SET_MM_ENV_START then Some (m\<lparr>env_start := addr\<rparr>)
      else if opt = PR_SET_MM_ENV_END then Some (m\<lparr>env_end := addr\<rparr>)
      else None)"

text \<open>The options whose address must lie below the end of some mapping.\<close>

definition needs_vma :: "int \<Rightarrow> bool" where
  "needs_vma opt \<longleftrightarrow> opt \<in> {PR_SET_MM_START_STACK, PR_SET_MM_ARG_START, PR_SET_MM_ARG_END,
     PR_SET_MM_ENV_START, PR_SET_MM_ENV_END}"

definition prctl_set_mm :: "mm_env \<Rightarrow> int \<Rightarrow> u64 \<Rightarrow> u64 \<Rightarrow> u64 \<Rightarrow> mm_struct \<Rightarrow> int \<times> mm_struct" where
  "prctl_set_mm E opt addr arg4 arg5 mm =
     (if arg5 \<noteq> 0 \<or> (arg4 \<noteq> 0 \<and> opt \<noteq> PR_SET_MM_AUXV \<and> opt \<noteq> PR_SET_MM_MAP \<and> opt \<noteq> PR_SET_MM_MAP_SIZE)
      then (- EINVAL, mm)
      else if config_checkpoint_restore E \<and> (opt = PR_SET_MM_MAP \<or> opt = PR_SET_MM_MAP_SIZE)
      then prctl_set_mm_map E opt addr arg4 mm
      else if \<not> mm_cap_sys_resource E then (- EPERM, mm)
      else if opt = PR_SET_MM_EXE_FILE then prctl_set_mm_exe_file E (ucast addr) mm
      else if opt = PR_SET_MM_AUXV then prctl_set_auxv E addr arg4 mm
      else if addr \<ge> TASK_SIZE E \<or> addr < mmap_min_addr E then (- EINVAL, mm)
      else let vma = find_vma E addr
      in case set_layout_member opt addr (layout mm) of None \<Rightarrow> (- EINVAL, mm) | Some m \<Rightarrow>
      let error = validate_prctl_map_addr E m
      in if error \<noteq> 0 then (error, mm)
      else if needs_vma opt \<and> \<not> vma then (- EFAULT, mm)
      else (0, mm\<lparr>layout := m\<rparr>))"

section \<open>Names of anonymous mappings\<close>

abbreviation PR_SET_VMA_ANON_NAME :: u64 where "PR_SET_VMA_ANON_NAME \<equiv> 0"

text \<open>Printable ASCII except backslash, backquote, dollar and the square brackets.\<close>

definition is_valid_name_char :: "u8 \<Rightarrow> bool" where
  "is_valid_name_char ch \<longleftrightarrow> ch > 0x1f \<and> ch < 0x7f \<and> ch \<notin> {0x5c, 0x60, 0x24, 0x5b, 0x5d}"

text \<open>The scan of the name up to its NUL.\<close>

fun name_chars_ok :: "u8 list \<Rightarrow> bool" where
  "name_chars_ok [] = True"
| "name_chars_ok (c # cs) = (if c = 0 then True else if \<not> is_valid_name_char c then False else name_chars_ok cs)"

definition request_anon_name ::
  "mm_env \<Rightarrow> u64 \<Rightarrow> u64 \<Rightarrow> u8 list option \<Rightarrow> mm_struct \<Rightarrow> int \<times> mm_struct" where
  "request_anon_name E addr sz name mm =
     (madvise_set_anon_name E addr sz name, mm\<lparr>anon_name_requests := (addr, sz, name) # anon_name_requests mm\<rparr>)"

definition prctl_set_vma :: "mm_env \<Rightarrow> u64 \<Rightarrow> u64 \<Rightarrow> u64 \<Rightarrow> u64 \<Rightarrow> mm_struct \<Rightarrow> int \<times> mm_struct" where
  "prctl_set_vma E opt addr sz arg mm =
     (if \<not> config_anon_vma_name E then (- EINVAL, mm)
      else if opt = PR_SET_VMA_ANON_NAME then
        (if arg \<noteq> 0 then
           (case strndup_user E arg of Inl err \<Rightarrow> (err, mm) | Inr name \<Rightarrow>
            if \<not> name_chars_ok name then (- EINVAL, mm)
            else if \<not> anon_vma_name_alloc E then (- ENOMEM, mm)
            else request_anon_name E addr sz (Some name) mm)
         else request_anon_name E addr sz None mm)
      else (- EINVAL, mm))"

section \<open>Memory-deny-write-execute\<close>

abbreviation PR_MDWE_REFUSE_EXEC_GAIN :: u64 where "PR_MDWE_REFUSE_EXEC_GAIN \<equiv> 1"
abbreviation PR_MDWE_NO_INHERIT :: u64 where "PR_MDWE_NO_INHERIT \<equiv> 2"

definition get_current_mdwe :: "mm_struct \<Rightarrow> u64" where
  "get_current_mdwe mm =
     (let ret = 0;
          ret = (if has_mdwe mm then ret OR PR_MDWE_REFUSE_EXEC_GAIN else ret)
      in if has_mdwe_no_inherit mm then ret OR PR_MDWE_NO_INHERIT else ret)"

definition prctl_set_mdwe :: "mm_env \<Rightarrow> u64 \<Rightarrow> u64 \<Rightarrow> u64 \<Rightarrow> u64 \<Rightarrow> mm_struct \<Rightarrow> int \<times> mm_struct" where
  "prctl_set_mdwe E bits arg3 arg4 arg5 mm =
     (if arg3 \<noteq> 0 \<or> arg4 \<noteq> 0 \<or> arg5 \<noteq> 0 then (- EINVAL, mm)
      else if bits AND NOT (PR_MDWE_REFUSE_EXEC_GAIN OR PR_MDWE_NO_INHERIT) \<noteq> 0 then (- EINVAL, mm)
      else if bits AND PR_MDWE_NO_INHERIT \<noteq> 0 \<and> bits AND PR_MDWE_REFUSE_EXEC_GAIN = 0 then (- EINVAL, mm)
      else if config_parisc E then (- EINVAL, mm)
      else let current_bits = get_current_mdwe mm
      in if current_bits \<noteq> 0 \<and> current_bits \<noteq> bits then (- EPERM, mm)
      else let mm = (if bits AND PR_MDWE_NO_INHERIT \<noteq> 0 then mm\<lparr>has_mdwe_no_inherit := True\<rparr> else mm)
      in (0, if bits AND PR_MDWE_REFUSE_EXEC_GAIN \<noteq> 0 then mm\<lparr>has_mdwe := True\<rparr> else mm))"

definition prctl_get_mdwe :: "u64 \<Rightarrow> u64 \<Rightarrow> u64 \<Rightarrow> u64 \<Rightarrow> mm_struct \<Rightarrow> int" where
  "prctl_get_mdwe arg2 arg3 arg4 arg5 mm =
     (if arg2 \<noteq> 0 \<or> arg3 \<noteq> 0 \<or> arg4 \<noteq> 0 \<or> arg5 \<noteq> 0 then - EINVAL else uint (get_current_mdwe mm))"

datatype mm_op =
    Set_mm int u64 u64 u64
  | Set_vma u64 u64 u64 u64
  | Set_mdwe u64 u64 u64 u64

fun exec_mm :: "mm_env \<times> mm_op \<Rightarrow> mm_struct \<Rightarrow> int \<times> mm_struct" where
  "exec_mm (E, Set_mm opt addr arg4 arg5) mm = prctl_set_mm E opt addr arg4 arg5 mm"
| "exec_mm (E, Set_vma opt addr sz arg) mm = prctl_set_vma E opt addr sz arg mm"
| "exec_mm (E, Set_mdwe bits a3 a4 a5) mm = prctl_set_mdwe E bits a3 a4 a5 mm"

section \<open>What validation accepts\<close>

definition layout_ok :: "u64 \<Rightarrow> u64 \<Rightarrow> mm_layout \<Rightarrow> bool" where
  "layout_ok lo hi m \<longleftrightarrow> list_all (\<lambda>v. lo \<le> v \<and> v < hi) (layout_values m) \<and>
     start_code m < end_code m \<and> start_data m \<le> end_data m \<and> start_brk m \<le> brk m \<and>
     arg_start m \<le> arg_end m \<and> env_start m \<le> env_end m"

definition data_limit_ok :: "mm_env \<Rightarrow> mm_layout \<Rightarrow> bool" where
  "data_limit_ok E m \<longleftrightarrow> \<not> check_data_rlimit E (rlimit_data E) (brk m) (start_brk m) (end_data m) (start_data m)"

lemma order_errors:
  "prctl_check_order a OR prctl_check_order b = prctl_check_order (a \<and> b)"
  "prctl_check_order a = 0 \<longleftrightarrow> a"
  by (simp_all add: prctl_check_order_def)

lemma validate_eq:
  "validate_prctl_map_addr E m =
     (if layout_ok (mmap_min_addr E) (TASK_SIZE E) m \<and> data_limit_ok E m then 0 else - EINVAL)"
proof -
  have range: "list_ex (\<lambda>val. val \<ge> TASK_SIZE E \<or> val < mmap_min_addr E) (layout_values m) \<longleftrightarrow>
      \<not> list_all (\<lambda>v. mmap_min_addr E \<le> v \<and> v < TASK_SIZE E) (layout_values m)"
    by (auto simp: list_all_iff list_ex_iff not_le not_less)
  show ?thesis
    unfolding validate_prctl_map_addr_def Let_def range order_errors layout_ok_def data_limit_ok_def
    by (auto simp: prctl_check_order_def)
qed

lemma set_layout_member_Some: "opt \<in> {1..11} \<Longrightarrow> \<exists>m. set_layout_member opt addr l = Some m"
  by (auto simp: set_layout_member_def) presburger

lemma set_layout_member_addr: "set_layout_member opt addr l = Some m \<Longrightarrow> addr \<in> set (layout_values m)"
  by (auto simp: set_layout_member_def layout_values_def split: if_splits)

section \<open>The auxiliary vector stays terminated\<close>

definition auxv_terminated :: "u8 list \<Rightarrow> bool" where
  "auxv_terminated a \<longleftrightarrow> (\<forall>i<length a. length a - 16 \<le> i \<longrightarrow> a ! i = 0)"

lemma read_user_length: "read_user E addr n = Some bs \<Longrightarrow> length bs = n"
  by (auto simp: read_user_def split: if_splits)

lemma length_fill_auxv: "length bs \<le> sz \<Longrightarrow> length (fill_auxv sz bs) = sz"
  by (simp add: fill_auxv_def)

lemma fill_auxv_terminated:
  assumes "length bs \<le> sz"
  shows "auxv_terminated (fill_auxv sz bs)"
proof -
  define X where "X = take (sz - 16) (bs @ replicate (sz - length bs) 0)"
  have X: "length X = sz - 16" and fill: "fill_auxv sz bs = X @ replicate (min sz 16) 0"
    using assms by (simp_all add: X_def fill_auxv_def)
  show ?thesis
    unfolding auxv_terminated_def length_fill_auxv [OF assms] fill
    by (auto simp: nth_append X intro!: nth_replicate)
qed

lemma take_fill_auxv: "\<lbrakk>length bs \<le> sz - 16\<rbrakk> \<Longrightarrow> take (length bs) (fill_auxv sz bs) = bs"
  by (simp add: fill_auxv_def)

lemma splice_terminated:
  assumes "auxv_terminated a" "auxv_terminated b" "length a = length b"
  shows "auxv_terminated (take n a @ drop n b)"
  using assms by (auto simp: auxv_terminated_def nth_append min_def)

section \<open>Invariant\<close>

definition mm_inv :: "u64 \<Rightarrow> u64 \<Rightarrow> nat \<Rightarrow> mm_struct \<Rightarrow> bool" where
  "mm_inv lo hi sz mm \<longleftrightarrow> layout_ok lo hi (layout mm) \<and> length (saved_auxv mm) = sz \<and> auxv_terminated (saved_auxv mm) \<and>
     list_all (\<lambda>(addr, len, name). case name of None \<Rightarrow> True | Some s \<Rightarrow> name_chars_ok s) (anon_name_requests mm)"

lemma exe_file_inv: "mm_inv lo hi sz mm \<Longrightarrow> ends (\<lambda>r mm'. mm_inv lo hi sz mm') (prctl_set_mm_exe_file E fd mm)"
  unfolding prctl_set_mm_exe_file_def by (intro ends_intro ends_pair) (simp_all add: mm_inv_def)

lemma exe_file_keeps:
  "ends (\<lambda>r mm'. layout mm' = layout mm \<and> saved_auxv mm' = saved_auxv mm \<and> anon_name_requests mm' = anon_name_requests mm)
     (prctl_set_mm_exe_file E fd mm)"
  unfolding prctl_set_mm_exe_file_def by (intro ends_intro ends_pair) simp_all

lemma set_auxv_inv: "mm_inv lo hi sz mm \<Longrightarrow> ends (\<lambda>r mm'. mm_inv lo hi sz mm') (prctl_set_auxv E addr len mm)"
  unfolding prctl_set_auxv_def
  by (intro ends_intro ends_pair; (drule read_user_length)?)
    (simp_all add: mm_inv_def length_fill_auxv fill_auxv_terminated splice_terminated)

lemma map_user_auxv_ok:
  assumes "map_user_auxv E m mm = Inr a" "auxv_terminated (saved_auxv mm)"
  shows "length a = length (saved_auxv mm) \<and> auxv_terminated a"
  using assms
  by (auto simp: map_user_auxv_def Let_def length_fill_auxv fill_auxv_terminated
    split: if_splits option.splits dest!: read_user_length)

lemma ends_case_sum [ends_intro]:
  "\<lbrakk>\<And>a. x = Inl a \<Longrightarrow> ends Q (f a); \<And>b. x = Inr b \<Longrightarrow> ends Q (g b)\<rbrakk> \<Longrightarrow>
   ends Q (case x of Inl a \<Rightarrow> f a | Inr b \<Rightarrow> g b)"
  by (cases x) simp_all

lemma set_mm_map_inv:
  assumes "mm_inv (mmap_min_addr E) (TASK_SIZE E) sz mm"
  shows "ends (\<lambda>r mm'. mm_inv (mmap_min_addr E) (TASK_SIZE E) sz mm') (prctl_set_mm_map E opt addr n mm)"
proof -
  have exe: "mm_inv (mmap_min_addr E) (TASK_SIZE E) sz mm'"
    if "(if map_exe_fd m \<noteq> - 1 then prctl_set_mm_exe_file E (map_exe_fd m) mm else (0, mm)) = (r, mm')" for m r mm'
    using that assms endsD [OF exe_file_inv [OF assms, of E "map_exe_fd m"]] by (auto split: if_splits)
  show ?thesis
    unfolding prctl_set_mm_map_def
    by (intro ends_intro ends_pair; (drule exe)?)
      (use assms in \<open>auto simp: mm_inv_def validate_eq split: if_splits dest!: map_user_auxv_ok\<close>)
qed

lemma set_mm_inv:
  assumes "mm_inv (mmap_min_addr E) (TASK_SIZE E) sz mm"
  shows "ends (\<lambda>r mm'. mm_inv (mmap_min_addr E) (TASK_SIZE E) sz mm') (prctl_set_mm E opt addr arg4 arg5 mm)"
  unfolding prctl_set_mm_def
  by (intro ends_intro ends_pair set_mm_map_inv exe_file_inv set_auxv_inv assms)
    (use assms in \<open>auto simp: mm_inv_def validate_eq split: if_splits\<close>)

lemma set_vma_inv: "mm_inv lo hi sz mm \<Longrightarrow> ends (\<lambda>r mm'. mm_inv lo hi sz mm') (prctl_set_vma E opt addr n arg mm)"
  unfolding prctl_set_vma_def request_anon_name_def by (intro ends_intro ends_pair) (simp_all add: mm_inv_def)

lemma set_mdwe_frame:
  "ends (\<lambda>r mm'. layout mm' = layout mm \<and> saved_auxv mm' = saved_auxv mm \<and> anon_name_requests mm' = anon_name_requests mm)
     (prctl_set_mdwe E bits a3 a4 a5 mm)"
  unfolding prctl_set_mdwe_def by (intro ends_intro ends_pair) simp_all

interpretation mm: syscall_invariant exec_mm
  "\<lambda>c. mmap_min_addr (fst c) = lo \<and> TASK_SIZE (fst c) = hi" "mm_inv lo hi sz" for lo hi sz
proof unfold_locales
  fix c :: "mm_env \<times> mm_op" and mm
  assume "mmap_min_addr (fst c) = lo \<and> TASK_SIZE (fst c) = hi" and inv: "mm_inv lo hi sz mm"
  then show "mm_inv lo hi sz (snd (exec_mm c mm))"
  proof (cases "(c, mm)" rule: exec_mm.cases)
    case (3 E bits a3 a4 a5 mm)
    with inv endsD [OF set_mdwe_frame [of mm E bits a3 a4 a5]] show ?thesis by (simp add: mm_inv_def)
  qed (auto dest: endsD [OF set_mm_inv] endsD [OF set_vma_inv])
qed

section \<open>The deny-write-execute flags\<close>

definition mdwe_kept :: "mm_struct \<Rightarrow> mm_struct \<Rightarrow> bool" where
  "mdwe_kept mm mm' \<longleftrightarrow> get_current_mdwe mm = 0 \<or> get_current_mdwe mm' = get_current_mdwe mm"

lemma mdwe_kept_flags: "\<lbrakk>has_mdwe mm' = has_mdwe mm; has_mdwe_no_inherit mm' = has_mdwe_no_inherit mm\<rbrakk> \<Longrightarrow> mdwe_kept mm mm'"
  by (simp add: mdwe_kept_def get_current_mdwe_def)

lemma set_mdwe_kept: "ends (\<lambda>r mm'. mdwe_kept mm mm') (prctl_set_mdwe E bits a3 a4 a5 mm)"
  unfolding prctl_set_mdwe_def
  by (intro ends_intro ends_pair; cases "has_mdwe mm"; cases "has_mdwe_no_inherit mm")
    (auto simp: mdwe_kept_def get_current_mdwe_def)

lemma exe_file_kept: "ends (\<lambda>r mm'. mdwe_kept mm mm') (prctl_set_mm_exe_file E fd mm)"
  unfolding prctl_set_mm_exe_file_def by (intro ends_intro ends_pair mdwe_kept_flags) simp_all

lemma set_mm_map_kept: "ends (\<lambda>r mm'. mdwe_kept mm mm') (prctl_set_mm_map E opt addr n mm)"
proof -
  have exe: "mdwe_kept mm mm'"
    if "(if map_exe_fd m \<noteq> - 1 then prctl_set_mm_exe_file E (map_exe_fd m) mm else (0, mm)) = (r, mm')" for m r mm'
    using that endsD [OF exe_file_kept [of mm E "map_exe_fd m"]] by (auto simp: mdwe_kept_def split: if_splits)
  show ?thesis
    unfolding prctl_set_mm_map_def
    by (intro ends_intro ends_pair; (drule exe)?) (simp_all add: mdwe_kept_def get_current_mdwe_def)
qed

lemma set_mm_kept: "ends (\<lambda>r mm'. mdwe_kept mm mm') (prctl_set_mm E opt addr arg4 arg5 mm)"
  unfolding prctl_set_mm_def prctl_set_auxv_def
  by (intro ends_intro ends_pair set_mm_map_kept exe_file_kept mdwe_kept_flags) simp_all

lemma set_vma_kept: "ends (\<lambda>r mm'. mdwe_kept mm mm') (prctl_set_vma E opt addr n arg mm)"
  unfolding prctl_set_vma_def request_anon_name_def by (intro ends_intro ends_pair mdwe_kept_flags) simp_all

interpretation mdwe: syscall_order exec_mm "\<lambda>c. True" mdwe_kept
proof unfold_locales
  fix c :: "mm_env \<times> mm_op" and mm
  show "mdwe_kept mm (snd (exec_mm c mm))"
    by (cases "(c, mm)" rule: exec_mm.cases)
      (simp_all add: endsD [OF set_mm_kept] endsD [OF set_vma_kept] endsD [OF set_mdwe_kept])
qed (auto simp: mdwe_kept_def)

section \<open>Properties\<close>

definition layout_of :: mm_layout where
  "layout_of = \<lparr>start_code = 0x10000, end_code = 0x20000, start_data = 0x20000, end_data = 0x30000, start_brk = 0x40000,
     brk = 0x50000, start_stack = 0x70000, arg_start = 0x71000, arg_end = 0x72000, env_start = 0x73000, env_end = 0x74000\<rparr>"

definition mm_of :: mm_struct where
  "mm_of = \<lparr>layout = layout_of, saved_auxv = replicate 32 0, exe_file = 1, has_mdwe = False, has_mdwe_no_inherit = False,
     anon_name_requests = []\<rparr>"

definition mm_env_of :: mm_env where
  "mm_env_of = \<lparr>TASK_SIZE = 0x7FFFFFFFF000, mmap_min_addr = 0x1000, fdget = (\<lambda>fd. None), S_ISREG = (\<lambda>f. True),
     path_noexec = (\<lambda>f. False), file_permission_exec = (\<lambda>f. 0), replace_mm_exe_file = (\<lambda>f old. (0, f)),
     rlimit_data = - 1, check_data_rlimit = (\<lambda>r a b c d. False), mm_cap_sys_resource = True,
     checkpoint_restore_capable = True, find_vma = (\<lambda>a. True), user_bytes = (\<lambda>a. Some 7), user_map = (\<lambda>a. Fault_in),
     user_writable = (\<lambda>a. Writable), strndup_user = (\<lambda>a. Inr [0x61, 0x24]), anon_vma_name_alloc = True,
     madvise_set_anon_name = (\<lambda>a n s. 0), config_checkpoint_restore = True, config_anon_vma_name = True, config_parisc = False\<rparr>"

lemma layout_of_ok: "layout_ok 0x1000 0x7FFFFFFFF000 layout_of"
  by (simp add: layout_ok_def layout_values_def layout_of_def)

lemma mm_of_inv: "mm_inv 0x1000 0x7FFFFFFFF000 32 mm_of"
  using layout_of_ok by (simp add: mm_inv_def mm_of_def auxv_terminated_def)

text \<open>
  Whatever sequence of \<open>prctl\<close> map operations a process issues, its recorded layout stays
  inside the user address space with every segment ordered, its saved auxiliary vector keeps
  its size and ends in \<open>AT_NULL\<close>, and only names of printable characters outside the excluded
  ones reach \<open>madvise_set_anon_name\<close>.
\<close>

theorem mm_stays_valid:
  assumes "list_all (\<lambda>c. mmap_min_addr (fst c) = lo \<and> TASK_SIZE (fst c) = hi) cs" and "mm_inv lo hi sz mm"
  shows "mm_inv lo hi sz (run_calls exec_mm cs mm)"
  using assms by (rule mm.run_inv)

theorem mm_stays_valid_witness:
  "mm_inv 0x1000 0x7FFFFFFFF000 32 (run_calls exec_mm [(mm_env_of, Set_mm PR_SET_MM_BRK 0x60000 0 0),
     (mm_env_of, Set_mm PR_SET_MM_END_CODE 0x10000 0 0), (mm_env_of, Set_mm PR_SET_MM_AUXV 0 32 0),
     (mm_env_of, Set_vma 0 0 0 5)] mm_of)"
  by (rule mm_stays_valid [OF _ mm_of_inv]) (simp add: mm_env_of_def)

text \<open>
  \<open>prctl(PR_SET_MM, opt, addr, 0, 0)\<close> for one of the eleven members succeeds exactly when
  the caller has \<open>CAP_SYS_RESOURCE\<close>, the layout with that member replaced is valid and within
  the data limit, and the members on the stack point below a mapping; it then changes that
  member only, and an error changes nothing.
\<close>

theorem prctl_set_mm_member:
  assumes "opt \<in> {1..11}" and "prctl_set_mm E opt addr 0 0 mm = (ret, mm')"
  shows "\<exists>m. set_layout_member opt addr (layout mm) = Some m \<and>
     (ret = 0 \<longleftrightarrow> mm_cap_sys_resource E \<and> layout_ok (mmap_min_addr E) (TASK_SIZE E) m \<and> data_limit_ok E m \<and>
        (needs_vma opt \<longrightarrow> find_vma E addr)) \<and>
     mm' = (if ret = 0 then mm\<lparr>layout := m\<rparr> else mm)"
proof -
  obtain m where m: "set_layout_member opt addr (layout mm) = Some m"
    using set_layout_member_Some [OF assms(1)] by blast
  have opt: "opt \<noteq> PR_SET_MM_MAP" "opt \<noteq> PR_SET_MM_MAP_SIZE" "opt \<noteq> PR_SET_MM_EXE_FILE" "opt \<noteq> PR_SET_MM_AUXV"
    using assms(1) by auto
  have "layout_ok (mmap_min_addr E) (TASK_SIZE E) m \<Longrightarrow> mmap_min_addr E \<le> addr \<and> addr < TASK_SIZE E"
    using set_layout_member_addr [OF m] by (auto simp: layout_ok_def list_all_iff)
  with assms(2) m opt show ?thesis
    by (auto simp: prctl_set_mm_def validate_eq Let_def not_le not_less split: if_splits)
qed

theorem prctl_set_mm_member_witness:
  "layout (snd (prctl_set_mm mm_env_of PR_SET_MM_BRK 0x60000 0 0 mm_of)) = layout_of\<lparr>brk := 0x60000\<rparr>"
proof -
  have "set_layout_member PR_SET_MM_BRK 0x60000 (layout mm_of) = Some (layout_of\<lparr>brk := 0x60000\<rparr>)"
    by (simp add: set_layout_member_def mm_of_def)
  moreover have "mm_cap_sys_resource mm_env_of" "layout_ok (mmap_min_addr mm_env_of) (TASK_SIZE mm_env_of) (layout_of\<lparr>brk := 0x60000\<rparr>)"
    "data_limit_ok mm_env_of (layout_of\<lparr>brk := 0x60000\<rparr>)" "\<not> needs_vma PR_SET_MM_BRK"
    by (simp_all add: mm_env_of_def layout_ok_def layout_values_def layout_of_def data_limit_ok_def needs_vma_def)
  ultimately show ?thesis
    using prctl_set_mm_member [OF _ prod.collapse [symmetric], where opt = PR_SET_MM_BRK and E = mm_env_of and addr = "0x60000" and mm = mm_of]
    by (auto simp: mm_of_def)
qed

text \<open>
  An auxiliary vector stored with \<open>PR_SET_MM_AUXV\<close> that leaves room for the terminator is
  what \<open>PR_GET_AUXV\<close> reads back.
\<close>

theorem set_auxv_get_auxv:
  assumes "prctl_set_mm E PR_SET_MM_AUXV addr len 0 mm = (0, mm')"
    and "unat len \<le> length (saved_auxv mm) - 16"
  shows "\<exists>bs. read_user E addr (unat len) = Some bs \<and>
     prctl_get_auxv Writable len mm' = (int (length (saved_auxv mm)), Some bs)"
proof -
  from assms(1) obtain bs where bs: "read_user E addr (unat len) = Some bs"
    and mm': "mm' = mm\<lparr>saved_auxv := take (unat len) (fill_auxv (length (saved_auxv mm)) bs) @ drop (unat len) (saved_auxv mm)\<rparr>"
    by (auto simp: prctl_set_mm_def prctl_set_auxv_def Let_def split: if_splits option.splits)
  have len: "unat len = length bs" using read_user_length [OF bs] by simp
  then have "take (unat len) (fill_auxv (length (saved_auxv mm)) bs) = bs"
    using assms(2) by (simp add: take_fill_auxv)
  with bs assms(2) len show ?thesis
    by (simp add: mm' prctl_get_auxv_def Let_def min_absorb2)
qed

theorem set_auxv_get_auxv_witness:
  "\<exists>bs. prctl_get_auxv Writable 4 (snd (prctl_set_mm mm_env_of PR_SET_MM_AUXV 0x100 4 0 mm_of)) = (32, Some bs) \<and> bs = [7, 7, 7, 7]"
proof -
  have "fst (prctl_set_mm mm_env_of PR_SET_MM_AUXV 0x100 4 0 mm_of) = 0"
    by (simp add: prctl_set_mm_def prctl_set_auxv_def mm_env_of_def mm_of_def read_user_def list_all_iff)
  then have "prctl_set_mm mm_env_of PR_SET_MM_AUXV 0x100 4 0 mm_of =
     (0, snd (prctl_set_mm mm_env_of PR_SET_MM_AUXV 0x100 4 0 mm_of))" by (metis prod.collapse)
  from set_auxv_get_auxv [OF this] show ?thesis
    by (simp add: read_user_def list_all_iff) (simp add: mm_of_def mm_env_of_def upt_rec)
qed

text \<open>
  Once a process has set its memory-deny-write-execute flags, no sequence of map operations
  changes or clears them.
\<close>

theorem mdwe_irrevocable:
  assumes "prctl_get_mdwe 0 0 0 0 mm \<noteq> 0"
  shows "prctl_get_mdwe 0 0 0 0 (run_calls exec_mm cs mm) = prctl_get_mdwe 0 0 0 0 mm"
proof -
  have "list_all (\<lambda>c. True) cs" by (simp add: list_all_iff)
  from mdwe.run_R [OF this, of mm] assms show ?thesis
    by (auto simp: mdwe_kept_def prctl_get_mdwe_def)
qed

theorem mdwe_irrevocable_witness:
  "prctl_get_mdwe 0 0 0 0 (run_calls exec_mm [(mm_env_of, Set_mdwe 0 0 0 0), (mm_env_of, Set_mdwe 3 0 0 0)]
     (snd (prctl_set_mdwe mm_env_of 1 0 0 0 mm_of))) = 1"
proof -
  have "prctl_get_mdwe 0 0 0 0 (snd (prctl_set_mdwe mm_env_of 1 0 0 0 mm_of)) = 1"
    by (simp add: prctl_get_mdwe_def prctl_set_mdwe_def get_current_mdwe_def mm_of_def mm_env_of_def)
  then show ?thesis by (simp only: mdwe_irrevocable one_neq_zero not_False_eq_True)
qed

end
