(* ===== verification/Process_Tree.thy ===== *)
theory Process_Tree
  imports Kernel_Base
begin

text \<open>
  \<open>walk_process_tree\<close> of \<^verbatim>\<open>src/Kernel/kernel/fork.c\<close> and the visitor
  \<open>propagate_has_child_subreaper\<close> of \<^verbatim>\<open>src/Kernel/kernel/sys.c\<close> that
  \<open>prctl(PR_SET_CHILD_SUBREAPER)\<close> runs over it. A process is a node with its children, those of
  all its threads, in list order. The C code walks the tree without recursion, finding its way
  back through \<open>real_parent\<close>; the model keeps the unvisited siblings of every level on a stack.
\<close>

section \<open>The walk\<close>

datatype proc_tree = Proc nat "proc_tree list"

fun nodes :: "proc_tree list \<Rightarrow> nat list" where
  "nodes [] = []"
| "nodes (Proc p cs # ts) = p # nodes cs @ nodes ts"

text \<open>
  The innermost list holds the children still to visit at the current leader. A visitor that
  returns a positive number sends the walk down, zero moves on to the next sibling, a negative
  number ends it; a level that is used up is left upwards, and the walk ends at the top.
\<close>

function walk_levels :: "(nat \<Rightarrow> 's \<Rightarrow> int \<times> 's) \<Rightarrow> proc_tree list list \<Rightarrow> 's \<Rightarrow> 's" where
  "walk_levels visitor [] s = s"
| "walk_levels visitor ([] # up) s = walk_levels visitor up s"
| "walk_levels visitor ((Proc child cs # siblings) # up) s =
     (case visitor child s of (res, s') \<Rightarrow>
        if res \<noteq> 0 then (if res < 0 then s' else walk_levels visitor (cs # siblings # up) s')
        else walk_levels visitor (siblings # up) s')"
  by pat_completeness auto

termination
  by (relation "measure (\<lambda>(v, levels, s). length levels + 2 * sum_list (map (length \<circ> nodes) levels))") auto

definition walk_process_tree :: "proc_tree \<Rightarrow> (nat \<Rightarrow> 's \<Rightarrow> int \<times> 's) \<Rightarrow> 's \<Rightarrow> 's" where
  "walk_process_tree t visitor s = (case t of Proc p cs \<Rightarrow> walk_levels visitor [cs] s)"

text \<open>The visitor; \<open>R\<close> tells the init processes of pid namespaces (\<open>is_child_reaper\<close>).\<close>

definition propagate_has_child_subreaper ::
  "(nat \<Rightarrow> bool) \<Rightarrow> nat \<Rightarrow> (nat \<Rightarrow> bool) \<Rightarrow> int \<times> (nat \<Rightarrow> bool)" where
  "propagate_has_child_subreaper R p has =
     (if has p \<or> R p then (0, has) else (1, has(p := True)))"

section \<open>The walk as a recursion\<close>

text \<open>The specification: visit in preorder, descend where the visitor says so, stop where it says so.\<close>

fun preorder_walk :: "(nat \<Rightarrow> 's \<Rightarrow> int \<times> 's) \<Rightarrow> proc_tree list \<Rightarrow> 's \<Rightarrow> bool \<times> 's" where
  "preorder_walk visitor [] s = (False, s)"
| "preorder_walk visitor (Proc p cs # ts) s =
     (case visitor p s of (res, s') \<Rightarrow>
        if res < 0 then (True, s')
        else case (if res > 0 then preorder_walk visitor cs s' else (False, s')) of (stop, s'') \<Rightarrow>
          if stop then (True, s'') else preorder_walk visitor ts s'')"

lemma walk_levels_preorder:
  "walk_levels visitor (ts # up) s =
     (case preorder_walk visitor ts s of (stop, s') \<Rightarrow> if stop then s' else walk_levels visitor up s')"
proof (induction visitor ts s arbitrary: up rule: preorder_walk.induct)
  case (2 visitor p cs ts s)
  obtain res s' where v: "visitor p s = (res, s')" by fastforce
  consider "res < 0" | "res = 0" | "res > 0" by linarith
  then show ?case
  proof cases
    case 3
    obtain stop s'' where "preorder_walk visitor cs s' = (stop, s'')" by fastforce
    with 3 v "2.IH" show ?thesis by simp
  qed (use v "2.IH" in auto)
qed simp

section \<open>Child subreapers\<close>

text \<open>The processes below, cut off at the init processes of inner pid namespaces.\<close>

fun reach :: "(nat \<Rightarrow> bool) \<Rightarrow> proc_tree list \<Rightarrow> nat set" where
  "reach R [] = {}"
| "reach R (Proc p cs # ts) = (if R p then {} else insert p (reach R cs)) \<union> reach R ts"

text \<open>A process with the flag has passed it on to everything below it.\<close>

fun passed_on :: "(nat \<Rightarrow> bool) \<Rightarrow> proc_tree list \<Rightarrow> (nat \<Rightarrow> bool) \<Rightarrow> bool" where
  "passed_on R [] has \<longleftrightarrow> True"
| "passed_on R (Proc p cs # ts) has \<longleftrightarrow>
     (has p \<and> \<not> R p \<longrightarrow> reach R cs \<subseteq> Collect has) \<and> passed_on R cs has \<and> passed_on R ts has"

lemma reach_nodes: "reach R ts \<subseteq> set (nodes ts)"
  by (induction R ts rule: reach.induct) auto

lemma passed_on_elsewhere:
  assumes "passed_on R ts has" "Collect has \<subseteq> Collect has'" "\<And>p. p \<in> set (nodes ts) \<Longrightarrow> has' p = has p"
  shows "passed_on R ts has'"
  using assms by (induction R ts has rule: passed_on.induct) auto

lemma propagate_preorder:
  assumes "passed_on R ts has" and "distinct (nodes ts)"
  shows "preorder_walk (propagate_has_child_subreaper R) ts has = (False, \<lambda>p. has p \<or> p \<in> reach R ts)"
  using assms
proof (induction ts arbitrary: has rule: nodes.induct)
  case (2 p cs ts)
  let ?v = "propagate_has_child_subreaper R" and ?goal = "\<lambda>q. has q \<or> q \<in> reach R (Proc p cs # ts)"
  from 2(3) have ts: "passed_on R ts has" and cs: "passed_on R cs has"
    and down: "has p \<Longrightarrow> \<not> R p \<Longrightarrow> q \<in> reach R cs \<Longrightarrow> has q" for q by auto
  from 2(4) have dist: "distinct (nodes cs)" "distinct (nodes ts)"
    and p: "p \<notin> set (nodes cs)" "p \<notin> set (nodes ts)" and disj: "set (nodes cs) \<inter> set (nodes ts) = {}"
    by auto
  show ?case
  proof (cases "has p \<or> R p")
    case True
    then have "?v p has = (0, has)" by (simp add: propagate_has_child_subreaper_def)
    then have "preorder_walk ?v (Proc p cs # ts) has = preorder_walk ?v ts has" by simp
    also have "\<dots> = (False, \<lambda>q. has q \<or> q \<in> reach R ts)" using "2.IH"(2) [OF ts dist(2)] .
    also have "(\<lambda>q. has q \<or> q \<in> reach R ts) = ?goal"
      using True down by (cases "R p") (auto intro!: ext)
    finally show ?thesis .
  next
    case False
    define h1 where "h1 = has(p := True)"
    define h2 where "h2 = (\<lambda>q. h1 q \<or> q \<in> reach R cs)"
    have "passed_on R cs h1"
      using p(1) by (intro passed_on_elsewhere [OF cs]) (auto simp: h1_def)
    then have inner: "preorder_walk ?v cs h1 = (False, h2)"
      unfolding h2_def using "2.IH"(1) dist(1) by blast
    have "passed_on R ts h2"
      using p(2) disj reach_nodes [of R cs] by (intro passed_on_elsewhere [OF ts]) (auto simp: h2_def h1_def)
    then have outer: "preorder_walk ?v ts h2 = (False, \<lambda>q. h2 q \<or> q \<in> reach R ts)"
      using "2.IH"(2) dist(2) by blast
    from False have "?v p has = (1, h1)" by (simp add: propagate_has_child_subreaper_def h1_def)
    then have "preorder_walk ?v (Proc p cs # ts) has = (False, \<lambda>q. h2 q \<or> q \<in> reach R ts)"
      by (simp add: inner outer)
    also have "(\<lambda>q. h2 q \<or> q \<in> reach R ts) = ?goal"
      using False by (auto simp: h2_def h1_def intro!: ext)
    finally show ?thesis .
  qed
qed auto

lemma passed_on_reached:
  assumes "passed_on R ts has" and "distinct (nodes ts)"
  shows "passed_on R ts (\<lambda>p. has p \<or> p \<in> reach R ts)"
  using assms
proof (induction ts rule: nodes.induct)
  case (2 p cs ts)
  define h where "h = (\<lambda>q. has q \<or> q \<in> reach R (Proc p cs # ts))"
  from 2(3) have ts: "passed_on R ts has" and cs: "passed_on R cs has" by auto
  from 2(4) have dist: "distinct (nodes cs)" "distinct (nodes ts)"
    and p: "p \<notin> set (nodes cs)" "p \<notin> set (nodes ts)" and disj: "set (nodes cs) \<inter> set (nodes ts) = {}"
    by auto
  have only_ts: "h q \<longleftrightarrow> has q \<or> q \<in> reach R ts" if "q \<in> set (nodes ts)" for q
    using that p disj reach_nodes [of R cs] by (auto simp: h_def)
  have only_cs: "h q \<longleftrightarrow> has q \<or> \<not> R p \<and> q \<in> reach R cs" if "q \<in> set (nodes cs)" for q
    using that p disj reach_nodes [of R ts] by (auto simp: h_def)
  have "passed_on R ts h"
    by (rule passed_on_elsewhere [OF "2.IH"(2) [OF ts dist(2)]]) (auto simp: only_ts, auto simp: h_def)
  moreover have "passed_on R cs h"
  proof (cases "R p")
    case True
    show ?thesis
      by (rule passed_on_elsewhere [OF cs]) (auto simp: only_cs True, auto simp: h_def)
  next
    case False
    show ?thesis
      by (rule passed_on_elsewhere [OF "2.IH"(1) [OF cs dist(1)]]) (auto simp: only_cs False, auto simp: h_def False)
  qed
  moreover have "h p \<and> \<not> R p \<longrightarrow> reach R cs \<subseteq> Collect h" by (auto simp: h_def)
  ultimately show ?case unfolding h_def by simp
qed simp

section \<open>Properties\<close>




end
