(* ===== verification/Process_Control.thy ===== *)
theory Process_Control
  imports Mm_Layout Process_Tree
begin

text \<open>
  The \<open>prctl\<close> system call of \<^verbatim>\<open>src/Kernel/kernel/sys.c\<close>: its options, the defaults of
  the architecture hooks, and the dispatcher. The state is the part of \<open>struct task_struct\<close>
  and \<open>struct signal_struct\<close> the options touch, with the memory map of \<open>Mm_Layout\<close> and the
  subreaper marks of \<open>Process_Tree\<close>.
\<close>

section \<open>State and environment\<close>

record prctl_task =
  pdeath_signal :: u64
  dumpable :: u64
  comm :: "u8 list"
  timer_slack_ns :: u64
  default_timer_slack_ns :: u64
  task_flags :: u32
  clear_child_tid :: u64
  no_new_privs :: bool
  is_child_subreaper :: bool
  has_child_subreaper :: "nat \<Rightarrow> bool"
  thp_disabled :: bool
  vm_merge_any :: bool
  pmm :: mm_struct
  comm_events :: nat

text \<open>The macros that an architecture may define.\<close>

datatype arch_hook =
    SET_UNALIGN_CTL u64 | GET_UNALIGN_CTL u64 | SET_FPEMU_CTL u64 | GET_FPEMU_CTL u64
  | SET_FPEXC_CTL u64 | GET_FPEXC_CTL u64 | GET_ENDIAN u64 | SET_ENDIAN u64
  | GET_TSC_CTL u64 | SET_TSC_CTL u64 | GET_FP_MODE | SET_FP_MODE u64
  | SVE_SET_VL u64 | SVE_GET_VL | SME_SET_VL u64 | SME_GET_VL
  | PAC_RESET_KEYS u64 | PAC_SET_ENABLED_KEYS u64 u64 | PAC_GET_ENABLED_KEYS
  | SET_TAGGED_ADDR_CTRL u64 | GET_TAGGED_ADDR_CTRL
  | RISCV_V_SET_CONTROL u64 | RISCV_V_GET_CONTROL
  | SPEC_CTRL_GET u64 | SPEC_CTRL_SET u64 u64

text \<open>
  From outside the file: the security hook, the architecture's definition of a hook where it
  has one, signal and string helpers, the accessors of the dumpable state and of the command
  name, seccomp, perf, syscall dispatch, core scheduling and same-page merging, the process
  tree below the caller, and the environment of the memory-map options.
\<close>

record prctl_env =
  security_task_prctl :: "int \<Rightarrow> u64 \<Rightarrow> u64 \<Rightarrow> u64 \<Rightarrow> u64 \<Rightarrow> int"
  arch_hook :: "arch_hook \<Rightarrow> int option"
  valid_signal :: "u64 \<Rightarrow> bool"
  set_dumpable :: "u64 \<Rightarrow> u64"
  get_dumpable :: "u64 \<Rightarrow> int"
  strncpy_from_user :: "u64 \<Rightarrow> nat \<Rightarrow> u8 list option"
  set_task_comm :: "u8 list \<Rightarrow> u8 list"
  prctl_get_seccomp :: int
  prctl_set_seccomp :: "u64 \<Rightarrow> u64 \<Rightarrow> int"
  perf_event_task_disable :: int
  perf_event_task_enable :: int
  set_syscall_user_dispatch :: "u64 \<Rightarrow> u64 \<Rightarrow> u64 \<Rightarrow> u64 \<Rightarrow> int"
  config_sched_core :: bool
  sched_core_share_pid :: "u64 \<Rightarrow> u64 \<Rightarrow> u64 \<Rightarrow> u64 \<Rightarrow> int"
  config_ksm :: bool
  ksm_enable_merge_any :: "bool \<Rightarrow> int \<times> bool"
  ksm_disable_merge_any :: "bool \<Rightarrow> int \<times> bool"
  mmap_lock_killed :: bool
  pc_cap_sys_resource :: bool
  is_child_reaper :: "nat \<Rightarrow> bool"
  process_tree :: proc_tree
  pmm_env :: mm_env

datatype prctl_out = Out_int u64 | Out_bytes "u8 list"

type_synonym prctl_result = "(int \<times> prctl_out option) \<times> prctl_task"

abbreviation PF_MCE_PROCESS :: u32 where "PF_MCE_PROCESS \<equiv> 0x80"
abbreviation PF_MCE_EARLY :: u32 where "PF_MCE_EARLY \<equiv> 0x8000000"
abbreviation PR_IO_FLUSHER :: u32 where "PR_IO_FLUSHER \<equiv> 0x80000 OR 0x100000"
abbreviation PR_MCE_KILL_CLEAR :: u64 where "PR_MCE_KILL_CLEAR \<equiv> 0"
abbreviation PR_MCE_KILL_SET :: u64 where "PR_MCE_KILL_SET \<equiv> 1"
abbreviation PR_MCE_KILL_LATE :: u64 where "PR_MCE_KILL_LATE \<equiv> 0"
abbreviation PR_MCE_KILL_EARLY :: u64 where "PR_MCE_KILL_EARLY \<equiv> 1"
abbreviation PR_MCE_KILL_DEFAULT :: u64 where "PR_MCE_KILL_DEFAULT \<equiv> 2"

section \<open>Options\<close>

abbreviation retval :: "int \<Rightarrow> prctl_task \<Rightarrow> prctl_result" where
  "retval r t \<equiv> ((r, None), t)"

definition put_user :: "user_out \<Rightarrow> prctl_out \<Rightarrow> prctl_task \<Rightarrow> prctl_result" where
  "put_user p v t = (case copy_to_user p v of None \<Rightarrow> retval (- EFAULT) t | Some w \<Rightarrow> ((0, Some w), t))"

text \<open>A hook the architecture leaves undefined returns \<open>-EINVAL\<close>.\<close>

definition arch_ctl :: "prctl_env \<Rightarrow> arch_hook \<Rightarrow> int" where
  "arch_ctl E h = (case arch_hook E h of None \<Rightarrow> - EINVAL | Some r \<Rightarrow> r)"

definition arch_prctl_spec_ctrl_get :: "prctl_env \<Rightarrow> u64 \<Rightarrow> int" where
  "arch_prctl_spec_ctrl_get E which = arch_ctl E (SPEC_CTRL_GET which)"

definition arch_prctl_spec_ctrl_set :: "prctl_env \<Rightarrow> u64 \<Rightarrow> u64 \<Rightarrow> int" where
  "arch_prctl_spec_ctrl_set E which ctrl = arch_ctl E (SPEC_CTRL_SET which ctrl)"

definition prctl_get_tid_address :: "prctl_env \<Rightarrow> u64 \<Rightarrow> prctl_task \<Rightarrow> prctl_result" where
  "prctl_get_tid_address E tid_addr t =
     (if config_checkpoint_restore (pmm_env E)
      then put_user (user_writable (pmm_env E) tid_addr) (Out_int (clear_child_tid t)) t
      else retval (- EINVAL) t)"

abbreviation TASK_COMM_LEN :: nat where "TASK_COMM_LEN \<equiv> 16"

definition prctl_set_name :: "prctl_env \<Rightarrow> u64 \<Rightarrow> prctl_task \<Rightarrow> prctl_result" where
  "prctl_set_name E arg2 t =
     (case strncpy_from_user E arg2 (TASK_COMM_LEN - 1) of None \<Rightarrow> retval (- EFAULT) t
      | Some s \<Rightarrow> retval 0 (t\<lparr>comm := set_task_comm E s, comm_events := comm_events t + 1\<rparr>))"

definition prctl_mce_kill :: "u64 \<Rightarrow> u64 \<Rightarrow> u64 \<Rightarrow> u64 \<Rightarrow> prctl_task \<Rightarrow> prctl_result" where
  "prctl_mce_kill arg2 arg3 arg4 arg5 t =
     (if arg4 OR arg5 \<noteq> 0 then retval (- EINVAL) t
      else if arg2 = PR_MCE_KILL_CLEAR then
        (if arg3 \<noteq> 0 then retval (- EINVAL) t
         else retval 0 (t\<lparr>task_flags := task_flags t AND NOT PF_MCE_PROCESS\<rparr>))
      else if arg2 = PR_MCE_KILL_SET then
        (let t = t\<lparr>task_flags := task_flags t OR PF_MCE_PROCESS\<rparr> in
         if arg3 = PR_MCE_KILL_EARLY then retval 0 (t\<lparr>task_flags := task_flags t OR PF_MCE_EARLY\<rparr>)
         else if arg3 = PR_MCE_KILL_LATE then retval 0 (t\<lparr>task_flags := task_flags t AND NOT PF_MCE_EARLY\<rparr>)
         else if arg3 = PR_MCE_KILL_DEFAULT
           then retval 0 (t\<lparr>task_flags := task_flags t AND NOT (PF_MCE_EARLY OR PF_MCE_PROCESS)\<rparr>)
         else retval (- EINVAL) t)
      else retval (- EINVAL) t)"

definition prctl_mce_kill_get :: "u64 \<Rightarrow> u64 \<Rightarrow> u64 \<Rightarrow> u64 \<Rightarrow> prctl_task \<Rightarrow> prctl_result" where
  "prctl_mce_kill_get arg2 arg3 arg4 arg5 t =
     (if arg2 OR arg3 OR arg4 OR arg5 \<noteq> 0 then retval (- EINVAL) t
      else if task_flags t AND PF_MCE_PROCESS \<noteq> 0
      then retval (uint (if task_flags t AND PF_MCE_EARLY \<noteq> 0 then PR_MCE_KILL_EARLY else PR_MCE_KILL_LATE)) t
      else retval (uint PR_MCE_KILL_DEFAULT) t)"

definition prctl_set_child_subreaper :: "prctl_env \<Rightarrow> u64 \<Rightarrow> prctl_task \<Rightarrow> prctl_result" where
  "prctl_set_child_subreaper E arg2 t =
     (let t = t\<lparr>is_child_subreaper := (arg2 \<noteq> 0)\<rparr> in
      if arg2 = 0 then retval 0 t
      else retval 0 (t\<lparr>has_child_subreaper := walk_process_tree (process_tree E)
             (propagate_has_child_subreaper (is_child_reaper E)) (has_child_subreaper t)\<rparr>))"

definition prctl_set_io_flusher :: "prctl_env \<Rightarrow> u64 \<Rightarrow> u64 \<Rightarrow> u64 \<Rightarrow> u64 \<Rightarrow> prctl_task \<Rightarrow> prctl_result" where
  "prctl_set_io_flusher E arg2 arg3 arg4 arg5 t =
     (if \<not> pc_cap_sys_resource E then retval (- EPERM) t
      else if arg3 \<noteq> 0 \<or> arg4 \<noteq> 0 \<or> arg5 \<noteq> 0 then retval (- EINVAL) t
      else if arg2 = 1 then retval 0 (t\<lparr>task_flags := task_flags t OR PR_IO_FLUSHER\<rparr>)
      else if arg2 = 0 then retval 0 (t\<lparr>task_flags := task_flags t AND NOT PR_IO_FLUSHER\<rparr>)
      else retval (- EINVAL) t)"

definition prctl_get_io_flusher :: "prctl_env \<Rightarrow> u64 \<Rightarrow> u64 \<Rightarrow> u64 \<Rightarrow> u64 \<Rightarrow> prctl_task \<Rightarrow> prctl_result" where
  "prctl_get_io_flusher E arg2 arg3 arg4 arg5 t =
     (if \<not> pc_cap_sys_resource E then retval (- EPERM) t
      else if arg2 \<noteq> 0 \<or> arg3 \<noteq> 0 \<or> arg4 \<noteq> 0 \<or> arg5 \<noteq> 0 then retval (- EINVAL) t
      else retval (if task_flags t AND PR_IO_FLUSHER = PR_IO_FLUSHER then 1 else 0) t)"

text \<open>The options that only change the memory map, on the map of the caller.\<close>

definition on_mm :: "(mm_struct \<Rightarrow> int \<times> mm_struct) \<Rightarrow> prctl_task \<Rightarrow> prctl_result" where
  "on_mm f t = (case f (pmm t) of (r, mm) \<Rightarrow> retval r (t\<lparr>pmm := mm\<rparr>))"

definition prctl_set_thp_disable :: "prctl_env \<Rightarrow> u64 \<Rightarrow> u64 \<Rightarrow> u64 \<Rightarrow> u64 \<Rightarrow> prctl_task \<Rightarrow> prctl_result" where
  "prctl_set_thp_disable E arg2 arg3 arg4 arg5 t =
     (if arg3 \<noteq> 0 \<or> arg4 \<noteq> 0 \<or> arg5 \<noteq> 0 then retval (- EINVAL) t
      else if mmap_lock_killed E then retval (- EINTR) t
      else retval 0 (t\<lparr>thp_disabled := (arg2 \<noteq> 0)\<rparr>))"

definition prctl_set_memory_merge :: "prctl_env \<Rightarrow> u64 \<Rightarrow> u64 \<Rightarrow> u64 \<Rightarrow> u64 \<Rightarrow> prctl_task \<Rightarrow> prctl_result" where
  "prctl_set_memory_merge E arg2 arg3 arg4 arg5 t =
     (if arg3 \<noteq> 0 \<or> arg4 \<noteq> 0 \<or> arg5 \<noteq> 0 then retval (- EINVAL) t
      else if mmap_lock_killed E then retval (- EINTR) t
      else case (if arg2 \<noteq> 0 then ksm_enable_merge_any E (vm_merge_any t) else ksm_disable_merge_any E (vm_merge_any t)) of
        (error, b) \<Rightarrow> retval error (t\<lparr>vm_merge_any := b\<rparr>))"

section \<open>The dispatcher\<close>

text \<open>
  The cases of the \<open>switch\<close>, in the order of the source and in three parts; \<open>rest\<close> is what the
  cases after a part give, and \<open>-EINVAL\<close> after the last. An option is written as its number in
  \<open>linux/prctl.h\<close>.
\<close>

definition prctl_basic ::
  "prctl_env \<Rightarrow> int \<Rightarrow> u64 \<Rightarrow> u64 \<Rightarrow> u64 \<Rightarrow> u64 \<Rightarrow> prctl_task \<Rightarrow> prctl_result \<Rightarrow> prctl_result" where
  "prctl_basic E option arg2 arg3 arg4 arg5 t rest =
     (if option = 1 \<comment> \<open>PR_SET_PDEATHSIG\<close> then
        (if \<not> valid_signal E arg2 then retval (- EINVAL) t else retval 0 (t\<lparr>pdeath_signal := arg2\<rparr>))
      else if option = 2 \<comment> \<open>PR_GET_PDEATHSIG\<close> then put_user (user_writable (pmm_env E) arg2) (Out_int (pdeath_signal t)) t
      else if option = 3 \<comment> \<open>PR_GET_DUMPABLE\<close> then retval (get_dumpable E (dumpable t)) t
      else if option = 4 \<comment> \<open>PR_SET_DUMPABLE\<close> then
        (if arg2 \<noteq> 0 \<and> arg2 \<noteq> 1 then retval (- EINVAL) t else retval 0 (t\<lparr>dumpable := set_dumpable E arg2\<rparr>))
      else if option = 6 \<comment> \<open>PR_SET_UNALIGN\<close> then retval (arch_ctl E (SET_UNALIGN_CTL arg2)) t
      else if option = 5 \<comment> \<open>PR_GET_UNALIGN\<close> then retval (arch_ctl E (GET_UNALIGN_CTL arg2)) t
      else if option = 10 \<comment> \<open>PR_SET_FPEMU\<close> then retval (arch_ctl E (SET_FPEMU_CTL arg2)) t
      else if option = 9 \<comment> \<open>PR_GET_FPEMU\<close> then retval (arch_ctl E (GET_FPEMU_CTL arg2)) t
      else if option = 12 \<comment> \<open>PR_SET_FPEXC\<close> then retval (arch_ctl E (SET_FPEXC_CTL arg2)) t
      else if option = 11 \<comment> \<open>PR_GET_FPEXC\<close> then retval (arch_ctl E (GET_FPEXC_CTL arg2)) t
      else if option = 13 \<comment> \<open>PR_GET_TIMING\<close> then retval 0 t
      else if option = 14 \<comment> \<open>PR_SET_TIMING\<close> then retval (if arg2 \<noteq> 0 then - EINVAL else 0) t
      else if option = 15 \<comment> \<open>PR_SET_NAME\<close> then prctl_set_name E arg2 t
      else if option = 16 \<comment> \<open>PR_GET_NAME\<close> then put_user (user_writable (pmm_env E) arg2) (Out_bytes (comm t)) t
      else if option = 19 \<comment> \<open>PR_GET_ENDIAN\<close> then retval (arch_ctl E (GET_ENDIAN arg2)) t
      else if option = 20 \<comment> \<open>PR_SET_ENDIAN\<close> then retval (arch_ctl E (SET_ENDIAN arg2)) t
      else if option = 21 \<comment> \<open>PR_GET_SECCOMP\<close> then retval (prctl_get_seccomp E) t
      else if option = 22 \<comment> \<open>PR_SET_SECCOMP\<close> then retval (prctl_set_seccomp E arg2 arg3) t
      else if option = 25 \<comment> \<open>PR_GET_TSC\<close> then retval (arch_ctl E (GET_TSC_CTL arg2)) t
      else if option = 26 \<comment> \<open>PR_SET_TSC\<close> then retval (arch_ctl E (SET_TSC_CTL arg2)) t
      else if option = 31 \<comment> \<open>PR_TASK_PERF_EVENTS_DISABLE\<close> then retval (perf_event_task_disable E) t
      else if option = 32 \<comment> \<open>PR_TASK_PERF_EVENTS_ENABLE\<close> then retval (perf_event_task_enable E) t
      else if option = 30 \<comment> \<open>PR_GET_TIMERSLACK\<close> then retval (sint (timer_slack_ns t)) t
      else if option = 29 \<comment> \<open>PR_SET_TIMERSLACK\<close> then
        retval 0 (t\<lparr>timer_slack_ns := (if arg2 \<le> 0 then default_timer_slack_ns t else arg2)\<rparr>)
      else rest)"

definition prctl_process ::
  "prctl_env \<Rightarrow> int \<Rightarrow> u64 \<Rightarrow> u64 \<Rightarrow> u64 \<Rightarrow> u64 \<Rightarrow> prctl_task \<Rightarrow> prctl_result \<Rightarrow> prctl_result" where
  "prctl_process E option arg2 arg3 arg4 arg5 t rest =
     (if option = 33 \<comment> \<open>PR_MCE_KILL\<close> then prctl_mce_kill arg2 arg3 arg4 arg5 t
      else if option = 34 \<comment> \<open>PR_MCE_KILL_GET\<close> then prctl_mce_kill_get arg2 arg3 arg4 arg5 t
      else if option = 35 \<comment> \<open>PR_SET_MM\<close> then on_mm (prctl_set_mm (pmm_env E) (sint (ucast arg2 :: u32)) arg3 arg4 arg5) t
      else if option = 40 \<comment> \<open>PR_GET_TID_ADDRESS\<close> then prctl_get_tid_address E arg2 t
      else if option = 36 \<comment> \<open>PR_SET_CHILD_SUBREAPER\<close> then prctl_set_child_subreaper E arg2 t
      else if option = 37 \<comment> \<open>PR_GET_CHILD_SUBREAPER\<close> then
        put_user (user_writable (pmm_env E) arg2) (Out_int (if is_child_subreaper t then 1 else 0)) t
      else if option = 38 \<comment> \<open>PR_SET_NO_NEW_PRIVS\<close> then
        (if arg2 \<noteq> 1 \<or> arg3 \<noteq> 0 \<or> arg4 \<noteq> 0 \<or> arg5 \<noteq> 0 then retval (- EINVAL) t
         else retval 0 (t\<lparr>no_new_privs := True\<rparr>))
      else if option = 39 \<comment> \<open>PR_GET_NO_NEW_PRIVS\<close> then
        (if arg2 \<noteq> 0 \<or> arg3 \<noteq> 0 \<or> arg4 \<noteq> 0 \<or> arg5 \<noteq> 0 then retval (- EINVAL) t
         else retval (if no_new_privs t then 1 else 0) t)
      else if option = 42 \<comment> \<open>PR_GET_THP_DISABLE\<close> then
        (if arg2 \<noteq> 0 \<or> arg3 \<noteq> 0 \<or> arg4 \<noteq> 0 \<or> arg5 \<noteq> 0 then retval (- EINVAL) t
         else retval (if thp_disabled t then 1 else 0) t)
      else if option = 41 \<comment> \<open>PR_SET_THP_DISABLE\<close> then prctl_set_thp_disable E arg2 arg3 arg4 arg5 t
      else if option = 43 \<or> option = 44 \<comment> \<open>PR_MPX_ENABLE_MANAGEMENT, PR_MPX_DISABLE_MANAGEMENT\<close> then retval (- EINVAL) t
      else if option = 45 \<comment> \<open>PR_SET_FP_MODE\<close> then retval (arch_ctl E (SET_FP_MODE arg2)) t
      else if option = 46 \<comment> \<open>PR_GET_FP_MODE\<close> then retval (arch_ctl E GET_FP_MODE) t
      else if option = 50 \<comment> \<open>PR_SVE_SET_VL\<close> then retval (arch_ctl E (SVE_SET_VL arg2)) t
      else if option = 51 \<comment> \<open>PR_SVE_GET_VL\<close> then retval (arch_ctl E SVE_GET_VL) t
      else if option = 63 \<comment> \<open>PR_SME_SET_VL\<close> then retval (arch_ctl E (SME_SET_VL arg2)) t
      else if option = 64 \<comment> \<open>PR_SME_GET_VL\<close> then retval (arch_ctl E SME_GET_VL) t
      else rest)"

definition prctl_control ::
  "prctl_env \<Rightarrow> int \<Rightarrow> u64 \<Rightarrow> u64 \<Rightarrow> u64 \<Rightarrow> u64 \<Rightarrow> prctl_task \<Rightarrow> prctl_result" where
  "prctl_control E option arg2 arg3 arg4 arg5 t =
     (if option = 52 \<comment> \<open>PR_GET_SPECULATION_CTRL\<close> then
        retval (if arg3 \<noteq> 0 \<or> arg4 \<noteq> 0 \<or> arg5 \<noteq> 0 then - EINVAL else arch_prctl_spec_ctrl_get E arg2) t
      else if option = 53 \<comment> \<open>PR_SET_SPECULATION_CTRL\<close> then
        retval (if arg4 \<noteq> 0 \<or> arg5 \<noteq> 0 then - EINVAL else arch_prctl_spec_ctrl_set E arg2 arg3) t
      else if option = 54 \<comment> \<open>PR_PAC_RESET_KEYS\<close> then
        retval (if arg3 \<noteq> 0 \<or> arg4 \<noteq> 0 \<or> arg5 \<noteq> 0 then - EINVAL else arch_ctl E (PAC_RESET_KEYS arg2)) t
      else if option = 60 \<comment> \<open>PR_PAC_SET_ENABLED_KEYS\<close> then
        retval (if arg4 \<noteq> 0 \<or> arg5 \<noteq> 0 then - EINVAL else arch_ctl E (PAC_SET_ENABLED_KEYS arg2 arg3)) t
      else if option = 61 \<comment> \<open>PR_PAC_GET_ENABLED_KEYS\<close> then
        retval (if arg2 \<noteq> 0 \<or> arg3 \<noteq> 0 \<or> arg4 \<noteq> 0 \<or> arg5 \<noteq> 0 then - EINVAL else arch_ctl E PAC_GET_ENABLED_KEYS) t
      else if option = 55 \<comment> \<open>PR_SET_TAGGED_ADDR_CTRL\<close> then
        retval (if arg3 \<noteq> 0 \<or> arg4 \<noteq> 0 \<or> arg5 \<noteq> 0 then - EINVAL else arch_ctl E (SET_TAGGED_ADDR_CTRL arg2)) t
      else if option = 56 \<comment> \<open>PR_GET_TAGGED_ADDR_CTRL\<close> then
        retval (if arg2 \<noteq> 0 \<or> arg3 \<noteq> 0 \<or> arg4 \<noteq> 0 \<or> arg5 \<noteq> 0 then - EINVAL else arch_ctl E GET_TAGGED_ADDR_CTRL) t
      else if option = 57 \<comment> \<open>PR_SET_IO_FLUSHER\<close> then prctl_set_io_flusher E arg2 arg3 arg4 arg5 t
      else if option = 58 \<comment> \<open>PR_GET_IO_FLUSHER\<close> then prctl_get_io_flusher E arg2 arg3 arg4 arg5 t
      else if option = 59 \<comment> \<open>PR_SET_SYSCALL_USER_DISPATCH\<close> then retval (set_syscall_user_dispatch E arg2 arg3 arg4 arg5) t
      else if config_sched_core E \<and> option = 62 \<comment> \<open>PR_SCHED_CORE\<close> then retval (sched_core_share_pid E arg2 arg3 arg4 arg5) t
      else if option = 65 \<comment> \<open>PR_SET_MDWE\<close> then on_mm (prctl_set_mdwe (pmm_env E) arg2 arg3 arg4 arg5) t
      else if option = 66 \<comment> \<open>PR_GET_MDWE\<close> then retval (prctl_get_mdwe arg2 arg3 arg4 arg5 (pmm t)) t
      else if option = 0x53564d41 \<comment> \<open>PR_SET_VMA\<close> then on_mm (prctl_set_vma (pmm_env E) arg2 arg3 arg4 arg5) t
      else if option = 0x41555856 \<comment> \<open>PR_GET_AUXV\<close> then
        (if arg4 \<noteq> 0 \<or> arg5 \<noteq> 0 then retval (- EINVAL) t
         else case prctl_get_auxv (user_writable (pmm_env E) arg2) arg3 (pmm t) of (r, out) \<Rightarrow> ((r, map_option Out_bytes out), t))
      else if config_ksm E \<and> option = 67 \<comment> \<open>PR_SET_MEMORY_MERGE\<close> then prctl_set_memory_merge E arg2 arg3 arg4 arg5 t
      else if config_ksm E \<and> option = 68 \<comment> \<open>PR_GET_MEMORY_MERGE\<close> then
        (if arg2 \<noteq> 0 \<or> arg3 \<noteq> 0 \<or> arg4 \<noteq> 0 \<or> arg5 \<noteq> 0 then retval (- EINVAL) t
         else retval (if vm_merge_any t then 1 else 0) t)
      else if option = 69 \<comment> \<open>PR_RISCV_V_SET_CONTROL\<close> then retval (arch_ctl E (RISCV_V_SET_CONTROL arg2)) t
      else if option = 70 \<comment> \<open>PR_RISCV_V_GET_CONTROL\<close> then retval (arch_ctl E RISCV_V_GET_CONTROL) t
      else retval (- EINVAL) t)"

definition sys_prctl :: "prctl_env \<Rightarrow> int \<Rightarrow> u64 \<Rightarrow> u64 \<Rightarrow> u64 \<Rightarrow> u64 \<Rightarrow> prctl_task \<Rightarrow> prctl_result" where
  "sys_prctl E option arg2 arg3 arg4 arg5 t =
     (let error = security_task_prctl E option arg2 arg3 arg4 arg5 in
      if error \<noteq> - ENOSYS then retval error t
      else prctl_basic E option arg2 arg3 arg4 arg5 t
        (prctl_process E option arg2 arg3 arg4 arg5 t (prctl_control E option arg2 arg3 arg4 arg5 t)))"

fun exec_prctl :: "prctl_env \<times> int \<times> u64 \<times> u64 \<times> u64 \<times> u64 \<Rightarrow> prctl_task \<Rightarrow> int \<times> prctl_task" where
  "exec_prctl (E, option, arg2, arg3, arg4, arg5) t =
     (case sys_prctl E option arg2 arg3 arg4 arg5 t of ((r, out), t') \<Rightarrow> (r, t'))"

section \<open>What no option changes back\<close>

text \<open>
  \<open>restricted\<close> relates a task to one with at least its restrictions: \<open>no_new_privs\<close> is never
  cleared and memory-deny-write-execute flags that are set stay as they are.
\<close>

definition restricted :: "prctl_task \<Rightarrow> prctl_task \<Rightarrow> bool" where
  "restricted t t' \<longleftrightarrow> (no_new_privs t \<longrightarrow> no_new_privs t') \<and> mdwe_kept (pmm t) (pmm t')"

abbreviation restricts :: "prctl_task \<Rightarrow> prctl_result \<Rightarrow> bool" where
  "restricts t \<equiv> ends (\<lambda>r t'. restricted t t')"

lemma restricted_same: "\<lbrakk>no_new_privs t' = no_new_privs t; pmm t' = pmm t\<rbrakk> \<Longrightarrow> restricted t t'"
  by (simp add: restricted_def mdwe_kept_def)

lemma put_user_same: "ends (\<lambda>r t'. t' = t) (put_user p v t)"
  unfolding put_user_def by (intro ends_intro ends_pair refl)

lemma restricts_put_user: "restricts t (put_user p v t)"
  by (rule ends_mono [OF put_user_same]) (simp add: restricted_same)

lemma restricts_on_mm: "ends (\<lambda>r mm. mdwe_kept (pmm t) mm) (f (pmm t)) \<Longrightarrow> restricts t (on_mm f t)"
  unfolding on_mm_def by (intro ends_intro ends_pair) (simp add: restricted_def ends_def)

lemmas option_defs = prctl_set_name_def prctl_mce_kill_def prctl_mce_kill_get_def prctl_set_child_subreaper_def
  prctl_set_io_flusher_def prctl_get_io_flusher_def prctl_set_thp_disable_def prctl_set_memory_merge_def
  prctl_get_tid_address_def

lemma restricts_basic: "restricts t rest \<Longrightarrow> restricts t (prctl_basic E opt a2 a3 a4 a5 t rest)"
  unfolding prctl_basic_def option_defs
  by (intro ends_intro ends_pair restricts_put_user restricted_same; simp?)

lemma restricts_process: "restricts t rest \<Longrightarrow> restricts t (prctl_process E opt a2 a3 a4 a5 t rest)"
  unfolding prctl_process_def option_defs
  by (intro ends_intro ends_pair restricts_put_user restricts_on_mm set_mm_kept; simp add: restricted_def mdwe_kept_def)

lemma restricts_control: "restricts t (prctl_control E opt a2 a3 a4 a5 t)"
  unfolding prctl_control_def option_defs
  by (intro ends_intro ends_pair restricts_put_user restricts_on_mm set_mdwe_kept set_vma_kept restricted_same; simp?)

lemma restricts_prctl: "restricts t (sys_prctl E opt a2 a3 a4 a5 t)"
  unfolding sys_prctl_def
  by (intro ends_intro ends_pair restricts_basic restricts_process restricts_control) (simp add: restricted_same)

interpretation prctl: syscall_order exec_prctl "\<lambda>c. True" restricted
proof unfold_locales
  fix c :: "prctl_env \<times> int \<times> u64 \<times> u64 \<times> u64 \<times> u64" and t
  show "restricted t (snd (exec_prctl c t))"
    using restricts_prctl [of t] by (cases "(c, t)" rule: exec_prctl.cases) (auto simp: ends_def split_beta)
qed (auto simp: restricted_def mdwe_kept_def)

section \<open>The memory map behind the dispatcher\<close>

abbreviation valid_map :: "u64 \<Rightarrow> u64 \<Rightarrow> nat \<Rightarrow> prctl_task \<Rightarrow> bool" where
  "valid_map lo hi sz t \<equiv> mm_inv lo hi sz (pmm t)"

lemma valid_put_user: "valid_map lo hi sz t \<Longrightarrow> ends (\<lambda>r. valid_map lo hi sz) (put_user p v t)"
  by (rule ends_mono [OF put_user_same]) simp

lemma valid_on_mm: "ends (\<lambda>r. mm_inv lo hi sz) (f (pmm t)) \<Longrightarrow> ends (\<lambda>r. valid_map lo hi sz) (on_mm f t)"
  unfolding on_mm_def by (intro ends_intro ends_pair) (simp add: ends_def)

lemma set_mdwe_inv: "mm_inv lo hi sz mm \<Longrightarrow> ends (\<lambda>r. mm_inv lo hi sz) (prctl_set_mdwe E bits a3 a4 a5 mm)"
  by (rule ends_mono [OF set_mdwe_frame]) (simp add: mm_inv_def)

lemma prctl_valid_map:
  assumes "valid_map (mmap_min_addr (pmm_env E)) (TASK_SIZE (pmm_env E)) sz t"
  shows "ends (\<lambda>r. valid_map (mmap_min_addr (pmm_env E)) (TASK_SIZE (pmm_env E)) sz) (sys_prctl E opt a2 a3 a4 a5 t)"
  unfolding sys_prctl_def prctl_basic_def prctl_process_def prctl_control_def option_defs
  by (intro ends_intro ends_pair valid_put_user valid_on_mm set_mm_inv set_vma_inv set_mdwe_inv; simp add: assms)

interpretation prctl_map: syscall_invariant exec_prctl
  "\<lambda>c. mmap_min_addr (pmm_env (fst c)) = lo \<and> TASK_SIZE (pmm_env (fst c)) = hi" "valid_map lo hi sz" for lo hi sz
proof unfold_locales
  fix c :: "prctl_env \<times> int \<times> u64 \<times> u64 \<times> u64 \<times> u64" and t
  assume "mmap_min_addr (pmm_env (fst c)) = lo \<and> TASK_SIZE (pmm_env (fst c)) = hi" "valid_map lo hi sz t"
  then show "valid_map lo hi sz (snd (exec_prctl c t))"
    using prctl_valid_map [of _ sz t] by (cases "(c, t)" rule: exec_prctl.cases) (auto simp: ends_def split_beta)
qed

section \<open>Properties\<close>

definition prctl_env_of :: prctl_env where
  "prctl_env_of = \<lparr>security_task_prctl = (\<lambda>opt a b c d. - ENOSYS), arch_hook = (\<lambda>h. None), valid_signal = (\<lambda>n. n \<le> 64),
     set_dumpable = id, get_dumpable = uint, strncpy_from_user = (\<lambda>a n. None), set_task_comm = id, prctl_get_seccomp = 0,
     prctl_set_seccomp = (\<lambda>a b. 0), perf_event_task_disable = 0, perf_event_task_enable = 0,
     set_syscall_user_dispatch = (\<lambda>a b c d. 0), config_sched_core = False, sched_core_share_pid = (\<lambda>a b c d. 0),
     config_ksm = False, ksm_enable_merge_any = (\<lambda>b. (0, True)), ksm_disable_merge_any = (\<lambda>b. (0, False)),
     mmap_lock_killed = False, pc_cap_sys_resource = False, is_child_reaper = (\<lambda>p. False), process_tree = Proc 1 [],
     pmm_env = mm_env_of\<rparr>"

definition prctl_task_of :: prctl_task where
  "prctl_task_of = \<lparr>pdeath_signal = 0, dumpable = 1, comm = replicate 16 0, timer_slack_ns = 50000,
     default_timer_slack_ns = 50000, task_flags = 0, clear_child_tid = 0, no_new_privs = True, is_child_subreaper = False,
     has_child_subreaper = (\<lambda>p. False), thp_disabled = False, vm_merge_any = False, pmm = mm_of, comm_events = 0\<rparr>"

text \<open>
  C29: no sequence of \<open>prctl\<close> calls, whatever their options and arguments, clears the
  \<open>no_new_privs\<close> bit of a task or changes memory-deny-write-execute flags once they are set.
\<close>

theorem prctl_restrictions_one_way:
  "(no_new_privs t \<longrightarrow> no_new_privs (run_calls exec_prctl cs t)) \<and>
   (get_current_mdwe (pmm t) \<noteq> 0 \<longrightarrow>
      get_current_mdwe (pmm (run_calls exec_prctl cs t)) = get_current_mdwe (pmm t))"
proof -
  have "list_all (\<lambda>c. True) cs" by (simp add: list_all_iff)
  from prctl.run_R [OF this, of t] show ?thesis by (auto simp: restricted_def mdwe_kept_def)
qed

theorem prctl_restrictions_one_way_witness:
  "no_new_privs (run_calls exec_prctl [(prctl_env_of, 38, 0, 0, 0, 0), (prctl_env_of, 65, 1, 0, 0, 0)] prctl_task_of)"
  using prctl_restrictions_one_way [of prctl_task_of "[(prctl_env_of, 38, 0, 0, 0, 0), (prctl_env_of, 65, 1, 0, 0, 0)]"]
  by (simp add: prctl_task_of_def)

text \<open>
  C30: whatever sequence of \<open>prctl\<close> calls a process issues, its recorded memory layout stays
  inside the user address space with every segment ordered, its saved auxiliary vector keeps
  its size and ends in \<open>AT_NULL\<close>, and only names of accepted characters reach
  \<open>madvise_set_anon_name\<close>.
\<close>

theorem prctl_keeps_map_valid:
  assumes "list_all (\<lambda>c. mmap_min_addr (pmm_env (fst c)) = lo \<and> TASK_SIZE (pmm_env (fst c)) = hi) cs"
    and "mm_inv lo hi sz (pmm t)"
  shows "mm_inv lo hi sz (pmm (run_calls exec_prctl cs t))"
  using assms by (rule prctl_map.run_inv)

theorem prctl_keeps_map_valid_witness:
  "mm_inv 0x1000 0x7FFFFFFFF000 32 (pmm (run_calls exec_prctl
     [(prctl_env_of, 35, 7, 0x60000, 0, 0), (prctl_env_of, 35, 2, 0x10000, 0, 0)] prctl_task_of))"
proof (rule prctl_keeps_map_valid)
  show "mm_inv 0x1000 0x7FFFFFFFF000 32 (pmm prctl_task_of)"
    using mm_of_inv by (simp add: prctl_task_of_def)
qed (simp add: prctl_env_of_def mm_env_of_def)

text \<open>
  The machine-check policy set with \<open>PR_MCE_KILL_SET\<close> (late, early or default) is the one
  \<open>PR_MCE_KILL_GET\<close> reports.
\<close>

theorem mce_kill_set_get:
  assumes "security_task_prctl E = (\<lambda>opt a b c d. - ENOSYS)" and "policy \<in> {0, 1, 2}"
  shows "fst (sys_prctl E 34 0 0 0 0 (snd (sys_prctl E 33 PR_MCE_KILL_SET policy 0 0 t))) = (uint policy, None)"
  using assms
  by (auto simp: sys_prctl_def prctl_basic_def prctl_process_def prctl_mce_kill_def prctl_mce_kill_get_def
    Let_def and.assoc bit.conj_disj_distrib2)

theorem mce_kill_set_get_witness:
  "fst (sys_prctl prctl_env_of 34 0 0 0 0 (snd (sys_prctl prctl_env_of 33 PR_MCE_KILL_SET 1 0 0 prctl_task_of))) = (1, None)"
  using mce_kill_set_get [of prctl_env_of 1 prctl_task_of] by (simp add: prctl_env_of_def)

text \<open>
  \<open>PR_MCE_KILL_SET\<close> with an unknown policy returns \<open>-EINVAL\<close> but leaves the task with
  \<open>PF_MCE_PROCESS\<close> set: the error path does not restore the flags.
\<close>

theorem mce_kill_error_changes_flags:
  assumes "security_task_prctl E = (\<lambda>opt a b c d. - ENOSYS)" and "policy > 2"
  shows "sys_prctl E 33 PR_MCE_KILL_SET policy 0 0 t =
     ((- EINVAL, None), t\<lparr>task_flags := task_flags t OR PF_MCE_PROCESS\<rparr>)"
proof -
  have "policy \<noteq> 0" "policy \<noteq> 1" "policy \<noteq> 2" using assms(2) by auto
  with assms(1) show ?thesis
    by (simp add: sys_prctl_def prctl_basic_def prctl_process_def prctl_mce_kill_def Let_def)
qed

theorem mce_kill_error_changes_flags_witness:
  "task_flags (snd (sys_prctl prctl_env_of 33 PR_MCE_KILL_SET 7 0 0 prctl_task_of)) = PF_MCE_PROCESS"
  using mce_kill_error_changes_flags [of prctl_env_of 7 prctl_task_of] by (simp add: prctl_env_of_def prctl_task_of_def)

end
