(* ===== verification/System_Info.thy ===== *)
theory System_Info
  imports Kernel_Base
begin

text \<open>
  The system-information calls at the end of \<^verbatim>\<open>src/Kernel/kernel/sys.c\<close>: \<open>getcpu\<close>,
  \<open>sysinfo\<close> and its 32-bit form, and the calls the project adds, \<open>luis_capture_memory_snapshot\<close>,
  \<open>luis_get_io_throttle\<close> and \<open>luis_tamalloc\<close>. Local variables the code leaves uninitialised are
  arguments of the model, so that what is copied out of them stays visible.
\<close>

section \<open>getcpu\<close>

text \<open>The two stores and the result; None is a store that was not asked for or faulted.\<close>

definition sys_getcpu :: "u32 \<Rightarrow> (u32 \<Rightarrow> u32) \<Rightarrow> user_out \<Rightarrow> user_out \<Rightarrow> int \<times> u32 option \<times> u32 option" where
  "sys_getcpu cpu cpu_to_node cpup nodep =
     (let err = False;
          err = (if cpup \<noteq> Null_out then err \<or> copy_to_user cpup cpu = None else err);
          err = (if nodep \<noteq> Null_out then err \<or> copy_to_user nodep (cpu_to_node cpu) = None else err)
      in (if err then - EFAULT else 0, copy_to_user cpup cpu, copy_to_user nodep (cpu_to_node cpu)))"

section \<open>sysinfo\<close>

record sysinfo =
  si_uptime :: u64
  si_loads :: "u64 list"
  si_totalram :: u64
  si_freeram :: u64
  si_sharedram :: u64
  si_bufferram :: u64
  si_totalswap :: u64
  si_freeswap :: u64
  si_procs :: u16
  si_totalhigh :: u64
  si_freehigh :: u64
  si_mem_unit :: u32

text \<open>
  From outside the file: the boot clock, the load averages, the number of threads, and what
  \<open>si_meminfo\<close> and \<open>si_swapinfo\<close> store into the structure.
\<close>

record sysinfo_env =
  boottime_sec :: u64
  boottime_nsec :: u64
  avenrun :: "u64 list"
  nr_threads :: u16
  si_meminfo :: "sysinfo \<Rightarrow> sysinfo"
  si_swapinfo :: "sysinfo \<Rightarrow> sysinfo"

definition zero_sysinfo :: sysinfo where
  "zero_sysinfo = \<lparr>si_uptime = 0, si_loads = [0, 0, 0], si_totalram = 0, si_freeram = 0, si_sharedram = 0,
     si_bufferram = 0, si_totalswap = 0, si_freeswap = 0, si_procs = 0, si_totalhigh = 0, si_freehigh = 0,
     si_mem_unit = 0\<rparr>"

text \<open>The loop that looks for the shift; None is the jump to \<open>out\<close> on overflow.\<close>

function scale_up :: "u32 \<Rightarrow> u64 \<Rightarrow> nat \<Rightarrow> nat option" where
  "scale_up mem_unit mem_total bitcount =
     (if mem_unit > 1 then
        (let bitcount = bitcount + 1;
             mem_unit = drop_bit 1 mem_unit;
             sav_total = mem_total;
             mem_total = push_bit 1 mem_total
         in if mem_total < sav_total then None else scale_up mem_unit mem_total bitcount)
      else Some bitcount)"
  by pat_completeness auto

termination
  by (relation "measure (\<lambda>(u, t, b). unat u)") (auto simp: drop_bit_eq_div unat_div_distrib word_less_nat_alt)

declare scale_up.simps [simp del]

definition shift_sysinfo :: "nat \<Rightarrow> sysinfo \<Rightarrow> sysinfo" where
  "shift_sysinfo bitcount info =
     info\<lparr>si_mem_unit := 1, si_totalram := push_bit bitcount (si_totalram info), si_freeram := push_bit bitcount (si_freeram info),
       si_sharedram := push_bit bitcount (si_sharedram info), si_bufferram := push_bit bitcount (si_bufferram info),
       si_totalswap := push_bit bitcount (si_totalswap info), si_freeswap := push_bit bitcount (si_freeswap info),
       si_totalhigh := push_bit bitcount (si_totalhigh info), si_freehigh := push_bit bitcount (si_freehigh info)\<rparr>"

text \<open>The part of \<open>do_sysinfo\<close> after the structure has been filled.\<close>

definition normalise_sysinfo :: "sysinfo \<Rightarrow> sysinfo" where
  "normalise_sysinfo info =
     (let mem_total = si_totalram info + si_totalswap info in
      if mem_total < si_totalram info \<or> mem_total < si_totalswap info then info
      else case scale_up (si_mem_unit info) mem_total 0 of None \<Rightarrow> info
      | Some bitcount \<Rightarrow> shift_sysinfo bitcount info)"

definition do_sysinfo :: "sysinfo_env \<Rightarrow> sysinfo" where
  "do_sysinfo E =
     (let info = zero_sysinfo;
          info = info\<lparr>si_uptime := boottime_sec E + (if boottime_nsec E \<noteq> 0 then 1 else 0)\<rparr>;
          info = info\<lparr>si_loads := avenrun E\<rparr>;
          info = info\<lparr>si_procs := nr_threads E\<rparr>;
          info = si_meminfo E info;
          info = si_swapinfo E info
      in normalise_sysinfo info)"

definition sys_sysinfo :: "sysinfo_env \<Rightarrow> user_out \<Rightarrow> int \<times> sysinfo option" where
  "sys_sysinfo E info =
     (case copy_to_user info (do_sysinfo E) of None \<Rightarrow> (- EFAULT, None) | Some val \<Rightarrow> (0, Some val))"

section \<open>sysinfo for 32-bit callers\<close>

record compat_sysinfo =
  c_uptime :: u32
  c_loads :: "u32 list"
  c_totalram :: u32
  c_freeram :: u32
  c_sharedram :: u32
  c_bufferram :: u32
  c_totalswap :: u32
  c_freeswap :: u32
  c_procs :: u16
  c_totalhigh :: u32
  c_freehigh :: u32
  c_mem_unit :: u32

text \<open>The loop that doubles \<open>mem_unit\<close> up to the page size; it does not end for a unit of 0.\<close>

partial_function (option) scale_down :: "u32 \<Rightarrow> nat \<Rightarrow> (u32 \<times> nat) option" where
  "scale_down mem_unit bitcount =
     (if mem_unit < 4096 then scale_down (push_bit 1 mem_unit) (bitcount + 1) else Some (mem_unit, bitcount))"

definition upper_32_bits :: "u64 \<Rightarrow> u32" where
  "upper_32_bits n = ucast (drop_bit 32 n)"

definition shrink_sysinfo :: "u32 \<Rightarrow> nat \<Rightarrow> sysinfo \<Rightarrow> sysinfo" where
  "shrink_sysinfo mem_unit bitcount s =
     s\<lparr>si_mem_unit := mem_unit, si_totalram := drop_bit bitcount (si_totalram s), si_freeram := drop_bit bitcount (si_freeram s),
       si_sharedram := drop_bit bitcount (si_sharedram s), si_bufferram := drop_bit bitcount (si_bufferram s),
       si_totalswap := drop_bit bitcount (si_totalswap s), si_freeswap := drop_bit bitcount (si_freeswap s),
       si_totalhigh := drop_bit bitcount (si_totalhigh s), si_freehigh := drop_bit bitcount (si_freehigh s)\<rparr>"

definition fit_sysinfo :: "sysinfo \<Rightarrow> sysinfo option" where
  "fit_sysinfo s =
     (if upper_32_bits (si_totalram s) \<noteq> 0 \<or> upper_32_bits (si_totalswap s) \<noteq> 0 then
        (case scale_down (si_mem_unit s) 0 of None \<Rightarrow> None
         | Some (mem_unit, bitcount) \<Rightarrow> Some (shrink_sysinfo mem_unit bitcount s))
      else Some s)"

definition to_compat_sysinfo :: "sysinfo \<Rightarrow> compat_sysinfo" where
  "to_compat_sysinfo s =
     \<lparr>c_uptime = ucast (si_uptime s), c_loads = map ucast (si_loads s), c_totalram = ucast (si_totalram s),
      c_freeram = ucast (si_freeram s), c_sharedram = ucast (si_sharedram s), c_bufferram = ucast (si_bufferram s),
      c_totalswap = ucast (si_totalswap s), c_freeswap = ucast (si_freeswap s), c_procs = si_procs s,
      c_totalhigh = ucast (si_totalhigh s), c_freehigh = ucast (si_freehigh s), c_mem_unit = si_mem_unit s\<rparr>"

definition compat_sys_sysinfo :: "sysinfo_env \<Rightarrow> user_out \<Rightarrow> (int \<times> compat_sysinfo option) option" where
  "compat_sys_sysinfo E info =
     (case fit_sysinfo (do_sysinfo E) of None \<Rightarrow> None
      | Some s \<Rightarrow> Some (case copy_to_user info (to_compat_sysinfo s) of
           None \<Rightarrow> (- EFAULT, None) | Some s32 \<Rightarrow> (0, Some s32)))"

section \<open>Memory snapshot\<close>

record memory_snapshot =
  total_mem_kb :: u64
  free_mem_kb :: u64
  cached_mem_kb :: u64
  dirty_page_count :: u64
  slab_mem_kb :: u64
  reclaimable_slab_mem_kb :: u64
  active_page_count :: u64
  inactive_page_count :: u64
  total_swap_kb :: u64
  snapshot_date :: "u8 list"

datatype node_stat = NR_ACTIVE_ANON | NR_ACTIVE_FILE | NR_INACTIVE_ANON | NR_INACTIVE_FILE | NR_FILE_DIRTY
  | NR_SLAB_UNRECLAIMABLE_B | NR_SLAB_RECLAIMABLE_B

text \<open>
  \<open>date\<close> is the text that \<open>snprintf\<close> makes of the wall clock; \<open>stack\<close> and \<open>stack_info\<close> are what
  the two local structures held before.
\<close>

definition store_date :: "u8 list \<Rightarrow> u8 list \<Rightarrow> u8 list" where
  "store_date date buf = (let s = take (length buf - 1) date @ [0] in s @ drop (length s) buf)"

definition luis_capture_memory_snapshot ::
  "(sysinfo \<Rightarrow> sysinfo) \<Rightarrow> (node_stat \<Rightarrow> u64) \<Rightarrow> u8 list \<Rightarrow> memory_snapshot \<Rightarrow> sysinfo \<Rightarrow> user_out \<Rightarrow>
   int \<times> memory_snapshot option" where
  "luis_capture_memory_snapshot si_meminfo' global_node_page_state date stack stack_info user_snapshot =
     (if user_snapshot = Null_out then (- EINVAL, None)
      else let sys_info = si_meminfo' stack_info;
               local_snapshot = \<lparr>
                 total_mem_kb = push_bit 2 (si_totalram sys_info),
                 free_mem_kb = push_bit 2 (si_freeram sys_info),
                 cached_mem_kb = push_bit 2 (si_bufferram sys_info),
                 dirty_page_count = global_node_page_state NR_FILE_DIRTY,
                 slab_mem_kb = push_bit 2 (global_node_page_state NR_SLAB_UNRECLAIMABLE_B),
                 reclaimable_slab_mem_kb = push_bit 2 (global_node_page_state NR_SLAB_RECLAIMABLE_B),
                 active_page_count = global_node_page_state NR_ACTIVE_ANON + global_node_page_state NR_ACTIVE_FILE,
                 inactive_page_count = global_node_page_state NR_INACTIVE_ANON + global_node_page_state NR_INACTIVE_FILE,
                 total_swap_kb = push_bit 2 (si_totalswap sys_info),
                 snapshot_date = store_date date (snapshot_date stack)\<rparr>
      in case copy_to_user user_snapshot local_snapshot of None \<Rightarrow> (- EFAULT, None) | Some v \<Rightarrow> (0, Some v))"

section \<open>I/O statistics\<close>

abbreviation MAX_PROCS :: nat where "MAX_PROCS \<equiv> 20"

record io_task =
  io_pid :: u32
  io_comm :: "u8 list"
  io_read_bytes :: u64
  io_write_bytes :: u64
  io_cancelled_write_bytes :: u64
  sum_exec_runtime :: u64
  vruntime :: u64

record io_stats =
  st_pid :: u32
  st_comm :: "u8 list"
  bytes_read :: u64
  bytes_written :: u64
  cancelled_write_bytes :: u64
  io_wait_time :: u64

text \<open>\<open>strncpy\<close> into a buffer of 17 bytes, padded with NUL, and the NUL stored after it.\<close>

definition strncpy17 :: "u8 list \<Rightarrow> u8 list" where
  "strncpy17 s = (let t = take 17 (takeWhile (\<lambda>c. c \<noteq> 0) s) in t @ replicate (17 - length t) 0 @ [0])"

definition io_entry :: "io_task \<Rightarrow> io_stats" where
  "io_entry task =
     \<lparr>st_pid = io_pid task, st_comm = strncpy17 (io_comm task), bytes_read = io_read_bytes task,
      bytes_written = io_write_bytes task, cancelled_write_bytes = io_cancelled_write_bytes task,
      io_wait_time = sum_exec_runtime task - vruntime task\<rparr>"

text \<open>The loop over the processes, with the array and the index.\<close>

fun collect_io :: "io_task list \<Rightarrow> nat \<Rightarrow> io_stats list \<Rightarrow> io_stats list \<times> nat" where
  "collect_io [] i stats = (stats, i)"
| "collect_io (task # tasks) i stats =
     (if io_read_bytes task = 0 \<and> io_write_bytes task = 0 then collect_io tasks i stats
      else if i \<ge> MAX_PROCS then (stats, i)
      else collect_io tasks (i + 1) (stats[i := io_entry task]))"

definition luis_get_io_throttle ::
  "io_task list \<Rightarrow> io_stats list \<Rightarrow> (nat \<Rightarrow> bool) \<Rightarrow> user_out \<Rightarrow> int \<times> (io_stats list \<times> nat) option" where
  "luis_get_io_throttle tasks stack access_ok user_stats =
     (let kernel_stats = collect_io tasks 0 stack in
      if \<not> access_ok 1128 then (- EFAULT, None)
      else case copy_to_user user_stats kernel_stats of None \<Rightarrow> (- EFAULT, None) | Some v \<Rightarrow> (0, Some v))"

section \<open>tamalloc\<close>

text \<open>The mappings of the caller as start address and length; \<open>vm_mmap\<close> and \<open>vm_munmap\<close> are parameters.\<close>

type_synonym mappings = "(u64 \<times> u64) list"

record tamalloc_env =
  vm_mmap :: "u64 \<Rightarrow> mappings \<Rightarrow> u64 \<times> mappings"
  vm_munmap :: "u64 \<Rightarrow> u64 \<Rightarrow> mappings \<Rightarrow> mappings"

definition PAGE_ALIGN :: "u64 \<Rightarrow> u64" where
  "PAGE_ALIGN n = (n + 4095) AND NOT 4095"

definition IS_ERR_VALUE :: "u64 \<Rightarrow> bool" where
  "IS_ERR_VALUE x \<longleftrightarrow> x \<ge> - 4095"

definition luis_tamalloc :: "tamalloc_env \<Rightarrow> u64 \<Rightarrow> user_out \<Rightarrow> mappings \<Rightarrow> (int \<times> u64 option) \<times> mappings" where
  "luis_tamalloc E n addr maps =
     (let n = PAGE_ALIGN n in
      case vm_mmap E n maps of (user_addr, maps') \<Rightarrow>
      if IS_ERR_VALUE user_addr then ((sint user_addr, None), maps')
      else case copy_to_user addr user_addr of
        None \<Rightarrow> ((- EFAULT, None), vm_munmap E user_addr n maps')
      | Some a \<Rightarrow> ((0, Some a), maps'))"

text \<open>
  The fault handler for tamalloc areas: the page it hands back, or out of memory. The source
  puts it into \<open>tamalloc_vm_ops\<close>, which no mapping ever gets.
\<close>

abbreviation VM_FAULT_OOM :: u32 where "VM_FAULT_OOM \<equiv> 1"

definition tamalloc_page_fault_handler :: "nat option \<Rightarrow> u32 \<times> nat option" where
  "tamalloc_page_fault_handler alloc_page =
     (case alloc_page of None \<Rightarrow> (VM_FAULT_OOM, None) | Some page \<Rightarrow> (0, Some page))"

section \<open>Overflow checks are exact\<close>

lemma unat_push_bit: "unat (push_bit k x) = unat x * 2 ^ k mod 2 ^ 64" for x :: u64
  by (simp only: unsigned_push_bit_eq) (simp add: push_bit_eq_mult take_bit_eq_mod)

lemma double_overflow: "push_bit 1 t < t \<longleftrightarrow> 2 ^ 64 \<le> 2 * unat t" for t :: u64
proof -
  have bound: "unat t < 2 ^ 64" using unsigned_less [of t, where 'a = nat] by simp
  have d: "unat (push_bit 1 t) = 2 * unat t mod 2 ^ 64" by (simp only: unat_push_bit) (simp add: mult.commute)
  show ?thesis
  proof (cases "2 * unat t < 2 ^ 64")
    case True
    with d show ?thesis by (simp add: word_less_nat_alt)
  next
    case False
    then have "2 * unat t mod 2 ^ 64 = 2 * unat t - 2 ^ 64" using bound by (simp add: mod_if)
    with d False bound show ?thesis by (simp add: word_less_nat_alt)
  qed
qed

lemma sum_overflow: "a + b < a \<or> a + b < b \<longleftrightarrow> 2 ^ 64 \<le> unat a + unat b" for a b :: u64
  using unsigned_less [of a, where 'a = nat] unsigned_less [of b, where 'a = nat]
  by (auto simp: word_less_nat_alt unat_plus_if')

lemma drop_bit_double: "Suc k < 32 \<Longrightarrow> drop_bit 1 (2 ^ Suc k :: u32) = 2 ^ k"
  by (rule bit_word_eqI) (auto simp: bit_simps)

lemma unat_two_power: "k < 32 \<Longrightarrow> unat (2 ^ k :: u32) = 2 ^ k"
proof -
  assume k: "k < 32"
  have "unat (push_bit k (1 :: u32)) = take_bit 32 (push_bit k 1)"
    by (simp only: unsigned_push_bit_eq) simp
  with k show ?thesis by (simp add: push_bit_of_1 take_bit_nat_eq_self)
qed

lemma scale_up_power:
  assumes "k < 32"
  shows "scale_up (2 ^ k) t b = (if unat t * 2 ^ k < 2 ^ 64 then Some (b + k) else None)"
  using assms
proof (induction k arbitrary: t b)
  case 0
  then show ?case using unsigned_less [of t, where 'a = nat] by (simp add: scale_up.simps [of 1])
next
  case (Suc k)
  have big: "(1 :: u32) < 2 ^ Suc k"
    using Suc.prems one_less_power [of "2 :: nat" "Suc k"] by (simp only: word_less_nat_alt unat_two_power unat_1)
  show ?case
  proof (cases "push_bit 1 t < t")
    case True
    then have "2 ^ 64 \<le> unat t * 2 ^ Suc k"
      unfolding double_overflow by (rule order_trans) simp
    with True big show ?thesis by (subst scale_up.simps) (simp add: Let_def)
  next
    case False
    then have "unat (push_bit 1 t) = 2 * unat t"
      unfolding double_overflow by (simp only: unat_push_bit) (simp add: mult.commute)
    moreover have "scale_up (2 ^ Suc k) t b = scale_up (2 ^ k) (push_bit 1 t) (b + 1)"
      unfolding scale_up.simps [of "2 ^ Suc k"] Let_def drop_bit_double [OF Suc.prems] using False big by simp
    ultimately show ?thesis
      using Suc.IH [of "push_bit 1 t" "b + 1"] Suc.prems by (simp add: mult.assoc)
  qed
qed

section \<open>Scaling keeps the amounts\<close>

definition mem_fields :: "sysinfo \<Rightarrow> u64 list" where
  "mem_fields s = [si_totalram s, si_freeram s, si_sharedram s, si_bufferram s, si_totalswap s, si_freeswap s,
     si_totalhigh s, si_freehigh s]"

lemma mem_fields_shift:
  "mem_fields (shift_sysinfo k s) = map (push_bit k) (mem_fields s)"
  "mem_fields (shrink_sysinfo u k s) = map (drop_bit k) (mem_fields s)"
  by (simp_all add: mem_fields_def shift_sysinfo_def shrink_sysinfo_def)

lemma normalise_cases:
  assumes "si_mem_unit s = 2 ^ k" "k < 32"
  shows "normalise_sysinfo s =
     (if (unat (si_totalram s) + unat (si_totalswap s)) * 2 ^ k < 2 ^ 64 then shift_sysinfo k s else s)"
proof (cases "unat (si_totalram s) + unat (si_totalswap s) < 2 ^ 64")
  case True
  then have "unat (si_totalram s + si_totalswap s) = unat (si_totalram s) + unat (si_totalswap s)"
    by (simp add: unat_plus_if')
  with True show ?thesis
    unfolding normalise_sysinfo_def Let_def sum_overflow assms(1) scale_up_power [OF assms(2)] by simp
next
  case False
  then have "2 ^ 64 \<le> (unat (si_totalram s) + unat (si_totalswap s)) * 2 ^ k"
    by (metis le_trans linorder_not_less mult_le_mono2 nat_mult_1_right one_le_numeral one_le_power)
  with False show ?thesis
    unfolding normalise_sysinfo_def Let_def sum_overflow by simp
qed

lemma scale_down_ends:
  assumes "u \<noteq> 0"
  shows "\<exists>k. scale_down u b = Some (u * 2 ^ k, b + k) \<and> unat (u * 2 ^ k) = unat u * 2 ^ k"
  using assms
proof (induction "4096 - unat u" arbitrary: u b rule: less_induct)
  case less
  show ?case
  proof (cases "u < 4096")
    case True
    then have small: "unat u < 4096" by (simp add: word_less_nat_alt)
    then have twice: "unat (u * 2) = 2 * unat u" by (simp add: unat_word_ariths)
    have pos: "0 < unat u" using less.prems by (simp add: unat_gt_0)
    have "u * 2 \<noteq> 0" using twice pos by (metis mult_is_0 nat_neq_iff unat_0 zero_neq_numeral)
    moreover have "4096 - unat (u * 2) < 4096 - unat u" using twice pos small by simp
    ultimately obtain k where k: "scale_down (u * 2) (b + 1) = Some (u * 2 * 2 ^ k, b + 1 + k)"
      "unat (u * 2 * 2 ^ k) = unat (u * 2) * 2 ^ k"
      using less.hyps by blast
    have "scale_down u b = scale_down (u * 2) (b + 1)"
      using True by (subst scale_down.simps) (simp add: push_bit_eq_mult)
    with k twice show ?thesis
      by (intro exI [of _ "Suc k"]) (simp add: mult.assoc)
  next
    case False
    then show ?thesis by (subst scale_down.simps) (intro exI [of _ 0], simp)
  qed
qed

lemma unat_drop_bit: "unat (drop_bit k x) = unat x div 2 ^ k" for x :: u64
  using unsigned_less [of x, where 'a = nat]
  by (simp only: unsigned_drop_bit_eq) (simp add: drop_bit_eq_div take_bit_nat_eq_self)

text \<open>The loop of the I/O statistics fills the array with the first active processes.\<close>

abbreviation active :: "io_task \<Rightarrow> bool" where
  "active task \<equiv> \<not> (io_read_bytes task = 0 \<and> io_write_bytes task = 0)"

lemma collect_io_eq:
  assumes "i \<le> MAX_PROCS" and "length stats = MAX_PROCS"
  shows "collect_io tasks i stats =
     (let es = map io_entry (take (MAX_PROCS - i) (filter active tasks))
      in (take i stats @ es @ drop (i + length es) stats, i + length es))"
  using assms
proof (induction tasks i stats rule: collect_io.induct)
  case (2 task tasks i stats)
  show ?case
  proof (cases "active task \<and> i < MAX_PROCS")
    case True
    then obtain m where m: "MAX_PROCS - i = Suc m" "MAX_PROCS - (i + 1) = m" by (metis Suc_diff_Suc Suc_eq_plus1)
    have tk: "take (i + 1) (stats[i := io_entry task]) = take i stats @ [io_entry task]"
      using True 2(4) by (simp add: take_Suc_conv_app_nth)
    from True 2 m tk show ?thesis
      by (auto simp: Let_def)
  next
    case False
    with 2 show ?thesis by (auto simp: Let_def)
  qed
qed simp

section \<open>Properties\<close>

definition sysinfo_of :: "u64 \<Rightarrow> u32 \<Rightarrow> sysinfo" where
  "sysinfo_of ram unit = zero_sysinfo\<lparr>si_totalram := ram, si_freeram := 3, si_mem_unit := unit\<rparr>"

text \<open>
  The scaling of \<open>do_sysinfo\<close> keeps every memory amount: with a unit that is a power of two and amounts of
  at most the sum of ram and swap, each reported value times the reported unit is the value
  times the unit it was given, and the unit becomes 1 whenever that sum in bytes fits into 64
  bits.
\<close>

theorem sysinfo_amounts_kept:
  assumes "si_mem_unit s = 2 ^ k" and "k < 32"
    and "list_all (\<lambda>f. unat f \<le> unat (si_totalram s) + unat (si_totalswap s)) (mem_fields s)"
  shows "list_all2 (\<lambda>f' f. unat f' * unat (si_mem_unit (normalise_sysinfo s)) = unat f * unat (si_mem_unit s))
       (mem_fields (normalise_sysinfo s)) (mem_fields s) \<and>
     ((unat (si_totalram s) + unat (si_totalswap s)) * 2 ^ k < 2 ^ 64 \<longrightarrow> si_mem_unit (normalise_sysinfo s) = 1)"
proof (cases "(unat (si_totalram s) + unat (si_totalswap s)) * 2 ^ k < 2 ^ 64")
  case True
  have "unat (push_bit k f) = unat f * 2 ^ k" if "f \<in> set (mem_fields s)" for f
  proof -
    have "unat f * 2 ^ k \<le> (unat (si_totalram s) + unat (si_totalswap s)) * 2 ^ k"
      using that assms(3) by (auto simp: list_all_iff intro: mult_le_mono1)
    from le_less_trans [OF this True] show ?thesis by (simp only: unat_push_bit mod_less)
  qed
  moreover have "si_mem_unit (shift_sysinfo k s) = 1" by (simp add: shift_sysinfo_def)
  ultimately show ?thesis
    using True unfolding normalise_cases [OF assms(1,2)]
    by (auto simp: mem_fields_shift list.rel_map assms(1) unat_two_power [OF assms(2)] intro!: list.rel_refl_strong)
next
  case False
  then show ?thesis
    unfolding normalise_cases [OF assms(1,2)] by (auto intro!: list.rel_refl_strong)
qed

theorem sysinfo_amounts_kept_witness:
  "unat (si_freeram (normalise_sysinfo (sysinfo_of 1000 (2 ^ 12)))) * unat (si_mem_unit (normalise_sysinfo (sysinfo_of 1000 (2 ^ 12)))) = 3 * 4096 \<and>
   si_mem_unit (normalise_sysinfo (sysinfo_of 1000 (2 ^ 12))) = 1"
  using sysinfo_amounts_kept [of "sysinfo_of 1000 (2 ^ 12)" 12]
  by (auto simp: sysinfo_of_def zero_sysinfo_def mem_fields_def)

text \<open>
  For a non-zero unit the scaling loop of the 32-bit \<open>sysinfo\<close> ends, and scaling down loses less than one
  unit: each amount in bytes lies between the scaled value times the new unit and one unit more.
\<close>

theorem compat_sysinfo_scaling:
  assumes "si_mem_unit s \<noteq> 0"
  shows "\<exists>s'. fit_sysinfo s = Some s' \<and>
     list_all2 (\<lambda>f' f. unat f' * unat (si_mem_unit s') \<le> unat f * unat (si_mem_unit s) \<and>
       unat f * unat (si_mem_unit s) < (unat f' + 1) * unat (si_mem_unit s')) (mem_fields s') (mem_fields s)"
proof (cases "upper_32_bits (si_totalram s) \<noteq> 0 \<or> upper_32_bits (si_totalswap s) \<noteq> 0")
  case True
  obtain k where k: "scale_down (si_mem_unit s) 0 = Some (si_mem_unit s * 2 ^ k, 0 + k)"
      "unat (si_mem_unit s * 2 ^ k) = unat (si_mem_unit s) * 2 ^ k"
    using scale_down_ends [OF assms] by blast
  have pos: "0 < unat (si_mem_unit s)" using assms by (simp add: unat_gt_0)
  have "unat (drop_bit k f) * (unat (si_mem_unit s) * 2 ^ k) \<le> unat f * unat (si_mem_unit s) \<and>
      unat f * unat (si_mem_unit s) < (unat (drop_bit k f) + 1) * (unat (si_mem_unit s) * 2 ^ k)" for f :: u64
  proof -
    have "unat f div 2 ^ k * 2 ^ k \<le> unat f" "unat f < (unat f div 2 ^ k + 1) * 2 ^ k"
      using div_times_less_eq_dividend [of "unat f" "2 ^ k"] dividend_less_div_times [of "2 ^ k" "unat f"] by auto
    then have "unat f div 2 ^ k * 2 ^ k * unat (si_mem_unit s) \<le> unat f * unat (si_mem_unit s)"
      "unat f * unat (si_mem_unit s) < (unat f div 2 ^ k + 1) * 2 ^ k * unat (si_mem_unit s)"
      using pos by (simp_all only: mult_le_mono1 mult_less_mono1)
    then show ?thesis by (simp only: unat_drop_bit mult.assoc mult.commute [of "2 ^ k"])
  qed
  moreover have "fit_sysinfo s = Some (shrink_sysinfo (si_mem_unit s * 2 ^ k) k s)"
    using True k(1) by (simp add: fit_sysinfo_def)
  moreover have "si_mem_unit (shrink_sysinfo (si_mem_unit s * 2 ^ k) k s) = si_mem_unit s * 2 ^ k"
    by (simp add: shrink_sysinfo_def)
  ultimately show ?thesis
    using k(2) by (auto simp: mem_fields_shift list.rel_map intro!: list.rel_refl_strong)
next
  case False
  then have "fit_sysinfo s = Some s" by (auto simp: fit_sysinfo_def)
  moreover have "0 < unat (si_mem_unit s)" using assms by (simp add: unat_gt_0)
  ultimately show ?thesis by (auto intro!: list.rel_refl_strong)
qed

theorem compat_sysinfo_scaling_witness:
  "\<exists>s'. fit_sysinfo (sysinfo_of 0x100000000 1) = Some s' \<and> unat (si_totalram s') * unat (si_mem_unit s') \<le> 0x100000000"
  using compat_sysinfo_scaling [of "sysinfo_of 0x100000000 1"]
  by (auto simp: sysinfo_of_def mem_fields_def)

text \<open>
  C35: a successful \<open>luis_get_io_throttle\<close> reports the first twenty processes that have done I/O,
  in list order and at most twenty of them; the entries after them are copied to the caller as
  the kernel stack held them.
\<close>

theorem io_throttle_reports:
  assumes "length stack = MAX_PROCS" and "luis_get_io_throttle tasks stack ok dst = (0, Some (stats, n))"
  shows "n = min MAX_PROCS (length (filter active tasks)) \<and>
     take n stats = map io_entry (take MAX_PROCS (filter active tasks)) \<and> drop n stats = drop n stack \<and>
     length stats = MAX_PROCS"
proof -
  from assms(2) have "collect_io tasks 0 stack = (stats, n)"
    by (auto simp: luis_get_io_throttle_def Let_def copy_to_user_def split: if_splits)
  with collect_io_eq [of 0 stack tasks] assms(1) show ?thesis
    by (auto simp: Let_def min_def)
qed

definition io_tasks_of :: "io_task list" where
  "io_tasks_of =
     [\<lparr>io_pid = 1, io_comm = [65, 0], io_read_bytes = 0, io_write_bytes = 0, io_cancelled_write_bytes = 0, sum_exec_runtime = 5, vruntime = 7\<rparr>,
      \<lparr>io_pid = 2, io_comm = [66, 0], io_read_bytes = 9, io_write_bytes = 0, io_cancelled_write_bytes = 0, sum_exec_runtime = 5, vruntime = 7\<rparr>]"

theorem io_throttle_reports_witness:
  "\<exists>stats. luis_get_io_throttle io_tasks_of (replicate 20 (io_entry (hd io_tasks_of))) (\<lambda>n. True) Writable = (0, Some (stats, 1)) \<and>
     map st_pid (take 1 stats) = [2] \<and> drop 1 stats = replicate 19 (io_entry (hd io_tasks_of))"
proof -
  let ?stack = "replicate 20 (io_entry (hd io_tasks_of))"
  obtain stats n where call: "luis_get_io_throttle io_tasks_of ?stack (\<lambda>n. True) Writable = (0, Some (stats, n))"
    by (cases "collect_io io_tasks_of 0 ?stack") (simp add: luis_get_io_throttle_def)
  from io_throttle_reports [OF _ call] have "n = 1" "map st_pid (take n stats) = [2]" "drop n stats = drop n ?stack"
    by (auto simp: io_tasks_of_def io_entry_def)
  with call show ?thesis by auto
qed

text \<open>What the kernel documents of \<open>vm_mmap\<close> and \<open>vm_munmap\<close>.\<close>

definition mmap_laws :: "tamalloc_env \<Rightarrow> bool" where
  "mmap_laws E \<longleftrightarrow> (\<forall>n maps a maps'. vm_mmap E n maps = (a, maps') \<longrightarrow>
     (if IS_ERR_VALUE a then maps' = maps else maps' = (a, n) # maps \<and> vm_munmap E a n maps' = maps))"

lemma IS_ERR_negative: "IS_ERR_VALUE a \<Longrightarrow> sint a < 0"
proof -
  assume "IS_ERR_VALUE a"
  then have le: "(- 4095 :: u64) \<le> a" by (simp add: IS_ERR_VALUE_def)
  have "uint (- 4095 :: u64) = 2 ^ 64 - 4095" by simp
  with le have "2 ^ 63 \<le> uint a" by (simp add: word_le_def)
  moreover have "uint a < 2 ^ 64" using uint_lt2p [of a] by simp
  ultimately have "uint a div 2 ^ 63 = 1" by (intro int_div_pos_eq [of _ _ _ "uint a - 2 ^ 63"]) simp_all
  then have "bit (uint a) 63" by (simp add: bit_iff_odd)
  then show ?thesis by (simp add: sint_uint)
qed

lemma PAGE_ALIGN_eq: "PAGE_ALIGN n = push_bit 12 (drop_bit 12 (n + 4095))"
proof -
  have m: "(4095 :: u64) = mask 12" by (simp add: mask_eq_exp_minus_1)
  have "x AND NOT (mask 12) = push_bit 12 (drop_bit 12 x)" for x :: u64
    by (rule bit_word_eqI) (auto simp: bit_simps)
  then show ?thesis unfolding PAGE_ALIGN_def m by blast
qed

lemma unat_PAGE_ALIGN: "unat (PAGE_ALIGN n) = unat (n + 4095) div 4096 * 4096"
proof -
  have "unat (n + 4095) div 4096 * 4096 \<le> unat (n + 4095)" by simp
  also have "\<dots> < 2 ^ 64" using unsigned_less [of "n + 4095", where 'a = nat] by simp
  finally have "unat (n + 4095) div 2 ^ 12 * 2 ^ 12 < 2 ^ 64" by simp
  then show ?thesis
    unfolding PAGE_ALIGN_eq by (simp only: unat_push_bit unat_drop_bit mod_less) simp
qed


definition tamalloc_env_of :: tamalloc_env where
  "tamalloc_env_of = \<lparr>vm_mmap = (\<lambda>n maps. if n = 0 then (- 22, maps) else (0x10000, (0x10000, n) # maps)),
     vm_munmap = (\<lambda>a n maps. tl maps)\<rparr>"


text \<open>
  \<open>luis_capture_memory_snapshot\<close> copies uninitialised kernel stack to the caller. Since
  \<open>si_meminfo\<close> does not store the swap size, \<open>total_swap_kb\<close> is four times whatever the stack
  held, and the bytes of \<open>snapshot_date\<close> after the terminating NUL are the stack's.
\<close>

theorem snapshot_leaks_stack:
  assumes "\<forall>s. si_totalswap (meminfo s) = si_totalswap s" and "length date < length (snapshot_date stack)"
    and "luis_capture_memory_snapshot meminfo state date stack stack_info dst = (0, Some v)"
  shows "total_swap_kb v = 4 * si_totalswap stack_info \<and>
     snapshot_date v = date @ 0 # drop (length date + 1) (snapshot_date stack)"
  using assms
  by (auto simp: luis_capture_memory_snapshot_def store_date_def copy_to_user_def push_bit_eq_mult Let_def split: if_splits)

theorem snapshot_leaks_stack_witness:
  "\<exists>v. luis_capture_memory_snapshot id (\<lambda>x. 0) [50, 48]
       \<lparr>total_mem_kb = 0, free_mem_kb = 0, cached_mem_kb = 0, dirty_page_count = 0, slab_mem_kb = 0, reclaimable_slab_mem_kb = 0,
        active_page_count = 0, inactive_page_count = 0, total_swap_kb = 0, snapshot_date = [1, 2, 3, 4, 5]\<rparr>
       (zero_sysinfo\<lparr>si_totalswap := 9\<rparr>) Writable = (0, Some v) \<and> total_swap_kb v = 36 \<and> snapshot_date v = [50, 48, 0, 4, 5]"
proof -
  let ?stack = "\<lparr>total_mem_kb = 0, free_mem_kb = 0, cached_mem_kb = 0, dirty_page_count = 0, slab_mem_kb = 0, reclaimable_slab_mem_kb = 0,
        active_page_count = 0, inactive_page_count = 0, total_swap_kb = 0, snapshot_date = [1, 2, 3, 4, 5]\<rparr>"
  obtain v where v: "luis_capture_memory_snapshot id (\<lambda>x. 0) [50, 48] ?stack (zero_sysinfo\<lparr>si_totalswap := 9\<rparr>) Writable = (0, Some v)"
    by (simp add: luis_capture_memory_snapshot_def Let_def)
  from snapshot_leaks_stack [OF _ _ v] v show ?thesis by simp
qed

end
