(* ===== verification/Proc_Modules.thy ===== *)
theory Proc_Modules
  imports Byte_Text System_Info
begin

text \<open>
  The five loadable modules under \<^verbatim>\<open>src/Modulos\<close>: \<open>cpu_stats\<close>, \<open>memory_stats\<close>, \<open>disk_stats\<close>,
  \<open>luis_mem_process\<close> and \<open>luis_mem_info\<close>. Each one creates a file of \<^verbatim>\<open>/proc\<close>; its show
  function is modelled by the lines it passes to \<open>seq_printf\<close>, each with its arguments.
\<close>

section \<open>Output of a show function\<close>

datatype seq_arg = Str string | Chars "u8 list" | Signed int | Ulong u64

type_synonym seq_line = "string \<times> seq_arg list"

section \<open>cpu\_stats\<close>

record cpu_stats =
  prev_idle_time :: u64
  prev_total_time :: u64

text \<open>One opening and reading of \<^verbatim>\<open>/proc/stat\<close>, with the whole contents of the file.\<close>

datatype stat_read = Open_error | Read_error | Contents "u8 list"

abbreviation cpu_literal :: "u8 list" where
  "cpu_literal \<equiv> [99, 112, 117]"

text \<open>The text in \<open>buffer\<close> after a read of at most 127 bytes; None when an error is returned.\<close>

definition read_buffer :: "stat_read \<Rightarrow> u8 list option" where
  "read_buffer r = (case r of Contents bytes \<Rightarrow> if bytes = [] then None else Some (c_string (take 127 bytes))
     | _ \<Rightarrow> None)"

definition get_cpu_idle_time :: "stat_read \<Rightarrow> u64" where
  "get_cpu_idle_time r = (case read_buffer r of None \<Rightarrow> - 1
     | Some buffer \<Rightarrow> (case match_literal cpu_literal buffer of None \<Rightarrow> - 1
        | Some s \<Rightarrow> (case scan_llus 2 (skip_token (skip_token (skip_token s))) of
             [idle, iowait] \<Rightarrow> idle + iowait
           | _ \<Rightarrow> - 1)))"

definition get_cpu_total_time :: "stat_read \<Rightarrow> u64" where
  "get_cpu_total_time r = (case read_buffer r of None \<Rightarrow> - 1
     | Some buffer \<Rightarrow> (case match_literal cpu_literal buffer of None \<Rightarrow> - 1
        | Some s \<Rightarrow> (case scan_llus 8 s of
             [user, nice, system, idle, iowait, irq, softirq, steal] \<Rightarrow>
               user + nice + system + idle + iowait + irq + softirq + steal
           | _ \<Rightarrow> - 1)))"

text \<open>The file is read twice; the conversion to \<open>int\<close> keeps the low 32 bits.\<close>

definition calculate_cpu_usage :: "stat_read \<Rightarrow> stat_read \<Rightarrow> cpu_stats \<Rightarrow> int \<times> cpu_stats" where
  "calculate_cpu_usage read1 read2 s =
     (let idle_time = get_cpu_idle_time read1;
          total_time = get_cpu_total_time read2
      in if idle_time = - 1 \<or> total_time = - 1 then (- 1, s)
      else let delta_idle = idle_time - prev_idle_time s;
               delta_total = total_time - prev_total_time s;
               s = s\<lparr>prev_idle_time := idle_time, prev_total_time := total_time\<rparr>
      in if delta_total > 0
         then (sint (ucast ((100 * (delta_total - delta_idle)) div delta_total) :: u32), s)
         else (0, s))"

definition show_cpu_stats :: "stat_read \<Rightarrow> stat_read \<Rightarrow> cpu_stats \<Rightarrow> seq_line list \<times> cpu_stats" where
  "show_cpu_stats read1 read2 s =
     (case calculate_cpu_usage read1 read2 s of (cpu_usage, s) \<Rightarrow>
        (if cpu_usage \<ge> 0 then [(''Uso de CPU: %d%%\<newline>'', [Signed cpu_usage])]
         else [(''Uso de CPU: Error\<newline>'', [])], s))"

section \<open>memory\_stats\<close>

text \<open>\<open>stack\<close> is what the local \<open>si\<close> holds before \<open>si_meminfo\<close> stores into it.\<close>

definition in_kb :: "u64 \<Rightarrow> sysinfo \<Rightarrow> u64" where
  "in_kb amount si = amount * ucast (si_mem_unit si) div 1024"

definition show_mem_stats :: "(sysinfo \<Rightarrow> sysinfo) \<Rightarrow> sysinfo \<Rightarrow> seq_line list" where
  "show_mem_stats si_meminfo' stack =
     (let si = si_meminfo' stack in
      [(''Memoria Total: %lu KB\<newline>'', [Ulong (in_kb (si_totalram si) si)]),
       (''Memoria Libre: %lu KB\<newline>'', [Ulong (in_kb (si_freeram si) si)]),
       (''Memoria en Buffers: %lu KB\<newline>'', [Ulong (in_kb (si_bufferram si) si)]),
       (''Swap Total: %lu KB\<newline>'', [Ulong (in_kb (si_totalswap si) si)]),
       (''Swap Libre: %lu KB\<newline>'', [Ulong (in_kb (si_freeswap si) si)])])"

section \<open>disk\_stats\<close>

record kstatfs =
  f_bsize :: u64
  f_blocks :: u64
  f_bfree :: u64

text \<open>
  \<open>kern_path\<close> and \<open>vfs_statfs\<close> are given by their results for the mount point; the last
  component of the outcome is the number of references to the path that the call has taken and
  not given back.
\<close>

definition disk_proc_show :: "int \<Rightarrow> int + kstatfs \<Rightarrow> (int \<times> seq_line list) \<times> nat" where
  "disk_proc_show kern_path vfs_statfs =
     (let mount_point = ''/''; ret = kern_path in
      if ret \<noteq> 0 then ((ret, [(''Error al obtener el path de %s: %d\<newline>'', [Str mount_point, Signed ret])]), 0)
      else let held = 1 in
      case vfs_statfs of
        Inl ret \<Rightarrow> ((ret, [(''Error al obtener estad'' @ [CHR 0xC3, CHR 0xAD] @ ''sticas de %s: %d\<newline>'',
                        [Str mount_point, Signed ret])]), held)
      | Inr stat \<Rightarrow>
          (let free_space = f_bsize stat * f_bfree stat;
               total_space = f_bsize stat * f_blocks stat
           in ((0, [(''Punto de montaje: %s\<newline>'', [Str mount_point]),
                    (''Espacio total: %llu bytes\<newline>'', [Ulong total_space]),
                    (''Espacio libre: %llu bytes\<newline>'', [Ulong free_space])]), held)))"

section \<open>luis\_mem\_process\<close>

text \<open>A process as the modules read it; \<open>pt_mm\<close> holds \<open>total_vm\<close> and \<open>get_mm_rss\<close> in pages.\<close>

record proc_task =
  pt_pid :: u32
  pt_comm :: "u8 list"
  pt_mm :: "(u64 \<times> u64) option"
  pt_oom_score_adj :: int

definition calculate_percentage :: "u64 \<Rightarrow> u64 \<Rightarrow> u64" where
  "calculate_percentage part whole = (if whole \<noteq> 0 then part * 100 div whole else 0)"

definition mem_process_row :: "proc_task \<Rightarrow> seq_line" where
  "mem_process_row task =
     (let (vsz, rss, mem_usage) = (case pt_mm task of
            Some (total_vm, mm_rss) \<Rightarrow>
              (let vsz = push_bit 2 total_vm; rss = push_bit 2 mm_rss
               in (vsz, rss, calculate_percentage (rss * 100) vsz))
          | None \<Rightarrow> (0, 0, 0))
      in (''| %5d | %-15s | %19lu | %19lu | %11lu.%02lu%% | %13ld |\<newline>'',
          [Signed (sint (pt_pid task)), Chars (pt_comm task), Ulong vsz, Ulong rss,
           Ulong (mem_usage div 100), Ulong (mem_usage mod 100), Signed (pt_oom_score_adj task)]))"

fun mem_process_rows :: "u32 \<Rightarrow> proc_task list \<Rightarrow> seq_line list" where
  "mem_process_rows target_pid [] = []"
| "mem_process_rows target_pid (task # tasks) =
     (if target_pid \<noteq> 0 \<and> pt_pid task \<noteq> target_pid then mem_process_rows target_pid tasks
      else mem_process_row task # mem_process_rows target_pid tasks)"

abbreviation mem_process_rule :: string where
  "mem_process_rule \<equiv> ''+-------+-----------------+---------------------+----------------------+----------------+---------------+\<newline>''"

definition mem_process_show :: "sysinfo \<Rightarrow> u32 \<Rightarrow> proc_task list \<Rightarrow> seq_line list" where
  "mem_process_show si target_pid tasks =
     [(''Total Reserved Memory (KB): %lu\<newline>'', [Ulong (si_totalram si * 4)]),
      (mem_process_rule, []),
      (''|  PID  |       Name      | Reserved Memory(KB) | Committed Memory(KB) | Mem Usage (%%)  | OOM Score Adj |\<newline>'', []),
      (mem_process_rule, [])] @
     mem_process_rows target_pid tasks @ [(mem_process_rule, [])]"

definition mem_process_write :: "(nat \<Rightarrow> u8) user_in \<Rightarrow> nat \<Rightarrow> u32 \<Rightarrow> int \<times> u32" where
  "mem_process_write buf count target_pid =
     (if count > 9 then (- EINVAL, target_pid)
      else case bytes_from_user buf count of
        None \<Rightarrow> (- EFAULT, target_pid)
      | Some bytes \<Rightarrow>
          (let input = c_string bytes in
           if input = [48] then (int count, 0)
           else case scan_d input of
               None \<Rightarrow> (int count, target_pid)
             | Some pid \<Rightarrow> (int count, pid)))"

section \<open>luis\_mem\_info\<close>

definition mem_info_percentage :: "u64 \<Rightarrow> u64 \<Rightarrow> u64" where
  "mem_info_percentage part whole = (if whole \<noteq> 0 then part * 10000 div whole else 0)"

fun mem_info_totals :: "proc_task list \<Rightarrow> u64 \<times> u64 \<Rightarrow> u64 \<times> u64" where
  "mem_info_totals [] totals = totals"
| "mem_info_totals (task # tasks) (reserved, committed) =
     (case pt_mm task of
        Some (total_vm, rss) \<Rightarrow>
          mem_info_totals tasks (reserved + push_bit 2 total_vm, committed + push_bit 2 rss)
      | None \<Rightarrow> mem_info_totals tasks (reserved, committed))"

definition cyan :: "string \<Rightarrow> string" where
  "cyan s = CHR 0x1B # ''[1;36m'' @ s @ CHR 0x1B # ''[0m\<newline>''"

definition mem_info_show :: "proc_task list \<Rightarrow> seq_line list" where
  "mem_info_show tasks =
     (case mem_info_totals tasks (0, 0) of (total_reserved_memory, total_committed_memory) \<Rightarrow>
        (let reserved_mb = total_reserved_memory div 1024;
             committed_mb = total_committed_memory div 1024
         in [(cyan ''+-----------------------+-----------------------+'', []),
             (cyan ''| Reserved Memory (MB) | Committed Memory (MB) |'', []),
             (cyan ''+-----------------------+-----------------------+'', []),
             (''| %21lu | %21lu |\<newline>'', [Ulong reserved_mb, Ulong committed_mb]),
             (''+-----------------------+-----------------------+\<newline>'', [])]))"

section \<open>Loading and unloading\<close>

text \<open>
  The entries of \<^verbatim>\<open>/proc\<close> and the pointer \<open>disk_stats\<close> keeps. \<open>proc_create\<close> comes from outside:
  whether it succeeds for a name; it then adds the entry.
\<close>

record proc_dir =
  proc_entries :: "string set"
  disk_proc_entry :: "string option"

type_synonym proc_create = "string \<Rightarrow> string set \<Rightarrow> bool"

definition proc_add :: "proc_create \<Rightarrow> string \<Rightarrow> proc_dir \<Rightarrow> bool \<times> proc_dir" where
  "proc_add create n s = (if create n (proc_entries s) then (True, s\<lparr>proc_entries := insert n (proc_entries s)\<rparr>)
     else (False, s))"

definition remove_proc_entry :: "string \<Rightarrow> proc_dir \<Rightarrow> proc_dir" where
  "remove_proc_entry n s = s\<lparr>proc_entries := proc_entries s - {n}\<rparr>"

definition cpu_stats_init :: "proc_create \<Rightarrow> proc_dir \<Rightarrow> int \<times> proc_dir" where
  "cpu_stats_init create s = (case proc_add create ''cpu_stats'' s of (ok, s) \<Rightarrow>
     if \<not> ok then (- ENOMEM, s) else (0, s))"

definition cpu_stats_exit :: "proc_dir \<Rightarrow> proc_dir" where
  "cpu_stats_exit s = remove_proc_entry ''cpu_stats'' s"

definition mem_stats_init :: "proc_create \<Rightarrow> proc_dir \<Rightarrow> int \<times> proc_dir" where
  "mem_stats_init create s = (case proc_add create ''mem_stats'' s of (ok, s) \<Rightarrow>
     if \<not> ok then (- ENOMEM, s) else (0, s))"

definition mem_stats_exit :: "proc_dir \<Rightarrow> proc_dir" where
  "mem_stats_exit s = remove_proc_entry ''mem_stats'' s"

definition disk_stats_init :: "proc_create \<Rightarrow> proc_dir \<Rightarrow> int \<times> proc_dir" where
  "disk_stats_init create s = (case proc_add create ''disk_stats'' s of (ok, s) \<Rightarrow>
     let s = s\<lparr>disk_proc_entry := (if ok then Some ''disk_stats'' else None)\<rparr>
     in if \<not> ok then (- ENOMEM, s) else (0, s))"

definition disk_stats_exit :: "proc_dir \<Rightarrow> proc_dir" where
  "disk_stats_exit s = (case disk_proc_entry s of None \<Rightarrow> s | Some n \<Rightarrow> remove_proc_entry n s)"

definition mem_process_init :: "proc_create \<Rightarrow> proc_dir \<Rightarrow> int \<times> proc_dir" where
  "mem_process_init create s = (0, snd (proc_add create ''luis_mem_process'' s))"

definition mem_process_exit :: "proc_dir \<Rightarrow> proc_dir" where
  "mem_process_exit s = remove_proc_entry ''luis_mem_process'' s"

definition mem_info_init :: "proc_create \<Rightarrow> proc_dir \<Rightarrow> int \<times> proc_dir" where
  "mem_info_init create s = (0, snd (proc_add create ''luis_mem_info'' s))"

definition mem_info_exit :: "proc_dir \<Rightarrow> proc_dir" where
  "mem_info_exit s = remove_proc_entry ''luis_mem_info'' s"


section \<open>Interface: a module with one file of /proc\<close>

text \<open>
  What the five modules have in common. \<open>reports\<close> says whether the module reports a failure of
  \<open>proc_create\<close> to the loader.
\<close>

locale proc_module =
  fixes init :: "proc_create \<Rightarrow> proc_dir \<Rightarrow> int \<times> proc_dir"
    and exit_module :: "proc_dir \<Rightarrow> proc_dir"
    and entry :: string
    and reports :: bool
  assumes init_entries:
      "proc_entries (snd (init create s)) =
         (if create entry (proc_entries s) then insert entry (proc_entries s) else proc_entries s)"
    and init_result:
      "fst (init create s) = (if reports \<and> \<not> create entry (proc_entries s) then - ENOMEM else 0)"
    and exit_entries:
      "create entry (proc_entries s) \<Longrightarrow>
         proc_entries (exit_module (snd (init create s))) = proc_entries (snd (init create s)) - {entry}"
begin

lemma load_unload:
  assumes "entry \<notin> proc_entries s" "create entry (proc_entries s)"
  shows "fst (init create s) = 0 \<and> entry \<in> proc_entries (snd (init create s)) \<and>
     proc_entries (exit_module (snd (init create s))) = proc_entries s"
  using assms by (simp add: init_entries init_result exit_entries)

lemma refused:
  assumes "\<not> create entry (proc_entries s)"
  shows "proc_entries (snd (init create s)) = proc_entries s \<and>
     (fst (init create s) = - ENOMEM \<longleftrightarrow> reports)"
  using assms by (simp add: init_entries init_result)

end

lemmas proc_module_defs = proc_add_def remove_proc_entry_def cpu_stats_init_def cpu_stats_exit_def
  mem_stats_init_def mem_stats_exit_def disk_stats_init_def disk_stats_exit_def
  mem_process_init_def mem_process_exit_def mem_info_init_def mem_info_exit_def

interpretation cpu_mod: proc_module cpu_stats_init cpu_stats_exit "''cpu_stats''" True
  by unfold_locales (auto simp: proc_module_defs)

interpretation mem_mod: proc_module mem_stats_init mem_stats_exit "''mem_stats''" True
  by unfold_locales (auto simp: proc_module_defs)

interpretation disk_mod: proc_module disk_stats_init disk_stats_exit "''disk_stats''" True
  by unfold_locales (auto simp: proc_module_defs)

interpretation process_mod: proc_module mem_process_init mem_process_exit "''luis_mem_process''" False
  by unfold_locales (auto simp: proc_module_defs)

interpretation info_mod: proc_module mem_info_init mem_info_exit "''luis_mem_info''" False
  by unfold_locales (auto simp: proc_module_defs)

section \<open>The CPU usage\<close>

text \<open>The first line of \<^verbatim>\<open>/proc/stat\<close> for eight counters, followed by the rest of the file.\<close>

definition stat_line :: "nat list \<Rightarrow> u8 list \<Rightarrow> u8 list" where
  "stat_line counters rest = cpu_literal @ 32 # spaced counters @ rest"

definition blank_first :: "u8 list \<Rightarrow> bool" where
  "blank_first s \<longleftrightarrow> s \<noteq> [] \<and> isspace (hd s) \<and> hd s \<noteq> 0"

lemma blank_first_number_ends: "blank_first s \<Longrightarrow> number_ends s"
  using digit_not_space by (auto simp: blank_first_def number_ends_def)

lemma spaced_no_NUL: "0 \<notin> set (spaced ns)"
proof -
  have "0 \<notin> set (decimal n)" for n
    using decimal_digits [of n] by (auto simp: list_all_iff isdigit_def)
  then show ?thesis by (auto simp: spaced_def)
qed

lemma read_stat_line:
  assumes "blank_first rest" "length (spaced counters) < 123"
  obtains rest' where "read_buffer (Contents (stat_line counters rest)) = Some (cpu_literal @ 32 # spaced counters @ rest')"
    "blank_first rest'"
proof
  let ?k = "123 - length (spaced counters)"
  have "take 127 (stat_line counters rest) = (cpu_literal @ 32 # spaced counters) @ take ?k rest"
    using assms(2) by (simp add: stat_line_def)
  moreover have "0 \<notin> set (cpu_literal @ 32 # spaced counters)" using spaced_no_NUL by simp
  ultimately show "read_buffer (Contents (stat_line counters rest)) =
      Some (cpu_literal @ 32 # spaced counters @ c_string (take ?k rest))"
    unfolding read_buffer_def c_string_def
    by (simp add: takeWhile_append stat_line_def)
  show "blank_first (c_string (take ?k rest))"
    using assms by (cases rest; cases ?k) (auto simp: blank_first_def c_string_def)
qed

lemma list8: "length ns = 8 \<Longrightarrow> \<exists>a b c d e f g h. ns = [a, b, c, d, e, f, g, h]"
  by (auto simp: length_Suc_conv numeral_eq_Suc)

lemma skip_token_blank: "skip_token (32 # s) = skip_token s"
  by (simp add: skip_token_def skip_spaces_def isspace_def)

lemma idle_time_of_line:
  assumes "length counters = 8" "blank_first rest" "length (spaced counters) < 123"
  shows "get_cpu_idle_time (Contents (stat_line counters rest)) = of_nat (counters ! 3 + counters ! 4)"
proof -
  obtain a b c d e f g h where ns: "counters = [a, b, c, d, e, f, g, h]" using list8 assms(1) by blast
  obtain r where r: "read_buffer (Contents (stat_line counters rest)) = Some (cpu_literal @ 32 # spaced counters @ r)"
    "blank_first r" using read_stat_line assms(2,3) by blast
  have b: "r = [] \<or> isspace (hd r)" using r(2) by (simp add: blank_first_def)
  have "skip_token (skip_token (skip_token (32 # spaced counters @ r))) = spaced [d, e, f, g, h] @ r"
    by (simp add: ns skip_token_blank skip_token_spaced [OF b])
  moreover have "scan_llus 2 (spaced [d, e, f, g, h] @ r) = [of_nat d, of_nat e]"
    using scan_llus_take [OF blank_first_number_ends [OF r(2)], of 2 "[d, e, f, g, h]"] by simp
  ultimately show ?thesis unfolding get_cpu_idle_time_def r(1) by (simp add: ns)
qed

lemma scan_llus_blank: "scan_llus (Suc n) (32 # s) = scan_llus (Suc n) s"
  by (simp add: scan_llu_space)

lemma total_time_of_line:
  assumes "length counters = 8" "blank_first rest" "length (spaced counters) < 123"
  shows "get_cpu_total_time (Contents (stat_line counters rest)) = of_nat (sum_list counters)"
proof -
  obtain a b c d e f g h where ns: "counters = [a, b, c, d, e, f, g, h]" using list8 assms(1) by blast
  obtain r where r: "read_buffer (Contents (stat_line counters rest)) = Some (cpu_literal @ 32 # spaced counters @ r)"
    "blank_first r" using read_stat_line assms(2,3) by blast
  have "scan_llus 8 (32 # spaced counters @ r) = map of_nat counters"
    using scan_llus_blank [of 7] scan_llus_spaced [OF blank_first_number_ends [OF r(2)], of counters] assms(1)
    by simp
  then show ?thesis unfolding get_cpu_total_time_def r(1) by (simp add: ns ac_simps)
qed


lemma small_to_int:
  fixes x :: u64
  assumes "unat x < 2 ^ 31"
  shows "sint (ucast x :: u32) = int (unat x)"
proof -
  have u: "0 \<le> uint x" "uint x < 2 ^ 31" using of_nat_less_iff [where 'a = int, THEN iffD2, OF assms]
    by simp_all
  have "uint (ucast x :: u32) = take_bit 32 (uint x)" by (subst unsigned_ucast_eq) simp
  also have "\<dots> = uint x" using u by (intro take_bit_int_eq_self) simp_all
  finally have "sint (ucast x :: u32) = signed_take_bit 31 (uint x)" by (simp only: sint_uint) simp
  also have "\<dots> = uint x" using u by (intro signed_take_bit_int_eq_self) linarith+
  finally show ?thesis by simp
qed

lemma of_nat_not_minus_one: "n < 2 ^ 64 - 1 \<Longrightarrow> of_nat n \<noteq> (- 1 :: u64)"
proof
  assume n: "n < 2 ^ 64 - 1" and eq: "of_nat n = (- 1 :: u64)"
  have "unat (of_nat n :: u64) = n" using n by (simp add: unat_of_nat)
  moreover have "unat (- 1 :: u64) = 2 ^ 64 - 1" by (simp add: unsigned_minus_1_eq_mask mask_eq_exp_minus_1)
  ultimately show False using n eq by simp
qed

lemma usage_of_times:
  fixes read1 read2 s
  assumes "get_cpu_idle_time read1 = of_nat idle" "get_cpu_total_time read2 = of_nat tot"
    and "idle \<le> tot" "idle_before \<le> idle" "tot_before < tot" "idle - idle_before \<le> tot - tot_before"
    and "100 * tot < 2 ^ 64" "prev_idle_time s = of_nat idle_before" "prev_total_time s = of_nat tot_before"
  defines "busy \<equiv> (tot - tot_before) - (idle - idle_before)"
  shows "calculate_cpu_usage read1 read2 s =
    (int (100 * busy div (tot - tot_before)), s\<lparr>prev_idle_time := of_nat idle, prev_total_time := of_nat tot\<rparr>)"
    and "100 * busy div (tot - tot_before) \<le> 100"
proof -
  let ?dt = "tot - tot_before"
  define q where "q = 100 * busy div ?dt"
  have le: "busy \<le> ?dt" "0 < ?dt" "?dt \<le> tot" using assms by simp_all
  have "100 * busy \<le> 100 * ?dt" using le(1) by simp
  then show q: "100 * busy div ?dt \<le> 100"
    using le(2) by (metis div_le_mono nonzero_mult_div_cancel_right less_not_refl2)
  have dt: "of_nat tot - of_nat tot_before = (of_nat ?dt :: u64)"
    and busy: "of_nat ?dt - (of_nat idle - of_nat idle_before) = (of_nat busy :: u64)"
    using assms(4-6) by (simp_all add: busy_def of_nat_diff)
  have small: "unat (of_nat n :: u64) = n" if "n < 2 ^ 64" for n
    using that by (simp add: unat_of_nat)
  have un: "unat (of_nat ?dt :: u64) = ?dt" "unat (100 * of_nat busy :: u64) = 100 * busy"
    using small [of ?dt] small [of "100 * busy"] assms(7) le by simp_all
  have "unat (100 * of_nat busy div of_nat ?dt :: u64) = q"
    unfolding q_def unat_div_distrib un ..
  then have "sint (ucast (100 * of_nat busy div of_nat ?dt :: u64) :: u32) = int q"
    using q by (subst small_to_int) (simp_all add: q_def)
  moreover have "of_nat idle \<noteq> (- 1 :: u64)" "of_nat tot \<noteq> (- 1 :: u64)"
    using of_nat_not_minus_one assms(3,7) by simp_all
  moreover have "(0 :: u64) < of_nat ?dt" unfolding word_less_nat_alt un(1) using le(2) by simp
  ultimately show "calculate_cpu_usage read1 read2 s =
    (int (100 * busy div ?dt), s\<lparr>prev_idle_time := of_nat idle, prev_total_time := of_nat tot\<rparr>)"
    unfolding calculate_cpu_usage_def assms(1,2,8,9) Let_def dt busy q_def [symmetric] by simp
qed

text \<open>
  C36: when both readings of \<^verbatim>\<open>/proc/stat\<close> show the same eight counters, the busy part of
  the elapsed time is not negative and a hundred times the total time fits in 64 bits, the module
  reports the busy share of the time since the last report as a whole percentage between 0 and
  100, and remembers the counters it has read. The condition on the length says that the first
  line of the file fits the 127 bytes the module reads.
\<close>

theorem cpu_usage_correct:
  assumes "length counters = 8" "blank_first rest" "length (spaced counters) < 123"
    and "idle = counters ! 3 + counters ! 4" "tot = sum_list counters"
    and "idle_before \<le> idle" "tot_before < tot" "idle - idle_before \<le> tot - tot_before" "100 * tot < 2 ^ 64"
    and "s = \<lparr>prev_idle_time = of_nat idle_before, prev_total_time = of_nat tot_before\<rparr>"
    and "calculate_cpu_usage (Contents (stat_line counters rest)) (Contents (stat_line counters rest)) s = (usage, s')"
  shows "usage = int (100 * ((tot - tot_before) - (idle - idle_before)) div (tot - tot_before)) \<and>
    0 \<le> usage \<and> usage \<le> 100 \<and>
    s' = \<lparr>prev_idle_time = of_nat idle, prev_total_time = of_nat tot\<rparr>"
proof -
  let ?r = "Contents (stat_line counters rest)"
  have le: "idle \<le> tot" using list8 [OF assms(1)] assms(4,5) by auto
  have times: "get_cpu_idle_time ?r = of_nat idle" "get_cpu_total_time ?r = of_nat tot"
    unfolding assms(4,5) using assms(1-3) by (rule idle_time_of_line, rule total_time_of_line)
  have prev: "prev_idle_time s = of_nat idle_before" "prev_total_time s = of_nat tot_before"
    using assms(10) by simp_all
  from usage_of_times [OF times le assms(6-9) prev] assms(10,11) show ?thesis by simp
qed

theorem cpu_usage_correct_witness:
  "calculate_cpu_usage (Contents (stat_line [30, 0, 40, 110, 20, 0, 0, 0] [10]))
     (Contents (stat_line [30, 0, 40, 110, 20, 0, 0, 0] [10]))
     \<lparr>prev_idle_time = 100, prev_total_time = 150\<rparr> =
   (40, \<lparr>prev_idle_time = 130, prev_total_time = 200\<rparr>)"
proof -
  let ?c = "[30, 0, 40, 110, 20, 0, 0, 0] :: nat list"
  let ?r = "Contents (stat_line ?c [10])" and ?s = "\<lparr>prev_idle_time = 100, prev_total_time = 150\<rparr>"
  obtain usage s' where u: "calculate_cpu_usage ?r ?r ?s = (usage, s')" by fastforce
  have "length ?c = 8" "blank_first [10]" "length (spaced ?c) < 123"
    by (simp_all add: blank_first_def isspace_def spaced_def decimal.simps)
  from cpu_usage_correct [OF this refl refl _ _ _ _ _ u, of 100 150]
  show ?thesis using u by simp
qed

text \<open>
  The two counters come from different readings of the file, so the idle time can have grown by
  more than the total time. The difference then wraps around. Here a first report reads an idle
  time of 100 and, 50 ticks later, a total time of 200; the second, after 5 more idle ticks,
  reports a CPU usage of 858992459\%.
\<close>

theorem cpu_usage_out_of_range:
  fixes line1 line2 line3 :: stat_read
  defines "line1 \<equiv> Contents (stat_line [20, 0, 30, 100, 0, 0, 0, 0] [10])"
    and "line2 \<equiv> Contents (stat_line [20, 0, 30, 150, 0, 0, 0, 0] [10])"
    and "line3 \<equiv> Contents (stat_line [20, 0, 30, 155, 0, 0, 0, 0] [10])"
  shows "fst (show_cpu_stats line3 line3
      (snd (show_cpu_stats line1 line2 \<lparr>prev_idle_time = 0, prev_total_time = 0\<rparr>))) =
    [(''Uso de CPU: %d%%\<newline>'', [Signed 858992459])]"
proof -
  let ?c = "\<lambda>n. [20, 0, 30, n, 0, 0, 0, 0] :: nat list" and ?s = "\<lparr>prev_idle_time = 0, prev_total_time = 0\<rparr>"
  have b: "blank_first [10]" by (simp add: blank_first_def isspace_def)
  have l: "length (spaced (?c n)) < 123" if "n < 1000" for n
  proof -
    have "length (decimal n) \<le> 3" using that by (subst decimal.simps, subst decimal.simps, subst decimal.simps) auto
    then show ?thesis by (simp add: spaced_def decimal.simps)
  qed
  have idle: "get_cpu_idle_time (Contents (stat_line (?c n) [10])) = of_nat n" if "n < 1000" for n
    using idle_time_of_line [OF _ b l [OF that]] by simp
  have tot: "get_cpu_total_time (Contents (stat_line (?c n) [10])) = of_nat (50 + n)" if "n < 1000" for n
    using total_time_of_line [OF _ b l [OF that]] by simp
  have "snd (show_cpu_stats line1 line2 ?s) = \<lparr>prev_idle_time = 100, prev_total_time = 200\<rparr>"
    by (simp add: show_cpu_stats_def calculate_cpu_usage_def line1_def line2_def idle tot split_beta)
  moreover have "calculate_cpu_usage line3 line3 \<lparr>prev_idle_time = 100, prev_total_time = 200\<rparr> =
      (858992459, \<lparr>prev_idle_time = 155, prev_total_time = 205\<rparr>)"
    by (simp add: calculate_cpu_usage_def line3_def idle tot)
  ultimately show ?thesis by (simp only: show_cpu_stats_def) simp
qed

text \<open>
  The fields \<open>si_meminfo\<close> leaves alone are printed as they were on the stack: two of the five
  lines of \<open>mem_stats\<close> depend on nothing else.
\<close>

theorem mem_stats_prints_stack:
  assumes "\<And>si. si_totalswap (si_meminfo' si) = si_totalswap si" "\<And>si. si_mem_unit (si_meminfo' si) = 4096"
    and "unat (si_totalswap stack) * 4096 < 2 ^ 64"
  shows "show_mem_stats si_meminfo' stack ! 3 = (''Swap Total: %lu KB\<newline>'', [Ulong (4 * si_totalswap stack)])"
proof -
  have "si_totalswap stack * 4096 div 1024 = 4 * si_totalswap stack"
  proof (rule word_unat_eq_iff [THEN iffD2])
    have "unat (si_totalswap stack * 4096) = unat (si_totalswap stack) * 4096"
      using assms(3) by (simp add: unat_mult_lem [THEN iffD1])
    moreover have "unat (4 * si_totalswap stack) = 4 * unat (si_totalswap stack)"
      using assms(3) by (simp add: unat_mult_lem [THEN iffD1])
    ultimately show "unat (si_totalswap stack * 4096 div 1024) = unat (4 * si_totalswap stack)"
      by (simp add: unat_div_distrib)
  qed
  then show ?thesis using assms(1,2) by (simp add: show_mem_stats_def in_kb_def Let_def numeral_3_eq_3)
qed

section \<open>The per-process report\<close>

lemma mem_process_rows_filter:
  "mem_process_rows target_pid tasks =
     map mem_process_row (filter (\<lambda>task. target_pid = 0 \<or> pt_pid task = target_pid) tasks)"
  by (induction target_pid tasks rule: mem_process_rows.induct) auto

lemma decimal_no_NUL: "0 \<notin> set (decimal n)"
  using decimal_digits [of n] by (auto simp: list_all_iff isdigit_def)

lemma c_string_decimal: "c_string (decimal n) = decimal n"
  using decimal_no_NUL [of n] by (auto simp: c_string_def takeWhile_eq_all_conv)

lemma decimal_is_zero: "decimal n = [48] \<Longrightarrow> n = 0"
proof -
  assume eq: "decimal n = [48]"
  have "n < 10" using eq decimal_not_Nil [of "n div 10"] by (subst (asm) decimal.simps) (auto split: if_splits)
  moreover from this have "unat (digit n) = 48" using eq by (subst (asm) decimal.simps) simp
  ultimately show ?thesis by (simp add: unat_digit)
qed

lemma decimal_bound: "n < 10 ^ length (decimal n)"
proof (induction n rule: decimal.induct)
  case (1 n)
  show ?case
  proof (cases "n < 10")
    case True
    then show ?thesis by (subst decimal.simps) simp
  next
    case False
    then have "n div 10 < 10 ^ length (decimal (n div 10))" by (rule 1)
    then have "n < 10 * 10 ^ length (decimal (n div 10))" by linarith
    then show ?thesis using False by (subst decimal.simps) simp
  qed
qed

text \<open>
  Writing the decimal form of a pid of at most nine digits to \<^verbatim>\<open>/proc/luis_mem_process\<close>
  consumes the whole text, and the report read afterwards has exactly one row for each process
  with that pid, in the order of the process list, or one for every process when the pid is 0.
\<close>

theorem mem_process_select:
  assumes "length (decimal pid) \<le> 9" "count = length (decimal pid)" "\<And>i. i < count \<Longrightarrow> bytes i = decimal pid ! i"
    and "mem_process_write (Readable bytes) count before = (ret, target_pid)"
  shows "ret = int count \<and>
    mem_process_show si target_pid tasks =
      take 4 (mem_process_show si 0 []) @
      map mem_process_row (filter (\<lambda>task. pid = 0 \<or> pt_pid task = of_nat pid) tasks) @
      [(mem_process_rule, [])]"
proof -
  have "map bytes [0..<count] = decimal pid"
    using assms(2,3) by (intro nth_equalityI) simp_all
  moreover have "scan_d (decimal pid) = Some (of_nat pid)"
    using scan_d_decimal [of "[]" pid] by (simp add: number_ends_def)
  ultimately have w: "ret = int count" "target_pid = of_nat pid"
    using assms(1,2,4) decimal_is_zero [of pid]
    by (auto simp: mem_process_write_def bytes_from_user_def c_string_decimal Let_def split: if_splits)
  have "10 ^ length (decimal pid) \<le> (10 :: nat) ^ 9" using assms(1) by (intro power_increasing) simp_all
  then have "pid < 10 ^ 9" using decimal_bound [of pid] by linarith
  then have "unat (of_nat pid :: u32) = pid" by (simp add: unat_of_nat)
  then have "(of_nat pid :: u32) = 0 \<longleftrightarrow> pid = 0" by (metis unat_eq_zero of_nat_0)
  then show ?thesis using w by (simp add: mem_process_show_def mem_process_rows_filter)
qed

theorem mem_process_select_witness:
  "mem_process_show zero_sysinfo (snd (mem_process_write (Readable (\<lambda>i. if i = 0 then 52 else 50)) 2 7))
     [\<lparr>pt_pid = 3, pt_comm = [], pt_mm = None, pt_oom_score_adj = 0\<rparr>,
      \<lparr>pt_pid = 42, pt_comm = [], pt_mm = Some (100, 25), pt_oom_score_adj = 0\<rparr>] ! 4 =
     (''| %5d | %-15s | %19lu | %19lu | %11lu.%02lu%% | %13ld |\<newline>'',
      [Signed 42, Chars [], Ulong 400, Ulong 100, Ulong 25, Ulong 0, Signed 0])"
proof -
  let ?f = "\<lambda>i :: nat. if i = 0 then 52 else 50 :: u8"
  let ?tasks = "[\<lparr>pt_pid = 3, pt_comm = [], pt_mm = None, pt_oom_score_adj = 0\<rparr>,
      \<lparr>pt_pid = 42, pt_comm = [], pt_mm = Some (100, 25), pt_oom_score_adj = 0\<rparr>]"
  have d: "decimal 42 = [52, 50]" by (simp add: decimal.simps digit_def)
  then have "length (decimal 42) \<le> 9" "2 = length (decimal 42)" "\<And>i. i < 2 \<Longrightarrow> ?f i = decimal 42 ! i"
    by (auto simp: less_2_cases_iff)
  from mem_process_select [OF this prod.collapse [symmetric], of 7 zero_sysinfo ?tasks]
  have "mem_process_show zero_sysinfo (snd (mem_process_write (Readable ?f) 2 7)) ?tasks =
      take 4 (mem_process_show zero_sysinfo 0 []) @
      map mem_process_row (filter (\<lambda>task. (42 :: nat) = 0 \<or> pt_pid task = of_nat 42) ?tasks) @
      [(mem_process_rule, [])]" by blast
  then show ?thesis
    by (simp only:) (simp add: mem_process_show_def mem_process_row_def calculate_percentage_def)
qed

text \<open>The memory usage is printed in hundredths of a percent of the reserved memory, rounded down.\<close>

theorem mem_usage_hundredths:
  assumes "pt_mm task = Some (total_vm, rss)" "0 < total_vm"
    and "unat rss * 40000 < 2 ^ 64" "unat total_vm * 4 < 2 ^ 64"
  shows "\<exists>pid comm vsz rss_kb whole part adj. mem_process_row task =
      (''| %5d | %-15s | %19lu | %19lu | %11lu.%02lu%% | %13ld |\<newline>'',
       [pid, comm, Ulong vsz, Ulong rss_kb, Ulong whole, Ulong part, adj]) \<and>
     100 * unat whole + unat part = 10000 * unat rss div unat total_vm \<and> unat part < 100 \<and>
     unat vsz = 4 * unat total_vm \<and> unat rss_kb = 4 * unat rss"
proof -
  let ?vsz = "push_bit 2 total_vm" and ?rss = "push_bit 2 rss"
  let ?usage = "calculate_percentage (?rss * 100) ?vsz"
  have shift: "unat (push_bit 2 x) = 4 * unat x" if "unat x * 4 < 2 ^ 64" for x :: u64
    using that by (simp only: push_bit_eq_mult) (simp add: unat_mult_lem [THEN iffD1] mult.commute)
  have v: "unat ?vsz = 4 * unat total_vm" "unat ?rss = 4 * unat rss"
    using shift assms(3,4) by simp_all
  have "?vsz \<noteq> 0" using v(1) assms(2) by (auto simp: word_less_nat_alt dest!: arg_cong [where f = unat])
  moreover have "unat (?rss * 100 * 100) = 4 * (10000 * unat rss)"
  proof -
    have "unat (?rss * 100) = 400 * unat rss"
      using assms(3) v(2) by (subst unat_mult_lem [THEN iffD1]) simp_all
    then show ?thesis using assms(3) by (subst unat_mult_lem [THEN iffD1]) simp_all
  qed
  ultimately have u: "unat ?usage = 10000 * unat rss div unat total_vm"
    using v(1) by (simp add: calculate_percentage_def unat_div_distrib)
  define usage where "usage = ?usage"
  have "100 * unat (usage div 100) + unat (usage mod 100) = 10000 * unat rss div unat total_vm"
    "unat (usage mod 100) < 100"
    using u by (simp_all add: usage_def unat_div_distrib unat_mod_distrib mult_div_mod_eq)
  moreover have "mem_process_row task = (''| %5d | %-15s | %19lu | %19lu | %11lu.%02lu%% | %13ld |\<newline>'',
      [Signed (sint (pt_pid task)), Chars (pt_comm task), Ulong ?vsz, Ulong ?rss, Ulong (usage div 100),
       Ulong (usage mod 100), Signed (pt_oom_score_adj task)])"
    using assms(1) by (simp add: mem_process_row_def usage_def Let_def)
  ultimately show ?thesis using v by blast
qed

section \<open>Loading and unloading each module\<close>

definition proc_modules :: "(string \<times> (proc_create \<Rightarrow> proc_dir \<Rightarrow> int \<times> proc_dir) \<times> (proc_dir \<Rightarrow> proc_dir)) list" where
  "proc_modules =
     [(''cpu_stats'', cpu_stats_init, cpu_stats_exit), (''mem_stats'', mem_stats_init, mem_stats_exit),
      (''disk_stats'', disk_stats_init, disk_stats_exit), (''luis_mem_process'', mem_process_init, mem_process_exit),
      (''luis_mem_info'', mem_info_init, mem_info_exit)]"

text \<open>
  A module whose entry can be created loads with result 0, its entry then exists, and
  unloading it gives back the \<^verbatim>\<open>/proc\<close> directory as it was before.
\<close>

theorem modules_load_unload:
  assumes "(entry, init, exit_module) \<in> set proc_modules"
    and "entry \<notin> proc_entries s" "create entry (proc_entries s)" "init create s = (ret, s')"
  shows "ret = 0 \<and> entry \<in> proc_entries s' \<and> proc_entries (exit_module s') = proc_entries s"
  using assms(1) unfolding proc_modules_def list.set insert_iff prod.inject empty_iff
  using assms(2-4) cpu_mod.load_unload [of s create] mem_mod.load_unload [of s create]
    disk_mod.load_unload [of s create] process_mod.load_unload [of s create] info_mod.load_unload [of s create]
  by (elim disjE FalseE conjE) (simp_all only: fst_conv snd_conv simp_thms)

theorem modules_load_unload_witness:
  "proc_entries (disk_stats_exit (snd (disk_stats_init (\<lambda>n es. n \<notin> es) \<lparr>proc_entries = {''stat''}, disk_proc_entry = None\<rparr>))) = {''stat''}"
proof -
  let ?s = "\<lparr>proc_entries = {''stat''}, disk_proc_entry = None\<rparr>" and ?create = "\<lambda>n es. n \<notin> es"
  have "(''disk_stats'', disk_stats_init, disk_stats_exit) \<in> set proc_modules" by (simp only: proc_modules_def list.set insert_iff prod.inject simp_thms)
  from modules_load_unload [OF this _ _ prod.collapse [symmetric], where s = ?s and create = ?create]
  show ?thesis by simp
qed

end
