(* ===== verification/File_Offsets.thy ===== *)
theory File_Offsets
  imports Kernel_Base
begin

text \<open>
  Open files and their positions: the first part of \<^verbatim>\<open>src/Kernel/fs/read_write.c\<close>, from
  \<open>vfs_setpos\<close> to \<open>rw_verify_area\<close>. A \<open>loff_t\<close> is a 64-bit word read as a signed number; the
  kernel is compiled so that signed arithmetic wraps, which is what word addition does.
\<close>

type_synonym loff_t = u64

abbreviation (input) ENXIO :: int where "ENXIO \<equiv> 6"
abbreviation (input) ESPIPE :: int where "ESPIPE \<equiv> 29"
abbreviation (input) EOVERFLOW :: int where "EOVERFLOW \<equiv> 75"

section \<open>Open files\<close>

datatype fmode = FMODE_READ | FMODE_WRITE | FMODE_LSEEK | FMODE_PREAD | FMODE_PWRITE
  | FMODE_CAN_READ | FMODE_CAN_WRITE | FMODE_STREAM | FMODE_UNSIGNED_OFFSET | FMODE_BUF_WASYNC
  | FMODE_PATH | FMODE_OPENED | FMODE_WRITER | FMODE_ATOMIC_POS | FMODE_CAN_ODIRECT

record open_file =
  f_mode :: "fmode set"
  f_flags :: u32
  f_pos :: loff_t
  f_version :: u64
  f_inode :: nat

definition unsigned_offsets :: "open_file \<Rightarrow> bool" where
  "unsigned_offsets file \<longleftrightarrow> FMODE_UNSIGNED_OFFSET \<in> f_mode file"

section \<open>Moving the position\<close>

abbreviation (input) SEEK_SET :: int where "SEEK_SET \<equiv> 0"
abbreviation (input) SEEK_CUR :: int where "SEEK_CUR \<equiv> 1"
abbreviation (input) SEEK_END :: int where "SEEK_END \<equiv> 2"
abbreviation (input) SEEK_DATA :: int where "SEEK_DATA \<equiv> 3"
abbreviation (input) SEEK_HOLE :: int where "SEEK_HOLE \<equiv> 4"
abbreviation (input) SEEK_MAX :: int where "SEEK_MAX \<equiv> SEEK_HOLE"
abbreviation (input) OFFSET_MAX :: loff_t where "OFFSET_MAX \<equiv> 0x7FFFFFFFFFFFFFFF"

definition vfs_setpos :: "loff_t \<Rightarrow> loff_t \<Rightarrow> open_file \<Rightarrow> loff_t \<times> open_file" where
  "vfs_setpos offset maxsize file =
     (if sint offset < 0 \<and> \<not> unsigned_offsets file then (of_int (- EINVAL), file)
      else if sint offset > sint maxsize then (of_int (- EINVAL), file)
      else if offset \<noteq> f_pos file then (offset, file\<lparr>f_pos := offset, f_version := 0\<rparr>)
      else (offset, file))"

text \<open>A \<open>whence\<close> outside the listed cases falls through the \<open>switch\<close> like \<open>SEEK_SET\<close>.\<close>

definition generic_file_llseek_size :: "loff_t \<Rightarrow> int \<Rightarrow> loff_t \<Rightarrow> loff_t \<Rightarrow> open_file \<Rightarrow> loff_t \<times> open_file" where
  "generic_file_llseek_size offset whence maxsize eof file =
     (if whence = SEEK_END then vfs_setpos (offset + eof) maxsize file
      else if whence = SEEK_CUR then
        (if offset = 0 then (f_pos file, file) else vfs_setpos (f_pos file + offset) maxsize file)
      else if whence = SEEK_DATA then
        (if offset \<ge> eof then (of_int (- ENXIO), file) else vfs_setpos offset maxsize file)
      else if whence = SEEK_HOLE then
        (if offset \<ge> eof then (of_int (- ENXIO), file) else vfs_setpos eof maxsize file)
      else vfs_setpos offset maxsize file)"

definition generic_file_llseek :: "loff_t \<Rightarrow> loff_t \<Rightarrow> loff_t \<Rightarrow> int \<Rightarrow> open_file \<Rightarrow> loff_t \<times> open_file" where
  "generic_file_llseek s_maxbytes i_size offset whence file =
     generic_file_llseek_size offset whence s_maxbytes i_size file"

definition fixed_size_llseek :: "loff_t \<Rightarrow> int \<Rightarrow> loff_t \<Rightarrow> open_file \<Rightarrow> loff_t \<times> open_file" where
  "fixed_size_llseek offset whence size' file =
     (if whence \<in> {SEEK_SET, SEEK_CUR, SEEK_END} then generic_file_llseek_size offset whence size' size' file
      else (of_int (- EINVAL), file))"

definition no_seek_end_llseek :: "loff_t \<Rightarrow> int \<Rightarrow> open_file \<Rightarrow> loff_t \<times> open_file" where
  "no_seek_end_llseek offset whence file =
     (if whence \<in> {SEEK_SET, SEEK_CUR} then generic_file_llseek_size offset whence OFFSET_MAX 0 file
      else (of_int (- EINVAL), file))"

definition no_seek_end_llseek_size :: "loff_t \<Rightarrow> int \<Rightarrow> loff_t \<Rightarrow> open_file \<Rightarrow> loff_t \<times> open_file" where
  "no_seek_end_llseek_size offset whence size' file =
     (if whence \<in> {SEEK_SET, SEEK_CUR} then generic_file_llseek_size offset whence size' 0 file
      else (of_int (- EINVAL), file))"

definition noop_llseek :: "loff_t \<Rightarrow> int \<Rightarrow> open_file \<Rightarrow> loff_t \<times> open_file" where
  "noop_llseek offset whence file = (f_pos file, file)"

definition default_setpos :: "loff_t \<Rightarrow> open_file \<Rightarrow> loff_t \<times> open_file" where
  "default_setpos offset file =
     (if sint offset \<ge> 0 \<or> unsigned_offsets file then
        (offset, if offset \<noteq> f_pos file then file\<lparr>f_pos := offset, f_version := 0\<rparr> else file)
      else (of_int (- EINVAL), file))"

definition default_llseek :: "loff_t \<Rightarrow> loff_t \<Rightarrow> int \<Rightarrow> open_file \<Rightarrow> loff_t \<times> open_file" where
  "default_llseek i_size offset whence file =
     (if whence = SEEK_END then default_setpos (offset + i_size) file
      else if whence = SEEK_CUR then
        (if offset = 0 then (f_pos file, file) else default_setpos (offset + f_pos file) file)
      else if whence = SEEK_DATA then
        (if sint offset \<ge> sint i_size then (of_int (- ENXIO), file) else default_setpos offset file)
      else if whence = SEEK_HOLE then
        (if sint offset \<ge> sint i_size then (of_int (- ENXIO), file) else default_setpos i_size file)
      else default_setpos offset file)"

section \<open>The lseek calls\<close>

text \<open>
  The \<open>llseek\<close> method of a file: one of the functions above, or one from elsewhere. The inode's
  size and the largest offset of its file system are given with the method.
\<close>

datatype llseek_op = Generic loff_t loff_t | Fixed_size loff_t | No_seek_end | No_seek_end_size loff_t
  | Noop | Default loff_t | Other_llseek "loff_t \<Rightarrow> int \<Rightarrow> open_file \<Rightarrow> loff_t \<times> open_file"

fun call_llseek :: "llseek_op \<Rightarrow> loff_t \<Rightarrow> int \<Rightarrow> open_file \<Rightarrow> loff_t \<times> open_file" where
  "call_llseek (Generic maxbytes i_size) offset whence file = generic_file_llseek maxbytes i_size offset whence file"
| "call_llseek (Fixed_size n) offset whence file = fixed_size_llseek offset whence n file"
| "call_llseek No_seek_end offset whence file = no_seek_end_llseek offset whence file"
| "call_llseek (No_seek_end_size n) offset whence file = no_seek_end_llseek_size offset whence n file"
| "call_llseek Noop offset whence file = noop_llseek offset whence file"
| "call_llseek (Default i_size) offset whence file = default_llseek i_size offset whence file"
| "call_llseek (Other_llseek f) offset whence file = f offset whence file"

definition vfs_llseek :: "llseek_op \<Rightarrow> loff_t \<Rightarrow> int \<Rightarrow> open_file \<Rightarrow> loff_t \<times> open_file" where
  "vfs_llseek llseek offset whence file =
     (if FMODE_LSEEK \<notin> f_mode file then (of_int (- ESPIPE), file) else call_llseek llseek offset whence file)"

text \<open>
  The system calls, on the file the descriptor names (None when there is none) and with its
  method. On a 64-bit machine an \<open>off_t\<close> holds every \<open>loff_t\<close>, so the overflow test of
  \<open>ksys_lseek\<close> never fires.
\<close>

definition ksys_lseek :: "llseek_op \<Rightarrow> loff_t \<Rightarrow> u32 \<Rightarrow> open_file option \<Rightarrow> int \<times> open_file option" where
  "ksys_lseek llseek offset whence f =
     (case f of None \<Rightarrow> (- EBADF, None)
      | Some file \<Rightarrow>
          if int (unat whence) \<le> SEEK_MAX then
            (case vfs_llseek llseek offset (int (unat whence)) file of (res, file') \<Rightarrow> (sint res, Some file'))
          else (- EINVAL, Some file))"

definition sys_llseek ::
  "llseek_op \<Rightarrow> u64 \<Rightarrow> u64 \<Rightarrow> user_out \<Rightarrow> u32 \<Rightarrow> open_file option \<Rightarrow> (int \<times> loff_t option) \<times> open_file option" where
  "sys_llseek llseek offset_high offset_low result whence f =
     (case f of None \<Rightarrow> ((- EBADF, None), None)
      | Some file \<Rightarrow>
          if int (unat whence) > SEEK_MAX then ((- EINVAL, None), Some file)
          else case vfs_llseek llseek (push_bit 32 offset_high OR offset_low) (int (unat whence)) file of
            (offset, file') \<Rightarrow>
              if sint offset \<ge> 0 then
                (case copy_to_user result offset of None \<Rightarrow> ((- EFAULT, None), Some file')
                 | Some off \<Rightarrow> ((0, Some off), Some file'))
              else ((sint (ucast offset :: u32), None), Some file'))"

section \<open>The area of a transfer\<close>

datatype rw = READ | WRITE

text \<open>\<open>perm\<close> and \<open>area_perm\<close> are the results of the security module and of the notification hook.\<close>

definition rw_verify_area :: "int \<Rightarrow> int \<Rightarrow> open_file \<Rightarrow> loff_t option \<Rightarrow> u64 \<Rightarrow> int" where
  "rw_verify_area perm area_perm file ppos count =
     (let checked = (if perm \<noteq> 0 then perm else area_perm) in
      if sint count < 0 then - EINVAL
      else case ppos of
        None \<Rightarrow> checked
      | Some pos \<Rightarrow>
          if sint pos < 0 then
            (if \<not> unsigned_offsets file then - EINVAL
             else if count \<ge> - pos then - EOVERFLOW
             else checked)
          else if sint (pos + count) < 0 \<and> \<not> unsigned_offsets file then - EINVAL
          else checked)"


section \<open>Signed additions that overflow are refused\<close>

lemma sint_of_uint:
  fixes w :: u64
  shows "sint w = (if uint w < 2 ^ 63 then uint w else uint w - 2 ^ 64)"
proof -
  have "sint w = (uint w + 2 ^ 63) mod 2 ^ 64 - 2 ^ 63"
    by (simp add: sint_uint signed_take_bit_eq_take_bit_shift take_bit_eq_mod)
  moreover have "0 \<le> uint w" "uint w < 2 ^ 64" using uint_lt2p [of w] by simp_all
  ultimately show ?thesis by (cases "uint w < 2 ^ 63") (simp_all add: mod_pos_pos_trivial mod_pos_geq)
qed

lemma uint_sum:
  fixes a b :: u64
  shows "uint (a + b) = (if uint a + uint b < 2 ^ 64 then uint a + uint b else uint a + uint b - 2 ^ 64)"
  using uint_plus_if_size [of a b] by (simp add: word_size)

lemma uint_neg:
  fixes a :: u64
  assumes "a \<noteq> 0"
  shows "uint (- a) = 2 ^ 64 - uint a"
proof -
  have "0 < uint a" "uint a < 2 ^ 64" using assms uint_lt2p [of a] by (simp_all add: word_neq_0_conv word_less_def)
  then have "(2 ^ 64 - uint a) mod 2 ^ 64 = 2 ^ 64 - uint a" by (intro mod_pos_pos_trivial) simp_all
  moreover have "(2 ^ 64 - uint a) mod 2 ^ 64 = (- uint a) mod 2 ^ 64"
    using mod_add_self2 [of "- uint a" "2 ^ 64"] by (simp only: add.commute diff_conv_add_uminus)
  moreover have "uint (- a) = (- uint a) mod 2 ^ 64" by (simp only: uint_word_ariths) simp
  ultimately show ?thesis by (simp only:)
qed

lemma sint_add_or_negative:
  fixes a b :: loff_t
  assumes "0 \<le> sint a"
  shows "sint (a + b) = sint a + sint b \<and> sint a + sint b < 2 ^ 63 \<or> sint (a + b) < 0 \<and> 2 ^ 63 \<le> sint a + sint b"
proof -
  define x where "x = uint a"
  define y where "y = uint b"
  have bounds: "0 \<le> x" "0 \<le> y" "x < 2 ^ 64" "y < 2 ^ 64"
    using uint_lt2p [of a] uint_lt2p [of b] by (simp_all add: x_def y_def)
  have a: "x < 2 ^ 63" "sint a = x" using assms bounds(3) by (auto simp: sint_of_uint x_def split: if_splits)
  show ?thesis
  proof (cases "y < 2 ^ 63")
    case True
    then have "sint b = y" "uint (a + b) = x + y"
      using a(1) by (simp_all add: sint_of_uint uint_sum flip: x_def y_def)
    then show ?thesis using a True bounds by (auto simp: sint_of_uint [of "a + b"])
  next
    case False
    then have b: "sint b = y - 2 ^ 64" by (simp add: sint_of_uint flip: y_def)
    have "sint (a + b) = x + y - 2 ^ 64"
    proof (cases "x + y < 2 ^ 64")
      case True
      then show ?thesis using False bounds(1) by (simp add: sint_of_uint uint_sum flip: x_def y_def)
    next
      case over: False
      then show ?thesis using a(1) bounds(4) by (simp add: sint_of_uint uint_sum flip: x_def y_def)
    qed
    then show ?thesis using a b bounds by simp
  qed
qed

lemma sint_minus_EINVAL: "sint (of_int (- EINVAL) :: loff_t) = - EINVAL"
  by simp

section \<open>Seeking\<close>

text \<open>Where a seek means to go, as an unbounded integer.\<close>

definition seek_target :: "loff_t \<Rightarrow> int \<Rightarrow> loff_t \<Rightarrow> open_file \<Rightarrow> int" where
  "seek_target offset whence eof f =
     (if whence = SEEK_END then sint eof else if whence = SEEK_CUR then sint (f_pos f) else 0) + sint offset"

lemma vfs_setpos_eq:
  assumes "\<not> unsigned_offsets f" "vfs_setpos offset maxsize f = (res, f')"
  shows "if 0 \<le> sint offset \<and> sint offset \<le> sint maxsize then res = offset \<and> f_pos f' = offset
    else res = of_int (- EINVAL) \<and> f' = f"
  using assms by (auto simp: vfs_setpos_def split: if_splits)

lemma setpos_of_sum:
  assumes "\<not> unsigned_offsets f" "0 \<le> sint a" "vfs_setpos (a + b) maxsize f = (res, f')"
  shows "if 0 \<le> sint a + sint b \<and> sint a + sint b \<le> sint maxsize
    then sint res = sint a + sint b \<and> sint (f_pos f') = sint a + sint b
    else res = of_int (- EINVAL) \<and> f' = f"
proof -
  have "sint maxsize < 2 ^ 63" using sint_range_size [of maxsize] by (simp add: word_size)
  then show ?thesis
    using vfs_setpos_eq [OF assms(1,3)] sint_add_or_negative [OF assms(2), of b]
    by (auto split: if_splits)
qed

text \<open>
  C37: seeking in a regular file, from the start, the position or the end, goes to the requested
  place when that lies between 0 and the largest offset of the file system and returns it;
  otherwise the call fails with \<open>-EINVAL\<close> and the file is unchanged. An overflow of the 64-bit
  addition never makes a request outside that range succeed.
\<close>

theorem llseek_correct:
  assumes "whence \<in> {SEEK_SET, SEEK_CUR, SEEK_END}" "\<not> unsigned_offsets f"
    and "0 \<le> sint eof" "0 \<le> sint (f_pos f)" "sint (f_pos f) \<le> sint maxsize"
    and "generic_file_llseek maxsize eof offset whence f = (res, f')"
  shows "if 0 \<le> seek_target offset whence eof f \<and> seek_target offset whence eof f \<le> sint maxsize
    then sint res = seek_target offset whence eof f \<and> sint (f_pos f') = seek_target offset whence eof f
    else sint res = - EINVAL \<and> f' = f"
proof -
  consider "whence = SEEK_SET" | "whence = SEEK_CUR" "offset = 0" | "whence = SEEK_CUR" "offset \<noteq> 0" | "whence = SEEK_END"
    using assms(1) by auto
  then show ?thesis
  proof cases
    case 1
    then show ?thesis
      using assms(6) vfs_setpos_eq [OF assms(2), of offset maxsize res f']
      by (auto simp: generic_file_llseek_def generic_file_llseek_size_def seek_target_def split: if_splits)
  next
    case 2
    then show ?thesis
      using assms(4,5,6) by (auto simp: generic_file_llseek_def generic_file_llseek_size_def seek_target_def)
  next
    case 3
    then show ?thesis
      using assms(6) setpos_of_sum [OF assms(2,4), of offset maxsize res f']
      by (auto simp: generic_file_llseek_def generic_file_llseek_size_def seek_target_def split: if_splits)
  next
    case 4
    then show ?thesis
      using assms(6) setpos_of_sum [OF assms(2,3), of offset maxsize res f']
      by (auto simp: generic_file_llseek_def generic_file_llseek_size_def seek_target_def add.commute split: if_splits)
  qed
qed

definition plain_file :: "loff_t \<Rightarrow> open_file" where
  "plain_file pos = \<lparr>f_mode = {FMODE_READ, FMODE_WRITE, FMODE_LSEEK, FMODE_PREAD, FMODE_PWRITE, FMODE_CAN_READ, FMODE_CAN_WRITE},
     f_flags = 0, f_pos = pos, f_version = 7, f_inode = 0\<rparr>"

theorem llseek_correct_witness:
  "sint (fst (generic_file_llseek 1000 100 (- 20) SEEK_END (plain_file 10))) = 80 \<and>
   generic_file_llseek OFFSET_MAX OFFSET_MAX OFFSET_MAX SEEK_END (plain_file 10) = (of_int (- EINVAL), plain_file 10)"
proof -
  have "sint (fst (generic_file_llseek 1000 100 (- 20) SEEK_END (plain_file 10))) = 80"
    using llseek_correct [OF _ _ _ _ _ prod.collapse [symmetric], where f = "plain_file 10" and maxsize = 1000 and eof = 100
        and whence = SEEK_END and offset = "- 20"]
    by (simp add: plain_file_def unsigned_offsets_def seek_target_def)
  moreover have "generic_file_llseek OFFSET_MAX OFFSET_MAX OFFSET_MAX SEEK_END (plain_file 10) = (of_int (- EINVAL), plain_file 10)"
    by (simp add: generic_file_llseek_def generic_file_llseek_size_def vfs_setpos_def plain_file_def unsigned_offsets_def)
  ultimately show ?thesis by simp
qed

section \<open>Positions stay valid\<close>

definition position_ok :: "open_file \<Rightarrow> bool" where
  "position_ok f \<longleftrightarrow> \<not> unsigned_offsets f \<and> 0 \<le> sint (f_pos f)"

definition exec_lseek :: "llseek_op \<times> loff_t \<times> u32 \<Rightarrow> open_file \<Rightarrow> int \<times> open_file" where
  "exec_lseek c f = (case c of (llseek, offset, whence) \<Rightarrow>
     case ksys_lseek llseek offset whence (Some f) of (ret, f') \<Rightarrow> (ret, case f' of Some f'' \<Rightarrow> f'' | None \<Rightarrow> f))"

definition own_llseek :: "llseek_op \<Rightarrow> bool" where
  "own_llseek llseek \<longleftrightarrow> (case llseek of Other_llseek g \<Rightarrow> False | _ \<Rightarrow> True)"

lemma setpos_position_ok: "position_ok f \<Longrightarrow> position_ok (snd (vfs_setpos offset maxsize f))"
  by (auto simp: vfs_setpos_def position_ok_def unsigned_offsets_def)

lemma default_setpos_position_ok: "position_ok f \<Longrightarrow> position_ok (snd (default_setpos offset f))"
  by (auto simp: default_setpos_def position_ok_def unsigned_offsets_def)

lemma generic_size_position_ok:
  "position_ok f \<Longrightarrow> position_ok (snd (generic_file_llseek_size offset whence maxsize eof f))"
  by (auto simp: generic_file_llseek_size_def setpos_position_ok)

lemma call_llseek_position_ok:
  assumes "own_llseek llseek" "position_ok f"
  shows "position_ok (snd (call_llseek llseek offset whence f))"
  using assms
  by (cases llseek) (auto simp: own_llseek_def generic_file_llseek_def fixed_size_llseek_def no_seek_end_llseek_def
      no_seek_end_llseek_size_def noop_llseek_def default_llseek_def generic_size_position_ok default_setpos_position_ok)

interpretation seeks: syscall_invariant exec_lseek "\<lambda>c. own_llseek (fst c)" position_ok
proof unfold_locales
  fix c :: "llseek_op \<times> loff_t \<times> u32" and f assume "own_llseek (fst c)" "position_ok f"
  then show "position_ok (snd (exec_lseek c f))"
    using call_llseek_position_ok
    by (auto simp: exec_lseek_def ksys_lseek_def vfs_llseek_def split_beta)
qed

text \<open>No sequence of seeks, with any of the methods of this file, makes a position negative.\<close>

lemma seeks_keep_position:
  "list_all (\<lambda>c. own_llseek (fst c)) cs \<Longrightarrow> position_ok f \<Longrightarrow> position_ok (run_calls exec_lseek cs f)"
  by (rule seeks.run_inv)

section \<open>Every area that is accepted can be addressed\<close>

text \<open>
  An area that \<open>rw_verify_area\<close> accepts never wraps around the end of the 64-bit offsets, and
  for files with signed offsets it lies between 0 and the largest signed offset.
\<close>

theorem rw_verify_area_no_wrap:
  assumes "rw_verify_area perm area_perm f (Some pos) count = 0"
  shows "uint pos + uint count < 2 ^ 64 \<and> perm = 0 \<and> area_perm = 0 \<and>
    (\<not> unsigned_offsets f \<longrightarrow> 0 \<le> sint pos \<and> sint pos + uint count < 2 ^ 63)"
proof (cases "sint pos < 0")
  case True
  then have "pos \<noteq> 0" by auto
  from True assms have "unsigned_offsets f" "count < - pos" "perm = 0" "area_perm = 0"
    by (auto simp: rw_verify_area_def Let_def split: if_splits)
  with uint_neg [OF \<open>pos \<noteq> 0\<close>] show ?thesis by (simp add: word_less_def)
next
  case False
  with assms have *: "0 \<le> sint count" "unsigned_offsets f \<or> 0 \<le> sint (pos + count)" "perm = 0" "area_perm = 0"
    by (auto simp: rw_verify_area_def Let_def split: if_splits)
  have "uint pos < 2 ^ 63" "uint count < 2 ^ 63"
    using False *(1) uint_lt2p [of pos] uint_lt2p [of count] by (auto simp: sint_of_uint split: if_splits)
  moreover from this have "sint (pos + count) = (if uint pos + uint count < 2 ^ 63 then uint pos + uint count
      else uint pos + uint count - 2 ^ 64)"
    unfolding sint_of_uint uint_sum by simp
  ultimately show ?thesis using * by (auto simp: sint_of_uint split: if_splits)
qed

theorem rw_verify_area_no_wrap_witness:
  "rw_verify_area 0 0 (plain_file 10) (Some 100) 4096 = 0 \<and> sint (100 :: u64) + uint (4096 :: u64) < 2 ^ 63"
proof -
  have "rw_verify_area 0 0 (plain_file 10) (Some 100) 4096 = 0"
    by (simp add: rw_verify_area_def plain_file_def unsigned_offsets_def)
  with rw_verify_area_no_wrap [OF this] show ?thesis by (simp add: plain_file_def unsigned_offsets_def)
qed

end
