(* ===== verification/File_Transfer.thy ===== *)
theory File_Transfer
  imports File_Offsets
begin

text \<open>
  Reading and writing: the second part of \<^verbatim>\<open>src/Kernel/fs/read_write.c\<close>. The state holds the
  open files, the descriptor table and the I/O accounting of the calling task. Everything a
  transfer changes elsewhere (file contents, user memory) is the component \<open>world\<close>, of any type;
  the methods of the file systems, the security hooks, \<open>import_iovec\<close> and the splice functions
  are fields of the environment.
\<close>

abbreviation (input) ETXTBSY :: int where "ETXTBSY \<equiv> 26"
abbreviation (input) EFBIG :: int where "EFBIG \<equiv> 27"
abbreviation (input) EXDEV :: int where "EXDEV \<equiv> 18"
abbreviation (input) EISDIR :: int where "EISDIR \<equiv> 21"
abbreviation (input) EOPNOTSUPP :: int where "EOPNOTSUPP \<equiv> 95"
abbreviation (input) MAX_RW_COUNT :: u64 where "MAX_RW_COUNT \<equiv> 0x7FFFF000"
abbreviation (input) MAX_NON_LFS :: loff_t where "MAX_NON_LFS \<equiv> 0x7FFFFFFF"
abbreviation (input) O_APPEND :: u32 where "O_APPEND \<equiv> 0x400"
abbreviation (input) O_NONBLOCK :: u32 where "O_NONBLOCK \<equiv> 0x800"
abbreviation (input) O_LARGEFILE :: u32 where "O_LARGEFILE \<equiv> 0x8000"

section \<open>State and environment\<close>

datatype vfs_event = Access nat | Modify nat | Signal_XFSZ

record 'd vfs =
  files :: "nat \<Rightarrow> open_file"
  fd_table :: "u32 \<Rightarrow> nat option"
  rchar :: u64
  wchar :: u64
  syscr :: u64
  syscw :: u64
  events :: "vfs_event list"
  world :: 'd

datatype inode_kind = Regular | Directory | Fifo | Block | Other_kind

text \<open>A range of user memory, by its address and length.\<close>

type_synonym segment = "u64 \<times> u64"

text \<open>
  A method gets the position, where there is one, and returns its result and the position it
  leaves; \<open>None\<close> stands for a null \<open>ppos\<close>, and the position left is then ignored.
\<close>

type_synonym 'd rw_method = "segment \<Rightarrow> loff_t option \<Rightarrow> 'd \<Rightarrow> (int \<times> loff_t) \<times> 'd"
type_synonym 'd iter_method = "u32 \<Rightarrow> segment list \<Rightarrow> loff_t \<Rightarrow> 'd \<Rightarrow> (int \<times> loff_t) \<times> 'd"

record 'd vfs_env =
  i_size_read :: "nat \<Rightarrow> 'd \<Rightarrow> loff_t"
  s_maxbytes :: "nat \<Rightarrow> loff_t"
  i_sb :: "nat \<Rightarrow> nat"
  i_kind :: "nat \<Rightarrow> inode_kind"
  is_immutable :: "nat \<Rightarrow> bool"
  is_swapfile :: "nat \<Rightarrow> bool"
  access_ok :: "u64 \<Rightarrow> u64 \<Rightarrow> bool"
  file_permission :: "nat \<Rightarrow> rw \<Rightarrow> int"
  area_permission :: "nat \<Rightarrow> rw \<Rightarrow> loff_t option \<Rightarrow> u64 \<Rightarrow> int"
  op_read :: "nat \<Rightarrow> 'd rw_method option"
  op_write :: "nat \<Rightarrow> 'd rw_method option"
  op_read_iter :: "nat \<Rightarrow> 'd iter_method option"
  op_write_iter :: "nat \<Rightarrow> 'd iter_method option"
  kiocb_set_rw_flags :: "nat \<Rightarrow> u32 \<Rightarrow> int"
  import_iovec :: "u64 \<Rightarrow> u64 \<Rightarrow> int + segment list"
  rlimit_fsize :: u64
  is_pipe :: "nat \<Rightarrow> bool"
  do_splice_direct :: "nat \<Rightarrow> loff_t \<Rightarrow> nat \<Rightarrow> loff_t \<Rightarrow> u64 \<Rightarrow> 'd \<Rightarrow> (int \<times> loff_t \<times> loff_t) \<times> 'd"
  splice_file_to_pipe :: "nat \<Rightarrow> nat \<Rightarrow> loff_t \<Rightarrow> u64 \<Rightarrow> bool \<Rightarrow> 'd \<Rightarrow> (int \<times> loff_t) \<times> 'd"
  copy_method :: "nat \<Rightarrow> nat option"
  call_copy_method :: "nat \<Rightarrow> nat \<Rightarrow> loff_t \<Rightarrow> nat \<Rightarrow> loff_t \<Rightarrow> u64 \<Rightarrow> u32 \<Rightarrow> 'd \<Rightarrow> int \<times> 'd"
  remap_file_range :: "nat \<Rightarrow> (loff_t \<Rightarrow> nat \<Rightarrow> loff_t \<Rightarrow> u64 \<Rightarrow> 'd \<Rightarrow> int \<times> 'd) option"

definition set_pos :: "nat \<Rightarrow> loff_t \<Rightarrow> 'd vfs \<Rightarrow> 'd vfs" where
  "set_pos n pos s = s\<lparr>files := (files s)(n := (files s n)\<lparr>f_pos := pos\<rparr>)\<rparr>"

definition add_rchar :: "int \<Rightarrow> 'd vfs \<Rightarrow> 'd vfs" where
  "add_rchar n s = s\<lparr>rchar := rchar s + of_int n\<rparr>"

definition add_wchar :: "int \<Rightarrow> 'd vfs \<Rightarrow> 'd vfs" where
  "add_wchar n s = s\<lparr>wchar := wchar s + of_int n\<rparr>"

definition inc_syscr :: "'d vfs \<Rightarrow> 'd vfs" where
  "inc_syscr s = s\<lparr>syscr := syscr s + 1\<rparr>"

definition inc_syscw :: "'d vfs \<Rightarrow> 'd vfs" where
  "inc_syscw s = s\<lparr>syscw := syscw s + 1\<rparr>"

definition fsnotify :: "vfs_event \<Rightarrow> 'd vfs \<Rightarrow> 'd vfs" where
  "fsnotify e s = s\<lparr>events := e # events s\<rparr>"

definition verify :: "'d vfs_env \<Rightarrow> rw \<Rightarrow> nat \<Rightarrow> loff_t option \<Rightarrow> u64 \<Rightarrow> 'd vfs \<Rightarrow> int" where
  "verify E rw n ppos count s =
     rw_verify_area (file_permission E n rw) (area_permission E n rw ppos count) (files s n) ppos count"

section \<open>One buffer\<close>

type_synonym 'd outcome = "(int \<times> loff_t option) \<times> 'd vfs"

definition new_sync_read :: "'d iter_method \<Rightarrow> segment \<Rightarrow> loff_t option \<Rightarrow> 'd vfs \<Rightarrow> 'd outcome" where
  "new_sync_read read_iter seg ppos s =
     (case read_iter 0 [seg] (case ppos of Some pos \<Rightarrow> pos | None \<Rightarrow> 0) (world s) of ((ret, ki_pos), w) \<Rightarrow>
        ((ret, map_option (\<lambda>_. ki_pos) ppos), s\<lparr>world := w\<rparr>))"

definition new_sync_write :: "'d iter_method \<Rightarrow> segment \<Rightarrow> loff_t option \<Rightarrow> 'd vfs \<Rightarrow> 'd outcome" where
  "new_sync_write write_iter seg ppos s =
     (case write_iter 0 [seg] (case ppos of Some pos \<Rightarrow> pos | None \<Rightarrow> 0) (world s) of ((ret, ki_pos), w) \<Rightarrow>
        ((ret, if ret > 0 then map_option (\<lambda>_. ki_pos) ppos else ppos), s\<lparr>world := w\<rparr>))"

definition call_method :: "'d rw_method \<Rightarrow> segment \<Rightarrow> loff_t option \<Rightarrow> 'd vfs \<Rightarrow> 'd outcome" where
  "call_method m seg ppos s = (case m seg ppos (world s) of ((ret, pos), w) \<Rightarrow>
     ((ret, map_option (\<lambda>_. pos) ppos), s\<lparr>world := w\<rparr>))"

definition vfs_read :: "'d vfs_env \<Rightarrow> nat \<Rightarrow> u64 \<Rightarrow> u64 \<Rightarrow> loff_t option \<Rightarrow> 'd vfs \<Rightarrow> 'd outcome" where
  "vfs_read E n buf count ppos s =
     (if FMODE_READ \<notin> f_mode (files s n) then ((- EBADF, ppos), s)
      else if FMODE_CAN_READ \<notin> f_mode (files s n) then ((- EINVAL, ppos), s)
      else if \<not> access_ok E buf count then ((- EFAULT, ppos), s)
      else let ret = verify E READ n ppos count s
      in if ret \<noteq> 0 then ((ret, ppos), s)
      else let count = min count MAX_RW_COUNT
      in case (case op_read E n of Some m \<Rightarrow> call_method m (buf, count) ppos s
               | None \<Rightarrow> (case op_read_iter E n of Some m \<Rightarrow> new_sync_read m (buf, count) ppos s
               | None \<Rightarrow> ((- EINVAL, ppos), s))) of ((ret, ppos'), s') \<Rightarrow>
        ((ret, ppos'), inc_syscr (if ret > 0 then add_rchar ret (fsnotify (Access n) s') else s')))"

definition vfs_write :: "'d vfs_env \<Rightarrow> nat \<Rightarrow> u64 \<Rightarrow> u64 \<Rightarrow> loff_t option \<Rightarrow> 'd vfs \<Rightarrow> 'd outcome" where
  "vfs_write E n buf count ppos s =
     (if FMODE_WRITE \<notin> f_mode (files s n) then ((- EBADF, ppos), s)
      else if FMODE_CAN_WRITE \<notin> f_mode (files s n) then ((- EINVAL, ppos), s)
      else if \<not> access_ok E buf count then ((- EFAULT, ppos), s)
      else let ret = verify E WRITE n ppos count s
      in if ret \<noteq> 0 then ((ret, ppos), s)
      else let count = min count MAX_RW_COUNT
      in case (case op_write E n of Some m \<Rightarrow> call_method m (buf, count) ppos s
               | None \<Rightarrow> (case op_write_iter E n of Some m \<Rightarrow> new_sync_write m (buf, count) ppos s
               | None \<Rightarrow> ((- EINVAL, ppos), s))) of ((ret, ppos'), s') \<Rightarrow>
        ((ret, ppos'), inc_syscw (if ret > 0 then add_wchar ret (fsnotify (Modify n) s') else s')))"

definition file_ppos :: "open_file \<Rightarrow> loff_t option" where
  "file_ppos f = (if FMODE_STREAM \<in> f_mode f then None else Some (f_pos f))"

text \<open>The common shape of the calls that use and update the position of the file.\<close>

definition with_file_pos :: "(nat \<Rightarrow> loff_t option \<Rightarrow> 'd vfs \<Rightarrow> 'd outcome) \<Rightarrow> u32 \<Rightarrow> 'd vfs \<Rightarrow> int \<times> 'd vfs" where
  "with_file_pos transfer fd s =
     (case fd_table s fd of None \<Rightarrow> (- EBADF, s)
      | Some n \<Rightarrow> (case transfer n (file_ppos (files s n)) s of ((ret, ppos), s') \<Rightarrow>
          (ret, case ppos of Some pos \<Rightarrow> if ret \<ge> 0 then set_pos n pos s' else s' | None \<Rightarrow> s')))"

definition ksys_read :: "'d vfs_env \<Rightarrow> u32 \<Rightarrow> u64 \<Rightarrow> u64 \<Rightarrow> 'd vfs \<Rightarrow> int \<times> 'd vfs" where
  "ksys_read E fd buf count s = with_file_pos (\<lambda>n. vfs_read E n buf count) fd s"

definition ksys_write :: "'d vfs_env \<Rightarrow> u32 \<Rightarrow> u64 \<Rightarrow> u64 \<Rightarrow> 'd vfs \<Rightarrow> int \<times> 'd vfs" where
  "ksys_write E fd buf count s = with_file_pos (\<lambda>n. vfs_write E n buf count) fd s"

text \<open>The common shape of the calls with a position of their own.\<close>

definition at_offset ::
  "fmode \<Rightarrow> (nat \<Rightarrow> loff_t option \<Rightarrow> 'd vfs \<Rightarrow> 'd outcome) \<Rightarrow> u32 \<Rightarrow> loff_t \<Rightarrow> 'd vfs \<Rightarrow> int \<times> 'd vfs" where
  "at_offset mode transfer fd pos s =
     (if sint pos < 0 then (- EINVAL, s)
      else case fd_table s fd of None \<Rightarrow> (- EBADF, s)
      | Some n \<Rightarrow> if mode \<notin> f_mode (files s n) then (- ESPIPE, s)
          else case transfer n (Some pos) s of ((ret, _), s') \<Rightarrow> (ret, s'))"

definition ksys_pread64 :: "'d vfs_env \<Rightarrow> u32 \<Rightarrow> u64 \<Rightarrow> u64 \<Rightarrow> loff_t \<Rightarrow> 'd vfs \<Rightarrow> int \<times> 'd vfs" where
  "ksys_pread64 E fd buf count pos s = at_offset FMODE_PREAD (\<lambda>n. vfs_read E n buf count) fd pos s"

definition ksys_pwrite64 :: "'d vfs_env \<Rightarrow> u32 \<Rightarrow> u64 \<Rightarrow> u64 \<Rightarrow> loff_t \<Rightarrow> 'd vfs \<Rightarrow> int \<times> 'd vfs" where
  "ksys_pwrite64 E fd buf count pos s = at_offset FMODE_PWRITE (\<lambda>n. vfs_write E n buf count) fd pos s"

section \<open>Vectors\<close>

definition do_iter_readv_writev ::
  "'d vfs_env \<Rightarrow> nat \<Rightarrow> 'd iter_method \<Rightarrow> segment list \<Rightarrow> loff_t option \<Rightarrow> u32 \<Rightarrow> 'd vfs \<Rightarrow> 'd outcome" where
  "do_iter_readv_writev E n iter_method iter ppos flags s =
     (let ret = kiocb_set_rw_flags E n flags in
      if ret \<noteq> 0 then ((ret, ppos), s)
      else case iter_method flags iter (case ppos of Some pos \<Rightarrow> pos | None \<Rightarrow> 0) (world s) of ((ret, ki_pos), w) \<Rightarrow>
        ((ret, map_option (\<lambda>_. ki_pos) ppos), s\<lparr>world := w\<rparr>))"

definition iov_iter_count :: "segment list \<Rightarrow> nat" where
  "iov_iter_count iter = sum_list (map (\<lambda>seg. unat (snd seg)) iter)"

text \<open>The loop of \<open>do_loop_readv_writev\<close>; advancing by a whole segment also passes empty ones.\<close>

function loop_segments ::
  "'d rw_method \<Rightarrow> segment list \<Rightarrow> loff_t option \<Rightarrow> int \<Rightarrow> 'd vfs \<Rightarrow> 'd outcome" where
  "loop_segments m [] ppos ret s = ((ret, ppos), s)"
| "loop_segments m (seg # iter) ppos ret s =
     (if iov_iter_count (seg # iter) = 0 then ((ret, ppos), s)
      else case call_method m seg ppos s of ((nr, ppos), s) \<Rightarrow>
        if nr < 0 then ((if ret = 0 then nr else ret, ppos), s)
        else if nr \<noteq> int (unat (snd seg)) then ((ret + nr, ppos), s)
        else loop_segments m (dropWhile (\<lambda>seg. snd seg = 0) iter) ppos (ret + nr) s)"
  by pat_completeness auto

termination
  by (relation "measure (\<lambda>(m, iter, ppos, ret, s). length iter)") (auto simp: length_dropWhile_le le_imp_less_Suc)

definition do_loop_readv_writev ::
  "'d rw_method \<Rightarrow> segment list \<Rightarrow> loff_t option \<Rightarrow> u32 \<Rightarrow> 'd vfs \<Rightarrow> 'd outcome" where
  "do_loop_readv_writev m iter ppos flags s =
     (if flags AND NOT 1 \<noteq> 0 then ((- EOPNOTSUPP, ppos), s) else loop_segments m iter ppos 0 s)"

text \<open>
  \<open>FMODE_CAN_READ\<close> and \<open>FMODE_CAN_WRITE\<close> are only set on files with one of the two methods, so
  the method taken below exists.
\<close>

definition vfs_readv :: "'d vfs_env \<Rightarrow> nat \<Rightarrow> u64 \<Rightarrow> u64 \<Rightarrow> u32 \<Rightarrow> loff_t option \<Rightarrow> 'd vfs \<Rightarrow> 'd outcome" where
  "vfs_readv E n vec vlen flags ppos s =
     (if FMODE_READ \<notin> f_mode (files s n) then ((- EBADF, ppos), s)
      else if FMODE_CAN_READ \<notin> f_mode (files s n) then ((- EINVAL, ppos), s)
      else case import_iovec E vec vlen of Inl ret \<Rightarrow> ((ret, ppos), s)
      | Inr iter \<Rightarrow>
        (let tot_len = iov_iter_count iter in
         case (if tot_len = 0 then ((0, ppos), s)
               else let ret = verify E READ n ppos (of_nat tot_len) s in
               if ret < 0 then ((ret, ppos), s)
               else case op_read_iter E n of
                 Some m \<Rightarrow> do_iter_readv_writev E n m iter ppos flags s
               | None \<Rightarrow> do_loop_readv_writev (the (op_read E n)) iter ppos flags s) of ((ret, ppos), s) \<Rightarrow>
           ((ret, ppos), if ret \<ge> 0 then fsnotify (Access n) s else s)))"


definition vfs_writev :: "'d vfs_env \<Rightarrow> nat \<Rightarrow> u64 \<Rightarrow> u64 \<Rightarrow> u32 \<Rightarrow> loff_t option \<Rightarrow> 'd vfs \<Rightarrow> 'd outcome" where
  "vfs_writev E n vec vlen flags ppos s =
     (if FMODE_WRITE \<notin> f_mode (files s n) then ((- EBADF, ppos), s)
      else if FMODE_CAN_WRITE \<notin> f_mode (files s n) then ((- EINVAL, ppos), s)
      else case import_iovec E vec vlen of Inl ret \<Rightarrow> ((ret, ppos), s)
      | Inr iter \<Rightarrow>
        (let tot_len = iov_iter_count iter in
         if tot_len = 0 then ((0, ppos), s)
         else let ret = verify E WRITE n ppos (of_nat tot_len) s in
         if ret < 0 then ((ret, ppos), s)
         else case (case op_write_iter E n of
                 Some m \<Rightarrow> do_iter_readv_writev E n m iter ppos flags s
               | None \<Rightarrow> do_loop_readv_writev (the (op_write E n)) iter ppos flags s) of ((ret, ppos), s) \<Rightarrow>
           ((ret, ppos), if ret > 0 then fsnotify (Modify n) s else s)))"

definition account_read :: "int \<times> 'd vfs \<Rightarrow> int \<times> 'd vfs" where
  "account_read r = (case r of (ret, s) \<Rightarrow> (ret, inc_syscr (if ret > 0 then add_rchar ret s else s)))"

definition account_write :: "int \<times> 'd vfs \<Rightarrow> int \<times> 'd vfs" where
  "account_write r = (case r of (ret, s) \<Rightarrow> (ret, inc_syscw (if ret > 0 then add_wchar ret s else s)))"

definition do_readv :: "'d vfs_env \<Rightarrow> u32 \<Rightarrow> u64 \<Rightarrow> u64 \<Rightarrow> u32 \<Rightarrow> 'd vfs \<Rightarrow> int \<times> 'd vfs" where
  "do_readv E fd vec vlen flags s = account_read (with_file_pos (\<lambda>n. vfs_readv E n vec vlen flags) fd s)"

definition do_writev :: "'d vfs_env \<Rightarrow> u32 \<Rightarrow> u64 \<Rightarrow> u64 \<Rightarrow> u32 \<Rightarrow> 'd vfs \<Rightarrow> int \<times> 'd vfs" where
  "do_writev E fd vec vlen flags s = account_write (with_file_pos (\<lambda>n. vfs_writev E n vec vlen flags) fd s)"

definition pos_from_hilo :: "u64 \<Rightarrow> u64 \<Rightarrow> loff_t" where
  "pos_from_hilo high low = push_bit 32 (push_bit 32 high) OR low"

text \<open>The early return for a negative position comes before the accounting.\<close>

definition do_preadv :: "'d vfs_env \<Rightarrow> u32 \<Rightarrow> u64 \<Rightarrow> u64 \<Rightarrow> loff_t \<Rightarrow> u32 \<Rightarrow> 'd vfs \<Rightarrow> int \<times> 'd vfs" where
  "do_preadv E fd vec vlen pos flags s =
     (if sint pos < 0 then (- EINVAL, s)
      else account_read (at_offset FMODE_PREAD (\<lambda>n. vfs_readv E n vec vlen flags) fd pos s))"

definition do_pwritev :: "'d vfs_env \<Rightarrow> u32 \<Rightarrow> u64 \<Rightarrow> u64 \<Rightarrow> loff_t \<Rightarrow> u32 \<Rightarrow> 'd vfs \<Rightarrow> int \<times> 'd vfs" where
  "do_pwritev E fd vec vlen pos flags s =
     (if sint pos < 0 then (- EINVAL, s)
      else account_write (at_offset FMODE_PWRITE (\<lambda>n. vfs_writev E n vec vlen flags) fd pos s))"

definition sys_preadv2 :: "'d vfs_env \<Rightarrow> u32 \<Rightarrow> u64 \<Rightarrow> u64 \<Rightarrow> u64 \<Rightarrow> u64 \<Rightarrow> u32 \<Rightarrow> 'd vfs \<Rightarrow> int \<times> 'd vfs" where
  "sys_preadv2 E fd vec vlen pos_l pos_h flags s =
     (let pos = pos_from_hilo pos_h pos_l in
      if pos = - 1 then do_readv E fd vec vlen flags s else do_preadv E fd vec vlen pos flags s)"

definition sys_pwritev2 :: "'d vfs_env \<Rightarrow> u32 \<Rightarrow> u64 \<Rightarrow> u64 \<Rightarrow> u64 \<Rightarrow> u64 \<Rightarrow> u32 \<Rightarrow> 'd vfs \<Rightarrow> int \<times> 'd vfs" where
  "sys_pwritev2 E fd vec vlen pos_l pos_h flags s =
     (let pos = pos_from_hilo pos_h pos_l in
      if pos = - 1 then do_writev E fd vec vlen flags s else do_pwritev E fd vec vlen pos flags s)"

definition compat_pos :: "u32 \<Rightarrow> u32 \<Rightarrow> loff_t" where
  "compat_pos pos_high pos_low = push_bit 32 (ucast pos_high) OR ucast pos_low"

definition compat_sys_preadv2 :: "'d vfs_env \<Rightarrow> u32 \<Rightarrow> u64 \<Rightarrow> u64 \<Rightarrow> u32 \<Rightarrow> u32 \<Rightarrow> u32 \<Rightarrow> 'd vfs \<Rightarrow> int \<times> 'd vfs" where
  "compat_sys_preadv2 E fd vec vlen pos_low pos_high flags s =
     (let pos = compat_pos pos_high pos_low in
      if pos = - 1 then do_readv E fd vec vlen flags s else do_preadv E fd vec vlen pos flags s)"

definition compat_sys_pwritev2 :: "'d vfs_env \<Rightarrow> u32 \<Rightarrow> u64 \<Rightarrow> u64 \<Rightarrow> u32 \<Rightarrow> u32 \<Rightarrow> u32 \<Rightarrow> 'd vfs \<Rightarrow> int \<times> 'd vfs" where
  "compat_sys_pwritev2 E fd vec vlen pos_low pos_high flags s =
     (let pos = compat_pos pos_high pos_low in
      if pos = - 1 then do_writev E fd vec vlen flags s else do_pwritev E fd vec vlen pos flags s)"

section \<open>Transfers inside the kernel\<close>

definition kernel_read_raw :: "'d vfs_env \<Rightarrow> nat \<Rightarrow> u64 \<Rightarrow> u64 \<Rightarrow> loff_t option \<Rightarrow> 'd vfs \<Rightarrow> 'd outcome" where
  "kernel_read_raw E n buf count ppos s =
     (if FMODE_READ \<notin> f_mode (files s n) then ((- EINVAL, ppos), s)
      else if FMODE_CAN_READ \<notin> f_mode (files s n) then ((- EINVAL, ppos), s)
      else case (op_read_iter E n, op_read E n) of
        (Some m, None) \<Rightarrow>
          (case new_sync_read m (buf, min count MAX_RW_COUNT) ppos s of ((ret, ppos'), s) \<Rightarrow>
             if ret > 0 then ((ret, ppos'), inc_syscr (add_rchar ret (fsnotify (Access n) s)))
             else ((ret, ppos), inc_syscr s))
      | _ \<Rightarrow> ((- EINVAL, ppos), s))"

definition kernel_read :: "'d vfs_env \<Rightarrow> nat \<Rightarrow> u64 \<Rightarrow> u64 \<Rightarrow> loff_t option \<Rightarrow> 'd vfs \<Rightarrow> 'd outcome" where
  "kernel_read E n buf count ppos s =
     (let ret = verify E READ n ppos count s in
      if ret \<noteq> 0 then ((ret, ppos), s) else kernel_read_raw E n buf count ppos s)"

definition kernel_write_iter :: "'d vfs_env \<Rightarrow> nat \<Rightarrow> segment list \<Rightarrow> loff_t option \<Rightarrow> 'd vfs \<Rightarrow> 'd outcome" where
  "kernel_write_iter E n from ppos s =
     (if FMODE_WRITE \<notin> f_mode (files s n) then ((- EBADF, ppos), s)
      else if FMODE_CAN_WRITE \<notin> f_mode (files s n) then ((- EINVAL, ppos), s)
      else case (op_write_iter E n, op_write E n) of
        (Some m, None) \<Rightarrow>
          (case m 0 from (case ppos of Some pos \<Rightarrow> pos | None \<Rightarrow> 0) (world s) of ((ret, ki_pos), w) \<Rightarrow>
             let s = s\<lparr>world := w\<rparr> in
             if ret > 0 then ((ret, map_option (\<lambda>_. ki_pos) ppos), inc_syscw (add_wchar ret (fsnotify (Modify n) s)))
             else ((ret, ppos), inc_syscw s))
      | _ \<Rightarrow> ((- EINVAL, ppos), s))"

definition kernel_write_raw :: "'d vfs_env \<Rightarrow> nat \<Rightarrow> u64 \<Rightarrow> u64 \<Rightarrow> loff_t option \<Rightarrow> 'd vfs \<Rightarrow> 'd outcome" where
  "kernel_write_raw E n buf count ppos s = kernel_write_iter E n [(buf, min count MAX_RW_COUNT)] ppos s"

definition kernel_write :: "'d vfs_env \<Rightarrow> nat \<Rightarrow> u64 \<Rightarrow> u64 \<Rightarrow> loff_t option \<Rightarrow> 'd vfs \<Rightarrow> 'd outcome" where
  "kernel_write E n buf count ppos s =
     (let ret = verify E WRITE n ppos count s in
      if ret \<noteq> 0 then ((ret, ppos), s) else kernel_write_raw E n buf count ppos s)"

definition vfs_iter_read :: "'d vfs_env \<Rightarrow> nat \<Rightarrow> segment list \<Rightarrow> loff_t option \<Rightarrow> u32 \<Rightarrow> 'd vfs \<Rightarrow> 'd outcome" where
  "vfs_iter_read E n iter ppos flags s =
     (case op_read_iter E n of None \<Rightarrow> ((- EINVAL, ppos), s)
      | Some m \<Rightarrow>
        if FMODE_READ \<notin> f_mode (files s n) then ((- EBADF, ppos), s)
        else if FMODE_CAN_READ \<notin> f_mode (files s n) then ((- EINVAL, ppos), s)
        else let tot_len = iov_iter_count iter in
        if tot_len = 0 then ((0, ppos), fsnotify (Access n) s)
        else let ret = verify E READ n ppos (of_nat tot_len) s in
        if ret < 0 then ((ret, ppos), s)
        else case do_iter_readv_writev E n m iter ppos flags s of ((ret, ppos), s) \<Rightarrow>
          ((ret, ppos), if ret \<ge> 0 then fsnotify (Access n) s else s))"

definition vfs_iter_write :: "'d vfs_env \<Rightarrow> nat \<Rightarrow> segment list \<Rightarrow> loff_t option \<Rightarrow> u32 \<Rightarrow> 'd vfs \<Rightarrow> 'd outcome" where
  "vfs_iter_write E n iter ppos flags s =
     (if FMODE_WRITE \<notin> f_mode (files s n) then ((- EBADF, ppos), s)
      else if FMODE_CAN_WRITE \<notin> f_mode (files s n) then ((- EINVAL, ppos), s)
      else case op_write_iter E n of None \<Rightarrow> ((- EINVAL, ppos), s)
      | Some m \<Rightarrow>
        let tot_len = iov_iter_count iter in
        if tot_len = 0 then ((0, ppos), s)
        else let ret = verify E WRITE n ppos (of_nat tot_len) s in
        if ret < 0 then ((ret, ppos), s)
        else case do_iter_readv_writev E n m iter ppos flags s of ((ret, ppos), s) \<Rightarrow>
          ((ret, ppos), if ret > 0 then fsnotify (Modify n) s else s))"


section \<open>What a transfer does to positions and accounting\<close>

text \<open>
  The contract of \<open>read\<close> and \<open>read_iter\<close>: the result is an error, which leaves the position, or
  the number of bytes transferred, at most those asked for, by which the position advances.
\<close>

definition advancing :: "int \<Rightarrow> loff_t \<Rightarrow> int \<Rightarrow> loff_t \<Rightarrow> bool" where
  "advancing limit pos ret pos' \<longleftrightarrow> ret \<le> limit \<and> pos' = pos + of_int (max ret 0)"

definition method_advances :: "'d rw_method \<Rightarrow> bool" where
  "method_advances m \<longleftrightarrow> (\<forall>seg pos w. case m seg (Some pos) w of ((ret, pos'), _) \<Rightarrow>
     advancing (int (unat (snd seg))) pos ret pos')"

definition iter_advances :: "'d iter_method \<Rightarrow> bool" where
  "iter_advances m \<longleftrightarrow> (\<forall>flags iter pos w. case m flags iter pos w of ((ret, pos'), _) \<Rightarrow>
     advancing (int (iov_iter_count iter)) pos ret pos')"

definition reads_advance :: "'d vfs_env \<Rightarrow> nat \<Rightarrow> bool" where
  "reads_advance E n \<longleftrightarrow> (\<forall>m. op_read E n = Some m \<longrightarrow> method_advances m) \<and>
     (\<forall>m. op_read_iter E n = Some m \<longrightarrow> iter_advances m) \<and> (op_read E n \<noteq> None \<or> op_read_iter E n \<noteq> None) \<and>
     (\<forall>flags. kiocb_set_rw_flags E n flags \<le> 0)"

definition same_but_world :: "'d vfs \<Rightarrow> 'd vfs \<Rightarrow> bool" where
  "same_but_world s s' \<longleftrightarrow> s' = s\<lparr>world := world s'\<rparr>"

lemma same_but_world_refl [simp]: "same_but_world s s"
  by (simp add: same_but_world_def)

lemma same_but_world_upd [simp]: "same_but_world s (s\<lparr>world := w\<rparr>)"
  by (simp add: same_but_world_def)

lemma same_but_world_trans: "same_but_world s t \<Longrightarrow> same_but_world t u \<Longrightarrow> same_but_world s u"
  unfolding same_but_world_def by (metis vfs.update_convs(8) vfs.surjective vfs.select_convs(8))

lemma same_but_worldD:
  "same_but_world s s' \<Longrightarrow> files s' = files s \<and> fd_table s' = fd_table s \<and> rchar s' = rchar s \<and> syscr s' = syscr s"
  by (metis same_but_world_def vfs.select_convs vfs.update_convs(8) vfs.surjective)

text \<open>What a transfer at a position leaves: the same files and the position after the bytes moved.\<close>

definition moved :: "int \<Rightarrow> loff_t \<Rightarrow> 'd vfs \<Rightarrow> 'd outcome \<Rightarrow> bool" where
  "moved limit pos s r \<longleftrightarrow> (case r of ((ret, ppos), s') \<Rightarrow>
     (\<exists>pos'. ppos = Some pos' \<and> advancing limit pos ret pos') \<and> same_but_world s s')"

lemma movedE:
  assumes "moved limit pos s r"
  obtains ret pos' s' where "r = ((ret, Some pos'), s')" "advancing limit pos ret pos'" "same_but_world s s'"
  using assms by (cases r) (auto simp: moved_def)

lemma method_advancesD:
  "method_advances m \<Longrightarrow> m seg (Some pos) w = ((ret, pos'), w') \<Longrightarrow> advancing (int (unat (snd seg))) pos ret pos'"
  unfolding method_advances_def by (drule spec [of _ seg], drule spec [of _ pos], drule spec [of _ w]) simp

lemma iter_advancesD:
  "iter_advances m \<Longrightarrow> m flags iter pos w = ((ret, pos'), w') \<Longrightarrow> advancing (int (iov_iter_count iter)) pos ret pos'"
  unfolding iter_advances_def
  by (drule spec [of _ flags], drule spec [of _ iter], drule spec [of _ pos], drule spec [of _ w]) simp

lemma moved_call_method:
  "method_advances m \<Longrightarrow> moved (int (unat (snd seg))) pos s (call_method m seg (Some pos) s)"
  by (auto simp: moved_def call_method_def split: prod.splits dest: method_advancesD)

lemma moved_new_sync_read:
  "iter_advances m \<Longrightarrow> moved (int (unat (snd seg))) pos s (new_sync_read m seg (Some pos) s)"
  by (auto simp: moved_def new_sync_read_def iov_iter_count_def split: prod.splits dest!: iter_advancesD)

lemma moved_iter:
  assumes "iter_advances m" "kiocb_set_rw_flags E n flags \<le> 0"
  shows "moved (int (iov_iter_count iter)) pos s (do_iter_readv_writev E n m iter (Some pos) flags s)"
  using assms
  by (auto simp: moved_def do_iter_readv_writev_def advancing_def Let_def split: prod.splits dest!: iter_advancesD)

lemma advancing_error: "ret \<le> 0 \<Longrightarrow> 0 \<le> limit \<Longrightarrow> advancing limit pos ret pos"
  by (simp add: advancing_def)

lemma moved_same: "ret \<le> 0 \<Longrightarrow> 0 \<le> limit \<Longrightarrow> moved limit pos s ((ret, Some pos), s)"
  by (simp add: moved_def advancing_error)

text \<open>The loop over the segments adds up what the calls of the method transfer.\<close>

lemma iov_iter_count_Cons [simp]: "iov_iter_count (seg # iter) = unat (snd seg) + iov_iter_count iter"
  by (simp add: iov_iter_count_def)

lemma iov_iter_count_dropWhile [simp]:
  "iov_iter_count (dropWhile (\<lambda>seg. snd seg = 0) iter) = iov_iter_count iter"
  by (induction iter) (auto simp: iov_iter_count_def)

lemma loop_segments_moved:
  assumes "method_advances m" "0 \<le> ret"
    and "loop_segments m iter (Some pos) ret s = ((ret', ppos'), s')"
  shows "(\<exists>got pos'. ppos' = Some pos' \<and> pos' = pos + of_int got \<and> 0 \<le> got \<and> got \<le> int (iov_iter_count iter) \<and>
     (ret' = ret + got \<or> ret = 0 \<and> got = 0 \<and> ret' < 0)) \<and> same_but_world s s'"
  using assms
proof (induction m iter "Some pos" ret s arbitrary: pos rule: loop_segments.induct)
  case (1 m ret s)
  then show ?case by (auto intro!: exI [of _ "0 :: int"])
next
  case (2 m seg iter ret s)
  obtain nr pos1 s1 where call: "call_method m seg (Some pos) s = ((nr, Some pos1), s1)"
    and nr: "advancing (int (unat (snd seg))) pos nr pos1" "same_but_world s s1"
    using moved_call_method [OF 2(2), of seg pos s] by (rule movedE)
  consider "iov_iter_count (seg # iter) = 0" | "iov_iter_count (seg # iter) \<noteq> 0" "nr < 0"
    | "iov_iter_count (seg # iter) \<noteq> 0" "0 \<le> nr" "nr \<noteq> int (unat (snd seg))"
    | "iov_iter_count (seg # iter) \<noteq> 0" "0 \<le> nr" "nr = int (unat (snd seg))" by linarith
  then show ?case
  proof cases
    case 1
    then show ?thesis using 2(4) by (auto intro!: exI [of _ "0 :: int"])
  next
    case c: 2
    then show ?thesis
      using 2(3,4) nr by (auto simp: call advancing_def intro!: exI [of _ "0 :: int"] split: if_splits)
  next
    case c: 3
    then show ?thesis
      using 2(4) nr by (auto simp: call advancing_def intro!: exI [of _ nr])
  next
    case c: 4
    let ?rest = "dropWhile (\<lambda>seg. snd seg = 0) iter"
    have "loop_segments m ?rest (Some pos1) (ret + nr) s1 = ((ret', ppos'), s')"
      using 2(4) c by (simp add: call del: iov_iter_count_Cons)
    from 2(1) [OF c(1) call [symmetric] refl _ _ 2(2) _ this] c 2(3) obtain got where
      d: "ppos' = Some (pos1 + of_int got)" "0 \<le> got" "got \<le> int (iov_iter_count iter)"
        "ret' = ret + nr + got \<or> ret + nr = 0 \<and> got = 0 \<and> ret' < 0" "same_but_world s1 s'"
      by auto
    have "ret' = ret + (nr + got) \<or> ret = 0 \<and> nr + got = 0 \<and> ret' < 0" using d(2,4) c(2) 2(3) by linarith
    moreover have "pos1 + of_int got = pos + of_int (nr + got)" using nr(1) c(2) by (simp add: advancing_def)
    moreover have "nr + got \<le> int (iov_iter_count (seg # iter))" using c(3) d(3) by simp
    ultimately show ?thesis
      using d(1,2) c(2) same_but_world_trans [OF nr(2) d(5)]
      by (intro conjI exI [of _ "nr + got"] exI [of _ "pos1 + of_int got"]) (simp_all only: add_nonneg_nonneg)
  qed
qed


lemma moved_loop:
  assumes "method_advances m"
  shows "moved (int (iov_iter_count iter)) pos s (do_loop_readv_writev m iter (Some pos) flags s)"
proof (cases "flags AND NOT 1 \<noteq> 0")
  case True
  then show ?thesis by (simp add: do_loop_readv_writev_def moved_same)
next
  case False
  obtain ret ppos s' where r: "loop_segments m iter (Some pos) 0 s = ((ret, ppos), s')" by (metis prod.collapse)
  show ?thesis
    using loop_segments_moved [OF assms _ r] False
    by (auto simp: do_loop_readv_writev_def r moved_def advancing_def)
qed

text \<open>The hooks in front of a transfer return 0 or a negative error.\<close>

definition hooks_ok :: "'d vfs_env \<Rightarrow> nat \<Rightarrow> bool" where
  "hooks_ok E n \<longleftrightarrow> (\<forall>rw. file_permission E n rw \<le> 0) \<and> (\<forall>rw ppos count. area_permission E n rw ppos count \<le> 0) \<and>
     (\<forall>vec vlen e. import_iovec E vec vlen = Inl e \<longrightarrow> e \<le> 0)"

lemma verify_le_0: "hooks_ok E n \<Longrightarrow> verify E rw n ppos count s \<le> 0"
  by (auto simp: hooks_ok_def verify_def rw_verify_area_def Let_def split: option.splits)

definition read_done :: "loff_t \<Rightarrow> u64 \<Rightarrow> 'd vfs \<Rightarrow> 'd outcome \<Rightarrow> bool" where
  "read_done pos counted s r \<longleftrightarrow> (case r of ((ret, ppos), s') \<Rightarrow>
     ppos = Some (pos + of_int (max ret 0)) \<and> files s' = files s \<and> fd_table s' = fd_table s \<and>
     rchar s' = rchar s + of_int (max ret 0) * counted)"

lemma read_done_error: "ret \<le> 0 \<Longrightarrow> read_done pos counted s ((ret, Some pos), s)"
  by (simp add: read_done_def)

lemma vfs_read_done:
  assumes "reads_advance E n" "hooks_ok E n"
  shows "read_done pos 1 s (vfs_read E n buf count (Some pos) s)"
proof -
  let ?seg = "(buf, min count MAX_RW_COUNT)"
  let ?body = "case op_read E n of Some m \<Rightarrow> call_method m ?seg (Some pos) s
    | None \<Rightarrow> (case op_read_iter E n of Some m \<Rightarrow> new_sync_read m ?seg (Some pos) s
    | None \<Rightarrow> ((- EINVAL, Some pos), s))"
  have "moved (int (unat (snd ?seg))) pos s ?body"
    using assms(1) moved_call_method [of _ ?seg] moved_new_sync_read [of _ ?seg]
    by (auto simp: reads_advance_def moved_same split: option.splits)
  then obtain ret pos' s' where b: "?body = ((ret, Some pos'), s')" "advancing (int (unat (snd ?seg))) pos ret pos'"
    "same_but_world s s'" by (rule movedE)
  show ?thesis
    unfolding vfs_read_def Let_def b(1)
    using b(2) same_but_worldD [OF b(3)] verify_le_0 [OF assms(2), of READ "Some pos" count s]
    by (simp add: read_done_error) (simp add: read_done_def advancing_def inc_syscr_def add_rchar_def fsnotify_def)
qed

lemma vfs_readv_done:
  assumes "reads_advance E n" "hooks_ok E n"
  shows "read_done pos 0 s (vfs_readv E n vec vlen flags (Some pos) s)"
proof (cases "import_iovec E vec vlen")
  case (Inl e)
  then show ?thesis using assms(2) by (simp add: vfs_readv_def read_done_error hooks_ok_def)
next
  case (Inr iter)
  let ?body = "if iov_iter_count iter = 0 then ((0, Some pos), s)
               else if verify E READ n (Some pos) (of_nat (iov_iter_count iter)) s < 0
               then ((verify E READ n (Some pos) (of_nat (iov_iter_count iter)) s, Some pos), s)
               else case op_read_iter E n of
                 Some m \<Rightarrow> do_iter_readv_writev E n m iter (Some pos) flags s
               | None \<Rightarrow> do_loop_readv_writev (the (op_read E n)) iter (Some pos) flags s"
  have "moved (int (iov_iter_count iter)) pos s ?body"
    using assms(1) moved_iter [of _ E n flags iter] moved_loop [of _ iter]
    by (auto simp: reads_advance_def moved_same split: option.splits)
  then obtain ret pos' s' where b: "?body = ((ret, Some pos'), s')" "advancing (int (iov_iter_count iter)) pos ret pos'"
    "same_but_world s s'" by (rule movedE)
  show ?thesis
    unfolding vfs_readv_def Let_def Inr sum.case b(1)
    using b(2) same_but_worldD [OF b(3)]
    by (simp add: read_done_error) (simp add: read_done_def advancing_def fsnotify_def)
qed

text \<open>
  A \<open>read\<close> or \<open>readv\<close> on a seekable file whose methods keep the contract of \<open>read\<close> moves the
  position of that file by exactly the number of bytes it returns and changes no other file and
  no descriptor; an error moves nothing. The bytes are counted once in \<open>rchar\<close>, also when
  \<open>readv\<close> loops over the segments and stops at a short or failing one.
\<close>

theorem read_calls_advance:
  assumes "fd_table s fd = Some n" "FMODE_STREAM \<notin> f_mode (files s n)" "reads_advance E n" "hooks_ok E n"
    and "(ret, s') = ksys_read E fd buf count s \<or> (ret, s') = do_readv E fd vec vlen flags s"
  shows "files s' = (files s)(n := (files s n)\<lparr>f_pos := f_pos (files s n) + of_int (max ret 0)\<rparr>) \<and>
    fd_table s' = fd_table s \<and> rchar s' = rchar s + of_int (max ret 0)"
  using assms(5)
proof
  assume "(ret, s') = ksys_read E fd buf count s"
  then show ?thesis
    using assms(1,2) vfs_read_done [OF assms(3,4), of "f_pos (files s n)" s buf count]
    by (auto simp: ksys_read_def with_file_pos_def file_ppos_def read_done_def set_pos_def split: prod.splits if_splits)
next
  assume "(ret, s') = do_readv E fd vec vlen flags s"
  then show ?thesis
    using assms(1,2) vfs_readv_done [OF assms(3,4), of "f_pos (files s n)" s vec vlen flags]
    by (auto simp: do_readv_def account_read_def inc_syscr_def add_rchar_def with_file_pos_def file_ppos_def read_done_def
        set_pos_def split: prod.splits if_splits)
qed

text \<open>A file system with one file of 100 bytes; the world is its contents and is never changed.\<close>

definition demo_read :: "unit rw_method" where
  "demo_read seg ppos w =
     (let pos = (case ppos of Some p \<Rightarrow> p | None \<Rightarrow> 0);
          k = (if uint pos \<ge> 100 then 0 else min (uint (snd seg)) (100 - uint pos))
      in ((k, pos + of_int k), w))"

definition demo_env :: "unit vfs_env" where
  "demo_env = \<lparr>i_size_read = (\<lambda>_ _. 100), s_maxbytes = (\<lambda>_. OFFSET_MAX), i_sb = (\<lambda>_. 0), i_kind = (\<lambda>_. Regular),
     is_immutable = (\<lambda>_. False), is_swapfile = (\<lambda>_. False), access_ok = (\<lambda>_ _. True), file_permission = (\<lambda>_ _. 0),
     area_permission = (\<lambda>_ _ _ _. 0), op_read = (\<lambda>_. Some demo_read), op_write = (\<lambda>_. None),
     op_read_iter = (\<lambda>_. None), op_write_iter = (\<lambda>_. None), kiocb_set_rw_flags = (\<lambda>_ _. 0),
     import_iovec = (\<lambda>_ _. Inr [(0x1000, 60), (0x2000, 60)]), rlimit_fsize = - 1, is_pipe = (\<lambda>_. False),
     do_splice_direct = (\<lambda>_ pos _ out_pos _ w. ((0, pos, out_pos), w)),
     splice_file_to_pipe = (\<lambda>_ _ pos _ _ w. ((0, pos), w)), copy_method = (\<lambda>_. None),
     call_copy_method = (\<lambda>_ _ _ _ _ _ _ w. (0, w)), remap_file_range = (\<lambda>_. None)\<rparr>"

definition demo_vfs :: "loff_t \<Rightarrow> unit vfs" where
  "demo_vfs pos = \<lparr>files = (\<lambda>_. plain_file pos), fd_table = (\<lambda>fd. if fd = 3 then Some 0 else None), rchar = 0, wchar = 0,
     syscr = 0, syscw = 0, events = [], world = ()\<rparr>"

lemma demo_advances: "reads_advance demo_env n" "hooks_ok demo_env n"
  by (auto simp: reads_advance_def demo_env_def method_advances_def demo_read_def advancing_def hooks_ok_def Let_def
      split: prod.splits)

theorem read_calls_advance_witness:
  "fst (do_readv demo_env 3 0 0 0 (demo_vfs 10)) = 90 \<and>
   f_pos (files (snd (do_readv demo_env 3 0 0 0 (demo_vfs 10))) 0) = 100"
proof -
  have r: "fst (do_readv demo_env 3 0 0 0 (demo_vfs 10)) = 90"
    by (simp add: do_readv_def account_read_def with_file_pos_def demo_vfs_def file_ppos_def plain_file_def vfs_readv_def
        demo_env_def iov_iter_count_def verify_def rw_verify_area_def unsigned_offsets_def do_loop_readv_writev_def call_method_def
        demo_read_def Let_def)
  have "fd_table (demo_vfs 10) 3 = Some 0" "FMODE_STREAM \<notin> f_mode (files (demo_vfs 10) 0)"
    by (simp_all add: demo_vfs_def plain_file_def)
  from read_calls_advance [OF this demo_advances disjI2 [OF prod.collapse]]
  show ?thesis using r by (simp add: demo_vfs_def plain_file_def)
qed

end
