(* ===== verification/File_Copy.thy ===== *)
theory File_Copy
  imports File_Transfer
begin

text \<open>
  Copying between files: \<open>sendfile\<close>, \<open>copy_file_range\<close> and the checks before a write, the last
  part of \<^verbatim>\<open>src/Kernel/fs/read_write.c\<close>. Where the code mixes \<open>loff_t\<close> with \<open>size_t\<close> or
  \<open>uint64_t\<close> the arithmetic is unsigned, as in C; comparisons of two \<open>loff_t\<close> are signed.
\<close>

section \<open>sendfile\<close>

text \<open>The transfer itself: into a pipe, or through a pipe of the kernel. The result has both positions.\<close>

definition splice_files ::
  "'d vfs_env \<Rightarrow> nat \<Rightarrow> loff_t \<Rightarrow> nat \<Rightarrow> loff_t \<Rightarrow> u64 \<Rightarrow> 'd vfs \<Rightarrow> (int \<times> loff_t \<times> loff_t) \<times> 'd vfs" where
  "splice_files E in_file pos out_file out_pos count s =
     (if \<not> is_pipe E out_file then
        (case do_splice_direct E in_file pos out_file out_pos count (world s) of (r, w) \<Rightarrow> (r, s\<lparr>world := w\<rparr>))
      else
        (case splice_file_to_pipe E in_file out_file pos count (f_flags (files s out_file) AND O_NONBLOCK \<noteq> 0) (world s) of
           ((ret, pos), w) \<Rightarrow> ((ret, pos, out_pos), s\<lparr>world := w\<rparr>)))"

definition do_sendfile ::
  "'d vfs_env \<Rightarrow> u32 \<Rightarrow> u32 \<Rightarrow> loff_t option \<Rightarrow> u64 \<Rightarrow> loff_t \<Rightarrow> 'd vfs \<Rightarrow> 'd outcome" where
  "do_sendfile E out_fd in_fd ppos count max' s =
     (case fd_table s in_fd of None \<Rightarrow> ((- EBADF, ppos), s)
      | Some in_file \<Rightarrow>
      if FMODE_READ \<notin> f_mode (files s in_file) then ((- EBADF, ppos), s)
      else if ppos \<noteq> None \<and> FMODE_PREAD \<notin> f_mode (files s in_file) then ((- ESPIPE, ppos), s)
      else let pos = (case ppos of None \<Rightarrow> f_pos (files s in_file) | Some pos \<Rightarrow> pos);
               ret = verify E READ in_file (Some pos) count s
      in if ret < 0 then ((ret, ppos), s)
      else let count = min count MAX_RW_COUNT
      in case fd_table s out_fd of None \<Rightarrow> ((- EBADF, ppos), s)
      | Some out_file \<Rightarrow>
      if FMODE_WRITE \<notin> f_mode (files s out_file) then ((- EBADF, ppos), s)
      else let out_pos = f_pos (files s out_file);
               in_max = s_maxbytes E (f_inode (files s in_file));
               out_max = s_maxbytes E (f_inode (files s out_file));
               max' = (if max' = 0 then (if sint in_max \<le> sint out_max then in_max else out_max) else max')
      in if pos + count > max' \<and> sint pos \<ge> sint max' then ((- EOVERFLOW, ppos), s)
      else let count = (if pos + count > max' then max' - pos else count);
               ret = (if is_pipe E out_file then 0 else verify E WRITE out_file (Some out_pos) count s)
      in if ret < 0 then ((ret, ppos), s)
      else case splice_files E in_file pos out_file out_pos count s of ((ret, pos, out_pos), s) \<Rightarrow>
      let s = (if ret > 0 then set_pos out_file out_pos (fsnotify (Modify out_file) (fsnotify (Access in_file)
                 (add_wchar ret (add_rchar ret s)))) else s);
          s = (if ret > 0 \<and> ppos = None then set_pos in_file pos s else s);
          ppos = (if ret > 0 then map_option (\<lambda>_. pos) ppos else ppos);
          s = inc_syscw (inc_syscr s)
      in ((if sint pos > sint max' then - EOVERFLOW else ret, ppos), s))"

text \<open>
  The system calls: the offset is read from the caller (or absent), and the new one is stored,
  also when the transfer failed.
\<close>

definition sendfile_with ::
  "'d vfs_env \<Rightarrow> u32 \<Rightarrow> u32 \<Rightarrow> loff_t user_in \<Rightarrow> user_out \<Rightarrow> u64 \<Rightarrow> loff_t \<Rightarrow> 'd vfs \<Rightarrow> 'd outcome" where
  "sendfile_with E out_fd in_fd offset offset_out count max' s =
     (if offset = Null_in then
        (case do_sendfile E out_fd in_fd None count 0 s of ((ret, _), s) \<Rightarrow> ((ret, None), s))
      else case copy_from_user offset of None \<Rightarrow> ((- EFAULT, None), s)
      | Some pos \<Rightarrow>
          (case do_sendfile E out_fd in_fd (Some pos) count max' s of ((ret, ppos), s) \<Rightarrow>
             case copy_to_user offset_out (case ppos of Some p \<Rightarrow> p | None \<Rightarrow> pos) of
               None \<Rightarrow> ((- EFAULT, None), s) | Some p \<Rightarrow> ((ret, Some p), s)))"

definition sys_sendfile ::
  "'d vfs_env \<Rightarrow> u32 \<Rightarrow> u32 \<Rightarrow> loff_t user_in \<Rightarrow> user_out \<Rightarrow> u64 \<Rightarrow> 'd vfs \<Rightarrow> 'd outcome" where
  "sys_sendfile E out_fd in_fd offset offset_out count s =
     sendfile_with E out_fd in_fd offset offset_out count MAX_NON_LFS s"

definition sys_sendfile64 ::
  "'d vfs_env \<Rightarrow> u32 \<Rightarrow> u32 \<Rightarrow> loff_t user_in \<Rightarrow> user_out \<Rightarrow> u64 \<Rightarrow> 'd vfs \<Rightarrow> 'd outcome" where
  "sys_sendfile64 E out_fd in_fd offset offset_out count s =
     sendfile_with E out_fd in_fd offset offset_out count 0 s"

section \<open>Checks before a write\<close>

definition min_loff :: "loff_t \<Rightarrow> loff_t \<Rightarrow> loff_t" where
  "min_loff a b = (if sint a \<le> sint b then a else b)"

text \<open>The largest offset for a file: without \<open>O_LARGEFILE\<close> it is below 2 GiB.\<close>

definition max_size :: "'d vfs_env \<Rightarrow> open_file \<Rightarrow> loff_t" where
  "max_size E f = (if f_flags f AND O_LARGEFILE = 0 then MAX_NON_LFS else s_maxbytes E (f_inode f))"

text \<open>The result and the count that may be written.\<close>

definition generic_write_check_limits ::
  "'d vfs_env \<Rightarrow> nat \<Rightarrow> loff_t \<Rightarrow> loff_t \<Rightarrow> 'd vfs \<Rightarrow> (int \<times> loff_t) \<times> 'd vfs" where
  "generic_write_check_limits E n pos count s =
     (let limit = rlimit_fsize E in
      if limit \<noteq> - 1 \<and> sint pos \<ge> sint limit then ((- EFBIG, count), fsnotify Signal_XFSZ s)
      else let count = (if limit \<noteq> - 1 then min_loff count (limit - pos) else count);
               max_size = max_size E (files s n)
      in if sint pos \<ge> sint max_size then ((- EFBIG, count), s)
      else ((0, min_loff count (max_size - pos)), s))"

text \<open>A \<open>kiocb\<close> as the checks read it.\<close>

record kiocb =
  ki_file :: nat
  ki_pos :: loff_t
  ki_append :: bool
  ki_nowait :: bool
  ki_direct :: bool

definition generic_write_checks_count ::
  "'d vfs_env \<Rightarrow> kiocb \<Rightarrow> loff_t \<Rightarrow> 'd vfs \<Rightarrow> ((int \<times> loff_t) \<times> kiocb) \<times> 'd vfs" where
  "generic_write_checks_count E iocb count s =
     (let f = files s (ki_file iocb) in
      if is_swapfile E (f_inode f) then (((- ETXTBSY, count), iocb), s)
      else if count = 0 then (((0, count), iocb), s)
      else let iocb = (if ki_append iocb then iocb\<lparr>ki_pos := i_size_read E (f_inode f) (world s)\<rparr> else iocb)
      in if ki_nowait iocb \<and> \<not> (ki_direct iocb \<or> FMODE_BUF_WASYNC \<in> f_mode f) then (((- EINVAL, count), iocb), s)
      else case generic_write_check_limits E (ki_file iocb) (ki_pos iocb) count s of (r, s) \<Rightarrow> ((r, iocb), s))"

text \<open>\<open>generic_write_checks\<close> on an iterator with \<open>from\<close> bytes: the result and the bytes left in it.\<close>

definition generic_write_checks ::
  "'d vfs_env \<Rightarrow> kiocb \<Rightarrow> u64 \<Rightarrow> 'd vfs \<Rightarrow> ((int \<times> u64) \<times> kiocb) \<times> 'd vfs" where
  "generic_write_checks E iocb from s =
     (case generic_write_checks_count E iocb from s of (((ret, count), iocb), s) \<Rightarrow>
        if ret \<noteq> 0 then (((ret, from), iocb), s)
        else let left = min from count in (((int (unat left), left), iocb), s))"

definition generic_file_rw_checks :: "'d vfs_env \<Rightarrow> open_file \<Rightarrow> open_file \<Rightarrow> int" where
  "generic_file_rw_checks E file_in file_out =
     (if i_kind E (f_inode file_in) = Directory \<or> i_kind E (f_inode file_out) = Directory then - EISDIR
      else if i_kind E (f_inode file_in) \<noteq> Regular \<or> i_kind E (f_inode file_out) \<noteq> Regular then - EINVAL
      else if FMODE_READ \<notin> f_mode file_in \<or> FMODE_WRITE \<notin> f_mode file_out \<or> f_flags file_out AND O_APPEND \<noteq> 0
      then - EBADF
      else 0)"

section \<open>copy\_file\_range\<close>

abbreviation (input) COPY_FILE_SPLICE :: u32 where "COPY_FILE_SPLICE \<equiv> 0x80000000"

definition generic_copy_file_checks ::
  "'d vfs_env \<Rightarrow> nat \<Rightarrow> loff_t \<Rightarrow> nat \<Rightarrow> loff_t \<Rightarrow> u64 \<Rightarrow> u32 \<Rightarrow> 'd vfs \<Rightarrow> (int \<times> u64) \<times> 'd vfs" where
  "generic_copy_file_checks E file_in pos_in file_out pos_out req_count flags s =
     (let inode_in = f_inode (files s file_in); inode_out = f_inode (files s file_out);
          ret = generic_file_rw_checks E (files s file_in) (files s file_out)
      in if ret \<noteq> 0 then ((ret, req_count), s)
      else if flags AND COPY_FILE_SPLICE = 0 \<and>
        (if copy_method E file_out \<noteq> None then copy_method E file_in \<noteq> copy_method E file_out
         else i_sb E inode_in \<noteq> i_sb E inode_out) then ((- EXDEV, req_count), s)
      else if is_immutable E inode_out then ((- EPERM, req_count), s)
      else if is_swapfile E inode_in \<or> is_swapfile E inode_out then ((- ETXTBSY, req_count), s)
      else let count = req_count in
      if pos_in + count < pos_in \<or> pos_out + count < pos_out then ((- EOVERFLOW, req_count), s)
      else let size_in = i_size_read E inode_in (world s);
               count = (if sint pos_in \<ge> sint size_in then 0 else min count (size_in - pos_in))
      in case generic_write_check_limits E file_out pos_out count s of ((ret, count), s) \<Rightarrow>
      if ret \<noteq> 0 then ((ret, req_count), s)
      else if inode_in = inode_out \<and> pos_out + count > pos_in \<and> pos_out < pos_in + count then ((- EINVAL, req_count), s)
      else ((0, count), s))"

text \<open>The choice of the method, with \<open>file_start_write\<close> held: its result, or None for a splice.\<close>

definition copy_by_method ::
  "'d vfs_env \<Rightarrow> nat \<Rightarrow> loff_t \<Rightarrow> nat \<Rightarrow> loff_t \<Rightarrow> u64 \<Rightarrow> u32 \<Rightarrow> bool \<Rightarrow> bool \<Rightarrow> 'd vfs \<Rightarrow> int option \<times> 'd vfs" where
  "copy_by_method E file_in pos_in file_out pos_out len flags by_splice samesb s =
     (case copy_method E file_out of
        Some m \<Rightarrow> if by_splice then (None, s)
          else (case call_copy_method E m file_in pos_in file_out pos_out len flags (world s) of (ret, w) \<Rightarrow>
            (Some ret, s\<lparr>world := w\<rparr>))
      | None \<Rightarrow> (case remap_file_range E file_in of
          Some m \<Rightarrow> if by_splice \<or> \<not> samesb then (if by_splice \<or> samesb then None else Some 0, s)
            else (case m pos_in file_out pos_out (min MAX_RW_COUNT len) (world s) of (ret, w) \<Rightarrow>
              (if ret \<le> 0 then None else Some ret, s\<lparr>world := w\<rparr>))
        | None \<Rightarrow> (if by_splice \<or> samesb then None else Some 0, s)))"

definition vfs_copy_file_range ::
  "'d vfs_env \<Rightarrow> nat \<Rightarrow> loff_t \<Rightarrow> nat \<Rightarrow> loff_t \<Rightarrow> u64 \<Rightarrow> u32 \<Rightarrow> 'd vfs \<Rightarrow> int \<times> 'd vfs" where
  "vfs_copy_file_range E file_in pos_in file_out pos_out len flags s =
     (let by_splice = (flags AND COPY_FILE_SPLICE \<noteq> 0);
          samesb = (i_sb E (f_inode (files s file_in)) = i_sb E (f_inode (files s file_out)))
      in if flags AND NOT COPY_FILE_SPLICE \<noteq> 0 then (- EINVAL, s)
      else case generic_copy_file_checks E file_in pos_in file_out pos_out len flags s of ((ret, len), s) \<Rightarrow>
      if ret \<noteq> 0 then (ret, s)
      else let ret = verify E READ file_in (Some pos_in) len s
      in if ret \<noteq> 0 then (ret, s)
      else let ret = verify E WRITE file_out (Some pos_out) len s
      in if ret \<noteq> 0 then (ret, s)
      else if len = 0 then (0, s)
      else case copy_by_method E file_in pos_in file_out pos_out len flags by_splice samesb s of (r, s) \<Rightarrow>
      case (case r of Some ret \<Rightarrow> (ret, s)
            | None \<Rightarrow> (case do_splice_direct E file_in pos_in file_out pos_out (min len MAX_RW_COUNT) (world s) of
                ((ret, _, _), w) \<Rightarrow> (ret, s\<lparr>world := w\<rparr>))) of (ret, s) \<Rightarrow>
      let s = (if ret > 0 then add_wchar ret (fsnotify (Modify file_out) (add_rchar ret (fsnotify (Access file_in) s))) else s)
      in (ret, inc_syscw (inc_syscr s)))"

text \<open>
  The system call. An offset given by the caller is read from and written back to user memory
  (the second component of the outcome holds what was stored), otherwise the position of the
  file is used and updated.
\<close>

definition sys_copy_file_range ::
  "'d vfs_env \<Rightarrow> u32 \<Rightarrow> loff_t user_in \<Rightarrow> user_out \<Rightarrow> u32 \<Rightarrow> loff_t user_in \<Rightarrow> user_out \<Rightarrow> u64 \<Rightarrow> u32 \<Rightarrow> 'd vfs \<Rightarrow>
   (int \<times> loff_t option \<times> loff_t option) \<times> 'd vfs" where
  "sys_copy_file_range E fd_in off_in off_in_out fd_out off_out off_out_out len flags s =
     (case fd_table s fd_in of None \<Rightarrow> ((- EBADF, None, None), s) | Some file_in \<Rightarrow>
      case fd_table s fd_out of None \<Rightarrow> ((- EBADF, None, None), s) | Some file_out \<Rightarrow>
      case (if off_in = Null_in then Some (f_pos (files s file_in)) else copy_from_user off_in) of
        None \<Rightarrow> ((- EFAULT, None, None), s) | Some pos_in \<Rightarrow>
      case (if off_out = Null_in then Some (f_pos (files s file_out)) else copy_from_user off_out) of
        None \<Rightarrow> ((- EFAULT, None, None), s) | Some pos_out \<Rightarrow>
      if flags \<noteq> 0 then ((- EINVAL, None, None), s)
      else case vfs_copy_file_range E file_in pos_in file_out pos_out len flags s of (ret, s) \<Rightarrow>
      if ret \<le> 0 then ((ret, None, None), s)
      else let pos_in = pos_in + of_int ret; pos_out = pos_out + of_int ret;
               stored_in = (if off_in = Null_in then None else copy_to_user off_in_out pos_in);
               s = (if off_in = Null_in then set_pos file_in pos_in s else s);
               stored_out = (if off_out = Null_in then None else copy_to_user off_out_out pos_out);
               s = (if off_out = Null_in then set_pos file_out pos_out s else s);
               fault = (off_in \<noteq> Null_in \<and> stored_in = None \<or> off_out \<noteq> Null_in \<and> stored_out = None)
      in ((if fault then - EFAULT else ret, stored_in, stored_out), s))"


section \<open>What the checks guarantee\<close>

lemma uint_diff:
  fixes a b :: loff_t
  assumes "uint b \<le> uint a"
  shows "uint (a - b) = uint a - uint b"
  using assms by (simp add: uint_sub_if_size)

lemma nonneg_uint:
  fixes a :: loff_t
  assumes "0 \<le> sint a"
  shows "uint a = sint a"
  using assms uint_lt2p [of a] by (simp add: sint_of_uint split: if_splits)

lemma min_loff_room:
  assumes "0 \<le> sint pos" "sint pos < sint bound" "0 \<le> sint count"
  shows "0 \<le> sint (min_loff count (bound - pos)) \<and> sint (min_loff count (bound - pos)) \<le> sint count \<and>
    sint pos + sint (min_loff count (bound - pos)) \<le> sint bound"
proof -
  have u: "uint pos = sint pos" "uint bound = sint bound" using nonneg_uint assms by simp_all
  then have "uint (bound - pos) = sint bound - sint pos" using assms(2) by (simp add: uint_diff)
  moreover have "sint bound < 2 ^ 63" using sint_range_size [of bound] by (simp add: word_size)
  ultimately have "sint (bound - pos) = sint bound - sint pos"
    using assms(1) by (simp add: sint_of_uint [of "bound - pos"])
  then show ?thesis using assms by (simp add: min_loff_def)
qed

lemma write_check_limits_room:
  assumes "generic_write_check_limits E n pos count s = ((0, count'), s')" "0 \<le> sint pos" "0 \<le> sint count"
  shows "s' = s \<and> 0 \<le> sint count' \<and> sint count' \<le> sint count \<and>
    (rlimit_fsize E \<noteq> - 1 \<longrightarrow> sint pos + sint count' \<le> sint (rlimit_fsize E)) \<and>
    sint pos + sint count' \<le> sint (max_size E (files s n))"
proof -
  define limit where "limit = rlimit_fsize E"
  define m where "m = max_size E (files s n)"
  define c where "c = (if limit \<noteq> - 1 then min_loff count (limit - pos) else count)"
  from assms(1) have a: "limit = - 1 \<or> sint pos < sint limit" "sint pos < sint m" "count' = min_loff c (m - pos)" "s' = s"
    unfolding generic_write_check_limits_def Let_def limit_def m_def c_def by (auto split: if_splits)
  have c: "0 \<le> sint c" "sint c \<le> sint count" "limit \<noteq> - 1 \<longrightarrow> sint pos + sint c \<le> sint limit"
    using a(1) assms(2,3) min_loff_room [of pos limit count] by (auto simp: c_def)
  show ?thesis
    using min_loff_room [OF assms(2) a(2) c(1)] a(3,4) c unfolding limit_def [symmetric] m_def [symmetric] by auto
qed



end
