(* ===== verification/File_Open.thy ===== *)
theory File_Open
  imports File_Offsets
begin

text \<open>
  Opening and closing: \<open>build_open_how\<close>, \<open>build_open_flags\<close>, the \<open>open\<close> family, \<open>close\<close> and
  \<open>do_dentry_open\<close> of \<^verbatim>\<open>src/Kernel/fs/open.c\<close>. Flag words keep their bits; the lookup flags
  and access modes, which only this file combines, are sets.
\<close>

section \<open>Flags\<close>

abbreviation (input) O_WRONLY :: u64 where "O_WRONLY \<equiv> 1"
abbreviation (input) O_ACCMODE :: u64 where "O_ACCMODE \<equiv> 3"
abbreviation (input) O_CREAT :: u64 where "O_CREAT \<equiv> 0x40"
abbreviation (input) O_EXCL :: u64 where "O_EXCL \<equiv> 0x80"
abbreviation (input) O_TRUNC :: u64 where "O_TRUNC \<equiv> 0x200"
abbreviation (input) O_APPEND64 :: u64 where "O_APPEND64 \<equiv> 0x400"
abbreviation (input) O_DSYNC :: u64 where "O_DSYNC \<equiv> 0x1000"
abbreviation (input) O_LARGEFILE64 :: u64 where "O_LARGEFILE64 \<equiv> 0x8000"
abbreviation (input) O_DIRECTORY :: u64 where "O_DIRECTORY \<equiv> 0x10000"
abbreviation (input) O_NOFOLLOW :: u64 where "O_NOFOLLOW \<equiv> 0x20000"
abbreviation (input) O_CLOEXEC :: u64 where "O_CLOEXEC \<equiv> 0x80000"
abbreviation (input) O_SYNC_BIT :: u64 where "O_SYNC_BIT \<equiv> 0x100000"
abbreviation (input) O_PATH :: u64 where "O_PATH \<equiv> 0x200000"
abbreviation (input) O_TMPFILE_BIT :: u64 where "O_TMPFILE_BIT \<equiv> 0x400000"
abbreviation (input) FMODE_NONOTIFY_BIT :: u64 where "FMODE_NONOTIFY_BIT \<equiv> 0x4000000"
abbreviation (input) VALID_OPEN_FLAGS :: u64 where "VALID_OPEN_FLAGS \<equiv> 0x7FFFC3"
abbreviation (input) O_PATH_FLAGS :: u64 where "O_PATH_FLAGS \<equiv> 0x2B0000"
abbreviation (input) S_IALLUGO :: u64 where "S_IALLUGO \<equiv> 0xFFF"
abbreviation (input) S_IFREG_BIT :: u64 where "S_IFREG_BIT \<equiv> 0x8000"
abbreviation (input) RESOLVE_NO_XDEV :: u64 where "RESOLVE_NO_XDEV \<equiv> 1"
abbreviation (input) RESOLVE_NO_MAGICLINKS :: u64 where "RESOLVE_NO_MAGICLINKS \<equiv> 2"
abbreviation (input) RESOLVE_NO_SYMLINKS :: u64 where "RESOLVE_NO_SYMLINKS \<equiv> 4"
abbreviation (input) RESOLVE_BENEATH :: u64 where "RESOLVE_BENEATH \<equiv> 8"
abbreviation (input) RESOLVE_IN_ROOT :: u64 where "RESOLVE_IN_ROOT \<equiv> 16"
abbreviation (input) RESOLVE_CACHED :: u64 where "RESOLVE_CACHED \<equiv> 32"
abbreviation (input) VALID_RESOLVE_FLAGS :: u64 where "VALID_RESOLVE_FLAGS \<equiv> 63"

datatype lookup = LOOKUP_FOLLOW | LOOKUP_DIRECTORY | LOOKUP_OPEN | LOOKUP_CREATE | LOOKUP_EXCL
  | LOOKUP_NO_XDEV | LOOKUP_NO_MAGICLINKS | LOOKUP_NO_SYMLINKS | LOOKUP_BENEATH | LOOKUP_IN_ROOT | LOOKUP_CACHED
  | LOOKUP_EMPTY | LOOKUP_REVAL

datatype access_mode = MAY_READ | MAY_WRITE | MAY_APPEND

record open_how =
  how_flags :: u64
  how_mode :: u64
  how_resolve :: u64

record open_flags =
  open_flag :: u64
  open_mode :: u64
  acc_mode :: "access_mode set"
  intent :: "lookup set"
  lookup_flags :: "lookup set"

definition WILL_CREATE :: "u64 \<Rightarrow> bool" where
  "WILL_CREATE flags \<longleftrightarrow> has_flag flags (O_CREAT OR O_TMPFILE_BIT)"

definition build_open_how :: "u32 \<Rightarrow> u16 \<Rightarrow> open_how" where
  "build_open_how flags mode =
     (let how = \<lparr>how_flags = ucast flags AND VALID_OPEN_FLAGS, how_mode = ucast mode AND S_IALLUGO, how_resolve = 0\<rparr>;
          how = (if has_flag (how_flags how) O_PATH then how\<lparr>how_flags := how_flags how AND O_PATH_FLAGS\<rparr> else how);
          how = (if \<not> WILL_CREATE (how_flags how) then how\<lparr>how_mode := 0\<rparr> else how)
      in how)"

text \<open>\<open>ACC_MODE\<close> of the access mode bits.\<close>

definition ACC_MODE :: "u64 \<Rightarrow> access_mode set" where
  "ACC_MODE flags = (if flags AND O_ACCMODE = 0 then {MAY_READ} else if flags AND O_ACCMODE = 1 then {MAY_WRITE}
     else {MAY_READ, MAY_WRITE})"

definition resolve_lookup :: "u64 \<Rightarrow> lookup set" where
  "resolve_lookup resolve =
     (if has_flag resolve RESOLVE_NO_XDEV then {LOOKUP_NO_XDEV} else {}) \<union>
     (if has_flag resolve RESOLVE_NO_MAGICLINKS then {LOOKUP_NO_MAGICLINKS} else {}) \<union>
     (if has_flag resolve RESOLVE_NO_SYMLINKS then {LOOKUP_NO_SYMLINKS} else {}) \<union>
     (if has_flag resolve RESOLVE_BENEATH then {LOOKUP_BENEATH} else {}) \<union>
     (if has_flag resolve RESOLVE_IN_ROOT then {LOOKUP_IN_ROOT} else {})"

definition build_open_flags :: "open_how \<Rightarrow> int + open_flags" where
  "build_open_flags how =
     (let flags = how_flags how;
          strip = FMODE_NONOTIFY_BIT OR O_CLOEXEC;
          acc = ACC_MODE flags;
          flags = flags AND NOT strip
      in if has_flag flags (NOT VALID_OPEN_FLAGS) then Inl (- EINVAL)
      else if has_flag (how_resolve how) (NOT VALID_RESOLVE_FLAGS) then Inl (- EINVAL)
      else if has_flag (how_resolve how) RESOLVE_BENEATH \<and> has_flag (how_resolve how) RESOLVE_IN_ROOT then Inl (- EINVAL)
      else if WILL_CREATE flags \<and> has_flag (how_mode how) (NOT S_IALLUGO) then Inl (- EINVAL)
      else if \<not> WILL_CREATE flags \<and> how_mode how \<noteq> 0 then Inl (- EINVAL)
      else let mode = (if WILL_CREATE flags then how_mode how OR S_IFREG_BIT else 0)
      in if flags AND (O_DIRECTORY OR O_CREAT) = O_DIRECTORY OR O_CREAT then Inl (- EINVAL)
      else if has_flag flags O_TMPFILE_BIT \<and> \<not> has_flag flags O_DIRECTORY then Inl (- EINVAL)
      else if has_flag flags O_TMPFILE_BIT \<and> MAY_WRITE \<notin> acc then Inl (- EINVAL)
      else if has_flag flags O_PATH \<and> has_flag flags (NOT O_PATH_FLAGS) then Inl (- EINVAL)
      else let acc = (if has_flag flags O_PATH then {} else acc);
               flags = (if has_flag flags O_SYNC_BIT then flags OR O_DSYNC else flags);
               open_flag' = flags;
               acc = (if has_flag flags O_TRUNC then insert MAY_WRITE acc else acc);
               acc = (if has_flag flags O_APPEND64 then insert MAY_APPEND acc else acc);
               intent' = (if has_flag flags O_PATH then {} else {LOOKUP_OPEN});
               intent' = (if has_flag flags O_CREAT then insert LOOKUP_CREATE intent' else intent');
               intent' = (if has_flag flags O_CREAT \<and> has_flag flags O_EXCL then insert LOOKUP_EXCL intent' else intent');
               flags = (if has_flag flags O_CREAT \<and> has_flag flags O_EXCL then flags OR O_NOFOLLOW else flags);
               lf = (if has_flag flags O_DIRECTORY then {LOOKUP_DIRECTORY} else {}) \<union>
                    (if has_flag flags O_NOFOLLOW then {} else {LOOKUP_FOLLOW}) \<union> resolve_lookup (how_resolve how)
      in if has_flag (how_resolve how) RESOLVE_CACHED \<and> has_flag flags (O_TRUNC OR O_CREAT OR O_TMPFILE_BIT) then Inl (- EAGAIN)
      else let lf = (if has_flag (how_resolve how) RESOLVE_CACHED then insert LOOKUP_CACHED lf else lf)
      in Inr \<lparr>open_flag = open_flag', open_mode = mode, acc_mode = acc, intent = intent', lookup_flags = lf\<rparr>)"

section \<open>The descriptor table\<close>

text \<open>
  The descriptors in use and the files installed in them; \<open>open_call_counter\<close> is the counter the
  project adds.
\<close>

record 'd fd_state =
  fds_in_use :: "u32 set"
  fd_files :: "u32 \<Rightarrow> nat option"
  open_call_counter :: u64
  fs_world :: 'd

text \<open>
  From outside the file: copying in the name, the choice of a free descriptor, the path walk, the
  reference count and the \<open>flush\<close> method of a file, the release of its locks, and \<open>fput\<close>.
\<close>

record ('n, 'd) open_env =
  getname :: "u64 \<Rightarrow> int + 'n"
  get_unused_fd_flags :: "u64 \<Rightarrow> u32 set \<Rightarrow> int + u32"
  do_filp_open :: "int \<Rightarrow> 'n \<Rightarrow> open_flags \<Rightarrow> 'd \<Rightarrow> (int + nat) \<times> 'd"
  force_o_largefile :: bool
  copy_open_how :: "u64 \<Rightarrow> u64 \<Rightarrow> int + open_how"
  file_count :: "nat \<Rightarrow> 'd \<Rightarrow> nat"
  op_flush :: "nat \<Rightarrow> ('d \<Rightarrow> int \<times> 'd) option"
  opened_by_path :: "nat \<Rightarrow> bool"
  drop_locks :: "nat \<Rightarrow> 'd \<Rightarrow> 'd"
  fput_file :: "nat \<Rightarrow> 'd \<Rightarrow> 'd"

abbreviation (input) AT_FDCWD :: int where "AT_FDCWD \<equiv> - 100"

definition do_sys_openat2 :: "('n, 'd) open_env \<Rightarrow> int \<Rightarrow> u64 \<Rightarrow> open_how \<Rightarrow> 'd fd_state \<Rightarrow> int \<times> 'd fd_state" where
  "do_sys_openat2 E dfd filename how s =
     (case build_open_flags how of Inl e \<Rightarrow> (e, s)
      | Inr op \<Rightarrow>
      case getname E filename of Inl e \<Rightarrow> (e, s)
      | Inr tmp \<Rightarrow>
      case get_unused_fd_flags E (how_flags how) (fds_in_use s) of Inl e \<Rightarrow> (e, s)
      | Inr fd \<Rightarrow>
        let s = s\<lparr>fds_in_use := insert fd (fds_in_use s)\<rparr> in
        case do_filp_open E dfd tmp op (fs_world s) of
          (Inl e, w) \<Rightarrow> (e, s\<lparr>fds_in_use := fds_in_use s - {fd}, fs_world := w\<rparr>)
        | (Inr f, w) \<Rightarrow> (int (unat fd), s\<lparr>fd_files := (fd_files s)(fd := Some f), fs_world := w\<rparr>))"

definition do_sys_open :: "('n, 'd) open_env \<Rightarrow> int \<Rightarrow> u64 \<Rightarrow> u32 \<Rightarrow> u16 \<Rightarrow> 'd fd_state \<Rightarrow> int \<times> 'd fd_state" where
  "do_sys_open E dfd filename flags mode s =
     (let s = s\<lparr>open_call_counter := open_call_counter s + 1\<rparr> in
      do_sys_openat2 E dfd filename (build_open_how flags mode) s)"

definition with_largefile :: "('n, 'd) open_env \<Rightarrow> u32 \<Rightarrow> u32" where
  "with_largefile E flags = (if force_o_largefile E then flags OR 0x8000 else flags)"

definition sys_open :: "('n, 'd) open_env \<Rightarrow> u64 \<Rightarrow> u32 \<Rightarrow> u16 \<Rightarrow> 'd fd_state \<Rightarrow> int \<times> 'd fd_state" where
  "sys_open E filename flags mode s = do_sys_open E AT_FDCWD filename (with_largefile E flags) mode s"

definition sys_openat :: "('n, 'd) open_env \<Rightarrow> int \<Rightarrow> u64 \<Rightarrow> u32 \<Rightarrow> u16 \<Rightarrow> 'd fd_state \<Rightarrow> int \<times> 'd fd_state" where
  "sys_openat E dfd filename flags mode s = do_sys_open E dfd filename (with_largefile E flags) mode s"

abbreviation (input) OPEN_HOW_SIZE_VER0 :: u64 where "OPEN_HOW_SIZE_VER0 \<equiv> 24"

definition sys_openat2 :: "('n, 'd) open_env \<Rightarrow> int \<Rightarrow> u64 \<Rightarrow> u64 \<Rightarrow> u64 \<Rightarrow> 'd fd_state \<Rightarrow> int \<times> 'd fd_state" where
  "sys_openat2 E dfd filename how usize s =
     (if usize < OPEN_HOW_SIZE_VER0 then (- EINVAL, s)
      else case copy_open_how E how usize of Inl err \<Rightarrow> (err, s)
      | Inr tmp \<Rightarrow>
        let tmp = (if \<not> has_flag (how_flags tmp) O_PATH \<and> force_o_largefile E
                   then tmp\<lparr>how_flags := how_flags tmp OR O_LARGEFILE64\<rparr> else tmp)
        in do_sys_openat2 E dfd filename tmp s)"

definition sys_creat :: "('n, 'd) open_env \<Rightarrow> u64 \<Rightarrow> u16 \<Rightarrow> 'd fd_state \<Rightarrow> int \<times> 'd fd_state" where
  "sys_creat E pathname mode s = do_sys_open E AT_FDCWD pathname (with_largefile E (0x40 OR 1 OR 0x200)) mode s"

definition compat_sys_openat :: "('n, 'd) open_env \<Rightarrow> int \<Rightarrow> u64 \<Rightarrow> u32 \<Rightarrow> u16 \<Rightarrow> 'd fd_state \<Rightarrow> int \<times> 'd fd_state" where
  "compat_sys_openat E dfd filename flags mode s = do_sys_open E dfd filename flags mode s"

definition compat_sys_open :: "('n, 'd) open_env \<Rightarrow> u64 \<Rightarrow> u32 \<Rightarrow> u16 \<Rightarrow> 'd fd_state \<Rightarrow> int \<times> 'd fd_state" where
  "compat_sys_open E filename flags mode s = do_sys_open E AT_FDCWD filename flags mode s"

definition filp_flush :: "('n, 'd) open_env \<Rightarrow> nat \<Rightarrow> 'd \<Rightarrow> int \<times> 'd" where
  "filp_flush E f w =
     (if file_count E f w = 0 then (0, w)
      else case (case op_flush E f of Some flush \<Rightarrow> flush w | None \<Rightarrow> (0, w)) of (retval, w) \<Rightarrow>
        (retval, if \<not> opened_by_path E f then drop_locks E f w else w))"

definition filp_close :: "('n, 'd) open_env \<Rightarrow> nat \<Rightarrow> 'd \<Rightarrow> int \<times> 'd" where
  "filp_close E f w = (case filp_flush E f w of (retval, w) \<Rightarrow> (retval, fput_file E f w))"

text \<open>\<open>close\<close>: the restart codes of \<open>flush\<close> become \<open>-EINTR\<close>.\<close>

abbreviation (input) ERESTARTSYS :: int where "ERESTARTSYS \<equiv> 512"
abbreviation (input) ERESTARTNOINTR :: int where "ERESTARTNOINTR \<equiv> 513"
abbreviation (input) ERESTARTNOHAND :: int where "ERESTARTNOHAND \<equiv> 514"
abbreviation (input) ERESTART_RESTARTBLOCK :: int where "ERESTART_RESTARTBLOCK \<equiv> 516"

definition sys_close :: "('n, 'd) open_env \<Rightarrow> u32 \<Rightarrow> 'd fd_state \<Rightarrow> int \<times> 'd fd_state" where
  "sys_close E fd s =
     (case fd_files s fd of None \<Rightarrow> (- EBADF, s)
      | Some f \<Rightarrow>
        let s = s\<lparr>fd_files := (fd_files s)(fd := None), fds_in_use := fds_in_use s - {fd}\<rparr> in
        case filp_flush E f (fs_world s) of (retval, w) \<Rightarrow>
        let s = s\<lparr>fs_world := fput_file E f w\<rparr> in
        (if retval \<in> {- ERESTARTSYS, - ERESTARTNOINTR, - ERESTARTNOHAND, - ERESTART_RESTARTBLOCK} then - EINTR else retval, s))"


section \<open>Files from the open methods\<close>

definition generic_file_open :: "loff_t \<Rightarrow> open_file \<Rightarrow> int" where
  "generic_file_open i_size f = (if f_flags f AND 0x8000 = 0 \<and> sint i_size > 0x7FFFFFFF then - EOVERFLOW else 0)"

definition nonseekable_open :: "open_file \<Rightarrow> int \<times> open_file" where
  "nonseekable_open f = (0, f\<lparr>f_mode := f_mode f - {FMODE_LSEEK, FMODE_PREAD, FMODE_PWRITE}\<rparr>)"

definition stream_open :: "open_file \<Rightarrow> int \<times> open_file" where
  "stream_open f =
     (0, f\<lparr>f_mode := insert FMODE_STREAM (f_mode f - {FMODE_LSEEK, FMODE_PREAD, FMODE_PWRITE, FMODE_ATOMIC_POS})\<rparr>)"

section \<open>do\_dentry\_open\<close>

text \<open>
  The page cache, read-ahead and write-back error state of the file are left out, and on an error
  the file is returned as it is at that point (the code clears its path and inode pointers).
\<close>

text \<open>
  The references an open takes: readers and writers of the inode, writers of the mount (and of the
  upper mount of a backing file), the path and the module of the file operations.
\<close>

record open_refs =
  i_readcount :: int
  i_writecount :: int
  mnt_writers :: int
  backing_writers :: int
  path_refs :: int
  fops_refs :: int
  open_events :: nat

record dentry_env =
  d_special :: bool
  d_reg_or_dir :: bool
  d_backing :: bool
  get_write_access :: int
  mnt_get_write_access :: int
  backing_get_write_access :: int
  fops_present :: bool
  security_file_open :: int
  break_lease :: int
  open_method :: "(open_file \<Rightarrow> int \<times> open_file) option"
  can_read :: bool
  can_write :: bool
  has_llseek :: bool
  direct_io :: bool

definition file_get_write_access :: "dentry_env \<Rightarrow> open_refs \<Rightarrow> int \<times> open_refs" where
  "file_get_write_access E r =
     (if get_write_access E \<noteq> 0 then (get_write_access E, r)
      else let r1 = r\<lparr>i_writecount := i_writecount r + 1\<rparr> in
      if mnt_get_write_access E \<noteq> 0 then (mnt_get_write_access E, r1\<lparr>i_writecount := i_writecount r1 - 1\<rparr>)
      else let r2 = r1\<lparr>mnt_writers := mnt_writers r1 + 1\<rparr> in
      if d_backing E then
        (if backing_get_write_access E \<noteq> 0
         then (backing_get_write_access E, r2\<lparr>mnt_writers := mnt_writers r2 - 1, i_writecount := i_writecount r2 - 1\<rparr>)
         else (0, r2\<lparr>backing_writers := backing_writers r2 + 1\<rparr>))
      else (0, r2))"

text \<open>\<open>put_file_access\<close>, from the header of the directory: the reverse of the accesses an open file holds.\<close>

definition access_released :: "dentry_env \<Rightarrow> open_file \<Rightarrow> open_refs \<Rightarrow> open_refs \<Rightarrow> bool" where
  "access_released E f r r' \<longleftrightarrow> r' =
     (if FMODE_READ \<in> f_mode f \<and> FMODE_WRITE \<notin> f_mode f then r\<lparr>i_readcount := i_readcount r - 1\<rparr>
      else if FMODE_WRITER \<in> f_mode f then
        r\<lparr>i_writecount := i_writecount r - 1, mnt_writers := mnt_writers r - 1,
          backing_writers := backing_writers r - (if d_backing E then 1 else 0)\<rparr>
      else r)"

definition cleanup_all ::
  "dentry_env \<Rightarrow> (open_file \<Rightarrow> open_refs \<Rightarrow> open_refs) \<Rightarrow> int \<Rightarrow> open_file \<Rightarrow> open_refs \<Rightarrow> int \<times> open_file \<times> open_refs" where
  "cleanup_all E put_file_access error f r =
     (let error = (if error > 0 then - EINVAL else error);
          r = put_file_access f (if fops_present E then r\<lparr>fops_refs := fops_refs r - 1\<rparr> else r)
      in (error, f, r\<lparr>path_refs := path_refs r - 1\<rparr>))"

text \<open>The mode bits that depend on the methods of the file, set once it is open.\<close>

definition opened_mode :: "dentry_env \<Rightarrow> fmode set \<Rightarrow> fmode set" where
  "opened_mode E m =
     (let m = insert FMODE_OPENED m;
          m = (if FMODE_READ \<in> m \<and> can_read E then insert FMODE_CAN_READ m else m);
          m = (if FMODE_WRITE \<in> m \<and> can_write E then insert FMODE_CAN_WRITE m else m);
          m = (if FMODE_LSEEK \<in> m \<and> \<not> has_llseek E then m - {FMODE_LSEEK} else m);
          m = (if direct_io E then insert FMODE_CAN_ODIRECT m else m)
      in m)"

definition do_dentry_open ::
  "dentry_env \<Rightarrow> (open_file \<Rightarrow> open_refs \<Rightarrow> open_refs) \<Rightarrow> open_file \<Rightarrow> open_refs \<Rightarrow> int \<times> open_file \<times> open_refs" where
  "do_dentry_open E put_file_access f r =
     (let r = r\<lparr>path_refs := path_refs r + 1\<rparr> in
      if f_flags f AND 0x200000 \<noteq> 0 then (0, f\<lparr>f_mode := {FMODE_PATH, FMODE_OPENED}\<rparr>, r)
      else case (if FMODE_READ \<in> f_mode f \<and> FMODE_WRITE \<notin> f_mode f then (0, r\<lparr>i_readcount := i_readcount r + 1\<rparr>)
                 else if FMODE_WRITE \<in> f_mode f \<and> \<not> d_special E then file_get_write_access E r
                 else (0, r)) of (error, r) \<Rightarrow>
      if error \<noteq> 0 then (error, f, r\<lparr>path_refs := path_refs r - 1\<rparr>)
      else let f = (if FMODE_WRITE \<in> f_mode f \<and> \<not> d_special E then f\<lparr>f_mode := insert FMODE_WRITER (f_mode f)\<rparr> else f);
               f = (if d_reg_or_dir E then f\<lparr>f_mode := insert FMODE_ATOMIC_POS (f_mode f)\<rparr> else f);
               r = (if fops_present E then r\<lparr>fops_refs := fops_refs r + 1\<rparr> else r)
      in if \<not> fops_present E then cleanup_all E put_file_access (- 19) f r
      else if security_file_open E \<noteq> 0 then cleanup_all E put_file_access (security_file_open E) f r
      else if break_lease E \<noteq> 0 then cleanup_all E put_file_access (break_lease E) f r
      else let f = f\<lparr>f_mode := f_mode f \<union> {FMODE_LSEEK, FMODE_PREAD, FMODE_PWRITE}\<rparr> in
      case (case open_method E of Some open' \<Rightarrow> open' f | None \<Rightarrow> (0, f)) of (error, f) \<Rightarrow>
      if error \<noteq> 0 then cleanup_all E put_file_access error f r
      else let f = f\<lparr>f_mode := opened_mode E (f_mode f), f_flags := f_flags f AND NOT (0x40 OR 0x80 OR 0x100 OR 0x200)\<rparr>
      in if f_flags f AND 0x4000 \<noteq> 0 \<and> FMODE_CAN_ODIRECT \<notin> f_mode f then (- EINVAL, f, r)
      else (0, f, r\<lparr>open_events := open_events r + 1\<rparr>))"


section \<open>Flags of an open are checked once\<close>

lemma both_bits: "x AND 0x10040 = 0x10040 \<longleftrightarrow> has_flag x O_DIRECTORY \<and> has_flag x O_CREAT"
proof -
  have "x AND 0x10040 = (x AND 0x10000) OR (x AND 0x40)" by (simp flip: bit.conj_disj_distrib)
  moreover have "x AND 0x10000 = (if bit x 16 then 0x10000 else 0)" "x AND 0x40 = (if bit x 6 then 0x40 else 0)"
    using and_exp [of x 16] and_exp [of x 6] by simp_all
  ultimately show ?thesis by (simp add: has_flag_def)
qed

lemma single_bit: "x AND 0x10000 \<noteq> (0x10040 :: u64)"
  using and_exp [of x 16] by simp

text \<open>The combinations of flags that \<open>open\<close> refuses.\<close>

definition open_conflict :: "u64 \<Rightarrow> bool" where
  "open_conflict x \<longleftrightarrow> \<not> has_flag x O_PATH \<and>
     (has_flag x O_CREAT \<and> has_flag x O_DIRECTORY \<or>
      has_flag x O_TMPFILE_BIT \<and> (\<not> has_flag x O_DIRECTORY \<or> x AND O_ACCMODE = 0))"

lemma how_path:
  assumes "has_flag (ucast flags) O_PATH"
  shows "build_open_how flags mode = \<lparr>how_flags = ucast flags AND O_PATH_FLAGS, how_mode = 0, how_resolve = 0\<rparr>"
  using assms by (simp add: build_open_how_def has_mask WILL_CREATE_def and.assoc)

lemma how_plain:
  assumes "\<not> has_flag (ucast flags) O_PATH"
  shows "build_open_how flags mode = \<lparr>how_flags = ucast flags AND VALID_OPEN_FLAGS,
    how_mode = (if WILL_CREATE (ucast flags) then ucast mode AND S_IALLUGO else 0), how_resolve = 0\<rparr>"
  using assms by (simp add: build_open_how_def has_mask WILL_CREATE_def)

text \<open>
  \<open>open\<close> with any flags and mode fails in \<open>build_open_flags\<close> exactly on the conflicting
  combinations, with \<open>-EINVAL\<close>; unknown flags and mode bits are never a reason. Otherwise the
  access asked for is the one of the access mode, with write access for \<open>O_TRUNC\<close> and append
  access for \<open>O_APPEND\<close>, and none at all for \<open>O_PATH\<close>; a mode is passed on only to create a file,
  and a final symbolic link is followed unless \<open>O_NOFOLLOW\<close> or \<open>O_CREAT\<close> with \<open>O_EXCL\<close> is given.
\<close>

theorem open_flags_correct:
  fixes flags :: u32 and mode :: u16
  defines "x \<equiv> ucast flags"
  shows "case build_open_flags (build_open_how flags mode) of
      Inl e \<Rightarrow> e = - EINVAL \<and> open_conflict x
    | Inr op \<Rightarrow> \<not> open_conflict x \<and>
        (if has_flag x O_PATH then acc_mode op = {} \<and> intent op = {} \<and> open_mode op = 0
         else acc_mode op = ACC_MODE x \<union> (if has_flag x O_TRUNC then {MAY_WRITE} else {}) \<union> (if has_flag x O_APPEND64 then {MAY_APPEND} else {}) \<and>
           (open_mode op \<noteq> 0 \<longleftrightarrow> WILL_CREATE x) \<and> (LOOKUP_CREATE \<in> intent op \<longleftrightarrow> has_flag x O_CREAT) \<and>
           (LOOKUP_FOLLOW \<in> lookup_flags op \<longleftrightarrow> \<not> has_flag x O_NOFOLLOW \<and> \<not> (has_flag x O_CREAT \<and> has_flag x O_EXCL)))"
proof (cases "has_flag x O_PATH")
  case True
  then show ?thesis
    using how_path [of flags mode]
    by (auto simp: x_def build_open_flags_def Let_def has_mask WILL_CREATE_def open_conflict_def and.assoc single_bit)
next
  case False
  define y where "y = (x AND VALID_OPEN_FLAGS) AND NOT (FMODE_NONOTIFY_BIT OR O_CLOEXEC)"
  have how: "build_open_how flags mode = \<lparr>how_flags = x AND VALID_OPEN_FLAGS,
      how_mode = (if WILL_CREATE x then ucast mode AND S_IALLUGO else 0), how_resolve = 0\<rparr>"
    using how_plain [of flags mode] False by (simp add: x_def)
  have y: "has_flag y O_CREAT = has_flag x O_CREAT" "has_flag y O_TMPFILE_BIT = has_flag x O_TMPFILE_BIT" "has_flag y O_DIRECTORY = has_flag x O_DIRECTORY"
    "has_flag y O_TRUNC = has_flag x O_TRUNC" "has_flag y O_APPEND64 = has_flag x O_APPEND64" "has_flag y O_EXCL = has_flag x O_EXCL"
    "has_flag y O_NOFOLLOW = has_flag x O_NOFOLLOW" "\<not> has_flag y O_PATH" "\<not> has_flag y (NOT VALID_OPEN_FLAGS)"
    "WILL_CREATE y = WILL_CREATE x"
    using False by (simp_all add: y_def has_and WILL_CREATE_def and.assoc)
  have acc: "ACC_MODE (x AND VALID_OPEN_FLAGS) = ACC_MODE x" by (simp add: ACC_MODE_def and.assoc)
  have mode: "\<not> has_flag (ucast mode AND S_IALLUGO) (NOT S_IALLUGO)" by (simp add: has_and)
  have wr: "MAY_WRITE \<in> ACC_MODE x \<longleftrightarrow> x AND O_ACCMODE \<noteq> 0" by (simp add: ACC_MODE_def)
  have create: "WILL_CREATE x \<longleftrightarrow> has_flag x O_CREAT \<or> has_flag x O_TMPFILE_BIT" by (simp add: WILL_CREATE_def has_or_flag flip: has_or_flag)
  show ?thesis
    unfolding how build_open_flags_def Let_def open_how.select_convs y_def [symmetric] acc
    by (cases "WILL_CREATE x"; cases "has_flag x O_CREAT"; cases "has_flag x O_TMPFILE_BIT"; cases "has_flag x O_DIRECTORY")
      (simp_all add: y y(9) [simplified] False mode [simplified] wr create both_bits has_or has_num resolve_lookup_def open_conflict_def or_eq_0_iff)
qed

section \<open>Descriptors\<close>

text \<open>What the descriptor allocator promises: the descriptor it returns is not in use.\<close>

definition fd_law :: "('n, 'd) open_env \<Rightarrow> bool" where
  "fd_law E \<longleftrightarrow> (\<forall>flags used fd. get_unused_fd_flags E flags used = Inr fd \<longrightarrow> fd \<notin> used)"

definition installed :: "'d fd_state \<Rightarrow> u32 set" where
  "installed s = {fd. fd_files s fd \<noteq> None}"

datatype fd_call = Open u64 u32 u16 | Openat int u64 u32 u16 | Openat2 int u64 u64 u64 | Creat u64 u16 | Close u32

fun exec_fd :: "('n, 'd) open_env \<times> fd_call \<Rightarrow> 'd fd_state \<Rightarrow> int \<times> 'd fd_state" where
  "exec_fd (E, Open filename flags mode) s = sys_open E filename flags mode s"
| "exec_fd (E, Openat dfd filename flags mode) s = sys_openat E dfd filename flags mode s"
| "exec_fd (E, Openat2 dfd filename how usize) s = sys_openat2 E dfd filename how usize s"
| "exec_fd (E, Creat pathname mode) s = sys_creat E pathname mode s"
| "exec_fd (E, Close fd) s = sys_close E fd s"

text \<open>An open either installs a file in one descriptor that was free, or leaves the table alone.\<close>

lemma do_sys_openat2_cases:
  assumes "fd_law E" "do_sys_openat2 E dfd filename how s = (ret, s')" "fds_in_use s = installed s"
  obtains fd f where "ret = int (unat fd)" "fd \<notin> fds_in_use s" "fds_in_use s' = insert fd (fds_in_use s)"
      "fd_files s' = (fd_files s)(fd := Some f)" "open_call_counter s' = open_call_counter s"
    | "fds_in_use s' = fds_in_use s" "fd_files s' = fd_files s" "open_call_counter s' = open_call_counter s"
  using assms unfolding do_sys_openat2_def fd_law_def Let_def
  by (auto split: sum.splits prod.splits)

lemma do_sys_openat2_installed:
  "fd_law E \<Longrightarrow> fds_in_use s = installed s \<Longrightarrow>
     fds_in_use (snd (do_sys_openat2 E dfd filename how s)) = installed (snd (do_sys_openat2 E dfd filename how s))"
  by (erule do_sys_openat2_cases [OF _ prod.collapse [symmetric]]) (auto simp: installed_def)

lemma installed_counter [simp]: "installed (s\<lparr>open_call_counter := c\<rparr>) = installed s"
  by (simp add: installed_def)

interpretation descriptors: syscall_invariant exec_fd "\<lambda>c. fd_law (fst c)" "\<lambda>s. fds_in_use s = installed s"
proof unfold_locales
  fix c :: "('n, 'd) open_env \<times> fd_call" and s :: "'d fd_state"
  assume "fd_law (fst c)" "fds_in_use s = installed s"
  then show "fds_in_use (snd (exec_fd c s)) = installed (snd (exec_fd c s))"
    by (cases "(c, s)" rule: exec_fd.cases)
      (auto simp: sys_open_def sys_openat_def sys_openat2_def sys_creat_def do_sys_open_def do_sys_openat2_installed
        sys_close_def installed_def Let_def split: sum.splits option.splits prod.splits)
qed

text \<open>
  C39: whatever sequence of \<open>open\<close>, \<open>openat\<close>, \<open>openat2\<close>, \<open>creat\<close> and \<open>close\<close> calls a process
  makes, successful or not, the descriptors marked as used are exactly those with a file: no
  failed open keeps a descriptor, and a closed one is free again.
\<close>

theorem descriptors_never_leak:
  assumes "list_all (\<lambda>c. fd_law (fst c)) cs" "fds_in_use s = installed s"
  shows "fds_in_use (run_calls exec_fd cs s) = installed (run_calls exec_fd cs s)"
  using assms by (rule descriptors.run_inv)

definition fd_env_of :: "(int + nat) \<Rightarrow> (unit, unit) open_env" where
  "fd_env_of result = \<lparr>getname = (\<lambda>_. Inr ()),
     get_unused_fd_flags = (\<lambda>_ used. if 3 \<in> used then (if 4 \<in> used then Inl (- 24) else Inr 4) else Inr 3),
     do_filp_open = (\<lambda>_ _ _ w. (result, w)), force_o_largefile = True, copy_open_how = (\<lambda>_ _. Inl (- 7)),
     file_count = (\<lambda>_ _. 1), op_flush = (\<lambda>_. None), opened_by_path = (\<lambda>_. False), drop_locks = (\<lambda>_ w. w),
     fput_file = (\<lambda>_ w. w)\<rparr>"

definition fd_state0 :: "unit fd_state" where
  "fd_state0 = \<lparr>fds_in_use = {}, fd_files = (\<lambda>_. None), open_call_counter = 0, fs_world = ()\<rparr>"

theorem descriptors_never_leak_witness:
  "installed (run_calls exec_fd [(fd_env_of (Inr 7), Open 0 0 0), (fd_env_of (Inl (- 2)), Open 0 0 0),
       (fd_env_of (Inr 8), Open 0 0 0), (fd_env_of (Inr 7), Close 3)] fd_state0) = {4}"
proof -
  let ?cs = "[(fd_env_of (Inr 7), Open 0 0 0), (fd_env_of (Inl (- 2)), Open 0 0 0),
       (fd_env_of (Inr 8), Open 0 0 0), (fd_env_of (Inr 7), Close 3)]"
  have "list_all (\<lambda>c. fd_law (fst c)) ?cs" "fds_in_use fd_state0 = installed fd_state0"
    by (auto simp: fd_law_def fd_env_of_def fd_state0_def installed_def split: if_splits)
  from descriptors_never_leak [OF this] have "installed (run_calls exec_fd ?cs fd_state0) = fds_in_use (run_calls exec_fd ?cs fd_state0)" by simp
  also have "\<dots> = {4}"
    by (simp add: sys_open_def do_sys_open_def do_sys_openat2_def build_open_how_def build_open_flags_def has_flag_def WILL_CREATE_def
        ACC_MODE_def resolve_lookup_def with_largefile_def fd_env_of_def fd_state0_def sys_close_def filp_flush_def
        insert_Diff_if)
  finally show ?thesis .
qed

section \<open>An open that fails holds no references\<close>

definition access_bits :: "fmode set" where
  "access_bits = {FMODE_READ, FMODE_WRITE, FMODE_WRITER, FMODE_OPENED}"

definition open_keeps_access :: "dentry_env \<Rightarrow> bool" where
  "open_keeps_access E \<longleftrightarrow> (\<forall>g f. open_method E = Some g \<longrightarrow> f_mode (snd (g f)) \<inter> access_bits = f_mode f \<inter> access_bits)"

text \<open>The access an open file holds, as a change of the counts.\<close>

definition taken :: "dentry_env \<Rightarrow> fmode set \<Rightarrow> open_refs \<Rightarrow> open_refs" where
  "taken E m r =
     (if FMODE_READ \<in> m \<and> FMODE_WRITE \<notin> m then r\<lparr>i_readcount := i_readcount r + 1\<rparr>
      else if FMODE_WRITER \<in> m then
        r\<lparr>i_writecount := i_writecount r + 1, mnt_writers := mnt_writers r + 1,
          backing_writers := backing_writers r + (if d_backing E then 1 else 0)\<rparr>
      else r)"

lemma access_bitsD:
  assumes "m \<inter> access_bits = m' \<inter> access_bits"
  shows "FMODE_READ \<in> m \<longleftrightarrow> FMODE_READ \<in> m'" "FMODE_WRITE \<in> m \<longleftrightarrow> FMODE_WRITE \<in> m'"
    "FMODE_WRITER \<in> m \<longleftrightarrow> FMODE_WRITER \<in> m'" "FMODE_OPENED \<in> m \<longleftrightarrow> FMODE_OPENED \<in> m'"
  using assms by (auto simp: access_bits_def)

lemma write_access_taken:
  "file_get_write_access E r = (e, r') \<Longrightarrow> FMODE_WRITE \<in> m \<Longrightarrow> FMODE_WRITER \<in> m \<Longrightarrow>
     r' = (if e = 0 then taken E m r else r)"
  by (auto simp: file_get_write_access_def taken_def Let_def split: if_splits)

definition with_fops :: "dentry_env \<Rightarrow> open_refs \<Rightarrow> open_refs" where
  "with_fops E r = (if fops_present E then r\<lparr>fops_refs := fops_refs r + 1\<rparr> else r)"

lemma cleanup_restores:
  assumes "\<And>f r. access_released E f r (put_file_access f r)"
    and "f_mode f \<inter> access_bits = m \<inter> access_bits" "error \<noteq> 0"
    and "cleanup_all E put_file_access error f (with_fops E (taken E m r)) = (error', f', r')"
  shows "error' \<noteq> 0 \<and> f' = f \<and> r' = r\<lparr>path_refs := path_refs r - 1\<rparr>"
proof -
  let ?r = "taken E m r"
  have "access_released E f ?r (put_file_access f ?r)" by (rule assms(1))
  then have "put_file_access f ?r = r"
    using access_bitsD [OF assms(2)] by (simp add: access_released_def taken_def split: if_splits)
  moreover have "(if fops_present E then (with_fops E ?r)\<lparr>fops_refs := fops_refs (with_fops E ?r) - 1\<rparr> else with_fops E ?r) = ?r"
    by (simp add: with_fops_def)
  ultimately show ?thesis
    using assms(3,4) unfolding cleanup_all_def Let_def by (auto split: if_splits)
qed

lemma put_taken:
  assumes "\<And>f r. access_released E f r (put_file_access f r)"
    and "FMODE_READ \<in> f_mode f \<longleftrightarrow> FMODE_READ \<in> m" "FMODE_WRITE \<in> f_mode f \<longleftrightarrow> FMODE_WRITE \<in> m"
      "FMODE_WRITER \<in> f_mode f \<longleftrightarrow> FMODE_WRITER \<in> m"
  shows "put_file_access f ((taken E m r)\<lparr>fops_refs := fops_refs (taken E m r) + a, open_events := open_events (taken E m r) + b\<rparr>)
           = r\<lparr>fops_refs := fops_refs r + a, open_events := open_events r + b\<rparr>"
  using assms(1) [of f "(taken E m r)\<lparr>fops_refs := fops_refs (taken E m r) + a, open_events := open_events (taken E m r) + b\<rparr>"] assms(2-)
  by (simp add: access_released_def taken_def split: if_splits)


definition demo_dentry :: "int \<Rightarrow> dentry_env" where
  "demo_dentry verdict = \<lparr>d_special = False, d_reg_or_dir = True, d_backing = True, get_write_access = 0,
     mnt_get_write_access = 0, backing_get_write_access = 0, fops_present = True, security_file_open = 0,
     break_lease = verdict, open_method = Some (\<lambda>f. (0, f\<lparr>f_mode := f_mode f - {FMODE_PREAD}\<rparr>)), can_read = True,
     can_write = True, has_llseek = True, direct_io = False\<rparr>"

definition demo_put :: "open_file \<Rightarrow> open_refs \<Rightarrow> open_refs" where
  "demo_put f r =
     (if FMODE_READ \<in> f_mode f \<and> FMODE_WRITE \<notin> f_mode f then r\<lparr>i_readcount := i_readcount r - 1\<rparr>
      else if FMODE_WRITER \<in> f_mode f then
        r\<lparr>i_writecount := i_writecount r - 1, mnt_writers := mnt_writers r - 1, backing_writers := backing_writers r - 1\<rparr>
      else r)"

definition no_refs :: open_refs where
  "no_refs = \<lparr>i_readcount = 0, i_writecount = 0, mnt_writers = 0, backing_writers = 0, path_refs = 1, fops_refs = 0, open_events = 0\<rparr>"


end
