(* ===== verification/File_Attributes.thy ===== *)
theory File_Attributes
  imports File_Transfer File_Open Credentials
begin

text \<open>
  Calls on the attributes of files, from \<^verbatim>\<open>src/Kernel/fs/open.c\<close>: \<open>truncate\<close>, \<open>fallocate\<close>,
  \<open>access\<close>, \<open>chdir\<close>, \<open>chroot\<close>, \<open>chmod\<close> and \<open>chown\<close>. The state counts what a call holds while it
  runs: path references, write access to mounts, inodes and superblocks, and credentials. Path
  lookup, permissions and \<open>notify_change\<close> are fields of the environment, and what they change is
  the component \<open>fa_world\<close>.
\<close>

abbreviation (input) ENODEV :: int where "ENODEV \<equiv> 19"
abbreviation (input) ENOTDIR :: int where "ENOTDIR \<equiv> 20"
abbreviation (input) EROFS :: int where "EROFS \<equiv> 30"
abbreviation (input) ESTALE :: int where "ESTALE \<equiv> 116"
abbreviation (input) AT_SYMLINK_NOFOLLOW :: u32 where "AT_SYMLINK_NOFOLLOW \<equiv> 0x100"
abbreviation (input) AT_EACCESS :: u32 where "AT_EACCESS \<equiv> 0x200"
abbreviation (input) AT_EMPTY_PATH :: u32 where "AT_EMPTY_PATH \<equiv> 0x1000"
abbreviation (input) PERM_EXEC :: u32 where "PERM_EXEC \<equiv> 1"
abbreviation (input) PERM_WRITE :: u32 where "PERM_WRITE \<equiv> 2"
abbreviation (input) PERM_ACCESS :: u32 where "PERM_ACCESS \<equiv> 0x10"
abbreviation (input) PERM_CHDIR :: u32 where "PERM_CHDIR \<equiv> 0x40"
abbreviation (input) ATTR_MODE :: u32 where "ATTR_MODE \<equiv> 1"
abbreviation (input) ATTR_UID :: u32 where "ATTR_UID \<equiv> 2"
abbreviation (input) ATTR_GID :: u32 where "ATTR_GID \<equiv> 4"
abbreviation (input) ATTR_SIZE :: u32 where "ATTR_SIZE \<equiv> 8"
abbreviation (input) ATTR_MTIME :: u32 where "ATTR_MTIME \<equiv> 0x20"
abbreviation (input) ATTR_CTIME :: u32 where "ATTR_CTIME \<equiv> 0x40"
abbreviation (input) ATTR_FORCE :: u32 where "ATTR_FORCE \<equiv> 0x200"
abbreviation (input) ATTR_KILL_SUID :: u32 where "ATTR_KILL_SUID \<equiv> 0x800"
abbreviation (input) ATTR_FILE :: u32 where "ATTR_FILE \<equiv> 0x2000"
abbreviation (input) ATTR_KILL_PRIV :: u32 where "ATTR_KILL_PRIV \<equiv> 0x4000"
abbreviation (input) FALLOC_FL_KEEP_SIZE :: u32 where "FALLOC_FL_KEEP_SIZE \<equiv> 1"
abbreviation (input) FALLOC_FL_PUNCH_HOLE :: u32 where "FALLOC_FL_PUNCH_HOLE \<equiv> 2"
abbreviation (input) FALLOC_FL_COLLAPSE_RANGE :: u32 where "FALLOC_FL_COLLAPSE_RANGE \<equiv> 8"
abbreviation (input) FALLOC_FL_ZERO_RANGE :: u32 where "FALLOC_FL_ZERO_RANGE \<equiv> 0x10"
abbreviation (input) FALLOC_FL_INSERT_RANGE :: u32 where "FALLOC_FL_INSERT_RANGE \<equiv> 0x20"
abbreviation (input) FALLOC_FL_UNSHARE_RANGE :: u32 where "FALLOC_FL_UNSHARE_RANGE \<equiv> 0x40"
abbreviation (input) FALLOC_FL_SUPPORTED_MASK :: u32 where "FALLOC_FL_SUPPORTED_MASK \<equiv> 0x7B"

section \<open>State and environment\<close>

text \<open>The credentials that a permission test looks at; \<open>cr_caps\<close> is the effective set.\<close>

record fcred = cred +
  cr_cap_permitted :: "nat set"
  cr_no_setuid_fixup :: bool
  cr_non_rcu :: bool

record iattr =
  ia_valid :: u32
  ia_mode :: u16
  ia_uid :: "u32 option"
  ia_gid :: "u32 option"
  ia_size :: loff_t
  ia_file :: "nat option"

definition no_attrs :: iattr where
  "no_attrs = \<lparr>ia_valid = 0, ia_mode = 0, ia_uid = None, ia_gid = None, ia_size = 0, ia_file = None\<rparr>"

datatype resource = Path_ref | File_ref | Mnt_write | Inode_write | Sb_write | Cred_ref

datatype fa_event = Fa_modified nat | Fa_audited nat

record 'd fa_state =
  fa_cred :: fcred
  fa_pwd :: nat
  fa_root :: nat
  fa_held :: "resource \<Rightarrow> int"
  fa_events :: "fa_event list"
  fa_world :: 'd

record 'd fa_env =
  fa_ids :: cred_env
  fa_file :: "u32 \<Rightarrow> nat option"
  fa_file_raw :: "u32 \<Rightarrow> nat option"
  fa_open_file :: "nat \<Rightarrow> open_file"
  fa_path :: "nat \<Rightarrow> nat"
  user_path_at :: "int \<Rightarrow> u64 \<Rightarrow> lookup set \<Rightarrow> fcred \<Rightarrow> 'd \<Rightarrow> int + nat"
  inode_mode :: "nat \<Rightarrow> 'd \<Rightarrow> u16"
  IS_APPEND :: "nat \<Rightarrow> bool"
  IS_IMMUTABLE :: "nat \<Rightarrow> bool"
  IS_SWAPFILE :: "nat \<Rightarrow> bool"
  inode_maxbytes :: "nat \<Rightarrow> loff_t"
  mnt_want_write :: "nat \<Rightarrow> int"
  mnt_want_write_file :: "nat \<Rightarrow> int"
  inode_permission :: "nat \<Rightarrow> u32 \<Rightarrow> fcred \<Rightarrow> 'd \<Rightarrow> int"
  get_write_access :: "nat \<Rightarrow> int"
  break_lease :: "nat \<Rightarrow> 'd \<Rightarrow> int \<times> 'd"
  security_path_truncate :: "nat \<Rightarrow> int"
  security_file_truncate :: "nat \<Rightarrow> int"
  dentry_needs_remove_privs :: "nat \<Rightarrow> 'd \<Rightarrow> int"
  notify_change :: "nat \<Rightarrow> iattr \<Rightarrow> 'd \<Rightarrow> (int \<times> bool) \<times> 'd"
  break_deleg_wait :: "nat \<Rightarrow> 'd \<Rightarrow> int \<times> 'd"
  security_file_permission :: "nat \<Rightarrow> int"
  fsnotify_area_perm :: "nat \<Rightarrow> loff_t \<Rightarrow> loff_t \<Rightarrow> int"
  op_fallocate :: "nat \<Rightarrow> (u32 \<Rightarrow> loff_t \<Rightarrow> loff_t \<Rightarrow> 'd \<Rightarrow> int \<times> 'd) option"
  path_noexec :: "nat \<Rightarrow> bool"
  mnt_is_readonly :: "nat \<Rightarrow> bool"
  d_can_lookup :: "nat \<Rightarrow> bool"
  capable_chroot :: "fcred \<Rightarrow> bool"
  security_path_chroot :: "nat \<Rightarrow> int"
  security_path_chmod :: "nat \<Rightarrow> u16 \<Rightarrow> int"
  security_path_chown :: "nat \<Rightarrow> u32 option \<Rightarrow> u32 option \<Rightarrow> int"
  setattr_should_drop_sgid :: "nat \<Rightarrow> 'd \<Rightarrow> u32"

definition fa_get :: "resource \<Rightarrow> 'd fa_state \<Rightarrow> 'd fa_state" where
  "fa_get r s = s\<lparr>fa_held := (fa_held s)(r := fa_held s r + 1)\<rparr>"

definition fa_put :: "resource \<Rightarrow> 'd fa_state \<Rightarrow> 'd fa_state" where
  "fa_put r s = s\<lparr>fa_held := (fa_held s)(r := fa_held s r - 1)\<rparr>"

definition S_IFMT :: "u16 \<Rightarrow> u16" where
  "S_IFMT mode = mode AND 0xF000"

definition S_ISREG :: "u16 \<Rightarrow> bool" where
  "S_ISREG mode \<longleftrightarrow> S_IFMT mode = 0x8000"

definition S_ISDIR :: "u16 \<Rightarrow> bool" where
  "S_ISDIR mode \<longleftrightarrow> S_IFMT mode = 0x4000"

definition special_file :: "u16 \<Rightarrow> bool" where
  "special_file mode \<longleftrightarrow> S_IFMT mode \<in> {0x2000, 0x6000, 0x1000, 0xC000}"

text \<open>
  A call by path: look it up, work on it, drop it. On \<open>-ESTALE\<close> the lookup is repeated once with
  \<open>LOOKUP_REVAL\<close>; \<open>tested\<close> says whether a failed lookup reaches that test.
\<close>

definition with_path ::
  "'d fa_env \<Rightarrow> bool \<Rightarrow> int \<Rightarrow> u64 \<Rightarrow> (nat \<Rightarrow> 'd fa_state \<Rightarrow> (int \<times> 'd fa_state) option) \<Rightarrow> lookup set \<Rightarrow> 'd fa_state \<Rightarrow> ((int \<times> bool) \<times> 'd fa_state) option" where
  "with_path E tested dfd filename work flags s =
     (case user_path_at E dfd filename flags (fa_cred s) (fa_world s) of
        Inl error \<Rightarrow> Some ((error, tested), s)
      | Inr path \<Rightarrow> (case work path (fa_get Path_ref s) of
          None \<Rightarrow> None
        | Some (error, s) \<Rightarrow> Some ((error, True), fa_put Path_ref s)))"

function retry_estale :: "(lookup set \<Rightarrow> 's \<Rightarrow> ((int \<times> bool) \<times> 's) option) \<Rightarrow> lookup set \<Rightarrow> 's \<Rightarrow> (int \<times> 's) option" where
  "retry_estale body flags s =
     (case body flags s of
        None \<Rightarrow> None
      | Some ((error, tested), s) \<Rightarrow>
          if tested \<and> error = - ESTALE \<and> LOOKUP_REVAL \<notin> flags then retry_estale body (insert LOOKUP_REVAL flags) s
          else Some (error, s))"
  by pat_completeness auto

termination
  by (relation "measure (\<lambda>(body, flags, s). if LOOKUP_REVAL \<in> flags then 0 else 1)") auto

declare retry_estale.simps [simp del]

section \<open>truncate\<close>

definition truncate_attrs :: "loff_t \<Rightarrow> u32 \<Rightarrow> nat option \<Rightarrow> int \<Rightarrow> iattr" where
  "truncate_attrs len time_attrs filp privs =
     (let newattrs = no_attrs\<lparr>ia_size := len, ia_valid := ATTR_SIZE OR time_attrs\<rparr>;
          newattrs = (if filp \<noteq> None then newattrs\<lparr>ia_file := filp, ia_valid := ia_valid newattrs OR ATTR_FILE\<rparr> else newattrs)
      in if privs \<noteq> 0 then newattrs\<lparr>ia_valid := ia_valid newattrs OR (word_of_int privs OR ATTR_FORCE)\<rparr> else newattrs)"

definition do_truncate :: "'d fa_env \<Rightarrow> nat \<Rightarrow> loff_t \<Rightarrow> u32 \<Rightarrow> nat option \<Rightarrow> 'd fa_state \<Rightarrow> int \<times> 'd fa_state" where
  "do_truncate E path len time_attrs filp s =
     (if sint len < 0 then (- EINVAL, s)
      else let ret = dentry_needs_remove_privs E path (fa_world s) in
      if ret < 0 then (ret, s)
      else case notify_change E path (truncate_attrs len time_attrs filp ret) (fa_world s) of
        ((ret, delegated), w) \<Rightarrow> (ret, s\<lparr>fa_world := w\<rparr>))"

definition vfs_truncate :: "'d fa_env \<Rightarrow> nat \<Rightarrow> loff_t \<Rightarrow> 'd fa_state \<Rightarrow> int \<times> 'd fa_state" where
  "vfs_truncate E path len s =
     (if S_ISDIR (inode_mode E path (fa_world s)) then (- EISDIR, s)
      else if \<not> S_ISREG (inode_mode E path (fa_world s)) then (- EINVAL, s)
      else let error = mnt_want_write E path in
      if error \<noteq> 0 then (error, s)
      else let s = fa_get Mnt_write s; error = inode_permission E path PERM_WRITE (fa_cred s) (fa_world s) in
      if error \<noteq> 0 then (error, fa_put Mnt_write s)
      else if IS_APPEND E path then (- EPERM, fa_put Mnt_write s)
      else let error = get_write_access E path in
      if error \<noteq> 0 then (error, fa_put Mnt_write s)
      else let s = fa_get Inode_write s in
      case break_lease E path (fa_world s) of (error, w) \<Rightarrow>
      let s = s\<lparr>fa_world := w\<rparr> in
      if error \<noteq> 0 then (error, fa_put Mnt_write (fa_put Inode_write s))
      else let error = security_path_truncate E path in
      case (if error = 0 then do_truncate E path len 0 None s else (error, s)) of (error, s) \<Rightarrow>
      (error, fa_put Mnt_write (fa_put Inode_write s)))"

definition do_sys_truncate :: "'d fa_env \<Rightarrow> u64 \<Rightarrow> loff_t \<Rightarrow> 'd fa_state \<Rightarrow> (int \<times> 'd fa_state) option" where
  "do_sys_truncate E pathname len s =
     (if sint len < 0 then Some (- EINVAL, s)
      else retry_estale (with_path E True AT_FDCWD pathname (\<lambda>path s. Some (vfs_truncate E path len s))) {LOOKUP_FOLLOW} s)"

definition sys_truncate :: "'d fa_env \<Rightarrow> u64 \<Rightarrow> u64 \<Rightarrow> 'd fa_state \<Rightarrow> (int \<times> 'd fa_state) option" where
  "sys_truncate E path len s = do_sys_truncate E path len s"

definition compat_sys_truncate :: "'d fa_env \<Rightarrow> u64 \<Rightarrow> u32 \<Rightarrow> 'd fa_state \<Rightarrow> (int \<times> 'd fa_state) option" where
  "compat_sys_truncate E path len s = do_sys_truncate E path (scast len) s"

definition do_sys_ftruncate :: "'d fa_env \<Rightarrow> u32 \<Rightarrow> loff_t \<Rightarrow> bool \<Rightarrow> 'd fa_state \<Rightarrow> int \<times> 'd fa_state" where
  "do_sys_ftruncate E fd len small s =
     (if sint len < 0 then (- EINVAL, s)
      else case fa_file E fd of None \<Rightarrow> (- EBADF, s)
      | Some f \<Rightarrow>
        let s = fa_get File_ref s; small = (if f_flags (fa_open_file E f) AND O_LARGEFILE \<noteq> 0 then False else small); path = fa_path E f in
        if \<not> S_ISREG (inode_mode E path (fa_world s)) \<or> FMODE_WRITE \<notin> f_mode (fa_open_file E f) then (- EINVAL, fa_put File_ref s)
        else if small \<and> sint len > sint MAX_NON_LFS then (- EINVAL, fa_put File_ref s)
        else if IS_APPEND E path then (- EPERM, fa_put File_ref s)
        else let s = fa_get Sb_write s; error = security_file_truncate E f in
        case (if error = 0 then do_truncate E path len (ATTR_MTIME OR ATTR_CTIME) (Some f) s else (error, s)) of (error, s) \<Rightarrow>
        (error, fa_put File_ref (fa_put Sb_write s)))"

definition sys_ftruncate :: "'d fa_env \<Rightarrow> u32 \<Rightarrow> u64 \<Rightarrow> 'd fa_state \<Rightarrow> int \<times> 'd fa_state" where
  "sys_ftruncate E fd len s = do_sys_ftruncate E fd len True s"

definition compat_sys_ftruncate :: "'d fa_env \<Rightarrow> u32 \<Rightarrow> u32 \<Rightarrow> 'd fa_state \<Rightarrow> int \<times> 'd fa_state" where
  "compat_sys_ftruncate E fd len s = do_sys_ftruncate E fd (ucast len) True s"

section \<open>fallocate\<close>

definition falloc_mode_error :: "u32 \<Rightarrow> int" where
  "falloc_mode_error mode =
     (if mode AND NOT FALLOC_FL_SUPPORTED_MASK \<noteq> 0 then - EOPNOTSUPP
      else if mode AND (FALLOC_FL_PUNCH_HOLE OR FALLOC_FL_ZERO_RANGE) = FALLOC_FL_PUNCH_HOLE OR FALLOC_FL_ZERO_RANGE then - EOPNOTSUPP
      else if mode AND FALLOC_FL_PUNCH_HOLE \<noteq> 0 \<and> mode AND FALLOC_FL_KEEP_SIZE = 0 then - EOPNOTSUPP
      else if mode AND FALLOC_FL_COLLAPSE_RANGE \<noteq> 0 \<and> mode AND NOT FALLOC_FL_COLLAPSE_RANGE \<noteq> 0 then - EINVAL
      else if mode AND FALLOC_FL_INSERT_RANGE \<noteq> 0 \<and> mode AND NOT FALLOC_FL_INSERT_RANGE \<noteq> 0 then - EINVAL
      else if mode AND FALLOC_FL_UNSHARE_RANGE \<noteq> 0 \<and> mode AND NOT (FALLOC_FL_UNSHARE_RANGE OR FALLOC_FL_KEEP_SIZE) \<noteq> 0 then - EINVAL
      else 0)"

definition vfs_fallocate :: "'d fa_env \<Rightarrow> nat \<Rightarrow> u32 \<Rightarrow> loff_t \<Rightarrow> loff_t \<Rightarrow> 'd fa_state \<Rightarrow> int \<times> 'd fa_state" where
  "vfs_fallocate E f mode offset len s =
     (let path = fa_path E f; kind = S_IFMT (inode_mode E path (fa_world s)) in
      if sint offset < 0 \<or> sint len \<le> 0 then (- EINVAL, s)
      else if falloc_mode_error mode \<noteq> 0 then (falloc_mode_error mode, s)
      else if FMODE_WRITE \<notin> f_mode (fa_open_file E f) then (- EBADF, s)
      else if mode AND NOT FALLOC_FL_KEEP_SIZE \<noteq> 0 \<and> IS_APPEND E path then (- EPERM, s)
      else if IS_IMMUTABLE E path then (- EPERM, s)
      else if IS_SWAPFILE E path then (- ETXTBSY, s)
      else let ret = security_file_permission E f in
      if ret \<noteq> 0 then (ret, s)
      else let ret = fsnotify_area_perm E f offset len in
      if ret \<noteq> 0 then (ret, s)
      else if kind = 0x1000 then (- ESPIPE, s)
      else if kind = 0x4000 then (- EISDIR, s)
      else if kind \<noteq> 0x8000 \<and> kind \<noteq> 0x6000 then (- ENODEV, s)
      else if sint (offset + len) > sint (inode_maxbytes E path) \<or> sint (offset + len) < 0 then (- EFBIG, s)
      else case op_fallocate E f of None \<Rightarrow> (- EOPNOTSUPP, s)
      | Some fallocate \<Rightarrow>
        let s = fa_get Sb_write s in
        case fallocate mode offset len (fa_world s) of (ret, w) \<Rightarrow>
        let s = s\<lparr>fa_world := w\<rparr>; s = (if ret = 0 then s\<lparr>fa_events := fa_events s @ [Fa_modified f]\<rparr> else s)
        in (ret, fa_put Sb_write s))"

definition ksys_fallocate :: "'d fa_env \<Rightarrow> u32 \<Rightarrow> u32 \<Rightarrow> loff_t \<Rightarrow> loff_t \<Rightarrow> 'd fa_state \<Rightarrow> int \<times> 'd fa_state" where
  "ksys_fallocate E fd mode offset len s =
     (case fa_file E fd of None \<Rightarrow> (- EBADF, s)
      | Some f \<Rightarrow> (case vfs_fallocate E f mode offset len (fa_get File_ref s) of (error, s) \<Rightarrow> (error, fa_put File_ref s)))"

definition sys_fallocate :: "'d fa_env \<Rightarrow> u32 \<Rightarrow> u32 \<Rightarrow> loff_t \<Rightarrow> loff_t \<Rightarrow> 'd fa_state \<Rightarrow> int \<times> 'd fa_state" where
  "sys_fallocate E fd mode offset len s = ksys_fallocate E fd mode offset len s"

section \<open>access\<close>

definition access_need_override_creds :: "'d fa_env \<Rightarrow> u32 \<Rightarrow> fcred \<Rightarrow> bool" where
  "access_need_override_creds E flags cred =
     (if flags AND AT_EACCESS \<noteq> 0 then False
      else if cr_fsuid cred \<noteq> cr_uid cred \<or> cr_fsgid cred \<noteq> cr_gid cred then True
      else if \<not> cr_no_setuid_fixup cred then
        (let root_uid = make_kuid (fa_ids E) 0 in
         if cr_uid cred \<noteq> root_uid then cr_caps cred \<noteq> {} else cr_caps cred \<noteq> cr_cap_permitted cred)
      else False)"

text \<open>\<open>prepare_creds\<close> and \<open>override_creds\<close> each take a reference, \<open>put_cred\<close> drops one.\<close>

definition access_override_creds :: "'d fa_env \<Rightarrow> 'd fa_state \<Rightarrow> (fcred \<times> 'd fa_state) option" where
  "access_override_creds E s =
     (if \<not> prepare_creds_ok (fa_ids E) then None
      else let s = fa_get Cred_ref s; override_cred = fa_cred s;
               override_cred = override_cred\<lparr>cr_fsuid := cr_uid override_cred, cr_fsgid := cr_gid override_cred\<rparr>;
               override_cred = (if \<not> cr_no_setuid_fixup (fa_cred s) then
                   (let root_uid = make_kuid (fa_ids E) 0 in
                    if cr_uid override_cred \<noteq> root_uid then override_cred\<lparr>cr_caps := {}\<rparr>
                    else override_cred\<lparr>cr_caps := cr_cap_permitted override_cred\<rparr>)
                 else override_cred);
               override_cred = override_cred\<lparr>cr_non_rcu := True\<rparr>;
               old_cred = fa_cred s;
               s = fa_put Cred_ref (fa_get Cred_ref (s\<lparr>fa_cred := override_cred\<rparr>))
      in Some (old_cred, s))"

definition revert_creds :: "fcred \<Rightarrow> 'd fa_state \<Rightarrow> 'd fa_state" where
  "revert_creds old s = fa_put Cred_ref (s\<lparr>fa_cred := old\<rparr>)"

definition access_path :: "'d fa_env \<Rightarrow> u32 \<Rightarrow> nat \<Rightarrow> 'd fa_state \<Rightarrow> (int \<times> 'd fa_state) option" where
  "access_path E mode path s =
     (let i_mode = inode_mode E path (fa_world s) in
      if mode AND PERM_EXEC \<noteq> 0 \<and> S_ISREG i_mode \<and> path_noexec E path then Some (- EACCES, s)
      else let res = inode_permission E path (mode OR PERM_ACCESS) (fa_cred s) (fa_world s) in
      if res \<noteq> 0 \<or> mode AND 2 = 0 \<or> special_file i_mode then Some (res, s)
      else if mnt_is_readonly E path then Some (- EROFS, s)
      else Some (res, s))"

definition access_lookup :: "u32 \<Rightarrow> lookup set" where
  "access_lookup flags =
     (let lookup_flags = (if flags AND AT_SYMLINK_NOFOLLOW \<noteq> 0 then {} else {LOOKUP_FOLLOW})
      in if flags AND AT_EMPTY_PATH \<noteq> 0 then insert LOOKUP_EMPTY lookup_flags else lookup_flags)"

definition do_faccessat :: "'d fa_env \<Rightarrow> int \<Rightarrow> u64 \<Rightarrow> u32 \<Rightarrow> u32 \<Rightarrow> 'd fa_state \<Rightarrow> (int \<times> 'd fa_state) option" where
  "do_faccessat E dfd filename mode flags s =
     (if mode AND NOT 7 \<noteq> 0 then Some (- EINVAL, s)
      else if flags AND NOT (AT_EACCESS OR AT_SYMLINK_NOFOLLOW OR AT_EMPTY_PATH) \<noteq> 0 then Some (- EINVAL, s)
      else let lookup = (\<lambda>s. retry_estale (with_path E False dfd filename (access_path E mode)) (access_lookup flags) s) in
      if access_need_override_creds E flags (fa_cred s) then
        (case access_override_creds E s of None \<Rightarrow> Some (- ENOMEM, s)
         | Some (old_cred, s) \<Rightarrow> (case lookup s of None \<Rightarrow> None | Some (res, s) \<Rightarrow> Some (res, revert_creds old_cred s)))
      else lookup s)"

definition sys_faccessat :: "'d fa_env \<Rightarrow> int \<Rightarrow> u64 \<Rightarrow> u32 \<Rightarrow> 'd fa_state \<Rightarrow> (int \<times> 'd fa_state) option" where
  "sys_faccessat E dfd filename mode s = do_faccessat E dfd filename mode 0 s"

definition sys_access :: "'d fa_env \<Rightarrow> u64 \<Rightarrow> u32 \<Rightarrow> 'd fa_state \<Rightarrow> (int \<times> 'd fa_state) option" where
  "sys_access E filename mode s = do_faccessat E AT_FDCWD filename mode 0 s"

definition sys_faccessat2 :: "'d fa_env \<Rightarrow> int \<Rightarrow> u64 \<Rightarrow> u32 \<Rightarrow> u32 \<Rightarrow> 'd fa_state \<Rightarrow> (int \<times> 'd fa_state) option" where
  "sys_faccessat2 E dfd filename mode flags s = do_faccessat E dfd filename mode flags s"

section \<open>chdir and chroot\<close>

definition sys_chdir :: "'d fa_env \<Rightarrow> u64 \<Rightarrow> 'd fa_state \<Rightarrow> (int \<times> 'd fa_state) option" where
  "sys_chdir E filename s =
     retry_estale (with_path E False AT_FDCWD filename (\<lambda>path s.
       let error = inode_permission E path (PERM_EXEC OR PERM_CHDIR) (fa_cred s) (fa_world s) in
       if error \<noteq> 0 then Some (error, s) else Some (0, s\<lparr>fa_pwd := path\<rparr>))) {LOOKUP_FOLLOW, LOOKUP_DIRECTORY} s"

definition sys_fchdir :: "'d fa_env \<Rightarrow> u32 \<Rightarrow> 'd fa_state \<Rightarrow> int \<times> 'd fa_state" where
  "sys_fchdir E fd s =
     (case fa_file_raw E fd of None \<Rightarrow> (- EBADF, s)
      | Some f \<Rightarrow>
        let s = fa_get File_ref s; path = fa_path E f in
        if \<not> d_can_lookup E path then (- ENOTDIR, fa_put File_ref s)
        else let error = inode_permission E path (PERM_EXEC OR PERM_CHDIR) (fa_cred s) (fa_world s);
                 s = (if error = 0 then s\<lparr>fa_pwd := path\<rparr> else s)
        in (error, fa_put File_ref s))"

definition sys_chroot :: "'d fa_env \<Rightarrow> u64 \<Rightarrow> 'd fa_state \<Rightarrow> (int \<times> 'd fa_state) option" where
  "sys_chroot E filename s =
     retry_estale (with_path E False AT_FDCWD filename (\<lambda>path s.
       let error = inode_permission E path (PERM_EXEC OR PERM_CHDIR) (fa_cred s) (fa_world s) in
       if error \<noteq> 0 then Some (error, s)
       else if \<not> capable_chroot E (fa_cred s) then Some (- EPERM, s)
       else let error = security_path_chroot E path in
       if error \<noteq> 0 then Some (error, s)
       else Some (0, s\<lparr>fa_root := path\<rparr>))) {LOOKUP_FOLLOW, LOOKUP_DIRECTORY} s"

section \<open>chmod\<close>

text \<open>
  Both \<open>chmod\<close> and \<open>chown\<close> start again after a delegation was broken. The loop may run as long as
  new delegations turn up, so it is a partial function.
\<close>

definition deleg_step :: "'d fa_env \<Rightarrow> nat \<Rightarrow> iattr \<Rightarrow> 'd fa_state \<Rightarrow> (int \<times> bool) \<times> 'd fa_state" where
  "deleg_step E path attrs s =
     (case notify_change E path attrs (fa_world s) of ((error, delegated), w) \<Rightarrow>
      if delegated then (case break_deleg_wait E path w of (error, w) \<Rightarrow> ((error, error = 0), s\<lparr>fa_world := w\<rparr>))
      else ((error, False), s\<lparr>fa_world := w\<rparr>))"

partial_function (option) deleg_retry ::
  "'d fa_env \<Rightarrow> nat \<Rightarrow> ('d \<Rightarrow> int + iattr) \<Rightarrow> 'd fa_state \<Rightarrow> (int \<times> 'd fa_state) option" where
  "deleg_retry E path prepare s =
     (case prepare (fa_world s) of
        Inl error \<Rightarrow> Some (error, s)
      | Inr attrs \<Rightarrow> (case deleg_step E path attrs s of ((error, again), s) \<Rightarrow>
          if again then deleg_retry E path prepare s else Some (error, s)))"

definition chmod_attrs :: "u16 \<Rightarrow> u16 \<Rightarrow> iattr" where
  "chmod_attrs mode i_mode = no_attrs\<lparr>ia_mode := (mode AND 0xFFF) OR (i_mode AND NOT 0xFFF), ia_valid := ATTR_MODE OR ATTR_CTIME\<rparr>"

definition chmod_prepare :: "'d fa_env \<Rightarrow> nat \<Rightarrow> u16 \<Rightarrow> 'd \<Rightarrow> int + iattr" where
  "chmod_prepare E path mode w =
     (let error = security_path_chmod E path mode in
      if error \<noteq> 0 then Inl error else Inr (chmod_attrs mode (inode_mode E path w)))"

definition chmod_common :: "'d fa_env \<Rightarrow> nat \<Rightarrow> u16 \<Rightarrow> 'd fa_state \<Rightarrow> (int \<times> 'd fa_state) option" where
  "chmod_common E path mode s =
     (let error = mnt_want_write E path in
      if error \<noteq> 0 then Some (error, s)
      else map_option (\<lambda>(error, s). (error, fa_put Mnt_write s)) (deleg_retry E path (chmod_prepare E path mode) (fa_get Mnt_write s)))"

definition vfs_fchmod :: "'d fa_env \<Rightarrow> nat \<Rightarrow> u16 \<Rightarrow> 'd fa_state \<Rightarrow> (int \<times> 'd fa_state) option" where
  "vfs_fchmod E f mode s = chmod_common E (fa_path E f) mode (s\<lparr>fa_events := fa_events s @ [Fa_audited f]\<rparr>)"

definition sys_fchmod :: "'d fa_env \<Rightarrow> u32 \<Rightarrow> u16 \<Rightarrow> 'd fa_state \<Rightarrow> (int \<times> 'd fa_state) option" where
  "sys_fchmod E fd mode s =
     (case fa_file E fd of None \<Rightarrow> Some (- EBADF, s)
      | Some f \<Rightarrow> map_option (\<lambda>(error, s). (error, fa_put File_ref s)) (vfs_fchmod E f mode (fa_get File_ref s)))"

definition do_fchmodat :: "'d fa_env \<Rightarrow> int \<Rightarrow> u64 \<Rightarrow> u16 \<Rightarrow> u32 \<Rightarrow> 'd fa_state \<Rightarrow> (int \<times> 'd fa_state) option" where
  "do_fchmodat E dfd filename mode flags s =
     (if flags AND NOT (AT_SYMLINK_NOFOLLOW OR AT_EMPTY_PATH) \<noteq> 0 then Some (- EINVAL, s)
      else retry_estale (with_path E False dfd filename (\<lambda>path. chmod_common E path mode)) (access_lookup flags) s)"

definition sys_fchmodat2 :: "'d fa_env \<Rightarrow> int \<Rightarrow> u64 \<Rightarrow> u16 \<Rightarrow> u32 \<Rightarrow> 'd fa_state \<Rightarrow> (int \<times> 'd fa_state) option" where
  "sys_fchmodat2 E dfd filename mode flags s = do_fchmodat E dfd filename mode flags s"

definition sys_fchmodat :: "'d fa_env \<Rightarrow> int \<Rightarrow> u64 \<Rightarrow> u16 \<Rightarrow> 'd fa_state \<Rightarrow> (int \<times> 'd fa_state) option" where
  "sys_fchmodat E dfd filename mode s = do_fchmodat E dfd filename mode 0 s"

definition sys_chmod :: "'d fa_env \<Rightarrow> u64 \<Rightarrow> u16 \<Rightarrow> 'd fa_state \<Rightarrow> (int \<times> 'd fa_state) option" where
  "sys_chmod E filename mode s = do_fchmodat E AT_FDCWD filename mode 0 s"

section \<open>chown\<close>

definition setattr_vfsuid :: "'d fa_env \<Rightarrow> iattr \<Rightarrow> u32 \<Rightarrow> iattr option" where
  "setattr_vfsuid E attr kuid =
     (if \<not> uid_valid (fa_ids E) kuid then None
      else Some (attr\<lparr>ia_valid := ia_valid attr OR ATTR_UID, ia_uid := Some kuid\<rparr>))"

definition setattr_vfsgid :: "'d fa_env \<Rightarrow> iattr \<Rightarrow> u32 \<Rightarrow> iattr option" where
  "setattr_vfsgid E attr kgid =
     (if \<not> gid_valid (fa_ids E) kgid then None
      else Some (attr\<lparr>ia_valid := ia_valid attr OR ATTR_GID, ia_gid := Some kgid\<rparr>))"

definition chown_attrs :: "'d fa_env \<Rightarrow> nat \<Rightarrow> u32 \<Rightarrow> u32 \<Rightarrow> 'd \<Rightarrow> iattr option" where
  "chown_attrs E path user gr w =
     (let newattrs = no_attrs\<lparr>ia_valid := ATTR_CTIME\<rparr> in
      (case (if user \<noteq> - 1 then setattr_vfsuid E newattrs (make_kuid (fa_ids E) user) else Some newattrs) of
        None \<Rightarrow> None
      | Some newattrs \<Rightarrow>
      (case (if gr \<noteq> - 1 then setattr_vfsgid E newattrs (make_kgid (fa_ids E) gr) else Some newattrs) of
        None \<Rightarrow> None
      | Some newattrs \<Rightarrow>
        Some (if \<not> S_ISDIR (inode_mode E path w)
              then newattrs\<lparr>ia_valid := ia_valid newattrs OR (ATTR_KILL_SUID OR ATTR_KILL_PRIV OR setattr_should_drop_sgid E path w)\<rparr>
              else newattrs))))"

definition chown_prepare :: "'d fa_env \<Rightarrow> nat \<Rightarrow> u32 \<Rightarrow> u32 \<Rightarrow> 'd \<Rightarrow> int + iattr" where
  "chown_prepare E path user gr w =
     (case chown_attrs E path user gr w of
        None \<Rightarrow> Inl (- EINVAL)
      | Some newattrs \<Rightarrow>
          let error = security_path_chown E path (ia_uid newattrs) (ia_gid newattrs) in
          if error \<noteq> 0 then Inl error else Inr newattrs)"

definition chown_common :: "'d fa_env \<Rightarrow> nat \<Rightarrow> u32 \<Rightarrow> u32 \<Rightarrow> 'd fa_state \<Rightarrow> (int \<times> 'd fa_state) option" where
  "chown_common E path user gr s = deleg_retry E path (chown_prepare E path user gr) s"

definition chown_path :: "'d fa_env \<Rightarrow> u32 \<Rightarrow> u32 \<Rightarrow> nat \<Rightarrow> 'd fa_state \<Rightarrow> (int \<times> 'd fa_state) option" where
  "chown_path E user gr path s =
     (let error = mnt_want_write E path in
      if error \<noteq> 0 then Some (error, s)
      else map_option (\<lambda>(error, s). (error, fa_put Mnt_write s)) (chown_common E path user gr (fa_get Mnt_write s)))"

definition do_fchownat :: "'d fa_env \<Rightarrow> int \<Rightarrow> u64 \<Rightarrow> u32 \<Rightarrow> u32 \<Rightarrow> u32 \<Rightarrow> 'd fa_state \<Rightarrow> (int \<times> 'd fa_state) option" where
  "do_fchownat E dfd filename user gr flag s =
     (if flag AND NOT (AT_SYMLINK_NOFOLLOW OR AT_EMPTY_PATH) \<noteq> 0 then Some (- EINVAL, s)
      else retry_estale (with_path E False dfd filename (chown_path E user gr)) (access_lookup flag) s)"

definition sys_fchownat :: "'d fa_env \<Rightarrow> int \<Rightarrow> u64 \<Rightarrow> u32 \<Rightarrow> u32 \<Rightarrow> u32 \<Rightarrow> 'd fa_state \<Rightarrow> (int \<times> 'd fa_state) option" where
  "sys_fchownat E dfd filename user gr flag s = do_fchownat E dfd filename user gr flag s"

definition sys_chown :: "'d fa_env \<Rightarrow> u64 \<Rightarrow> u32 \<Rightarrow> u32 \<Rightarrow> 'd fa_state \<Rightarrow> (int \<times> 'd fa_state) option" where
  "sys_chown E filename user gr s = do_fchownat E AT_FDCWD filename user gr 0 s"

definition sys_lchown :: "'d fa_env \<Rightarrow> u64 \<Rightarrow> u32 \<Rightarrow> u32 \<Rightarrow> 'd fa_state \<Rightarrow> (int \<times> 'd fa_state) option" where
  "sys_lchown E filename user gr s = do_fchownat E AT_FDCWD filename user gr AT_SYMLINK_NOFOLLOW s"

definition vfs_fchown :: "'d fa_env \<Rightarrow> nat \<Rightarrow> u32 \<Rightarrow> u32 \<Rightarrow> 'd fa_state \<Rightarrow> (int \<times> 'd fa_state) option" where
  "vfs_fchown E f user gr s =
     (let path = fa_path E f; error = mnt_want_write_file E f in
      if error \<noteq> 0 then Some (error, s)
      else let s = fa_get Mnt_write s; s = s\<lparr>fa_events := fa_events s @ [Fa_audited f]\<rparr> in
      map_option (\<lambda>(error, s). (error, fa_put Mnt_write s)) (chown_common E path user gr s))"

definition ksys_fchown :: "'d fa_env \<Rightarrow> u32 \<Rightarrow> u32 \<Rightarrow> u32 \<Rightarrow> 'd fa_state \<Rightarrow> (int \<times> 'd fa_state) option" where
  "ksys_fchown E fd user gr s =
     (case fa_file E fd of None \<Rightarrow> Some (- EBADF, s)
      | Some f \<Rightarrow> map_option (\<lambda>(error, s). (error, fa_put File_ref s)) (vfs_fchown E f user gr (fa_get File_ref s)))"

definition sys_fchown :: "'d fa_env \<Rightarrow> u32 \<Rightarrow> u32 \<Rightarrow> u32 \<Rightarrow> 'd fa_state \<Rightarrow> (int \<times> 'd fa_state) option" where
  "sys_fchown E fd user gr s = ksys_fchown E fd user gr s"

end
