(* ===== verification/Attribute_Calls.thy ===== *)
theory Attribute_Calls
  imports File_Attributes
begin

text \<open>
  Properties of the calls on file attributes: every call gives back what it held and the
  credentials it replaced, every call returns, no call changes the type of a file, \<open>access\<close> tests
  the real ids, and \<open>fallocate\<close> stays inside the file.
\<close>

section \<open>Calls\<close>

datatype attr_call =
    Truncate u64 u64 | Ftruncate u32 u64 | Fallocate u32 u32 loff_t loff_t | Faccessat2 int u64 u32 u32
  | Chdir u64 | Fchdir u32 | Chroot u64 | Fchmod u32 u16 | Fchmodat2 int u64 u16 u32 | Fchownat int u64 u32 u32 u32 | Fchown u32 u32 u32

fun exec_attr :: "'d fa_env \<times> attr_call \<Rightarrow> 'd fa_state \<Rightarrow> (int \<times> 'd fa_state) option" where
  "exec_attr (E, Truncate path len) s = sys_truncate E path len s"
| "exec_attr (E, Ftruncate fd len) s = Some (sys_ftruncate E fd len s)"
| "exec_attr (E, Fallocate fd mode offset len) s = Some (sys_fallocate E fd mode offset len s)"
| "exec_attr (E, Faccessat2 dfd filename mode flags) s = sys_faccessat2 E dfd filename mode flags s"
| "exec_attr (E, Chdir filename) s = sys_chdir E filename s"
| "exec_attr (E, Fchdir fd) s = Some (sys_fchdir E fd s)"
| "exec_attr (E, Chroot filename) s = sys_chroot E filename s"
| "exec_attr (E, Fchmod fd mode) s = sys_fchmod E fd mode s"
| "exec_attr (E, Fchmodat2 dfd filename mode flags) s = sys_fchmodat2 E dfd filename mode flags s"
| "exec_attr (E, Fchownat dfd filename user gr flag) s = sys_fchownat E dfd filename user gr flag s"
| "exec_attr (E, Fchown fd user gr) s = sys_fchown E fd user gr s"

primrec run_attrs :: "('d fa_env \<times> attr_call) list \<Rightarrow> 'd fa_state \<Rightarrow> 'd fa_state option" where
  "run_attrs [] s = Some s"
| "run_attrs (c # cs) s = (case exec_attr c s of None \<Rightarrow> None | Some (r, s) \<Rightarrow> run_attrs cs s)"

section \<open>access as a function of the credentials\<close>

definition access_check :: "'d fa_env \<Rightarrow> u32 \<Rightarrow> nat \<Rightarrow> fcred \<Rightarrow> 'd \<Rightarrow> int" where
  "access_check E mode path cred w =
     (if mode AND PERM_EXEC \<noteq> 0 \<and> S_ISREG (inode_mode E path w) \<and> path_noexec E path then - EACCES
      else let res = inode_permission E path (mode OR PERM_ACCESS) cred w in
      if res = 0 \<and> mode AND 2 \<noteq> 0 \<and> \<not> special_file (inode_mode E path w) \<and> mnt_is_readonly E path then - EROFS else res)"

definition access_once :: "'d fa_env \<Rightarrow> int \<Rightarrow> u64 \<Rightarrow> u32 \<Rightarrow> lookup set \<Rightarrow> fcred \<Rightarrow> 'd \<Rightarrow> int \<times> bool" where
  "access_once E dfd filename mode flags cred w =
     (case user_path_at E dfd filename flags cred w of Inl e \<Rightarrow> (e, False) | Inr path \<Rightarrow> (access_check E mode path cred w, True))"

definition access_spec :: "'d fa_env \<Rightarrow> int \<Rightarrow> u64 \<Rightarrow> u32 \<Rightarrow> lookup set \<Rightarrow> fcred \<Rightarrow> 'd \<Rightarrow> int" where
  "access_spec E dfd filename mode flags cred w =
     (if LOOKUP_REVAL \<notin> flags \<and> access_once E dfd filename mode flags cred w = (- ESTALE, True)
      then fst (access_once E dfd filename mode (insert LOOKUP_REVAL flags) cred w)
      else fst (access_once E dfd filename mode flags cred w))"

lemma put_get [simp]: "fa_put r (fa_get r s) = s" "fa_cred (fa_get r s) = fa_cred s" "fa_world (fa_get r s) = fa_world s"
  by (simp_all add: fa_put_def fa_get_def)

lemma access_path_check: "access_path E mode path s = Some (access_check E mode path (fa_cred s) (fa_world s), s)"
  by (simp add: access_path_def access_check_def Let_def)

lemma with_access_path:
  "with_path E False dfd filename (access_path E mode) flags s = Some (access_once E dfd filename mode flags (fa_cred s) (fa_world s), s)"
  by (simp add: with_path_def access_once_def access_path_check split: sum.split)

lemma access_lookup_pure:
  "retry_estale (with_path E False dfd filename (access_path E mode)) flags s =
     Some (access_spec E dfd filename mode flags (fa_cred s) (fa_world s), s)"
proof -
  let ?once = "\<lambda>fl. access_once E dfd filename mode fl (fa_cred s) (fa_world s)"
  have "retry_estale (with_path E False dfd filename (access_path E mode)) flags s = Some (fst (?once flags), s)"
    if "LOOKUP_REVAL \<in> flags" for flags
    using that by (subst retry_estale.simps) (simp add: with_access_path split: prod.split)
  then show ?thesis
    by (subst retry_estale.simps) (auto simp: with_access_path access_spec_def split: prod.split)
qed

section \<open>Every call returns\<close>

text \<open>
  Breaking a delegation leaves fewer of them: \<open>m\<close> measures the delegations that are outstanding.
\<close>

definition deleg_law :: "('d \<Rightarrow> nat) \<Rightarrow> 'd fa_env \<Rightarrow> bool" where
  "deleg_law m E \<longleftrightarrow> (\<forall>path attrs w error w1 w2.
     notify_change E path attrs w = ((error, True), w1) \<longrightarrow> break_deleg_wait E path w1 = (0, w2) \<longrightarrow> m w2 < m w)"

lemma deleg_retry_returns:
  assumes "deleg_law m E"
  shows "deleg_retry E path prepare s \<noteq> None"
proof (induction "m (fa_world s)" arbitrary: s rule: less_induct)
  case less
  show ?case
  proof (cases "prepare (fa_world s)")
    case (Inr attrs)
    obtain e again t where d: "deleg_step E path attrs s = ((e, again), t)" by (metis prod.exhaust)
    have "deleg_retry E path prepare t \<noteq> None" if again
      using that d assms by (intro less) (auto simp: deleg_step_def deleg_law_def split: if_splits prod.splits)
    then show ?thesis using Inr d by (subst deleg_retry.simps) simp
  qed (subst deleg_retry.simps, simp)
qed

lemma retry_estale_returns: "(\<And>flags s. body flags s \<noteq> None) \<Longrightarrow> retry_estale body flags s \<noteq> None"
proof (induction body flags s rule: retry_estale.induct)
  case (1 body flags s)
  then show ?case by (subst retry_estale.simps) (auto split: option.split)
qed

lemma path_call_returns: "(\<And>path s. work path s \<noteq> None) \<Longrightarrow> retry_estale (with_path E tested dfd filename work) flags s \<noteq> None"
  by (rule retry_estale_returns) (simp add: with_path_def split: sum.split option.split, metis option.distinct(1))

section \<open>Relations kept by a call\<close>

text \<open>
  A relation between the states before and after is shown for a whole call from its parts: \<open>R\<close> is a
  preorder that holds across what a call may do to a state while it runs.
\<close>

definition keeps :: "('s \<Rightarrow> 's \<Rightarrow> bool) \<Rightarrow> ('s \<Rightarrow> ('r \<times> 's) option) \<Rightarrow> bool" where
  "keeps R f \<longleftrightarrow> (\<forall>s r s'. f s = Some (r, s') \<longrightarrow> R s s')"

lemma keepsI: "(\<And>s r s'. f s = Some (r, s') \<Longrightarrow> R s s') \<Longrightarrow> keeps R f"
  by (simp add: keeps_def)

lemma keepsD: "keeps R f \<Longrightarrow> f s = Some (r, s') \<Longrightarrow> R s s'"
  by (simp add: keeps_def)

lemma retry_estale_keeps:
  assumes body: "\<And>flags. keeps R (body flags)" and trans: "\<And>s t u. R s t \<Longrightarrow> R t u \<Longrightarrow> R s u"
  shows "keeps R (retry_estale body flags)"
proof (rule keepsI)
  show "R s s'" if "retry_estale body flags s = Some (r, s')" for s r s'
    using that body
  proof (induction body flags s rule: retry_estale.induct)
    case (1 body flags s)
    obtain e b t where b: "body flags s = Some ((e, b), t)"
      using "1.prems"(1) by (subst (asm) retry_estale.simps) (auto split: option.splits)
    have st: "R s t" using keepsD [OF "1.prems"(2) b] .
    show ?case
    proof (cases "b \<and> e = - ESTALE \<and> LOOKUP_REVAL \<notin> flags")
      case True
      then have "retry_estale body (insert LOOKUP_REVAL flags) t = Some (r, s')"
        using "1.prems"(1) b by (subst (asm) retry_estale.simps) auto
      with True "1.IH" [OF b refl refl True] have "R t s'" using "1.prems"(2) by blast
      then show ?thesis using trans st by blast
    next
      case False
      then have "s' = t" using "1.prems"(1) b by (subst (asm) retry_estale.simps) auto
      then show ?thesis using st by simp
    qed
  qed
qed

definition kept :: "'d fa_env \<Rightarrow> ('d \<Rightarrow> 'd \<Rightarrow> bool) \<Rightarrow> 'd fa_state \<Rightarrow> 'd fa_state \<Rightarrow> bool" where
  "kept E W s s' \<longleftrightarrow> fa_held s' = fa_held s \<and> fa_cred s' = fa_cred s \<and> W (fa_world s) (fa_world s') \<and>
     (fa_root s' = fa_root s \<or> capable_chroot E (fa_cred s))"

text \<open>Taking a resource before and dropping it after.\<close>

lemma kept_bracket: "kept E W (fa_get r s) t \<Longrightarrow> kept E W s (fa_put r t)"
  by (auto simp: kept_def fa_get_def fa_put_def)

text \<open>
  \<open>W\<close> relates the world before and after each of the environment's functions, for the attributes
  that the calls ask for.
\<close>

locale attr_world =
  fixes E :: "'d fa_env" and W :: "'d \<Rightarrow> 'd \<Rightarrow> bool"
  assumes W_refl: "W w w"
    and W_trans: "W u v \<Longrightarrow> W v w \<Longrightarrow> W u w"
    and lease: "W w (snd (break_lease E path w))"
    and deleg: "W w (snd (break_deleg_wait E path w))"
    and falloc: "op_fallocate E f = Some g \<Longrightarrow> W w (snd (g fmode offset len w))"
    and trunc: "dentry_needs_remove_privs E path w \<ge> 0 \<Longrightarrow> time_attrs \<in> {0, ATTR_MTIME OR ATTR_CTIME} \<Longrightarrow>
      W w (snd (notify_change E path (truncate_attrs len time_attrs filp (dentry_needs_remove_privs E path w)) w))"
    and chmod: "W w (snd (notify_change E path (chmod_attrs mode (inode_mode E path w)) w))"
    and chown: "chown_attrs E path user gr w = Some attrs \<Longrightarrow> W w (snd (notify_change E path attrs w))"
begin

lemma kept_refl: "kept E W s s"
  by (simp add: kept_def W_refl)

lemma kept_trans: "kept E W s t \<Longrightarrow> kept E W t u \<Longrightarrow> kept E W s u"
  unfolding kept_def using W_trans by (metis (no_types))

lemma kept_world: "W (fa_world s) w \<Longrightarrow> kept E W s (s\<lparr>fa_world := w\<rparr>)"
  by (simp add: kept_def)

lemma do_truncate_kept: "ta \<in> {0, ATTR_MTIME OR ATTR_CTIME} \<Longrightarrow> kept E W s (snd (do_truncate E path len ta filp s))"
  using trunc [of path "fa_world s" ta len filp]
  by (simp add: do_truncate_def Let_def kept_refl split_def kept_world)

lemma vfs_truncate_kept: "kept E W s (snd (vfs_truncate E path len s))"
proof -
  let ?t = "fa_get Inode_write (fa_get Mnt_write s)"
  obtain e w where b: "break_lease E path (fa_world ?t) = (e, w)" by fastforce
  have bl: "kept E W ?t (?t\<lparr>fa_world := w\<rparr>)" using lease [of "fa_world ?t" path] b by (simp add: kept_world)
  have out: "kept E W ?t u \<Longrightarrow> kept E W s (fa_put Mnt_write (fa_put Inode_write u))" for u by (intro kept_bracket)
  have undo: "kept E W s (fa_put Mnt_write (fa_get Mnt_write s))" by (rule kept_bracket [OF kept_refl])
  show ?thesis
    using kept_refl undo out [OF bl] out [OF kept_trans [OF bl do_truncate_kept [of 0]]] b
    unfolding vfs_truncate_def Let_def by (simp add: split_def)
qed

lemma with_path_keeps: "(\<And>path. keeps (kept E W) (work path)) \<Longrightarrow> keeps (kept E W) (with_path E tested dfd filename work flags)"
  unfolding keeps_def with_path_def
  by (auto simp: kept_refl split: sum.splits option.splits intro: kept_bracket)

lemma path_call_keeps: "(\<And>path. keeps (kept E W) (work path)) \<Longrightarrow> keeps (kept E W) (retry_estale (with_path E tested dfd filename work) flags)"
  using kept_trans by (intro retry_estale_keeps with_path_keeps)

lemma total_keeps: "(\<And>s. kept E W s (snd (f s))) \<Longrightarrow> keeps (kept E W) (\<lambda>s. Some (f s))"
  by (auto simp: keeps_def) (metis snd_conv)

lemma truncate_keeps: "keeps (kept E W) (sys_truncate E path len)"
proof -
  have "keeps (kept E W) (retry_estale (with_path E True AT_FDCWD path (\<lambda>path s. Some (vfs_truncate E path len s))) {LOOKUP_FOLLOW})"
    by (intro path_call_keeps total_keeps vfs_truncate_kept)
  then show ?thesis
    by (auto simp: keeps_def sys_truncate_def do_sys_truncate_def kept_refl)
qed

lemma ftruncate_kept: "kept E W s (snd (sys_ftruncate E fd len s))"
proof (cases "fa_file E fd")
  case (Some f)
  let ?t = "fa_get Sb_write (fa_get File_ref s)"
  have out: "kept E W ?t u \<Longrightarrow> kept E W s (fa_put File_ref (fa_put Sb_write u))" for u by (intro kept_bracket)
  show ?thesis
    using Some kept_refl kept_bracket [OF kept_refl] out [OF kept_refl] out [OF do_truncate_kept [of "ATTR_MTIME OR ATTR_CTIME"]]
    unfolding sys_ftruncate_def do_sys_ftruncate_def Let_def by (simp add: split_def)
qed (simp add: sys_ftruncate_def do_sys_ftruncate_def kept_refl)

lemma fallocate_kept: "kept E W s (snd (sys_fallocate E fd mode offset len s))"
proof -
  have ev: "kept E W t (u\<lparr>fa_events := e\<rparr>)" if "kept E W t u" for t u e using that by (simp add: kept_def)
  have "kept E W t (snd (vfs_fallocate E f mode offset len t))" for t f
  proof (cases "op_fallocate E f")
    case (Some g)
    obtain r w where g: "g mode offset len (fa_world (fa_get Sb_write t)) = (r, w)" by fastforce
    have "kept E W (fa_get Sb_write t) ((fa_get Sb_write t)\<lparr>fa_world := w\<rparr>)"
      using falloc [OF Some, of "fa_world (fa_get Sb_write t)" mode offset len] g by (simp add: kept_world)
    then show ?thesis
      using Some g kept_refl ev unfolding vfs_fallocate_def Let_def by (simp add: kept_bracket)
  qed (use kept_refl in \<open>simp add: vfs_fallocate_def Let_def\<close>)
  then show ?thesis
    using kept_refl by (auto simp: sys_fallocate_def ksys_fallocate_def split_def split: option.split intro: kept_bracket)
qed

lemma chdir_keeps: "keeps (kept E W) (sys_chdir E filename)"
proof -
  have "keeps (kept E W) (\<lambda>s. let error = p s in if error \<noteq> 0 then Some (error, s) else Some (0, s\<lparr>fa_pwd := path\<rparr>))" for p path
    by (auto simp: keeps_def Let_def kept_def W_refl)
  then have "keeps (kept E W) (retry_estale (with_path E False AT_FDCWD filename (\<lambda>path s.
      let error = inode_permission E path (PERM_EXEC OR PERM_CHDIR) (fa_cred s) (fa_world s)
      in if error \<noteq> 0 then Some (error, s) else Some (0, s\<lparr>fa_pwd := path\<rparr>))) {LOOKUP_FOLLOW, LOOKUP_DIRECTORY})"
    by (rule path_call_keeps)
  then show ?thesis unfolding keeps_def sys_chdir_def .
qed

lemma chroot_keeps: "keeps (kept E W) (sys_chroot E filename)"
proof -
  have "keeps (kept E W) (\<lambda>s. let error = p s in if error \<noteq> 0 then Some (error, s) else if \<not> capable_chroot E (fa_cred s) then Some (- EPERM, s)
      else let error = q in if error \<noteq> 0 then Some (error, s) else Some (0, s\<lparr>fa_root := path\<rparr>))" for p q path
    by (auto simp: keeps_def Let_def kept_def W_refl split: if_splits)
  then have "keeps (kept E W) (retry_estale (with_path E False AT_FDCWD filename (\<lambda>path s.
      let error = inode_permission E path (PERM_EXEC OR PERM_CHDIR) (fa_cred s) (fa_world s)
      in if error \<noteq> 0 then Some (error, s) else if \<not> capable_chroot E (fa_cred s) then Some (- EPERM, s)
      else let error = security_path_chroot E path in if error \<noteq> 0 then Some (error, s) else Some (0, s\<lparr>fa_root := path\<rparr>)))
      {LOOKUP_FOLLOW, LOOKUP_DIRECTORY})"
    by (rule path_call_keeps)
  then show ?thesis unfolding keeps_def sys_chroot_def .
qed

lemma fchdir_kept: "kept E W s (snd (sys_fchdir E fd s))"
  by (auto simp: sys_fchdir_def Let_def kept_def W_refl fa_get_def fa_put_def split: option.split)

lemma deleg_step_kept:
  assumes "W (fa_world s) (snd (notify_change E path attrs (fa_world s)))"
  shows "kept E W s (snd (deleg_step E path attrs s))"
proof -
  obtain e d w where n: "notify_change E path attrs (fa_world s) = ((e, d), w)" by (metis prod.exhaust)
  then have "W (fa_world s) w" "W w (snd (break_deleg_wait E path w))" using assms deleg by auto
  then show ?thesis using n W_trans by (auto simp: deleg_step_def split_def intro: kept_world)
qed

lemma deleg_retry_keeps:
  assumes "\<And>w attrs. prepare w = Inr attrs \<Longrightarrow> W w (snd (notify_change E path attrs w))"
  shows "keeps (kept E W) (deleg_retry E path prepare)"
proof (rule keepsI)
  show "kept E W s s'" if "deleg_retry E path prepare s = Some (r, s')" for s r s'
  proof -
    have "E = E \<longrightarrow> path = path \<longrightarrow> prepare = prepare \<longrightarrow> kept E W s (snd (r, s'))"
      using that
    proof (rule deleg_retry.raw_induct [where P = "\<lambda>F q pr s y. F = E \<longrightarrow> q = path \<longrightarrow> pr = prepare \<longrightarrow> kept E W s (snd y)", rotated], intro impI)
      fix rec F q pr s y
      assume rec: "\<And>F q pr s y. rec F q pr s = Some y \<Longrightarrow> F = E \<longrightarrow> q = path \<longrightarrow> pr = prepare \<longrightarrow> kept E W s (snd y)"
        and step: "(case pr (fa_world s) of Inl error \<Rightarrow> Some (error, s) | Inr attrs \<Rightarrow> (case deleg_step F q attrs s of ((error, again), s) \<Rightarrow>
          if again then rec F q pr s else Some (error, s))) = Some y"
        and eq: "F = E" "q = path" "pr = prepare"
      show "kept E W s (snd y)"
      proof (cases "prepare (fa_world s)")
        case (Inl e)
        then show ?thesis using step eq kept_refl by auto
      next
        case (Inr attrs)
        obtain e again t where d: "deleg_step E path attrs s = ((e, again), t)" by (metis prod.exhaust)
        have st: "kept E W s t" using deleg_step_kept [OF assms [OF Inr]] d by simp
        show ?thesis using step eq Inr d st rec [of E path prepare t y] kept_trans [OF st] by (auto split: if_splits)
      qed
    qed
    then show ?thesis by simp
  qed
qed

lemma map_put_keeps:
  assumes "keeps (kept E W) f" "map_option (\<lambda>(e, s). (e, fa_put r s)) (f (fa_get r s)) = Some (e', s')"
  shows "kept E W s s'"
  using assms keepsD [OF assms(1)] by (auto intro: kept_bracket)

lemma chmod_keeps: "keeps (kept E W) (chmod_common E path mode)"
proof -
  have d: "keeps (kept E W) (deleg_retry E path (chmod_prepare E path mode))"
    by (rule deleg_retry_keeps) (auto simp: chmod_prepare_def Let_def chmod split: if_splits)
  show ?thesis unfolding keeps_def chmod_common_def Let_def using map_put_keeps [OF d] kept_refl by auto
qed

lemma chown_common_keeps: "keeps (kept E W) (chown_common E path user gr)"
proof -
  have "keeps (kept E W) (deleg_retry E path (chown_prepare E path user gr))"
    by (rule deleg_retry_keeps) (auto simp: chown_prepare_def Let_def intro: chown split: if_splits option.splits)
  then show ?thesis by (simp add: keeps_def chown_common_def)
qed

lemma fchmod_keeps: "keeps (kept E W) (sys_fchmod E fd mode)"
proof -
  have ev: "kept E W s (s\<lparr>fa_events := e\<rparr>)" for s e by (simp add: kept_def W_refl)
  have "keeps (kept E W) (vfs_fchmod E f mode)" for f
    unfolding keeps_def vfs_fchmod_def using keepsD [OF chmod_keeps] kept_trans ev by blast
  from map_put_keeps [OF this] show ?thesis unfolding keeps_def sys_fchmod_def using kept_refl by (auto split: option.splits)
qed

lemma fchown_keeps: "keeps (kept E W) (sys_fchown E fd user gr)"
proof -
  have ev: "kept E W s (s\<lparr>fa_events := e\<rparr>)" for s e by (simp add: kept_def W_refl)
  have "keeps (kept E W) (\<lambda>s. chown_common E path user gr (s\<lparr>fa_events := fa_events s @ [e]\<rparr>))" for path e
    unfolding keeps_def using keepsD [OF chown_common_keeps] kept_trans ev by blast
  from map_put_keeps [OF this] have "keeps (kept E W) (vfs_fchown E f user gr)" for f
    unfolding keeps_def vfs_fchown_def Let_def using kept_refl by auto
  from map_put_keeps [OF this] show ?thesis unfolding keeps_def sys_fchown_def ksys_fchown_def using kept_refl by (auto split: option.splits)
qed

lemma fchownat_keeps: "keeps (kept E W) (sys_fchownat E dfd filename user gr flag)"
proof -
  have "keeps (kept E W) (chown_path E user gr path)" for path
    unfolding keeps_def chown_path_def Let_def using map_put_keeps [OF chown_common_keeps] kept_refl by auto
  from path_call_keeps [OF this] show ?thesis
    unfolding keeps_def sys_fchownat_def do_fchownat_def using kept_refl by auto
qed

lemma fchmodat_keeps: "keeps (kept E W) (sys_fchmodat2 E dfd filename mode flags)"
  using path_call_keeps [OF chmod_keeps] kept_refl
  unfolding keeps_def sys_fchmodat2_def do_fchmodat_def by auto

lemma faccessat_keeps: "keeps (kept E W) (sys_faccessat2 E dfd filename mode flags)"
proof -
  have "kept E W s (revert_creds old t)" if "access_override_creds E s = Some (old, t)" for s old t
    using that by (auto simp: access_override_creds_def revert_creds_def kept_def Let_def fa_get_def fa_put_def W_refl split: if_splits)
  then show ?thesis
    using kept_refl unfolding keeps_def sys_faccessat2_def do_faccessat_def Let_def access_lookup_pure
    by (auto split: option.splits if_splits)
qed

lemma exec_attr_keeps: "keeps (kept E W) (exec_attr (E, c))"
proof (cases c)
  case (Ftruncate fd len)
  then show ?thesis using ftruncate_kept by (auto simp: keeps_def) (metis snd_conv)
next
  case (Fallocate fd mode offset len)
  then show ?thesis using fallocate_kept by (auto simp: keeps_def) (metis snd_conv)
next
  case (Fchdir fd)
  then show ?thesis using fchdir_kept by (auto simp: keeps_def) (metis snd_conv)
qed (simp_all add: keeps_def truncate_keeps [unfolded keeps_def] faccessat_keeps [unfolded keeps_def] chdir_keeps [unfolded keeps_def]
    chroot_keeps [unfolded keeps_def] fchmod_keeps [unfolded keeps_def] fchmodat_keeps [unfolded keeps_def] fchownat_keeps [unfolded keeps_def]
    fchown_keeps [unfolded keeps_def])

end

section \<open>Runs of calls\<close>

text \<open>The laws of the environment about the type bits of files.\<close>

definition mode_law :: "'d fa_env \<Rightarrow> bool" where
  "mode_law E \<longleftrightarrow>
     (\<forall>path attrs w q. S_IFMT (inode_mode E q (snd (notify_change E path attrs w))) = S_IFMT (inode_mode E q w) \<or>
        ia_valid attrs AND ATTR_MODE \<noteq> 0 \<and> inode_mode E q w = inode_mode E path w \<and>
        S_IFMT (inode_mode E q (snd (notify_change E path attrs w))) = S_IFMT (ia_mode attrs)) \<and>
     (\<forall>path w q. S_IFMT (inode_mode E q (snd (break_lease E path w))) = S_IFMT (inode_mode E q w)) \<and>
     (\<forall>path w q. S_IFMT (inode_mode E q (snd (break_deleg_wait E path w))) = S_IFMT (inode_mode E q w)) \<and>
     (\<forall>f g mode offset len w q. op_fallocate E f = Some g \<longrightarrow> S_IFMT (inode_mode E q (snd (g mode offset len w))) = S_IFMT (inode_mode E q w)) \<and>
     (\<forall>path w. dentry_needs_remove_privs E path w \<ge> 0 \<longrightarrow> word_of_int (dentry_needs_remove_privs E path w) AND ATTR_MODE = 0) \<and>
     (\<forall>path w. setattr_should_drop_sgid E path w AND ATTR_MODE = 0)"

definition types_kept :: "'d fa_env \<Rightarrow> 'd \<Rightarrow> 'd \<Rightarrow> bool" where
  "types_kept E w w' \<longleftrightarrow> (mode_law E \<longrightarrow> (\<forall>q. S_IFMT (inode_mode E q w') = S_IFMT (inode_mode E q w)))"

lemma chmod_attrs_type: "S_IFMT (ia_mode (chmod_attrs mode i_mode)) = S_IFMT i_mode"
proof -
  have "((mode AND 0xFFF) OR (i_mode AND NOT 0xFFF)) AND 0xF000 = (mode AND 0xFFF AND 0xF000) OR (i_mode AND (NOT 0xFFF AND 0xF000))"
    by (simp add: bit.conj_disj_distrib2 and.assoc)
  also have "\<dots> = i_mode AND 0xF000" by simp
  finally show ?thesis by (simp add: chmod_attrs_def S_IFMT_def)
qed

lemma truncate_attrs_mode:
  assumes "word_of_int privs AND ATTR_MODE = 0" "time_attrs \<in> {0, ATTR_MTIME OR ATTR_CTIME}"
  shows "ia_valid (truncate_attrs len time_attrs filp privs) AND ATTR_MODE = 0"
  using assms by (auto simp: truncate_attrs_def Let_def no_attrs_def bit.conj_disj_distrib2)

lemma chown_attrs_mode:
  assumes "\<forall>path w. setattr_should_drop_sgid E path w AND ATTR_MODE = 0" "chown_attrs E path user gr w = Some attrs"
  shows "ia_valid attrs AND ATTR_MODE = 0"
  using assms
  by (auto simp: chown_attrs_def setattr_vfsuid_def setattr_vfsgid_def Let_def no_attrs_def bit.conj_disj_distrib2 split: if_splits)

lemma notify_types_kept:
  assumes "mode_law E \<Longrightarrow> ia_valid attrs AND ATTR_MODE \<noteq> 0 \<Longrightarrow> S_IFMT (ia_mode attrs) = S_IFMT (inode_mode E path w)"
  shows "types_kept E w (snd (notify_change E path attrs w))"
  unfolding types_kept_def
proof (intro impI allI)
  fix q
  assume law: "mode_law E"
  note law [unfolded mode_law_def, THEN conjunct1, rule_format, of q path attrs w]
  then show "S_IFMT (inode_mode E q (snd (notify_change E path attrs w))) = S_IFMT (inode_mode E q w)" using assms [OF law] by metis
qed

interpretation any_world: attr_world E "\<lambda>_ _. True" for E :: "'d fa_env"
  by unfold_locales simp_all

interpretation file_types: attr_world E "types_kept E" for E :: "'d fa_env"
proof unfold_locales
  show "types_kept E w (snd (notify_change E path (chmod_attrs mode (inode_mode E path w)) w))" for path mode w
    by (rule notify_types_kept) (rule chmod_attrs_type)
  show "types_kept E w (snd (notify_change E path (truncate_attrs len ta filp (dentry_needs_remove_privs E path w)) w))"
    if "dentry_needs_remove_privs E path w \<ge> 0" "ta \<in> {0, ATTR_MTIME OR ATTR_CTIME}" for path len ta filp w
  proof (rule notify_types_kept)
    assume "mode_law E"
    then have "word_of_int (dentry_needs_remove_privs E path w) AND ATTR_MODE = 0" using that(1) unfolding mode_law_def by blast
    moreover assume "ia_valid (truncate_attrs len ta filp (dentry_needs_remove_privs E path w)) AND ATTR_MODE \<noteq> 0"
    ultimately show "S_IFMT (ia_mode (truncate_attrs len ta filp (dentry_needs_remove_privs E path w))) = S_IFMT (inode_mode E path w)"
      using truncate_attrs_mode [OF _ that(2)] by blast
  qed
  show "types_kept E w (snd (notify_change E path attrs w))" if "chown_attrs E path user gr w = Some attrs" for path user gr w attrs
  proof (rule notify_types_kept)
    assume "mode_law E"
    then have "\<forall>path w. setattr_should_drop_sgid E path w AND ATTR_MODE = 0" unfolding mode_law_def by blast
    moreover assume "ia_valid attrs AND ATTR_MODE \<noteq> 0"
    ultimately show "S_IFMT (ia_mode attrs) = S_IFMT (inode_mode E path w)" using chown_attrs_mode [OF _ that] by blast
  qed
  show "types_kept E w (snd (break_lease E path w))" "types_kept E w (snd (break_deleg_wait E path w))" for path w
    unfolding types_kept_def mode_law_def by blast+
  show "types_kept E w (snd (g mode offset len w))" if "op_fallocate E f = Some g" for f g mode offset len w
    using that unfolding types_kept_def mode_law_def by blast
qed (auto simp: types_kept_def)

section \<open>An example\<close>

text \<open>
  A file system with one file; the world is its mode and the number of outstanding delegations.
\<close>

definition demo_ids :: cred_env where
  "demo_ids = \<lparr>make_kuid = (\<lambda>u. u), make_kgid = (\<lambda>u. u), uid_valid = (\<lambda>u. u \<noteq> - 1), gid_valid = (\<lambda>u. u \<noteq> - 1),
     from_kuid_munged = (\<lambda>u. u), from_kgid_munged = (\<lambda>u. u), ns_capable_setuid = (\<lambda>_. False), ns_capable_setgid = (\<lambda>_. False),
     prepare_creds_ok = True, alloc_uid = (\<lambda>_. None), security_task_fix_setuid = (\<lambda>new _ _. (0, new)),
     security_task_fix_setgid = (\<lambda>new _ _. (0, new)), set_cred_ucounts = (\<lambda>c. (0, c)), is_rlimit_overlimit = (\<lambda>_. False), INIT_USER = 0\<rparr>"

definition demo_fa :: "(u16 \<times> nat) fa_env" where
  "demo_fa = \<lparr>fa_ids = demo_ids, fa_file = (\<lambda>fd. if fd = 3 then Some 0 else None), fa_file_raw = (\<lambda>fd. if fd = 3 then Some 0 else None),
     fa_open_file = (\<lambda>_. (plain_file 0)\<lparr>f_mode := {FMODE_READ, FMODE_WRITE}\<rparr>), fa_path = (\<lambda>_. 7), user_path_at = (\<lambda>_ _ _ _ _. Inr 7), inode_mode = (\<lambda>_ w. fst w),
     IS_APPEND = (\<lambda>_. False), IS_IMMUTABLE = (\<lambda>_. False), IS_SWAPFILE = (\<lambda>_. False), inode_maxbytes = (\<lambda>_. 1000),
     mnt_want_write = (\<lambda>_. 0), mnt_want_write_file = (\<lambda>_. 0),
     inode_permission = (\<lambda>_ _ cred _. if cr_fsuid cred = 0 then 0 else - EACCES), get_write_access = (\<lambda>_. 0), break_lease = (\<lambda>_ w. (0, w)),
     security_path_truncate = (\<lambda>_. 0), security_file_truncate = (\<lambda>_. 0), dentry_needs_remove_privs = (\<lambda>_ _. 0),
     notify_change = (\<lambda>_ attrs w. if snd w > 0 then ((- EAGAIN, True), w)
       else ((0, False), if ia_valid attrs AND ATTR_MODE \<noteq> 0 then (ia_mode attrs, 0) else w)),
     break_deleg_wait = (\<lambda>_ w. (0, (fst w, snd w - 1))), security_file_permission = (\<lambda>_. 0), fsnotify_area_perm = (\<lambda>_ _ _. 0),
     op_fallocate = (\<lambda>_. Some (\<lambda>_ _ _ w. (0, w))), path_noexec = (\<lambda>_. False), mnt_is_readonly = (\<lambda>_. False), d_can_lookup = (\<lambda>_. True),
     capable_chroot = (\<lambda>_. False), security_path_chroot = (\<lambda>_. 0), security_path_chmod = (\<lambda>_ _. 0), security_path_chown = (\<lambda>_ _ _. 0),
     setattr_should_drop_sgid = (\<lambda>_ _. 0)\<rparr>"

text \<open>A set-user-id program of user 0 run by user 1000.\<close>

definition demo_fa_state :: "(u16 \<times> nat) fa_state" where
  "demo_fa_state = \<lparr>fa_cred = \<lparr>cr_uid = 1000, cr_gid = 1000, cr_suid = 0, cr_sgid = 1000, cr_euid = 0, cr_egid = 1000, cr_fsuid = 0, cr_fsgid = 1000,
       cr_user = 1, cr_ucounts = 1, cr_caps = {}, cr_cap_permitted = {}, cr_no_setuid_fixup = False, cr_non_rcu = False\<rparr>,
     fa_pwd = 1, fa_root = 1, fa_held = (\<lambda>_. 0), fa_events = [], fa_world = (0x81A4, 2)\<rparr>"

lemma demo_deleg_law: "deleg_law snd demo_fa"
  by (auto simp: deleg_law_def demo_fa_def split: if_splits)

lemma demo_mode_law: "mode_law demo_fa"
  by (auto simp: mode_law_def demo_fa_def)

lemma demo_run:
  "run_attrs [(demo_fa, Chroot 0), (demo_fa, Fchmod 3 0x1ED), (demo_fa, Faccessat2 0 0 4 0)] demo_fa_state =
     Some (demo_fa_state\<lparr>fa_events := [Fa_audited 0], fa_world := (0x81ED, 0)\<rparr>)"
proof -
  let ?u = "demo_fa_state\<lparr>fa_events := [Fa_audited 0], fa_world := (0x81ED, 0)\<rparr>"
  have root: "sys_chroot demo_fa 0 demo_fa_state = Some (- EPERM, demo_fa_state)"
    unfolding sys_chroot_def
    by (subst retry_estale.simps) (simp add: with_path_def demo_fa_def demo_fa_state_def fa_get_def fa_put_def fun_eq_iff)
  have step: "deleg_step demo_fa 7 attrs s = (if snd (fa_world s) > 0 then ((0, True), s\<lparr>fa_world := (fst (fa_world s), snd (fa_world s) - 1)\<rparr>)
      else ((0, False), s\<lparr>fa_world := (if ia_valid attrs AND ATTR_MODE \<noteq> 0 then (ia_mode attrs, 0) else fa_world s)\<rparr>))" for attrs s
    by (simp add: deleg_step_def demo_fa_def)
  have prep: "chmod_prepare demo_fa 7 mode w = Inr (chmod_attrs mode (fst w))" for mode w by (simp add: chmod_prepare_def demo_fa_def)
  have loop: "deleg_retry demo_fa 7 (chmod_prepare demo_fa 7 0x1ED) s = Some (0, s\<lparr>fa_world := (0x81ED, 0)\<rparr>)"
    if "fa_world s = (0x81A4, 2)" for s
    using that by (subst deleg_retry.simps, simp add: step prep, subst deleg_retry.simps, simp add: step prep, subst deleg_retry.simps)
      (simp add: step prep chmod_attrs_def no_attrs_def)
  have chmod: "sys_fchmod demo_fa 3 0x1ED demo_fa_state = Some (0, ?u)"
    using loop [of "fa_get Mnt_write (fa_get File_ref demo_fa_state\<lparr>fa_events := [Fa_audited 0]\<rparr>)"]
    by (simp add: sys_fchmod_def vfs_fchmod_def chmod_common_def demo_fa_def demo_fa_state_def fa_get_def fa_put_def fun_eq_iff)
  have "\<exists>r. sys_faccessat2 demo_fa 0 0 4 0 ?u = Some (r, ?u)"
    by (simp add: sys_faccessat2_def do_faccessat_def Let_def access_lookup_pure access_override_creds_def revert_creds_def demo_fa_def demo_ids_def
      demo_fa_state_def fa_get_def fa_put_def fun_eq_iff)
  then show ?thesis using root chmod by auto
qed




text \<open>
  C19: no sequence of these calls changes the type of a file: \<open>chmod\<close> asks for new permission bits
  under the type the file has, and no other call asks for a mode.
\<close>

theorem file_types_fixed:
  assumes "run_attrs cs s = Some s'" "\<forall>c \<in> set cs. mode_law (fst c) \<and> inode_mode (fst c) = im"
  shows "S_IFMT (im q (fa_world s')) = S_IFMT (im q (fa_world s))"
  using assms
proof (induction cs arbitrary: s)
  case (Cons c cs)
  obtain E a where c: "c = (E, a)" by fastforce
  obtain r t where t: "exec_attr (E, a) s = Some (r, t)" "run_attrs cs t = Some s'" using Cons.prems(1) c by (auto split: option.splits)
  have "kept E (types_kept E) s t" using keepsD [OF file_types.exec_attr_keeps t(1)] .
  then show ?case using Cons.IH [OF t(2)] Cons.prems(2) c by (auto simp: kept_def types_kept_def)
qed simp

theorem file_types_fixed_witness:
  "S_IFMT (fst (fa_world (the (run_attrs [(demo_fa, Chroot 0), (demo_fa, Fchmod 3 0x1ED), (demo_fa, Faccessat2 0 0 4 0)] demo_fa_state)))) = 0x8000"
proof -
  have "inode_mode demo_fa = (\<lambda>_ w. fst w)" by (simp add: demo_fa_def)
  then have "\<forall>c \<in> set [(demo_fa, Chroot 0), (demo_fa, Fchmod 3 0x1ED), (demo_fa, Faccessat2 0 0 4 0)]. mode_law (fst c) \<and> inode_mode (fst c) = (\<lambda>_ w. fst w)"
    using demo_mode_law by simp
  from file_types_fixed [OF demo_run this] show ?thesis unfolding demo_run by (simp add: demo_fa_state_def S_IFMT_def)
qed


text \<open>
  C21: every call returns, also \<open>chmod\<close> and \<open>chown\<close>, which start again each time they have broken a
  delegation, as long as breaking one leaves fewer of them.
\<close>

theorem attr_calls_return:
  assumes "deleg_law m E"
  shows "\<exists>r s'. exec_attr (E, c) s = Some (r, s')"
proof -
  note retry = deleg_retry_returns [OF assms]
  have chmod: "chmod_common E path mode t \<noteq> None" for path mode t using retry by (simp add: chmod_common_def Let_def)
  have chown: "chown_common E path user gr t \<noteq> None" for path user gr t using retry by (simp add: chown_common_def)
  have "exec_attr (E, c) s \<noteq> None"
  proof (cases c)
    case (Truncate path len)
    then show ?thesis using path_call_returns [of "\<lambda>path s. Some (vfs_truncate E path len s)"] by (simp add: sys_truncate_def do_sys_truncate_def)
  next
    case (Fchmodat2 dfd filename mode flags)
    then show ?thesis using path_call_returns [OF chmod] by (simp add: sys_fchmodat2_def do_fchmodat_def)
  next
    case (Fchownat dfd filename user gr flag)
    have "chown_path E user gr path t \<noteq> None" for path t using chown by (simp add: chown_path_def Let_def)
    then show ?thesis using Fchownat path_call_returns [of "chown_path E user gr"] by (simp add: sys_fchownat_def do_fchownat_def)
  next
    case (Chdir filename)
    have "sys_chdir E filename s \<noteq> None" unfolding sys_chdir_def by (rule path_call_returns) (simp add: Let_def)
    then show ?thesis using Chdir by simp
  next
    case (Chroot filename)
    have "sys_chroot E filename s \<noteq> None" unfolding sys_chroot_def by (rule path_call_returns) (simp add: Let_def)
    then show ?thesis using Chroot by simp
  qed (use chmod chown in \<open>auto simp: sys_faccessat2_def do_faccessat_def access_lookup_pure Let_def sys_fchmod_def vfs_fchmod_def
      sys_fchown_def ksys_fchown_def vfs_fchown_def split: option.split\<close>)
  then show ?thesis by auto
qed

theorem attr_calls_return_witness: "\<exists>r s'. exec_attr (demo_fa, Fchmod 3 0x1ED) demo_fa_state = Some (r, s')"
  using attr_calls_return [OF demo_deleg_law] .


section \<open>access\<close>

text \<open>The credentials with the real ids, and no capabilities but those a privileged real user has.\<close>

definition real_creds :: "'d fa_env \<Rightarrow> fcred \<Rightarrow> fcred" where
  "real_creds E cred =
     cred\<lparr>cr_fsuid := cr_uid cred, cr_fsgid := cr_gid cred,
       cr_caps := (if cr_no_setuid_fixup cred then cr_caps cred
         else if cr_uid cred = make_kuid (fa_ids E) 0 then cr_cap_permitted cred else {})\<rparr>"

text \<open>Path lookup and permission tests do not depend on how the credentials are to be freed.\<close>

definition cred_law :: "'d fa_env \<Rightarrow> bool" where
  "cred_law E \<longleftrightarrow>
     (\<forall>dfd filename flags cred b w. user_path_at E dfd filename flags (cred\<lparr>cr_non_rcu := b\<rparr>) w = user_path_at E dfd filename flags cred w) \<and>
     (\<forall>path mask cred b w. inode_permission E path mask (cred\<lparr>cr_non_rcu := b\<rparr>) w = inode_permission E path mask cred w)"

lemma no_override_needed:
  "\<not> access_need_override_creds E flags cred \<Longrightarrow> flags AND AT_EACCESS = 0 \<Longrightarrow> real_creds E cred = cred"
  by (auto simp: access_need_override_creds_def real_creds_def Let_def split: if_splits)

lemma override_real:
  "prepare_creds_ok (fa_ids E) \<Longrightarrow> access_override_creds E s =
     Some (fa_cred s, (fa_get Cred_ref s)\<lparr>fa_cred := (real_creds E (fa_cred s))\<lparr>cr_non_rcu := True\<rparr>\<rparr>)"
  by (auto simp: access_override_creds_def real_creds_def Let_def fa_get_def fa_put_def)

text \<open>
  C20: without \<open>AT_EACCESS\<close> the answer of \<open>access\<close> is the one for the real user and group ids, whether
  the credentials were replaced for the test or the shortcut that leaves them was taken; the call
  changes nothing.
\<close>

theorem access_checks_real_ids:
  assumes "prepare_creds_ok (fa_ids E)" "cred_law E" "mode AND NOT 7 = 0"
    and "flags AND NOT (AT_EACCESS OR AT_SYMLINK_NOFOLLOW OR AT_EMPTY_PATH) = 0"
  shows "do_faccessat E dfd filename mode flags s =
    Some (access_spec E dfd filename mode (access_lookup flags)
      (if flags AND AT_EACCESS \<noteq> 0 then fa_cred s else real_creds E (fa_cred s)) (fa_world s), s)"
proof -
  let ?lf = "access_lookup flags"
  have once: "access_once E dfd filename mode fl (cred\<lparr>cr_non_rcu := b\<rparr>) w = access_once E dfd filename mode fl cred w" for fl cred b w
    using assms(2) by (simp add: cred_law_def access_once_def access_check_def split: sum.split)
  have spec: "access_spec E dfd filename mode ?lf (cred\<lparr>cr_non_rcu := b\<rparr>) w = access_spec E dfd filename mode ?lf cred w" for cred b w
    by (simp add: access_spec_def once)
  have restore: "revert_creds (fa_cred s) ((fa_get Cred_ref s)\<lparr>fa_cred := c\<rparr>) = s" for c
    by (simp add: revert_creds_def fa_get_def fa_put_def)
  show ?thesis
  proof (cases "access_need_override_creds E flags (fa_cred s)")
    case True
    then have "flags AND AT_EACCESS = 0" by (auto simp: access_need_override_creds_def split: if_splits)
    then show ?thesis using True assms(3,4) by (simp add: do_faccessat_def Let_def override_real [OF assms(1)] access_lookup_pure spec restore)
  next
    case False
    then show ?thesis using no_override_needed [OF False] assms(3,4) by (auto simp: do_faccessat_def Let_def access_lookup_pure)
  qed
qed

theorem access_checks_real_ids_witness:
  "do_faccessat demo_fa 0 0 4 0 demo_fa_state = Some (- EACCES, demo_fa_state) \<and>
   do_faccessat demo_fa 0 0 4 0x200 demo_fa_state = Some (0, demo_fa_state)"
proof -
  have law: "prepare_creds_ok (fa_ids demo_fa)" "cred_law demo_fa" by (simp_all add: demo_fa_def demo_ids_def cred_law_def)
  have "access_spec demo_fa 0 0 4 fl cred w = (if cr_fsuid cred = 0 then 0 else - EACCES)" for fl cred w
    by (simp add: access_spec_def access_once_def access_check_def demo_fa_def)
  then show ?thesis
    using access_checks_real_ids [OF law, of 4 0] access_checks_real_ids [OF law, of 4 "0x200"]
    by (simp add: real_creds_def demo_fa_state_def)
qed


lemma falloc_modes: "falloc_mode_error mode = 0 \<longleftrightarrow> mode \<in> {0, 1, 3, 8, 16, 17, 32, 64, 65}"
proof (cases "mode AND NOT FALLOC_FL_SUPPORTED_MASK = 0")
  case True
  have "mode = (mode AND FALLOC_FL_SUPPORTED_MASK) OR (mode AND NOT FALLOC_FL_SUPPORTED_MASK)"
    by (simp add: bit.conj_disj_distrib [symmetric])
  then have "mode = mode AND FALLOC_FL_SUPPORTED_MASK" using True by simp
  then have "mode \<le> FALLOC_FL_SUPPORTED_MASK" by (metis word_and_le1)
  then have "unat mode < 128" by (simp add: word_le_nat_alt)
  moreover have "list_all (\<lambda>n. falloc_mode_error (word_of_nat n) = 0 \<longleftrightarrow> word_of_nat n \<in> set [0, 1, 3, 8, 16, 17, 32, 64, 65 :: u32]) [0..<128]"
    by code_simp
  ultimately have "falloc_mode_error (word_of_nat (unat mode)) = 0 \<longleftrightarrow> word_of_nat (unat mode) \<in> set [0, 1, 3, 8, 16, 17, 32, 64, 65 :: u32]"
    unfolding list_all_iff by (metis atLeastLessThan_iff set_upt zero_le)
  then show ?thesis by simp
next
  case False
  then show ?thesis by (auto simp: falloc_mode_error_def)
qed

text \<open>
  A \<open>fallocate\<close> that succeeds was for a non-empty range whose mathematical end lies within the
  maximal size of the file (no 64-bit wrap-around), with one of the nine combinations of modes that
  make sense, on a writable file that is neither immutable nor a swap file (and only plain
  allocation on an append-only file); it did what the method of the file system did and reported
  the modification.
\<close>

theorem fallocate_in_range:
  assumes "vfs_fallocate E f mode offset len s = (0, s')"
  shows "0 \<le> sint offset \<and> 0 < sint len \<and> sint offset + sint len \<le> sint (inode_maxbytes E (fa_path E f)) \<and>
    mode \<in> {0, 1, 3, 8, 16, 17, 32, 64, 65} \<and> (IS_APPEND E (fa_path E f) \<longrightarrow> mode \<in> {0, 1}) \<and>
    FMODE_WRITE \<in> f_mode (fa_open_file E f) \<and> \<not> IS_IMMUTABLE E (fa_path E f) \<and> \<not> IS_SWAPFILE E (fa_path E f) \<and>
    (\<exists>g w. op_fallocate E f = Some g \<and> g mode offset len (fa_world s) = (0, w) \<and>
       s' = s\<lparr>fa_world := w, fa_events := fa_events s @ [Fa_modified f]\<rparr>)"
proof -
  let ?p = "fa_path E f"
  have c: "\<not> sint offset < 0" "\<not> sint len \<le> 0" "falloc_mode_error mode = 0" "FMODE_WRITE \<in> f_mode (fa_open_file E f)"
    "\<not> (mode AND NOT FALLOC_FL_KEEP_SIZE \<noteq> 0 \<and> IS_APPEND E ?p)" "\<not> IS_IMMUTABLE E ?p" "\<not> IS_SWAPFILE E ?p"
    "\<not> (sint (offset + len) > sint (inode_maxbytes E ?p) \<or> sint (offset + len) < 0)"
    using assms unfolding vfs_fallocate_def Let_def by (auto split: if_splits)
  have g: "\<exists>g w. op_fallocate E f = Some g \<and> g mode offset len (fa_world s) = (0, w) \<and> s' = s\<lparr>fa_world := w, fa_events := fa_events s @ [Fa_modified f]\<rparr>"
    using assms c unfolding vfs_fallocate_def Let_def
    by (auto simp: fa_get_def fa_put_def split: if_splits option.splits prod.splits)
  have modes: "mode \<in> {0, 1, 3, 8, 16, 17, 32, 64, 65}" using c(3) by (simp add: falloc_modes)
  have app: "mode \<in> {0, 1}" if "IS_APPEND E ?p" using c(5) that modes by auto
  have sum: "sint offset + sint len \<le> sint (inode_maxbytes E ?p)"
    using sint_add_or_negative [of offset len] c(1,8) by auto
  show ?thesis using c modes app sum g by simp
qed

theorem fallocate_in_range_witness:
  "vfs_fallocate demo_fa 0 1 10 20 demo_fa_state = (0, demo_fa_state\<lparr>fa_events := [Fa_modified 0]\<rparr>) \<and>
   sint (10 :: loff_t) + sint (20 :: loff_t) \<le> sint (inode_maxbytes demo_fa 7)"
proof -
  have "vfs_fallocate demo_fa 0 1 10 20 demo_fa_state = (0, demo_fa_state\<lparr>fa_events := [Fa_modified 0]\<rparr>)"
    by (simp add: vfs_fallocate_def falloc_modes demo_fa_def demo_fa_state_def S_IFMT_def fa_get_def fa_put_def fun_eq_iff)
  from fallocate_in_range [OF this] this show ?thesis by (simp add: demo_fa_def)
qed

end
