(* ===== verification/Process_Creation.thy ===== *)
theory Process_Creation
  imports Rlimits
begin

text \<open>
  Creating processes and threads, from \<open>fork.c\<close>: \<open>copy_process\<close> with the functions that share or
  copy the parts of the parent and its chain of error labels, \<open>kernel_clone\<close>, the system calls
  \<open>fork\<close>, \<open>vfork\<close>, \<open>clone\<close>, \<open>clone3\<close>, and \<open>unshare\<close>.

  Structures are named by their address, 0 is the null pointer. The maps of \<open>fork_state\<close> hold the
  allocated structures with their reference counts. What subsystems outside the file hold for a
  task (credentials, audit context, cgroup, \<open>\<dots>\<close>) is accounted for in \<open>ledger\<close>: a successful call
  that sets it up adds one, the call that tears it down takes one away.
\<close>

abbreviation (input) CSIGNAL :: u64 where "CSIGNAL \<equiv> 0xFF"
abbreviation (input) CLONE_VM :: u64 where "CLONE_VM \<equiv> 0x100"
abbreviation (input) CLONE_FS :: u64 where "CLONE_FS \<equiv> 0x200"
abbreviation (input) CLONE_FILES :: u64 where "CLONE_FILES \<equiv> 0x400"
abbreviation (input) CLONE_SIGHAND :: u64 where "CLONE_SIGHAND \<equiv> 0x800"
abbreviation (input) CLONE_PIDFD :: u64 where "CLONE_PIDFD \<equiv> 0x1000"
abbreviation (input) CLONE_PTRACE :: u64 where "CLONE_PTRACE \<equiv> 0x2000"
abbreviation (input) CLONE_VFORK :: u64 where "CLONE_VFORK \<equiv> 0x4000"
abbreviation (input) CLONE_PARENT :: u64 where "CLONE_PARENT \<equiv> 0x8000"
abbreviation (input) CLONE_THREAD :: u64 where "CLONE_THREAD \<equiv> 0x10000"
abbreviation (input) CLONE_NEWNS :: u64 where "CLONE_NEWNS \<equiv> 0x20000"
abbreviation (input) CLONE_SYSVSEM :: u64 where "CLONE_SYSVSEM \<equiv> 0x40000"
abbreviation (input) CLONE_PARENT_SETTID :: u64 where "CLONE_PARENT_SETTID \<equiv> 0x100000"
abbreviation (input) CLONE_CHILD_CLEARTID :: u64 where "CLONE_CHILD_CLEARTID \<equiv> 0x200000"
abbreviation (input) CLONE_DETACHED :: u64 where "CLONE_DETACHED \<equiv> 0x400000"
abbreviation (input) CLONE_UNTRACED :: u64 where "CLONE_UNTRACED \<equiv> 0x800000"
abbreviation (input) CLONE_CHILD_SETTID :: u64 where "CLONE_CHILD_SETTID \<equiv> 0x1000000"
abbreviation (input) CLONE_NEWCGROUP :: u64 where "CLONE_NEWCGROUP \<equiv> 0x2000000"
abbreviation (input) CLONE_NEWUTS :: u64 where "CLONE_NEWUTS \<equiv> 0x4000000"
abbreviation (input) CLONE_NEWIPC :: u64 where "CLONE_NEWIPC \<equiv> 0x8000000"
abbreviation (input) CLONE_NEWUSER :: u64 where "CLONE_NEWUSER \<equiv> 0x10000000"
abbreviation (input) CLONE_NEWPID :: u64 where "CLONE_NEWPID \<equiv> 0x20000000"
abbreviation (input) CLONE_NEWNET :: u64 where "CLONE_NEWNET \<equiv> 0x40000000"
abbreviation (input) CLONE_NEWTIME :: u64 where "CLONE_NEWTIME \<equiv> 0x80"
abbreviation (input) CLONE_IO :: u64 where "CLONE_IO \<equiv> 0x80000000"
abbreviation (input) CLONE_CLEAR_SIGHAND :: u64 where "CLONE_CLEAR_SIGHAND \<equiv> 0x100000000"
abbreviation (input) CLONE_INTO_CGROUP :: u64 where "CLONE_INTO_CGROUP \<equiv> 0x200000000"
abbreviation (input) CLONE_LEGACY_FLAGS :: u64 where "CLONE_LEGACY_FLAGS \<equiv> 0xFFFFFFFF"
abbreviation (input) SIGCHLD :: int where "SIGCHLD \<equiv> 17"
abbreviation (input) E2BIG :: int where "E2BIG \<equiv> 7"
abbreviation (input) ERESTARTNOINTR_FORK :: int where "ERESTARTNOINTR_FORK \<equiv> 513"

section \<open>State\<close>

type_synonym addr = nat

datatype pflag = PF_KTHREAD | PF_USER_WORKER | PF_IO_WORKER | PF_NPROC_EXCEEDED | PF_SUPERPRIV | PF_WQ_WORKER
  | PF_IDLE | PF_NO_SETAFFINITY | PF_FORKNOEXEC

datatype sig_handler = SIG_DFL | SIG_IGN | Handler u64

record ftask =
  t_pid :: nat
  t_tgid :: nat
  t_leader :: addr
  t_real_parent :: addr
  t_exit_signal :: int
  t_parent_exec_id :: u64
  t_self_exec_id :: u64
  t_mm :: addr
  t_fs :: addr
  t_files :: addr
  t_sighand :: addr
  t_signal :: addr
  t_flags :: "pflag set"
  t_blocked :: "nat set"
  t_comm :: string
  t_set_child_tid :: u64
  t_clear_child_tid :: u64
  t_altstack :: bool
  t_times :: "nat list"
  t_faults :: "nat list"
  t_pdeath_signal :: int
  t_vfork_done :: bool
  t_seccomp :: nat
  t_seccomp_work :: bool
  t_no_new_privs :: bool

record sighand_struct =
  sh_count :: int
  sh_action :: "nat \<Rightarrow> sig_handler"

record signal_struct =
  sg_nr_threads :: int
  sg_quick_threads :: int
  sg_live :: int
  sg_sigcnt :: int
  sg_rlim :: "u32 \<Rightarrow> rlimit"
  sg_oom_score_adj :: int
  sg_oom_score_adj_min :: int
  sg_oom_mm :: addr
  sg_unkillable :: bool
  sg_has_child_subreaper :: bool
  sg_is_child_subreaper :: bool
  sg_shared_pending :: "nat set"
  sg_tty :: nat
  sg_tgid :: nat
  sg_pgrp :: nat
  sg_session :: nat

datatype held = Task_struct | Creds | Nproc | Delayacct | Mempolicy | Perf | Audit | Security | Semundo | Namespaces
  | Io_context | Thread_state | Unused_fd | Pidfd_file | Cgroup | Sched_core | Task_ref | Mm_count addr | New_cred | New_nsproxy

datatype fork_event = Woken addr | Ptrace_event nat nat | Ptrace_init addr bool | Child_reaper addr | Pidfd_installed nat
  | Exit_sem | Exit_shm | Switch_namespaces | Commit_creds | Multiprocess_mm addr

record fork_state =
  tasks :: "addr \<rightharpoonup> ftask"
  mm_users :: "addr \<rightharpoonup> int"
  fs_users :: "addr \<rightharpoonup> int"
  files_count :: "addr \<rightharpoonup> int"
  sighands :: "addr \<rightharpoonup> sighand_struct"
  signals :: "addr \<rightharpoonup> signal_struct"
  children :: "addr \<Rightarrow> addr list"
  pids :: "nat set"
  ledger :: "held \<Rightarrow> int"
  multiprocess :: int
  nr_threads :: int
  max_threads :: int
  process_counts :: int
  total_forks :: u64
  user_tids :: "u64 \<rightharpoonup> nat"
  fork_log :: "fork_event list"
  fork_call_counter :: u64

record kernel_clone_args =
  ka_flags :: u64
  ka_pidfd :: u64
  ka_child_tid :: u64
  ka_parent_tid :: u64
  ka_name :: "string option"
  ka_exit_signal :: int
  ka_kthread :: bool
  ka_io_thread :: bool
  ka_user_worker :: bool
  ka_no_files :: bool
  ka_stack :: u64
  ka_stack_size :: u64
  ka_tls :: u64
  ka_set_tid :: "nat list"
  ka_cgroup :: u64

definition no_args :: kernel_clone_args where
  "no_args = \<lparr>ka_flags = 0, ka_pidfd = 0, ka_child_tid = 0, ka_parent_tid = 0, ka_name = None, ka_exit_signal = 0,
     ka_kthread = False, ka_io_thread = False, ka_user_worker = False, ka_no_files = False, ka_stack = 0,
     ka_stack_size = 0, ka_tls = 0, ka_set_tid = [], ka_cgroup = 0\<rparr>"

text \<open>The arguments of \<open>clone3\<close> as user space passes them.\<close>

record clone_args =
  ca_flags :: u64
  ca_pidfd :: u64
  ca_child_tid :: u64
  ca_parent_tid :: u64
  ca_exit_signal :: u64
  ca_stack :: u64
  ca_stack_size :: u64
  ca_tls :: u64
  ca_set_tid :: u64
  ca_set_tid_size :: u64
  ca_cgroup :: u64

text \<open>
  What the rest of the kernel answers during one call: allocators give an address or the null
  pointer, set-up functions an error code (0 for success).
\<close>

record fork_env =
  task_sigpending :: bool
  other_pid_ns :: bool
  new_task :: addr
  copy_creds :: int
  over_nproc :: bool
  is_init_user :: bool
  capable_resource :: bool
  capable_admin :: bool
  set_kthread_struct :: bool
  mpol_dup :: int
  sched_fork :: int
  perf_event_init_task :: int
  audit_alloc :: int
  security_task_alloc :: int
  copy_semundo :: int
  dup_fd :: "int + addr"
  fs_in_exec :: bool
  copy_fs_struct :: addr
  new_sighand :: addr
  flush_signal_handlers :: "(nat \<Rightarrow> sig_handler) \<Rightarrow> nat \<Rightarrow> sig_handler"
  new_signal :: addr
  new_mm :: addr
  mm_init :: bool
  dup_mmap :: int
  try_module_get :: bool
  copy_namespaces :: int
  copy_io :: int
  io_context_made :: bool
  copy_thread :: int
  alloc_pid :: "nat list \<Rightarrow> int + nat"
  get_unused_fd :: int
  anon_inode_getfile :: int
  user_writable :: "u64 \<Rightarrow> bool"
  cgroup_can_fork :: int
  pidns_adding :: bool
  fatal_signal_pending :: bool
  is_child_reaper :: bool
  delayed_signals :: "nat set"
  ptrace_event_enabled :: "nat \<Rightarrow> bool"
  vfork_killed :: bool
  put_files_struct :: "addr \<Rightarrow> (addr \<rightharpoonup> int) \<Rightarrow> addr \<rightharpoonup> int"
  put_fs :: "addr \<Rightarrow> (addr \<rightharpoonup> int) \<Rightarrow> addr \<rightharpoonup> int"
  copy_clone_struct :: "u64 \<Rightarrow> u64 \<Rightarrow> int + clone_args"
  copy_set_tid :: "u64 \<Rightarrow> nat \<Rightarrow> nat list option"
  valid_exit_signal :: "u64 \<Rightarrow> bool"
  access_ok :: "u64 \<Rightarrow> u64 \<Rightarrow> bool"
  thread_group_empty :: bool
  single_threaded :: bool
  unshare_userns :: "int \<times> bool"
  unshare_nsproxy :: "int \<times> bool"
  set_cred_ucounts :: int
  free_fs_struct :: "addr \<Rightarrow> (addr \<rightharpoonup> int) \<Rightarrow> addr \<rightharpoonup> int"

section \<open>Reference counts\<close>

definition get_ref :: "(addr \<rightharpoonup> int) \<Rightarrow> addr \<Rightarrow> addr \<rightharpoonup> int" where
  "get_ref m a = m(a := map_option (\<lambda>n. n + 1) (m a))"

definition put_ref :: "(addr \<rightharpoonup> int) \<Rightarrow> addr \<Rightarrow> addr \<rightharpoonup> int" where
  "put_ref m a = m(a := (case m a of Some n \<Rightarrow> if n = 1 then None else Some (n - 1) | None \<Rightarrow> None))"

definition acquire :: "held \<Rightarrow> fork_state \<Rightarrow> fork_state" where
  "acquire h s = s\<lparr>ledger := (ledger s)(h := ledger s h + 1)\<rparr>"

definition release :: "held \<Rightarrow> fork_state \<Rightarrow> fork_state" where
  "release h s = s\<lparr>ledger := (ledger s)(h := ledger s h - 1)\<rparr>"

definition logged :: "fork_event \<Rightarrow> fork_state \<Rightarrow> fork_state" where
  "logged e s = s\<lparr>fork_log := fork_log s @ [e]\<rparr>"

definition mmput :: "addr \<Rightarrow> fork_state \<Rightarrow> fork_state" where
  "mmput mm s = s\<lparr>mm_users := put_ref (mm_users s) mm\<rparr>"

definition cleanup_sighand :: "addr \<Rightarrow> fork_state \<Rightarrow> fork_state" where
  "cleanup_sighand a s = s\<lparr>sighands := (sighands s)(a := (case sighands s a of
       Some sh \<Rightarrow> if sh_count sh = 1 then None else Some (sh\<lparr>sh_count := sh_count sh - 1\<rparr>) | None \<Rightarrow> None))\<rparr>"

definition free_signal_struct :: "addr \<Rightarrow> fork_state \<Rightarrow> fork_state" where
  "free_signal_struct a s =
     (let s' = (case signals s a of Some sg \<Rightarrow> if sg_oom_mm sg \<noteq> 0 then release (Mm_count (sg_oom_mm sg)) s else s | None \<Rightarrow> s)
      in s'\<lparr>signals := (signals s')(a := None)\<rparr>)"

section \<open>Sharing or copying the parts of the parent\<close>

text \<open>
  Each function takes the current task and the new one, and returns the error code, the new task
  and the state.
\<close>

type_synonym copied = "int \<times> ftask \<times> fork_state"

definition dup_mm :: "fork_env \<Rightarrow> fork_state \<Rightarrow> addr \<times> fork_state" where
  "dup_mm E s =
     (if new_mm E = 0 then (0, s)
      else if \<not> mm_init E then (0, s)
      else let mm = new_mm E; s = s\<lparr>mm_users := (mm_users s)(mm \<mapsto> 1)\<rparr> in
      if dup_mmap E \<noteq> 0 then (0, mmput mm s)
      else if \<not> try_module_get E then (0, mmput mm s)
      else (mm, s))"

definition copy_mm :: "fork_env \<Rightarrow> u64 \<Rightarrow> ftask \<Rightarrow> ftask \<Rightarrow> fork_state \<Rightarrow> copied" where
  "copy_mm E clone_flags current tsk s =
     (let tsk = tsk\<lparr>t_faults := [0, 0, 0, 0], t_mm := 0\<rparr>; oldmm = t_mm current in
      if oldmm = 0 then (0, tsk, s)
      else if has_flag clone_flags CLONE_VM then (0, tsk\<lparr>t_mm := oldmm\<rparr>, s\<lparr>mm_users := get_ref (mm_users s) oldmm\<rparr>)
      else case dup_mm E s of (mm, s) \<Rightarrow>
        if mm = 0 then (- ENOMEM, tsk, s) else (0, tsk\<lparr>t_mm := mm\<rparr>, s))"

definition copy_fs :: "fork_env \<Rightarrow> u64 \<Rightarrow> ftask \<Rightarrow> ftask \<Rightarrow> fork_state \<Rightarrow> copied" where
  "copy_fs E clone_flags current tsk s =
     (let fs = t_fs current in
      if has_flag clone_flags CLONE_FS then
        (if fs_in_exec E then (- EAGAIN, tsk, s) else (0, tsk, s\<lparr>fs_users := get_ref (fs_users s) fs\<rparr>))
      else let tsk = tsk\<lparr>t_fs := copy_fs_struct E\<rparr> in
        if t_fs tsk = 0 then (- ENOMEM, tsk, s)
        else (0, tsk, s\<lparr>fs_users := (fs_users s)(t_fs tsk \<mapsto> 1)\<rparr>))"

definition copy_files :: "fork_env \<Rightarrow> u64 \<Rightarrow> bool \<Rightarrow> ftask \<Rightarrow> ftask \<Rightarrow> fork_state \<Rightarrow> copied" where
  "copy_files E clone_flags no_files current tsk s =
     (let oldf = t_files current in
      if oldf = 0 then (0, tsk, s)
      else if no_files then (0, tsk\<lparr>t_files := 0\<rparr>, s)
      else if has_flag clone_flags CLONE_FILES then (0, tsk, s\<lparr>files_count := get_ref (files_count s) oldf\<rparr>)
      else case dup_fd E of
        Inl error \<Rightarrow> (error, tsk, s)
      | Inr newf \<Rightarrow> (0, tsk\<lparr>t_files := newf\<rparr>, s\<lparr>files_count := (files_count s)(newf \<mapsto> 1)\<rparr>))"

definition copy_sighand :: "fork_env \<Rightarrow> u64 \<Rightarrow> ftask \<Rightarrow> ftask \<Rightarrow> fork_state \<Rightarrow> copied" where
  "copy_sighand E clone_flags current tsk s =
     (if has_flag clone_flags CLONE_SIGHAND then
        (0, tsk, s\<lparr>sighands := (sighands s)(t_sighand current :=
            map_option (\<lambda>sh. sh\<lparr>sh_count := sh_count sh + 1\<rparr>) (sighands s (t_sighand current)))\<rparr>)
      else let sig = new_sighand E; tsk = tsk\<lparr>t_sighand := sig\<rparr> in
      if sig = 0 then (- ENOMEM, tsk, s)
      else let action = sh_action (the (sighands s (t_sighand current)));
               action = (if has_flag clone_flags CLONE_CLEAR_SIGHAND then flush_signal_handlers E action else action)
      in (0, tsk, s\<lparr>sighands := (sighands s)(sig \<mapsto> \<lparr>sh_count = 1, sh_action = action\<rparr>)\<rparr>))"

definition copy_signal :: "fork_env \<Rightarrow> u64 \<Rightarrow> ftask \<Rightarrow> ftask \<Rightarrow> fork_state \<Rightarrow> copied" where
  "copy_signal E clone_flags current tsk s =
     (if has_flag clone_flags CLONE_THREAD then (0, tsk, s)
      else let sig = new_signal E; tsk = tsk\<lparr>t_signal := sig\<rparr> in
      if sig = 0 then (- ENOMEM, tsk, s)
      else let old = the (signals s (t_signal current)) in
        (0, tsk, s\<lparr>signals := (signals s)(sig \<mapsto>
          \<lparr>sg_nr_threads = 1, sg_quick_threads = 1, sg_live = 1, sg_sigcnt = 1, sg_rlim = sg_rlim old,
           sg_oom_score_adj = sg_oom_score_adj old, sg_oom_score_adj_min = sg_oom_score_adj_min old, sg_oom_mm = 0,
           sg_unkillable = False, sg_has_child_subreaper = False, sg_is_child_subreaper = False, sg_shared_pending = {},
           sg_tty = 0, sg_tgid = 0, sg_pgrp = 0, sg_session = 0\<rparr>)\<rparr>))"

definition copy_seccomp :: "ftask \<Rightarrow> ftask \<Rightarrow> ftask" where
  "copy_seccomp current p =
     (let p = p\<lparr>t_seccomp := t_seccomp current\<rparr>;
          p = (if t_no_new_privs current then p\<lparr>t_no_new_privs := True\<rparr> else p)
      in if t_seccomp p \<noteq> 0 then p\<lparr>t_seccomp_work := True\<rparr> else p)"

definition copy_oom_score_adj :: "u64 \<Rightarrow> ftask \<Rightarrow> ftask \<Rightarrow> fork_state \<Rightarrow> fork_state" where
  "copy_oom_score_adj clone_flags current tsk s =
     (if t_mm tsk = 0 then s
      else if clone_flags AND (CLONE_VM OR CLONE_THREAD OR CLONE_VFORK) \<noteq> CLONE_VM then s
      else let s = logged (Multiprocess_mm (t_mm tsk)) s; old = the (signals s (t_signal current)) in
        s\<lparr>signals := (signals s)(t_signal tsk := map_option (\<lambda>sg. sg\<lparr>sg_oom_score_adj := sg_oom_score_adj old,
            sg_oom_score_adj_min := sg_oom_score_adj_min old\<rparr>) (signals s (t_signal tsk)))\<rparr>)"

definition pidfd_prepare_raw :: "fork_env \<Rightarrow> u64 \<Rightarrow> fork_state \<Rightarrow> int \<times> fork_state" where
  "pidfd_prepare_raw E flags s =
     (if has_flag flags (NOT (0x800 OR 2 OR 0x80000)) then (- EINVAL, s)
      else let pidfd = get_unused_fd E in
      if pidfd < 0 then (pidfd, s)
      else let s = acquire Unused_fd s in
      if anon_inode_getfile E < 0 then (anon_inode_getfile E, release Unused_fd s)
      else (pidfd, acquire Pidfd_file s))"

section \<open>The error labels of copy\_process\<close>

text \<open>
  The labels in the order of the code: a \<open>goto\<close> runs the clean-up of its label and of all those
  below it. \<open>init_pid\<close> says that the caller passed \<open>init_struct_pid\<close>, \<open>pid\<close> is the number that was
  allocated otherwise.
\<close>

datatype fork_label = Cancel_cgroup | Put_pidfd | Free_pid | Cleanup_thread | Cleanup_io | Cleanup_namespaces | Cleanup_mm
  | Cleanup_signal | Cleanup_sighand | Cleanup_fs | Cleanup_files | Cleanup_semundo | Cleanup_security | Cleanup_audit
  | Cleanup_perf | Cleanup_policy | Cleanup_delayacct | Cleanup_count | Bad_fork_free | Fork_out

definition fork_labels :: "fork_label list" where
  "fork_labels = [Cancel_cgroup, Put_pidfd, Free_pid, Cleanup_thread, Cleanup_io, Cleanup_namespaces, Cleanup_mm,
     Cleanup_signal, Cleanup_sighand, Cleanup_fs, Cleanup_files, Cleanup_semundo, Cleanup_security, Cleanup_audit,
     Cleanup_perf, Cleanup_policy, Cleanup_delayacct, Cleanup_count, Bad_fork_free, Fork_out]"

fun clean_up :: "fork_env \<Rightarrow> u64 \<Rightarrow> bool \<Rightarrow> nat \<Rightarrow> ftask \<Rightarrow> fork_label \<Rightarrow> fork_state \<Rightarrow> fork_state" where
  "clean_up E clone_flags init_pid pid p Cancel_cgroup s = release Cgroup (release Sched_core s)"
| "clean_up E clone_flags init_pid pid p Put_pidfd s =
     (if has_flag clone_flags CLONE_PIDFD then release Unused_fd (release Pidfd_file s) else s)"
| "clean_up E clone_flags init_pid pid p Free_pid s = (if \<not> init_pid then s\<lparr>pids := pids s - {pid}\<rparr> else s)"
| "clean_up E clone_flags init_pid pid p Cleanup_thread s = release Thread_state s"
| "clean_up E clone_flags init_pid pid p Cleanup_io s = (if io_context_made E then release Io_context s else s)"
| "clean_up E clone_flags init_pid pid p Cleanup_namespaces s = release Namespaces s"
| "clean_up E clone_flags init_pid pid p Cleanup_mm s = (if t_mm p \<noteq> 0 then mmput (t_mm p) s else s)"
| "clean_up E clone_flags init_pid pid p Cleanup_signal s =
     (if \<not> has_flag clone_flags CLONE_THREAD then free_signal_struct (t_signal p) s else s)"
| "clean_up E clone_flags init_pid pid p Cleanup_sighand s = cleanup_sighand (t_sighand p) s"
| "clean_up E clone_flags init_pid pid p Cleanup_fs s = (if t_fs p \<noteq> 0 then s\<lparr>fs_users := put_fs E (t_fs p) (fs_users s)\<rparr> else s)"
| "clean_up E clone_flags init_pid pid p Cleanup_files s =
     (if t_files p \<noteq> 0 then s\<lparr>files_count := put_files_struct E (t_files p) (files_count s)\<rparr> else s)"
| "clean_up E clone_flags init_pid pid p Cleanup_semundo s = release Semundo s"
| "clean_up E clone_flags init_pid pid p Cleanup_security s = release Security s"
| "clean_up E clone_flags init_pid pid p Cleanup_audit s = release Audit s"
| "clean_up E clone_flags init_pid pid p Cleanup_perf s = release Perf s"
| "clean_up E clone_flags init_pid pid p Cleanup_policy s = release Mempolicy s"
| "clean_up E clone_flags init_pid pid p Cleanup_delayacct s = release Delayacct s"
| "clean_up E clone_flags init_pid pid p Cleanup_count s = release Creds (release Nproc s)"
| "clean_up E clone_flags init_pid pid p Bad_fork_free s = release Task_struct s"
| "clean_up E clone_flags init_pid pid p Fork_out s =
     (if \<not> has_flag clone_flags CLONE_THREAD then s\<lparr>multiprocess := multiprocess s - 1\<rparr> else s)"

definition unwind :: "fork_env \<Rightarrow> u64 \<Rightarrow> bool \<Rightarrow> nat \<Rightarrow> fork_label \<Rightarrow> ftask \<Rightarrow> fork_state \<Rightarrow> fork_state" where
  "unwind E clone_flags init_pid pid label p = fold (clean_up E clone_flags init_pid pid p) (dropWhile (\<lambda>l. l \<noteq> label) fork_labels)"

section \<open>copy\_process\<close>

definition copy_process_checks :: "fork_env \<Rightarrow> u64 \<Rightarrow> bool \<Rightarrow> int" where
  "copy_process_checks E clone_flags unkillable =
     (if clone_flags AND (CLONE_NEWNS OR CLONE_FS) = CLONE_NEWNS OR CLONE_FS then - EINVAL
      else if clone_flags AND (CLONE_NEWUSER OR CLONE_FS) = CLONE_NEWUSER OR CLONE_FS then - EINVAL
      else if has_flag clone_flags CLONE_THREAD \<and> \<not> has_flag clone_flags CLONE_SIGHAND then - EINVAL
      else if has_flag clone_flags CLONE_SIGHAND \<and> \<not> has_flag clone_flags CLONE_VM then - EINVAL
      else if has_flag clone_flags CLONE_PARENT \<and> unkillable then - EINVAL
      else if has_flag clone_flags CLONE_THREAD \<and> (has_flag clone_flags (CLONE_NEWUSER OR CLONE_NEWPID) \<or> other_pid_ns E) then - EINVAL
      else if has_flag clone_flags CLONE_PIDFD \<and> has_flag clone_flags (CLONE_DETACHED OR CLONE_THREAD) then - EINVAL
      else 0)"

text \<open>One set-up call of another subsystem, which holds \<open>h\<close> afterwards.\<close>

definition set_up :: "int \<Rightarrow> held \<Rightarrow> ftask \<Rightarrow> fork_state \<Rightarrow> copied" where
  "set_up retval h p s = (retval, p, if retval = 0 then acquire h s else s)"

text \<open>\<open>if (retval) goto label\<close>, else go on.\<close>

definition or_goto ::
  "copied \<Rightarrow> (ftask \<Rightarrow> fork_state \<Rightarrow> fork_state) \<Rightarrow> (ftask \<Rightarrow> fork_state \<Rightarrow> (int + addr) \<times> fork_state) \<Rightarrow> (int + addr) \<times> fork_state" where
  "or_goto r label k = (case r of (retval, p, s) \<Rightarrow> if retval \<noteq> 0 then (Inl retval, label p s) else k p s)"

text \<open>
  The last part makes the task visible. \<open>link_task\<close> enters a process into the lists of the parent,
  a thread into its group.
\<close>

definition link_task :: "fork_env \<Rightarrow> bool \<Rightarrow> ftask \<Rightarrow> addr \<Rightarrow> ftask \<Rightarrow> fork_state \<Rightarrow> fork_state" where
  "link_task E traced current a p s =
     (if t_pid p = 0 then s
      else let s = logged (Ptrace_init a traced) s;
          s = (if t_leader p = a then
                 let parent = the (signals s (t_signal (the (tasks s (t_real_parent p)))));
                     own = the (signals s (t_signal current));
                     s = (if is_child_reaper E then logged (Child_reaper a) s else s)
                 in s\<lparr>signals := (signals s)(t_signal p := map_option (\<lambda>sg. sg\<lparr>sg_tgid := t_pid p,
                        sg_pgrp := sg_pgrp own, sg_session := sg_session own, sg_unkillable := is_child_reaper E \<or> sg_unkillable sg,
                        sg_shared_pending := delayed_signals E, sg_tty := sg_tty own,
                        sg_has_child_subreaper := sg_has_child_subreaper parent \<or> sg_is_child_subreaper parent\<rparr>) (signals s (t_signal p))),
                      children := (children s)(t_real_parent p := children s (t_real_parent p) @ [a]),
                      process_counts := process_counts s + 1\<rparr>
               else s\<lparr>signals := (signals s)(t_signal current := map_option (\<lambda>sg. sg\<lparr>sg_nr_threads := sg_nr_threads sg + 1,
                        sg_quick_threads := sg_quick_threads sg + 1, sg_live := sg_live sg + 1, sg_sigcnt := sg_sigcnt sg + 1\<rparr>)
                      (signals s (t_signal current)))\<rparr>)
      in s\<lparr>nr_threads := nr_threads s + 1\<rparr>)"

definition set_parent :: "u64 \<Rightarrow> int \<Rightarrow> addr \<Rightarrow> ftask \<Rightarrow> int \<Rightarrow> ftask \<Rightarrow> ftask" where
  "set_parent clone_flags exit_signal cur current leader_signal p =
     (if has_flag clone_flags (CLONE_PARENT OR CLONE_THREAD) then
        p\<lparr>t_real_parent := t_real_parent current, t_parent_exec_id := t_parent_exec_id current,
          t_exit_signal := (if has_flag clone_flags CLONE_THREAD then - 1 else leader_signal)\<rparr>
      else p\<lparr>t_real_parent := cur, t_parent_exec_id := t_self_exec_id current, t_exit_signal := exit_signal\<rparr>)"

definition copy_process_publish ::
  "fork_env \<Rightarrow> kernel_clone_args \<Rightarrow> bool \<Rightarrow> nat \<Rightarrow> addr \<Rightarrow> ftask \<Rightarrow> nat \<Rightarrow> addr \<Rightarrow> nat \<Rightarrow> ftask \<Rightarrow> fork_state \<Rightarrow> (int + addr) \<times> fork_state" where
  "copy_process_publish E args init_pid trace cur current pidfd a pid p s =
     (let flags = ka_flags args;
          p = set_parent flags (ka_exit_signal args) cur current (t_exit_signal (the (tasks s (t_leader current)))) p;
          s = acquire Sched_core s
      in if \<not> pidns_adding E then (Inl (- ENOMEM), unwind E flags init_pid pid Cancel_cgroup p s)
      else if fatal_signal_pending E then (Inl (- EINTR), unwind E flags init_pid pid Cancel_cgroup p s)
      else let p = copy_seccomp current p;
               s = link_task E (has_flag flags CLONE_PTRACE \<or> trace \<noteq> 0) current a p s;
               s = s\<lparr>tasks := (tasks s)(a \<mapsto> p), total_forks := total_forks s + 1,
                     multiprocess := (if \<not> has_flag flags CLONE_THREAD then multiprocess s - 1 else multiprocess s)\<rparr>;
               s = (if has_flag flags CLONE_PIDFD then logged (Pidfd_installed pidfd) (release Unused_fd (release Pidfd_file s)) else s);
               s = release Cgroup s
      in (Inr a, copy_oom_score_adj flags current p s))"

definition prepare_pidfd :: "fork_env \<Rightarrow> kernel_clone_args \<Rightarrow> fork_state \<Rightarrow> ((int \<times> fork_label) + nat) \<times> fork_state" where
  "prepare_pidfd E args s =
     (if has_flag (ka_flags args) CLONE_PIDFD then
        (case pidfd_prepare_raw E (2 OR 0x80000) s of (retval, s) \<Rightarrow>
         if retval < 0 then (Inl (retval, Free_pid), s)
         else if \<not> user_writable E (ka_pidfd args) then (Inl (- EFAULT, Put_pidfd), s)
         else (Inr (nat retval), s\<lparr>user_tids := (user_tids s)(ka_pidfd args \<mapsto> nat retval)\<rparr>))
      else (Inr 0, s))"

text \<open>The identity of the new task in its thread group.\<close>

definition set_identity :: "u64 \<Rightarrow> ftask \<Rightarrow> addr \<Rightarrow> nat \<Rightarrow> ftask \<Rightarrow> ftask" where
  "set_identity clone_flags current a pid p =
     (let p = (if clone_flags AND (CLONE_VM OR CLONE_VFORK) = CLONE_VM then p\<lparr>t_altstack := False\<rparr> else p);
          p = p\<lparr>t_pid := pid, t_pdeath_signal := 0\<rparr>
      in if has_flag clone_flags CLONE_THREAD then p\<lparr>t_leader := t_leader current, t_tgid := t_tgid current\<rparr>
         else p\<lparr>t_leader := a, t_tgid := pid\<rparr>)"

definition copy_process_attach ::
  "fork_env \<Rightarrow> kernel_clone_args \<Rightarrow> bool \<Rightarrow> nat \<Rightarrow> addr \<Rightarrow> ftask \<Rightarrow> addr \<Rightarrow> ftask \<Rightarrow> fork_state \<Rightarrow> (int + addr) \<times> fork_state" where
  "copy_process_attach E args init_pid trace cur current a p s =
     (let flags = ka_flags args in
      case (if \<not> init_pid then alloc_pid E (ka_set_tid args) else Inr 0) of
        Inl retval \<Rightarrow> (Inl retval, unwind E flags init_pid 0 Cleanup_thread p s)
      | Inr pid \<Rightarrow>
          let s = (if \<not> init_pid then s\<lparr>pids := insert pid (pids s)\<rparr> else s) in
          (case prepare_pidfd E args s of
             (Inl (retval, label), s) \<Rightarrow> (Inl retval, unwind E flags init_pid pid label p s)
           | (Inr pidfd, s) \<Rightarrow>
               or_goto (set_up (cgroup_can_fork E) Cgroup (set_identity flags current a pid p) s) (unwind E flags init_pid pid Put_pidfd)
                 (copy_process_publish E args init_pid trace cur current pidfd a pid)))"

definition copy_process_context ::
  "fork_env \<Rightarrow> kernel_clone_args \<Rightarrow> bool \<Rightarrow> nat \<Rightarrow> addr \<Rightarrow> ftask \<Rightarrow> addr \<Rightarrow> ftask \<Rightarrow> fork_state \<Rightarrow> (int + addr) \<times> fork_state" where
  "copy_process_context E args init_pid trace cur current a p s =
     (let goto = unwind E (ka_flags args) init_pid 0 in
      or_goto (set_up (copy_namespaces E) Namespaces p s) (goto Cleanup_mm) (\<lambda>p s.
      or_goto (if io_context_made E then set_up (copy_io E) Io_context p s else (copy_io E, p, s)) (goto Cleanup_namespaces) (\<lambda>p s.
      or_goto (set_up (copy_thread E) Thread_state p s) (goto Cleanup_io) (\<lambda>p s.
      copy_process_attach E args init_pid trace cur current a p s))))"

definition copy_process_signals ::
  "fork_env \<Rightarrow> kernel_clone_args \<Rightarrow> bool \<Rightarrow> nat \<Rightarrow> addr \<Rightarrow> ftask \<Rightarrow> addr \<Rightarrow> ftask \<Rightarrow> fork_state \<Rightarrow> (int + addr) \<times> fork_state" where
  "copy_process_signals E args init_pid trace cur current a p s =
     (let flags = ka_flags args; goto = unwind E flags init_pid 0 in
      or_goto (copy_sighand E flags current p s) (goto Cleanup_fs) (\<lambda>p s.
      or_goto (copy_signal E flags current p s) (goto Cleanup_sighand) (\<lambda>p s.
      or_goto (copy_mm E flags current p s) (goto Cleanup_signal) (\<lambda>p s.
      copy_process_context E args init_pid trace cur current a p s))))"

definition copy_process_parts ::
  "fork_env \<Rightarrow> kernel_clone_args \<Rightarrow> bool \<Rightarrow> nat \<Rightarrow> addr \<Rightarrow> ftask \<Rightarrow> addr \<Rightarrow> ftask \<Rightarrow> fork_state \<Rightarrow> (int + addr) \<times> fork_state" where
  "copy_process_parts E args init_pid trace cur current a p s =
     (let flags = ka_flags args; goto = unwind E flags init_pid 0 in
      or_goto (set_up (security_task_alloc E) Security p s) (goto Cleanup_audit) (\<lambda>p s.
      or_goto (set_up (copy_semundo E) Semundo p s) (goto Cleanup_security) (\<lambda>p s.
      or_goto (copy_files E flags (ka_no_files args) current p s) (goto Cleanup_semundo) (\<lambda>p s.
      or_goto (copy_fs E flags current p s) (goto Cleanup_files) (\<lambda>p s.
      copy_process_signals E args init_pid trace cur current a p s)))))"

text \<open>The new task as it starts from a copy of the current one.\<close>

definition init_child :: "kernel_clone_args \<Rightarrow> ftask \<Rightarrow> ftask" where
  "init_child args current =
     (let p = current\<lparr>t_flags := (if ka_kthread args then insert PF_KTHREAD (t_flags current) else t_flags current - {PF_KTHREAD})\<rparr>;
          p = (if ka_user_worker args then p\<lparr>t_flags := insert PF_USER_WORKER (t_flags p), t_blocked := UNIV - {9, 19}\<rparr> else p);
          p = (if ka_io_thread args then p\<lparr>t_flags := insert PF_IO_WORKER (t_flags p)\<rparr> else p);
          p = (case ka_name args of Some n \<Rightarrow> p\<lparr>t_comm := take 15 n\<rparr> | None \<Rightarrow> p)
      in p\<lparr>t_set_child_tid := (if has_flag (ka_flags args) CLONE_CHILD_SETTID then ka_child_tid args else 0),
           t_clear_child_tid := (if has_flag (ka_flags args) CLONE_CHILD_CLEARTID then ka_child_tid args else 0)\<rparr>)"

definition reset_child :: "ftask \<Rightarrow> ftask" where
  "reset_child p = p\<lparr>t_flags := insert PF_FORKNOEXEC (t_flags p - {PF_SUPERPRIV, PF_WQ_WORKER, PF_IDLE, PF_NO_SETAFFINITY}),
     t_vfork_done := False, t_times := [0, 0, 0]\<rparr>"

definition clear_nproc :: "addr \<Rightarrow> fork_state \<Rightarrow> fork_state" where
  "clear_nproc cur s = s\<lparr>tasks := (tasks s)(cur := map_option (\<lambda>t. t\<lparr>t_flags := t_flags t - {PF_NPROC_EXCEEDED}\<rparr>) (tasks s cur))\<rparr>"

definition copy_process_account ::
  "fork_env \<Rightarrow> kernel_clone_args \<Rightarrow> bool \<Rightarrow> nat \<Rightarrow> addr \<Rightarrow> ftask \<Rightarrow> addr \<Rightarrow> ftask \<Rightarrow> fork_state \<Rightarrow> (int + addr) \<times> fork_state" where
  "copy_process_account E args init_pid trace cur current a p s =
     (let goto = unwind E (ka_flags args) init_pid 0 in
      if copy_creds E < 0 then (Inl (copy_creds E), goto Bad_fork_free p s)
      else let s = acquire Nproc (acquire Creds s) in
      if over_nproc E \<and> \<not> is_init_user E \<and> \<not> capable_resource E \<and> \<not> capable_admin E then (Inl (- EAGAIN), goto Cleanup_count p s)
      else let s = clear_nproc cur s in
      if nr_threads s \<ge> max_threads s then (Inl (- EAGAIN), goto Cleanup_count p s)
      else let s = acquire Delayacct s; p = reset_child p in
      if ka_kthread args \<and> \<not> set_kthread_struct E then (Inl (- EAGAIN), goto Cleanup_delayacct p s)
      else
      or_goto (set_up (mpol_dup E) Mempolicy p s) (goto Cleanup_delayacct) (\<lambda>p s.
      or_goto (sched_fork E, p, s) (goto Cleanup_policy) (\<lambda>p s.
      or_goto (set_up (perf_event_init_task E) Perf p s) (goto Cleanup_policy) (\<lambda>p s.
      or_goto (set_up (audit_alloc E) Audit p s) (goto Cleanup_perf)
        (copy_process_parts E args init_pid trace cur current a)))))"

definition copy_process ::
  "fork_env \<Rightarrow> bool \<Rightarrow> nat \<Rightarrow> kernel_clone_args \<Rightarrow> addr \<Rightarrow> fork_state \<Rightarrow> (int + addr) \<times> fork_state" where
  "copy_process E init_pid trace args cur s =
     (let flags = ka_flags args; current = the (tasks s cur);
          err = copy_process_checks E flags (sg_unkillable (the (signals s (t_signal current))))
      in if err \<noteq> 0 then (Inl err, s)
      else let s = (if \<not> has_flag flags CLONE_THREAD then s\<lparr>multiprocess := multiprocess s + 1\<rparr> else s) in
      if task_sigpending E then (Inl (- ERESTARTNOINTR_FORK), unwind E flags init_pid 0 Fork_out current s)
      else if new_task E = 0 then (Inl (- ENOMEM), unwind E flags init_pid 0 Fork_out current s)
      else copy_process_account E args init_pid trace cur current (new_task E) (init_child args current) (acquire Task_struct s))"

section \<open>kernel\_clone and the system calls\<close>

definition trace_event :: "fork_env \<Rightarrow> kernel_clone_args \<Rightarrow> nat" where
  "trace_event E args =
     (if has_flag (ka_flags args) CLONE_UNTRACED then 0
      else let trace = (if has_flag (ka_flags args) CLONE_VFORK then 2 else if ka_exit_signal args \<noteq> SIGCHLD then 3 else 1)
      in if \<not> ptrace_event_enabled E trace then 0 else trace)"

definition set_vfork_done :: "addr \<Rightarrow> bool \<Rightarrow> fork_state \<Rightarrow> fork_state" where
  "set_vfork_done a v s = s\<lparr>tasks := (tasks s)(a := map_option (\<lambda>t. t\<lparr>t_vfork_done := v\<rparr>) (tasks s a))\<rparr>"

definition complete_vfork_done :: "addr \<Rightarrow> fork_state \<Rightarrow> fork_state" where
  "complete_vfork_done a s =
     (case tasks s a of Some t \<Rightarrow> if t_vfork_done t then set_vfork_done a False s else s | None \<Rightarrow> s)"

text \<open>
  The parent of a \<open>vfork\<close> sleeps until the child completes (it is then the child that clears
  \<open>vfork_done\<close>) or until it is killed.
\<close>

definition wait_for_vfork_done :: "fork_env \<Rightarrow> addr \<Rightarrow> fork_state \<Rightarrow> bool \<times> fork_state" where
  "wait_for_vfork_done E child s =
     (if vfork_killed E then (True, release Task_ref (set_vfork_done child False s))
      else (False, release Task_ref (complete_vfork_done child s)))"

definition kernel_clone :: "fork_env \<Rightarrow> kernel_clone_args \<Rightarrow> addr \<Rightarrow> fork_state \<Rightarrow> int \<times> fork_state" where
  "kernel_clone E args cur s =
     (let flags = ka_flags args in
      if has_flag flags CLONE_PIDFD \<and> has_flag flags CLONE_PARENT_SETTID \<and> ka_pidfd args = ka_parent_tid args then (- EINVAL, s)
      else let trace = trace_event E args in
      case copy_process E False trace args cur s of
        (Inl err, s) \<Rightarrow> (err, s)
      | (Inr p, s) \<Rightarrow>
          let nr = t_pid (the (tasks s p));
              s = (if has_flag flags CLONE_PARENT_SETTID \<and> user_writable E (ka_parent_tid args)
                   then s\<lparr>user_tids := (user_tids s)(ka_parent_tid args \<mapsto> nr)\<rparr> else s);
              s = (if has_flag flags CLONE_VFORK then acquire Task_ref (set_vfork_done p True s) else s);
              s = logged (Woken p) s;
              s = (if trace \<noteq> 0 then logged (Ptrace_event trace nr) s else s);
              s = (if has_flag flags CLONE_VFORK then
                     (case wait_for_vfork_done E p s of (killed, s) \<Rightarrow> if \<not> killed then logged (Ptrace_event 5 nr) s else s)
                   else s)
          in (int nr, s))"

definition kernel_thread :: "fork_env \<Rightarrow> string \<Rightarrow> u64 \<Rightarrow> addr \<Rightarrow> fork_state \<Rightarrow> int \<times> fork_state" where
  "kernel_thread E name flags cur s =
     kernel_clone E (no_args\<lparr>ka_flags := ((flags AND 0xFFFFFFFF) OR CLONE_VM OR CLONE_UNTRACED) AND 0xFFFFFF00,
       ka_exit_signal := uint (flags AND CSIGNAL), ka_name := Some name, ka_kthread := True\<rparr>) cur s"

definition user_mode_thread :: "fork_env \<Rightarrow> u64 \<Rightarrow> addr \<Rightarrow> fork_state \<Rightarrow> int \<times> fork_state" where
  "user_mode_thread E flags cur s =
     kernel_clone E (no_args\<lparr>ka_flags := ((flags AND 0xFFFFFFFF) OR CLONE_VM OR CLONE_UNTRACED) AND 0xFFFFFF00,
       ka_exit_signal := uint (flags AND CSIGNAL)\<rparr>) cur s"

definition create_io_thread :: "fork_env \<Rightarrow> addr \<Rightarrow> fork_state \<Rightarrow> (int + addr) \<times> fork_state" where
  "create_io_thread E cur s =
     (let flags = CLONE_FS OR CLONE_FILES OR CLONE_SIGHAND OR CLONE_THREAD OR CLONE_IO in
      copy_process E False 0 (no_args\<lparr>ka_flags := (flags OR CLONE_VM OR CLONE_UNTRACED) AND 0xFFFFFF00,
        ka_exit_signal := uint (flags AND CSIGNAL), ka_io_thread := True, ka_user_worker := True\<rparr>) cur s)"

definition sys_fork :: "fork_env \<Rightarrow> addr \<Rightarrow> fork_state \<Rightarrow> int \<times> fork_state" where
  "sys_fork E = kernel_clone E (no_args\<lparr>ka_exit_signal := SIGCHLD\<rparr>)"

definition sys_vfork :: "fork_env \<Rightarrow> addr \<Rightarrow> fork_state \<Rightarrow> int \<times> fork_state" where
  "sys_vfork E = kernel_clone E (no_args\<lparr>ka_flags := CLONE_VFORK OR CLONE_VM, ka_exit_signal := SIGCHLD\<rparr>)"

definition sys_clone :: "fork_env \<Rightarrow> u64 \<Rightarrow> u64 \<Rightarrow> u64 \<Rightarrow> u64 \<Rightarrow> u64 \<Rightarrow> addr \<Rightarrow> fork_state \<Rightarrow> int \<times> fork_state" where
  "sys_clone E clone_flags newsp parent_tidptr child_tidptr tls cur s =
     kernel_clone E (no_args\<lparr>ka_flags := clone_flags AND 0xFFFFFF00, ka_pidfd := parent_tidptr, ka_child_tid := child_tidptr,
       ka_parent_tid := parent_tidptr, ka_exit_signal := uint (clone_flags AND CSIGNAL), ka_stack := newsp, ka_tls := tls\<rparr>)
       cur (s\<lparr>fork_call_counter := fork_call_counter s + 1\<rparr>)"

definition copy_clone_args_from_user :: "fork_env \<Rightarrow> u64 \<Rightarrow> u64 \<Rightarrow> int + kernel_clone_args" where
  "copy_clone_args_from_user E uargs usize =
     (if usize > 4096 then Inl (- E2BIG)
      else if usize < 64 then Inl (- EINVAL)
      else case copy_clone_struct E uargs usize of
        Inl err \<Rightarrow> Inl err
      | Inr args \<Rightarrow>
          if ca_set_tid_size args > 32 then Inl (- EINVAL)
          else if ca_set_tid args = 0 \<and> ca_set_tid_size args > 0 then Inl (- EINVAL)
          else if ca_set_tid args \<noteq> 0 \<and> ca_set_tid_size args = 0 then Inl (- EINVAL)
          else if has_flag (ca_exit_signal args) (NOT CSIGNAL) \<or> \<not> valid_exit_signal E (ca_exit_signal args) then Inl (- EINVAL)
          else if has_flag (ca_flags args) CLONE_INTO_CGROUP \<and> (ca_cgroup args > 0x7FFFFFFF \<or> usize < 88) then Inl (- EINVAL)
          else let kargs = no_args\<lparr>ka_flags := ca_flags args, ka_pidfd := ca_pidfd args, ka_child_tid := ca_child_tid args,
                     ka_parent_tid := ca_parent_tid args, ka_exit_signal := uint (ca_exit_signal args), ka_stack := ca_stack args,
                     ka_stack_size := ca_stack_size args, ka_tls := ca_tls args, ka_cgroup := ca_cgroup args\<rparr>
          in if ca_set_tid args \<noteq> 0 then
               (case copy_set_tid E (ca_set_tid args) (unat (ca_set_tid_size args)) of
                  None \<Rightarrow> Inl (- EFAULT) | Some tids \<Rightarrow> Inr (kargs\<lparr>ka_set_tid := tids\<rparr>))
             else Inr kargs)"

definition clone3_stack_valid :: "fork_env \<Rightarrow> kernel_clone_args \<Rightarrow> kernel_clone_args option" where
  "clone3_stack_valid E kargs =
     (if ka_stack kargs = 0 then (if ka_stack_size kargs > 0 then None else Some kargs)
      else if ka_stack_size kargs = 0 then None
      else if \<not> access_ok E (ka_stack kargs) (ka_stack_size kargs) then None
      else Some (kargs\<lparr>ka_stack := ka_stack kargs + ka_stack_size kargs\<rparr>))"

definition clone3_args_valid :: "fork_env \<Rightarrow> kernel_clone_args \<Rightarrow> kernel_clone_args option" where
  "clone3_args_valid E kargs =
     (let flags = ka_flags kargs in
      if has_flag flags (NOT (CLONE_LEGACY_FLAGS OR CLONE_CLEAR_SIGHAND OR CLONE_INTO_CGROUP)) then None
      else if has_flag flags (CLONE_DETACHED OR (CSIGNAL AND NOT CLONE_NEWTIME)) then None
      else if flags AND (CLONE_SIGHAND OR CLONE_CLEAR_SIGHAND) = CLONE_SIGHAND OR CLONE_CLEAR_SIGHAND then None
      else if has_flag flags (CLONE_THREAD OR CLONE_PARENT) \<and> ka_exit_signal kargs \<noteq> 0 then None
      else clone3_stack_valid E kargs)"

definition sys_clone3 :: "fork_env \<Rightarrow> u64 \<Rightarrow> u64 \<Rightarrow> addr \<Rightarrow> fork_state \<Rightarrow> int \<times> fork_state" where
  "sys_clone3 E uargs usize cur s =
     (case copy_clone_args_from_user E uargs usize of
        Inl err \<Rightarrow> (err, s)
      | Inr kargs \<Rightarrow> (case clone3_args_valid E kargs of
            None \<Rightarrow> (- EINVAL, s)
          | Some kargs \<Rightarrow> kernel_clone E kargs cur s))"

definition sys_set_tid_address :: "u64 \<Rightarrow> addr \<Rightarrow> fork_state \<Rightarrow> int \<times> fork_state" where
  "sys_set_tid_address tidptr cur s =
     (int (t_pid (the (tasks s cur))),
      s\<lparr>tasks := (tasks s)(cur := map_option (\<lambda>t. t\<lparr>t_clear_child_tid := tidptr\<rparr>) (tasks s cur))\<rparr>)"

section \<open>unshare\<close>

abbreviation (input) UNSHARE_FLAGS :: u64 where
  "UNSHARE_FLAGS \<equiv> CLONE_THREAD OR CLONE_FS OR CLONE_NEWNS OR CLONE_SIGHAND OR CLONE_VM OR CLONE_FILES OR CLONE_SYSVSEM OR
     CLONE_NEWUTS OR CLONE_NEWIPC OR CLONE_NEWNET OR CLONE_NEWUSER OR CLONE_NEWPID OR CLONE_NEWCGROUP OR CLONE_NEWTIME"

definition check_unshare_flags :: "fork_env \<Rightarrow> u64 \<Rightarrow> int \<Rightarrow> int" where
  "check_unshare_flags E flags sighand_count =
     (if has_flag flags (NOT UNSHARE_FLAGS) then - EINVAL
      else if has_flag flags (CLONE_THREAD OR CLONE_SIGHAND OR CLONE_VM) \<and> \<not> thread_group_empty E then - EINVAL
      else if has_flag flags (CLONE_SIGHAND OR CLONE_VM) \<and> sighand_count > 1 then - EINVAL
      else if has_flag flags CLONE_VM \<and> \<not> single_threaded E then - EINVAL
      else 0)"

text \<open>The address of the copy is 0 when there is nothing to copy.\<close>

definition unshare_fs :: "fork_env \<Rightarrow> u64 \<Rightarrow> ftask \<Rightarrow> fork_state \<Rightarrow> int \<times> addr \<times> fork_state" where
  "unshare_fs E flags current s =
     (let fs = t_fs current in
      if \<not> has_flag flags CLONE_FS \<or> fs = 0 then (0, 0, s)
      else if the (fs_users s fs) = 1 then (0, 0, s)
      else let new_fs = copy_fs_struct E in
      if new_fs = 0 then (- ENOMEM, 0, s)
      else (0, new_fs, s\<lparr>fs_users := (fs_users s)(new_fs \<mapsto> 1)\<rparr>))"

definition unshare_fd :: "fork_env \<Rightarrow> u64 \<Rightarrow> ftask \<Rightarrow> fork_state \<Rightarrow> int \<times> addr \<times> fork_state" where
  "unshare_fd E flags current s =
     (let fd = t_files current in
      if has_flag flags CLONE_FILES \<and> fd \<noteq> 0 \<and> the (files_count s fd) > 1 then
        (case dup_fd E of
           Inl error \<Rightarrow> (error, 0, s)
         | Inr new_fd \<Rightarrow> (0, new_fd, s\<lparr>files_count := (files_count s)(new_fd \<mapsto> 1)\<rparr>))
      else (0, 0, s))"

definition unshare_implied :: "u64 \<Rightarrow> u64" where
  "unshare_implied flags =
     (let flags = (if has_flag flags CLONE_NEWUSER then flags OR CLONE_THREAD OR CLONE_FS else flags);
          flags = (if has_flag flags CLONE_VM then flags OR CLONE_SIGHAND else flags);
          flags = (if has_flag flags CLONE_SIGHAND then flags OR CLONE_THREAD else flags)
      in if has_flag flags CLONE_NEWNS then flags OR CLONE_FS else flags)"

definition put_new_fd :: "fork_env \<Rightarrow> addr \<Rightarrow> fork_state \<Rightarrow> fork_state" where
  "put_new_fd E new_fd s = (if new_fd \<noteq> 0 then s\<lparr>files_count := put_files_struct E new_fd (files_count s)\<rparr> else s)"

definition free_new_fs :: "fork_env \<Rightarrow> addr \<Rightarrow> fork_state \<Rightarrow> fork_state" where
  "free_new_fs E new_fs s = (if new_fs \<noteq> 0 then s\<lparr>fs_users := free_fs_struct E new_fs (fs_users s)\<rparr> else s)"

text \<open>The current task moves to the new structures; what it leaves behind is returned.\<close>

definition switch_fs :: "addr \<Rightarrow> addr \<Rightarrow> fork_state \<Rightarrow> addr \<times> fork_state" where
  "switch_fs cur new_fs s =
     (let fs = t_fs (the (tasks s cur)); users = the (fs_users s fs) - 1 in
      (if users \<noteq> 0 then 0 else fs,
       s\<lparr>tasks := (tasks s)(cur := map_option (\<lambda>t. t\<lparr>t_fs := new_fs\<rparr>) (tasks s cur)),
         fs_users := (fs_users s)(fs \<mapsto> users)\<rparr>))"

definition switch_files :: "addr \<Rightarrow> addr \<Rightarrow> fork_state \<Rightarrow> addr \<times> fork_state" where
  "switch_files cur new_fd s =
     (t_files (the (tasks s cur)),
      s\<lparr>tasks := (tasks s)(cur := map_option (\<lambda>t. t\<lparr>t_files := new_fd\<rparr>) (tasks s cur))\<rparr>)"

definition unshare_commit ::
  "fork_env \<Rightarrow> u64 \<Rightarrow> bool \<Rightarrow> addr \<Rightarrow> addr \<Rightarrow> bool \<Rightarrow> bool \<Rightarrow> addr \<Rightarrow> fork_state \<Rightarrow> addr \<times> addr \<times> fork_state" where
  "unshare_commit E flags do_sysvsem new_fs new_fd new_cred new_nsproxy cur s =
     (let s = (if do_sysvsem then logged Exit_sem s else s);
          s = (if has_flag flags CLONE_NEWIPC then logged Exit_shm s else s);
          s = (if new_nsproxy then logged Switch_namespaces s else s);
          (new_fs, s) = (if new_fs \<noteq> 0 then switch_fs cur new_fs s else (new_fs, s));
          (new_fd, s) = (if new_fd \<noteq> 0 then switch_files cur new_fd s else (new_fd, s));
          s = (if new_cred then logged Commit_creds s else s)
      in (new_fs, new_fd, s))"

definition ksys_unshare :: "fork_env \<Rightarrow> u64 \<Rightarrow> addr \<Rightarrow> fork_state \<Rightarrow> int \<times> fork_state" where
  "ksys_unshare E unshare_flags cur s =
     (let flags = unshare_implied unshare_flags; current = the (tasks s cur);
          err = check_unshare_flags E flags (sh_count (the (sighands s (t_sighand current))))
      in if err \<noteq> 0 then (err, s)
      else let do_sysvsem = has_flag flags (CLONE_NEWIPC OR CLONE_SYSVSEM) in
      case unshare_fs E flags current s of (err, new_fs, s) \<Rightarrow>
      if err \<noteq> 0 then (err, s)
      else case unshare_fd E flags current s of (err, new_fd, s) \<Rightarrow>
      if err \<noteq> 0 then (err, free_new_fs E new_fs s)
      else case unshare_userns E of (err, new_cred) \<Rightarrow>
      if err \<noteq> 0 then (err, free_new_fs E new_fs (put_new_fd E new_fd s))
      else let s = (if new_cred then acquire New_cred s else s);
               cleanup_cred = (\<lambda>s. free_new_fs E new_fs (put_new_fd E new_fd (if new_cred then release New_cred s else s)))
      in case unshare_nsproxy E of (err, new_nsproxy) \<Rightarrow>
      if err \<noteq> 0 then (err, cleanup_cred s)
      else if new_cred \<and> set_cred_ucounts E \<noteq> 0 then (set_cred_ucounts E, cleanup_cred (if new_nsproxy then acquire New_nsproxy s else s))
      else let s = (if new_nsproxy then acquire New_nsproxy s else s) in
      case (if new_fs \<noteq> 0 \<or> new_fd \<noteq> 0 \<or> do_sysvsem \<or> new_cred \<or> new_nsproxy
            then unshare_commit E flags do_sysvsem new_fs new_fd new_cred new_nsproxy cur s
            else (new_fs, new_fd, s)) of (new_fs, new_fd, s) \<Rightarrow>
      (0, free_new_fs E new_fs (put_new_fd E new_fd s)))"

definition unshare_files :: "fork_env \<Rightarrow> addr \<Rightarrow> fork_state \<Rightarrow> int \<times> fork_state" where
  "unshare_files E cur s =
     (case unshare_fd E CLONE_FILES (the (tasks s cur)) s of (error, copy, s) \<Rightarrow>
      if error \<noteq> 0 \<or> copy = 0 then (error, s)
      else case switch_files cur copy s of (old, s) \<Rightarrow> (0, put_new_fd E old s))"

end
