(* ===== verification/Fork_Unwinding.thy ===== *)
theory Fork_Unwinding
  imports Process_Creation
begin

section \<open>What the parts give and take\<close>

text \<open>What the file layer promises about the structures it owns.\<close>

definition refs_law :: "fork_env \<Rightarrow> bool" where
  "refs_law E \<longleftrightarrow> put_files_struct E = (\<lambda>a m. put_ref m a) \<and> put_fs E = (\<lambda>a m. put_ref m a) \<and>
     free_fs_struct E = (\<lambda>a m. m(a := None)) \<and> (\<forall>e. dup_fd E = Inl e \<longrightarrow> e \<noteq> 0)"

text \<open>Allocators return unused addresses and pid numbers.\<close>

definition fresh_law :: "fork_env \<Rightarrow> fork_state \<Rightarrow> bool" where
  "fresh_law E s \<longleftrightarrow> tasks s (new_task E) = None \<and> mm_users s (new_mm E) = None \<and> fs_users s (copy_fs_struct E) = None \<and>
     sighands s (new_sighand E) = None \<and> signals s (new_signal E) = None \<and>
     (\<forall>a. dup_fd E = Inr a \<longrightarrow> a \<noteq> 0 \<and> files_count s a = None) \<and>
     (\<forall>tids n. alloc_pid E tids = Inr n \<longrightarrow> n \<noteq> 0 \<and> n \<notin> pids s)"

text \<open>The structures a task points to are allocated and referenced.\<close>

definition counted :: "(addr \<rightharpoonup> int) \<Rightarrow> addr \<Rightarrow> bool" where
  "counted m a \<longleftrightarrow> (\<exists>n \<ge> 1. m a = Some n)"

definition sh_counts :: "fork_state \<Rightarrow> addr \<rightharpoonup> int" where
  "sh_counts s = map_option sh_count \<circ> sighands s"

definition parts_held :: "fork_state \<Rightarrow> ftask \<Rightarrow> bool" where
  "parts_held s t \<longleftrightarrow> (t_mm t \<noteq> 0 \<longrightarrow> counted (mm_users s) (t_mm t)) \<and> t_fs t \<noteq> 0 \<and> counted (fs_users s) (t_fs t) \<and>
     (t_files t \<noteq> 0 \<longrightarrow> counted (files_count s) (t_files t)) \<and> t_sighand t \<noteq> 0 \<and> counted (sh_counts s) (t_sighand t) \<and> signals s (t_signal t) \<noteq> None"

text \<open>The new task joins the structure at \<open>a\<close>: one more reference to it, or the first one.\<close>

definition joined :: "(addr \<rightharpoonup> int) \<Rightarrow> (addr \<rightharpoonup> int) \<Rightarrow> addr \<Rightarrow> bool" where
  "joined m m' a \<longleftrightarrow> (if a = 0 then m' = m else counted m a \<and> m' = get_ref m a \<or> m a = None \<and> m' = m(a \<mapsto> 1))"

lemma put_get_ref: "counted m a \<Longrightarrow> put_ref (get_ref m a) a = m"
  by (auto simp: counted_def put_ref_def get_ref_def)

lemma put_new_ref: "m a = None \<Longrightarrow> put_ref (m(a \<mapsto> 1)) a = m"
  by (auto simp: put_ref_def)

lemma joined_undo: "joined m m' a \<Longrightarrow> (if a \<noteq> 0 then put_ref m' a else m') = m"
  by (auto simp: joined_def put_get_ref put_new_ref split: if_splits)

lemma release_acquire [simp]: "release h (acquire h s) = s"
  by (simp add: release_def acquire_def)

lemma copy_files_part:
  assumes "copy_files E flags no current p s = (ret, p', s')" "refs_law E" "\<forall>a. dup_fd E = Inr a \<longrightarrow> a \<noteq> 0 \<and> files_count s a = None" "t_files p = t_files current"
    and "t_files current \<noteq> 0 \<longrightarrow> counted (files_count s) (t_files current)"
  obtains f F where "p' = p\<lparr>t_files := f\<rparr>" "s' = s\<lparr>files_count := F\<rparr>" "ret \<noteq> 0 \<Longrightarrow> F = files_count s"
    "ret = 0 \<Longrightarrow> joined (files_count s) F f"
    "ret = 0 \<Longrightarrow> \<not> no \<Longrightarrow> has_flag flags CLONE_FILES \<Longrightarrow> f = t_files current"
    "ret = 0 \<Longrightarrow> \<not> has_flag flags CLONE_FILES \<Longrightarrow> f = 0 \<or> files_count s f = None"
proof
  show "p' = p\<lparr>t_files := t_files p'\<rparr>" "s' = s\<lparr>files_count := files_count s'\<rparr>"
    using assms(1) by (auto simp: copy_files_def Let_def split: if_splits sum.splits)
  show "files_count s' = files_count s" if "ret \<noteq> 0"
    using assms(1) that by (auto simp: copy_files_def Let_def split: if_splits sum.splits)
  show "joined (files_count s) (files_count s') (t_files p')" if "ret = 0"
    using assms that unfolding copy_files_def Let_def
    by (auto simp: joined_def refs_law_def fresh_law_def split: if_splits sum.splits)
  show "t_files p' = t_files current" if "ret = 0" "\<not> no" "has_flag flags CLONE_FILES"
    using assms that by (auto simp: copy_files_def Let_def split: if_splits sum.splits)
  show "t_files p' = 0 \<or> files_count s (t_files p') = None" if "ret = 0" "\<not> has_flag flags CLONE_FILES"
    using assms that by (auto simp: copy_files_def Let_def refs_law_def fresh_law_def split: if_splits sum.splits)
qed

lemma copy_fs_part:
  assumes "copy_fs E flags current p s = (ret, p', s')" "fs_users s (copy_fs_struct E) = None" "t_fs p = t_fs current" "t_fs current \<noteq> 0" "counted (fs_users s) (t_fs current)"
  obtains f F where "p' = p\<lparr>t_fs := f\<rparr>" "s' = s\<lparr>fs_users := F\<rparr>" "ret \<noteq> 0 \<Longrightarrow> F = fs_users s"
    "ret = 0 \<Longrightarrow> joined (fs_users s) F f" "ret = 0 \<Longrightarrow> f \<noteq> 0" "ret = 0 \<Longrightarrow> has_flag flags CLONE_FS \<Longrightarrow> f = t_fs current"
    "ret = 0 \<Longrightarrow> \<not> has_flag flags CLONE_FS \<Longrightarrow> fs_users s f = None"
proof
  show "p' = p\<lparr>t_fs := t_fs p'\<rparr>" "s' = s\<lparr>fs_users := fs_users s'\<rparr>"
    using assms(1) by (auto simp: copy_fs_def Let_def split: if_splits)
  show "fs_users s' = fs_users s" if "ret \<noteq> 0"
    using assms(1) that by (auto simp: copy_fs_def Let_def split: if_splits)
  show "joined (fs_users s) (fs_users s') (t_fs p')" if "ret = 0"
    using assms that by (auto simp: copy_fs_def Let_def joined_def fresh_law_def split: if_splits)
  show "t_fs p' \<noteq> 0" if "ret = 0"
    using assms that by (auto simp: copy_fs_def Let_def split: if_splits)
  show "t_fs p' = t_fs current" if "ret = 0" "has_flag flags CLONE_FS"
    using assms that by (auto simp: copy_fs_def Let_def split: if_splits)
  show "fs_users s (t_fs p') = None" if "ret = 0" "\<not> has_flag flags CLONE_FS"
    using assms that by (auto simp: copy_fs_def Let_def fresh_law_def split: if_splits)
qed

lemma copy_sighand_part:
  assumes "copy_sighand E flags current p s = (ret, p', s')" "sighands s (new_sighand E) = None" "t_sighand p = t_sighand current"
    and "t_sighand current \<noteq> 0" "counted (sh_counts s) (t_sighand current)"
  obtains a S where "p' = p\<lparr>t_sighand := a\<rparr>" "s' = s\<lparr>sighands := S\<rparr>" "ret \<noteq> 0 \<Longrightarrow> S = sighands s"
    "ret = 0 \<Longrightarrow> cleanup_sighand a s' = s" "ret = 0 \<Longrightarrow> joined (sh_counts s) (sh_counts s') a" "ret = 0 \<Longrightarrow> a \<noteq> 0"
    "ret = 0 \<Longrightarrow> has_flag flags CLONE_SIGHAND \<Longrightarrow> a = t_sighand current"
    "ret = 0 \<Longrightarrow> \<not> has_flag flags CLONE_SIGHAND \<Longrightarrow> sighands s a = None"
proof
  show "p' = p\<lparr>t_sighand := t_sighand p'\<rparr>" "s' = s\<lparr>sighands := sighands s'\<rparr>"
    using assms(1) by (auto simp: copy_sighand_def Let_def split: if_splits)
  show "sighands s' = sighands s" if "ret \<noteq> 0"
    using assms(1) that by (auto simp: copy_sighand_def Let_def split: if_splits)
  obtain sh where sh: "sighands s (t_sighand current) = Some sh" "sh_count sh \<ge> 1"
    using assms(5) by (auto simp: counted_def sh_counts_def)
  show "cleanup_sighand (t_sighand p') s' = s" if "ret = 0"
    using assms(1-3) that sh unfolding copy_sighand_def Let_def
    by (auto simp: cleanup_sighand_def fresh_law_def fun_upd_idem split: if_splits)
  show "joined (sh_counts s) (sh_counts s') (t_sighand p')" if "ret = 0"
    using assms that sh unfolding copy_sighand_def Let_def
    by (auto simp: joined_def sh_counts_def get_ref_def fresh_law_def fun_eq_iff split: if_splits)
  show "t_sighand p' \<noteq> 0" if "ret = 0"
    using assms that by (auto simp: copy_sighand_def Let_def split: if_splits)
  show "t_sighand p' = t_sighand current" if "ret = 0" "has_flag flags CLONE_SIGHAND"
    using assms that by (auto simp: copy_sighand_def Let_def split: if_splits)
  show "sighands s (t_sighand p') = None" if "ret = 0" "\<not> has_flag flags CLONE_SIGHAND"
    using assms that by (auto simp: copy_sighand_def Let_def fresh_law_def split: if_splits)
qed

lemma copy_signal_part:
  assumes "copy_signal E flags current p s = (ret, p', s')" "signals s (new_signal E) = None" "t_signal p = t_signal current"
  obtains a G where "p' = p\<lparr>t_signal := a\<rparr>" "s' = s\<lparr>signals := G\<rparr>" "ret \<noteq> 0 \<Longrightarrow> G = signals s"
    "has_flag flags CLONE_THREAD \<Longrightarrow> G = signals s \<and> a = t_signal current"
    "ret = 0 \<Longrightarrow> \<not> has_flag flags CLONE_THREAD \<Longrightarrow> a \<noteq> 0 \<and> signals s a = None \<and> (\<exists>sg. G = (signals s)(a \<mapsto> sg) \<and>
        sg_nr_threads sg = 1 \<and> sg_rlim sg = sg_rlim (the (signals s (t_signal current))) \<and> sg_oom_mm sg = 0)"
proof
  show "p' = p\<lparr>t_signal := t_signal p'\<rparr>" "s' = s\<lparr>signals := signals s'\<rparr>"
    using assms(1) by (auto simp: copy_signal_def Let_def split: if_splits)
  show "signals s' = signals s" if "ret \<noteq> 0"
    using assms(1) that by (auto simp: copy_signal_def Let_def split: if_splits)
  show "signals s' = signals s \<and> t_signal p' = t_signal current" if "has_flag flags CLONE_THREAD"
    using assms that by (auto simp: copy_signal_def Let_def split: if_splits)
  show "t_signal p' \<noteq> 0 \<and> signals s (t_signal p') = None \<and> (\<exists>sg. signals s' = (signals s)(t_signal p' \<mapsto> sg) \<and>
        sg_nr_threads sg = 1 \<and> sg_rlim sg = sg_rlim (the (signals s (t_signal current))) \<and> sg_oom_mm sg = 0)"
    if "ret = 0" "\<not> has_flag flags CLONE_THREAD"
    using assms that by (auto simp: copy_signal_def Let_def fresh_law_def split: if_splits)
qed

lemma free_new_signal: "signals s a = None \<Longrightarrow> sg_oom_mm sg = 0 \<Longrightarrow> free_signal_struct a (s\<lparr>signals := (signals s)(a \<mapsto> sg)\<rparr>) = s"
  by (simp add: free_signal_struct_def fun_upd_idem)

lemma copy_mm_part:
  assumes "copy_mm E flags current p s = (ret, p', s')" "mm_users s (new_mm E) = None" "t_mm current \<noteq> 0 \<longrightarrow> counted (mm_users s) (t_mm current)"
  obtains a M where "p' = p\<lparr>t_faults := [0, 0, 0, 0], t_mm := a\<rparr>" "s' = s\<lparr>mm_users := M\<rparr>" "ret \<noteq> 0 \<Longrightarrow> M = mm_users s"
    "ret = 0 \<Longrightarrow> joined (mm_users s) M a" "ret = 0 \<Longrightarrow> has_flag flags CLONE_VM \<Longrightarrow> a = t_mm current"
    "ret = 0 \<Longrightarrow> \<not> has_flag flags CLONE_VM \<Longrightarrow> a = 0 \<or> mm_users s a = None"
proof -
  have dup: "case dup_mm E s of (mm, s1) \<Rightarrow> if mm = 0 then s1 = s else mm_users s mm = None \<and> s1 = s\<lparr>mm_users := (mm_users s)(mm \<mapsto> 1)\<rparr>"
    using assms(2) by (auto simp: dup_mm_def mmput_def put_new_ref fresh_law_def Let_def)
  show ?thesis
  proof
    show "p' = p\<lparr>t_faults := [0, 0, 0, 0], t_mm := t_mm p'\<rparr>"
      using assms(1) by (auto simp: copy_mm_def Let_def split: if_splits prod.splits)
    show "s' = s\<lparr>mm_users := mm_users s'\<rparr>" "ret \<noteq> 0 \<Longrightarrow> mm_users s' = mm_users s"
      using assms(1) dup by (auto simp: copy_mm_def Let_def split: if_splits prod.splits)
    show "joined (mm_users s) (mm_users s') (t_mm p')" if "ret = 0"
      using assms that dup by (auto simp: copy_mm_def Let_def joined_def split: if_splits prod.splits)
    show "t_mm p' = t_mm current" if "ret = 0" "has_flag flags CLONE_VM"
      using assms that by (auto simp: copy_mm_def Let_def split: if_splits)
    show "t_mm p' = 0 \<or> mm_users s (t_mm p') = None" if "ret = 0" "\<not> has_flag flags CLONE_VM"
      using assms that dup by (auto simp: copy_mm_def Let_def split: if_splits prod.splits)
  qed
qed

section \<open>A fork that fails leaves nothing behind\<close>

text \<open>
  An outcome restores \<open>s\<close> when it is a success, or an error in the state \<open>s\<close> again, up to the user
  memory where the descriptor of the new process was stored before a later step failed.
\<close>

definition restores :: "fork_state \<Rightarrow> (int + addr) \<times> fork_state \<Rightarrow> bool" where
  "restores s r \<longleftrightarrow> (\<forall>e s'. r = (Inl e, s') \<longrightarrow> (\<exists>u. s' = s\<lparr>user_tids := u\<rparr>))"

lemma restores_user: "s' = s\<lparr>user_tids := u\<rparr> \<Longrightarrow> restores s (Inl e, s')"
  unfolding restores_def by blast

lemma restores_same: "s' = s \<Longrightarrow> restores s (Inl e, s')"
  by (rule restores_user [where u = "user_tids s"]) simp

lemma restores_Inr: "restores s (Inr a, s')"
  by (simp add: restores_def)

lemma restores_if: "\<lbrakk>b \<Longrightarrow> restores s x; \<not> b \<Longrightarrow> restores s y\<rbrakk> \<Longrightarrow> restores s (if b then x else y)"
  by simp

lemma restores_or_goto:
  "\<lbrakk>ret \<noteq> 0 \<Longrightarrow> label p s = s0; ret = 0 \<Longrightarrow> restores s0 (k p s)\<rbrakk> \<Longrightarrow> restores s0 (or_goto (ret, p, s) label k)"
  by (simp add: or_goto_def restores_same)

lemma unwind_step:
  "unwind E f i pid Cancel_cgroup p s = unwind E f i pid Put_pidfd p (clean_up E f i pid p Cancel_cgroup s)"
  "unwind E f i pid Put_pidfd p s = unwind E f i pid Free_pid p (clean_up E f i pid p Put_pidfd s)"
  "unwind E f i pid Free_pid p s = unwind E f i pid Cleanup_thread p (clean_up E f i pid p Free_pid s)"
  "unwind E f i pid Cleanup_thread p s = unwind E f i pid Cleanup_io p (clean_up E f i pid p Cleanup_thread s)"
  "unwind E f i pid Cleanup_io p s = unwind E f i pid Cleanup_namespaces p (clean_up E f i pid p Cleanup_io s)"
  "unwind E f i pid Cleanup_namespaces p s = unwind E f i pid Cleanup_mm p (clean_up E f i pid p Cleanup_namespaces s)"
  "unwind E f i pid Cleanup_mm p s = unwind E f i pid Cleanup_signal p (clean_up E f i pid p Cleanup_mm s)"
  "unwind E f i pid Cleanup_signal p s = unwind E f i pid Cleanup_sighand p (clean_up E f i pid p Cleanup_signal s)"
  "unwind E f i pid Cleanup_sighand p s = unwind E f i pid Cleanup_fs p (clean_up E f i pid p Cleanup_sighand s)"
  "unwind E f i pid Cleanup_fs p s = unwind E f i pid Cleanup_files p (clean_up E f i pid p Cleanup_fs s)"
  "unwind E f i pid Cleanup_files p s = unwind E f i pid Cleanup_semundo p (clean_up E f i pid p Cleanup_files s)"
  "unwind E f i pid Cleanup_semundo p s = unwind E f i pid Cleanup_security p (clean_up E f i pid p Cleanup_semundo s)"
  "unwind E f i pid Cleanup_security p s = unwind E f i pid Cleanup_audit p (clean_up E f i pid p Cleanup_security s)"
  "unwind E f i pid Cleanup_audit p s = unwind E f i pid Cleanup_perf p (clean_up E f i pid p Cleanup_audit s)"
  "unwind E f i pid Cleanup_perf p s = unwind E f i pid Cleanup_policy p (clean_up E f i pid p Cleanup_perf s)"
  "unwind E f i pid Cleanup_policy p s = unwind E f i pid Cleanup_delayacct p (clean_up E f i pid p Cleanup_policy s)"
  "unwind E f i pid Cleanup_delayacct p s = unwind E f i pid Cleanup_count p (clean_up E f i pid p Cleanup_delayacct s)"
  "unwind E f i pid Cleanup_count p s = unwind E f i pid Bad_fork_free p (clean_up E f i pid p Cleanup_count s)"
  "unwind E f i pid Bad_fork_free p s = unwind E f i pid Fork_out p (clean_up E f i pid p Bad_fork_free s)"
  "unwind E f i pid Fork_out p s = clean_up E f i pid p Fork_out s"
  by (simp_all add: unwind_def fork_labels_def del: clean_up.simps)

text \<open>A label only looks at the fields of the new task that are set when it is reached.\<close>

lemma unwind_cong:
  assumes "\<And>l. l \<in> set (dropWhile (\<lambda>l. l \<noteq> label) fork_labels) \<Longrightarrow> clean_up E f i pid p l = clean_up E f i pid' p' l"
  shows "unwind E f i pid label p = unwind E f i pid' label p'"
  unfolding unwind_def using assms by (intro ext fold_cong) auto

lemma unwind_low: "unwind E f i pid Cleanup_semundo p = unwind E f i pid' Cleanup_semundo p'"
  by (rule unwind_cong) (auto simp: fork_labels_def fun_eq_iff)

lemma unwind_files: "t_files p = t_files p' \<Longrightarrow> unwind E f i pid Cleanup_files p = unwind E f i pid' Cleanup_files p'"
  by (rule unwind_cong) (auto simp: fork_labels_def fun_eq_iff)

lemma unwind_fs: "t_files p = t_files p' \<Longrightarrow> t_fs p = t_fs p' \<Longrightarrow> unwind E f i pid Cleanup_fs p = unwind E f i pid' Cleanup_fs p'"
  by (rule unwind_cong) (auto simp: fork_labels_def fun_eq_iff)

lemma unwind_sighand:
  "\<lbrakk>t_files p = t_files p'; t_fs p = t_fs p'; t_sighand p = t_sighand p'\<rbrakk> \<Longrightarrow>
     unwind E f i pid Cleanup_sighand p = unwind E f i pid' Cleanup_sighand p'"
  by (rule unwind_cong) (auto simp: fork_labels_def fun_eq_iff)

lemma unwind_signal:
  "\<lbrakk>t_files p = t_files p'; t_fs p = t_fs p'; t_sighand p = t_sighand p'; t_signal p = t_signal p'\<rbrakk> \<Longrightarrow>
     unwind E f i pid Cleanup_signal p = unwind E f i pid' Cleanup_signal p'"
  by (rule unwind_cong) (auto simp: fork_labels_def fun_eq_iff)

lemma unwind_same_parts:
  assumes "t_files p = t_files p'" "t_fs p = t_fs p'" "t_sighand p = t_sighand p'" "t_signal p = t_signal p'" "t_mm p = t_mm p'"
  shows "unwind E f i pid label p = unwind E f i pid label p'"
proof (rule unwind_cong)
  fix l show "clean_up E f i pid p l = clean_up E f i pid p' l"
    using assms by (cases l) (simp_all add: fun_eq_iff)
qed

lemma unwind_thread_pid: "unwind E f i pid Cleanup_thread p = unwind E f i pid' Cleanup_thread p"
  by (rule unwind_cong) (auto simp: fork_labels_def fun_eq_iff)

lemma clean_up_user: "clean_up E f i pid p l (s\<lparr>user_tids := u\<rparr>) = (clean_up E f i pid p l s)\<lparr>user_tids := u\<rparr>"
  by (cases l)
    (simp_all add: release_def mmput_def free_signal_struct_def cleanup_sighand_def Let_def split: option.splits)

lemma unwind_user: "unwind E f i pid label p (s\<lparr>user_tids := u\<rparr>) = (unwind E f i pid label p s)\<lparr>user_tids := u\<rparr>"
proof -
  have "fold (clean_up E f i pid p) ls (s\<lparr>user_tids := u\<rparr>) = (fold (clean_up E f i pid p) ls s)\<lparr>user_tids := u\<rparr>" for ls s
    by (induction ls arbitrary: s) (simp_all add: clean_up_user)
  then show ?thesis by (simp add: unwind_def)
qed

lemma set_parent_parts [simp]:
  "t_files (set_parent f x c k l p) = t_files p" "t_fs (set_parent f x c k l p) = t_fs p" "t_mm (set_parent f x c k l p) = t_mm p"
  "t_sighand (set_parent f x c k l p) = t_sighand p" "t_signal (set_parent f x c k l p) = t_signal p"
  by (simp_all add: set_parent_def)

lemma set_identity_parts [simp]:
  "t_files (set_identity f k a n p) = t_files p" "t_fs (set_identity f k a n p) = t_fs p" "t_mm (set_identity f k a n p) = t_mm p"
  "t_sighand (set_identity f k a n p) = t_sighand p" "t_signal (set_identity f k a n p) = t_signal p"
  by (simp_all add: set_identity_def Let_def)

lemma publish_restores:
  assumes "unwind E (ka_flags args) i pid Put_pidfd p (release Cgroup s) = s0\<lparr>user_tids := u\<rparr>"
  shows "restores s0 (copy_process_publish E args i trace cur current pidfd a pid p s)"
proof -
  have "unwind E (ka_flags args) i pid Cancel_cgroup (set_parent (ka_flags args) (ka_exit_signal args) cur current x p) (acquire Sched_core s) = s0\<lparr>user_tids := u\<rparr>" for x
    using assms by (simp add: unwind_step(1) unwind_same_parts [of "set_parent (ka_flags args) (ka_exit_signal args) cur current x p" p])
  then show ?thesis
    unfolding copy_process_publish_def Let_def by (intro restores_if restores_Inr restores_user)
qed

lemma attach_restores:
  assumes "unwind E (ka_flags args) i 0 Cleanup_thread p s = s0" "\<forall>tids n. alloc_pid E tids = Inr n \<longrightarrow> n \<notin> pids s"
  shows "restores s0 (copy_process_attach E args i trace cur current a p s)"
proof (cases "if \<not> i then alloc_pid E (ka_set_tid args) else Inr 0")
  case (Inl e)
  then show ?thesis using assms(1) by (simp add: copy_process_attach_def Let_def restores_same)
next
  case (Inr pid)
  let ?f = "ka_flags args" and ?s = "if \<not> i then s\<lparr>pids := insert pid (pids s)\<rparr> else s"
  have pids: "clean_up E ?f i pid p Free_pid ?s = s"
    using Inr assms(2) by (auto split: if_splits)
  have low: "unwind E ?f i pid Free_pid p ?s = s0"
    using assms(1) unwind_thread_pid [of E ?f i pid p 0] by (simp only: unwind_step(3) pids)
  show ?thesis
  proof (cases "prepare_pidfd E args ?s")
    case (Pair r s1)
    show ?thesis
    proof (cases r)
      case (Inl el)
      then obtain e l where el: "el = (e, l)" "(l = Free_pid \<and> s1 = ?s) \<or> (l = Put_pidfd \<and> clean_up E ?f i pid p Put_pidfd s1 = ?s)"
        using Pair unfolding prepare_pidfd_def pidfd_prepare_raw_def
        by (auto simp: Let_def split: if_splits prod.splits)
      then have "unwind E ?f i pid l p s1 = s0" using low by (auto simp: unwind_step(2))
      then show ?thesis
        using Pair Inl el \<open>(if \<not> i then alloc_pid E (ka_set_tid args) else Inr 0) = Inr pid\<close>
        by (simp add: copy_process_attach_def Let_def restores_same)
    next
      case (Inr pidfd)
      define u where "u = user_tids s1"
      have "clean_up E ?f i pid p Put_pidfd s1 = ?s\<lparr>user_tids := u\<rparr>"
        using Pair Inr unfolding prepare_pidfd_def pidfd_prepare_raw_def u_def
        by (auto simp: Let_def release_def acquire_def split: if_splits prod.splits)
      then have put: "unwind E ?f i pid Put_pidfd p s1 = s0\<lparr>user_tids := u\<rparr>"
        using low by (simp only: unwind_step(2) unwind_user)
      then have id: "unwind E ?f i pid Put_pidfd (set_identity ?f current a pid p) s1 = s0\<lparr>user_tids := u\<rparr>"
        using unwind_same_parts [of "set_identity ?f current a pid p" p] by simp
      show ?thesis
        using Pair Inr \<open>(if \<not> i then alloc_pid E (ka_set_tid args) else Inr 0) = Inr pid\<close> id
          publish_restores [of E args i pid "set_identity ?f current a pid p" "acquire Cgroup s1" u s0]
        by (simp add: copy_process_attach_def Let_def or_goto_def set_up_def restores_user)
    qed
  qed
qed

lemma context_restores:
  assumes "unwind E (ka_flags args) i 0 Cleanup_mm p s = s0" "\<forall>tids n. alloc_pid E tids = Inr n \<longrightarrow> n \<notin> pids s"
  shows "restores s0 (copy_process_context E args i trace cur current a p s)"
proof -
  let ?f = "ka_flags args" and ?n = "acquire Namespaces s"
  let ?io = "if io_context_made E then acquire Io_context ?n else ?n"
  have ns: "unwind E ?f i 0 Cleanup_namespaces p ?n = s0" using assms(1) by (simp add: unwind_step(6))
  have io: "unwind E ?f i 0 Cleanup_io p ?io = s0" using ns by (simp add: unwind_step(5))
  have thread: "unwind E ?f i 0 Cleanup_thread p (acquire Thread_state ?io) = s0" using io by (simp add: unwind_step(4))
  have "\<forall>tids n. alloc_pid E tids = Inr n \<longrightarrow> n \<notin> pids (acquire Thread_state ?io)" using assms(2) by (simp add: acquire_def)
  from attach_restores [OF thread this] show ?thesis
    using assms(1) ns io by (auto simp: copy_process_context_def Let_def or_goto_def set_up_def intro: restores_same)
qed

text \<open>The parts, one step of the chain at a time.\<close>

lemma files_undone:
  assumes "copy_files E f no current p s = (ret, p', s')" "refs_law E" "fresh_law E s" "parts_held s current" "t_files p = t_files current"
  shows "ret \<noteq> 0 \<Longrightarrow> unwind E f i 0 Cleanup_semundo p' s' = unwind E f i 0 Cleanup_semundo p s"
    and "ret = 0 \<Longrightarrow> unwind E f i 0 Cleanup_files p' s' = unwind E f i 0 Cleanup_semundo p s"
    and "s' = s\<lparr>files_count := files_count s'\<rparr>" and "p' = p\<lparr>t_files := t_files p'\<rparr>"
proof -
  obtain a F where part: "p' = p\<lparr>t_files := a\<rparr>" "s' = s\<lparr>files_count := F\<rparr>" "ret \<noteq> 0 \<Longrightarrow> F = files_count s"
    "ret = 0 \<Longrightarrow> joined (files_count s) F a"
    using assms by (auto elim!: copy_files_part simp: parts_held_def fresh_law_def)
  have low: "unwind E f i 0 Cleanup_semundo p' = unwind E f i 0 Cleanup_semundo p" by (rule unwind_low)
  show "unwind E f i 0 Cleanup_semundo p' s' = unwind E f i 0 Cleanup_semundo p s" if "ret \<noteq> 0"
    using part(2,3) low that by simp
  show "unwind E f i 0 Cleanup_files p' s' = unwind E f i 0 Cleanup_semundo p s" if "ret = 0"
    using joined_undo [OF part(4) [OF that]] assms(2) low part(1,2) by (simp add: unwind_step(11) refs_law_def split: if_splits)
  show "s' = s\<lparr>files_count := files_count s'\<rparr>" "p' = p\<lparr>t_files := t_files p'\<rparr>" using part(1,2) by simp_all
qed

lemma fs_undone:
  assumes "copy_fs E f current p s = (ret, p', s')" "refs_law E" "fs_users s (copy_fs_struct E) = None"
    and "t_fs current \<noteq> 0" "counted (fs_users s) (t_fs current)" "t_fs p = t_fs current"
  shows "ret \<noteq> 0 \<Longrightarrow> unwind E f i 0 Cleanup_files p' s' = unwind E f i 0 Cleanup_files p s"
    and "ret = 0 \<Longrightarrow> unwind E f i 0 Cleanup_fs p' s' = unwind E f i 0 Cleanup_files p s"
    and "s' = s\<lparr>fs_users := fs_users s'\<rparr>" and "p' = p\<lparr>t_fs := t_fs p'\<rparr>"
proof -
  obtain a F where part: "p' = p\<lparr>t_fs := a\<rparr>" "s' = s\<lparr>fs_users := F\<rparr>" "ret \<noteq> 0 \<Longrightarrow> F = fs_users s"
    "ret = 0 \<Longrightarrow> joined (fs_users s) F a"
    using assms by (auto elim!: copy_fs_part)
  have low: "unwind E f i 0 Cleanup_files p' = unwind E f i 0 Cleanup_files p" using part(1) by (simp add: unwind_files)
  show "unwind E f i 0 Cleanup_files p' s' = unwind E f i 0 Cleanup_files p s" if "ret \<noteq> 0"
    using part(2,3) low that by simp
  show "unwind E f i 0 Cleanup_fs p' s' = unwind E f i 0 Cleanup_files p s" if "ret = 0"
    using joined_undo [OF part(4) [OF that]] assms(2) low part(1,2) by (simp add: unwind_step(10) refs_law_def split: if_splits)
  show "s' = s\<lparr>fs_users := fs_users s'\<rparr>" "p' = p\<lparr>t_fs := t_fs p'\<rparr>" using part(1,2) by simp_all
qed

lemma sighand_undone:
  assumes "copy_sighand E f current p s = (ret, p', s')" "sighands s (new_sighand E) = None"
    and "t_sighand current \<noteq> 0" "counted (sh_counts s) (t_sighand current)" "t_sighand p = t_sighand current"
  shows "ret \<noteq> 0 \<Longrightarrow> unwind E f i 0 Cleanup_fs p' s' = unwind E f i 0 Cleanup_fs p s"
    and "ret = 0 \<Longrightarrow> unwind E f i 0 Cleanup_sighand p' s' = unwind E f i 0 Cleanup_fs p s"
    and "s' = s\<lparr>sighands := sighands s'\<rparr>" and "p' = p\<lparr>t_sighand := t_sighand p'\<rparr>"
proof -
  obtain a S where part: "p' = p\<lparr>t_sighand := a\<rparr>" "s' = s\<lparr>sighands := S\<rparr>" "ret \<noteq> 0 \<Longrightarrow> S = sighands s"
    "ret = 0 \<Longrightarrow> cleanup_sighand a s' = s"
    using assms by (auto elim!: copy_sighand_part)
  have low: "unwind E f i 0 Cleanup_fs p' = unwind E f i 0 Cleanup_fs p" using part(1) by (simp add: unwind_fs)
  show "unwind E f i 0 Cleanup_fs p' s' = unwind E f i 0 Cleanup_fs p s" if "ret \<noteq> 0"
    using part(2,3) low that by simp
  show "unwind E f i 0 Cleanup_sighand p' s' = unwind E f i 0 Cleanup_fs p s" if "ret = 0"
    using part(4) [OF that] low part(1) by (simp add: unwind_step(9))
  show "s' = s\<lparr>sighands := sighands s'\<rparr>" "p' = p\<lparr>t_sighand := t_sighand p'\<rparr>" using part(1,2) by simp_all
qed

lemma signal_undone:
  assumes "copy_signal E f current p s = (ret, p', s')" "signals s (new_signal E) = None" "t_signal p = t_signal current"
  shows "ret \<noteq> 0 \<Longrightarrow> unwind E f i 0 Cleanup_sighand p' s' = unwind E f i 0 Cleanup_sighand p s"
    and "ret = 0 \<Longrightarrow> unwind E f i 0 Cleanup_signal p' s' = unwind E f i 0 Cleanup_sighand p s"
    and "s' = s\<lparr>signals := signals s'\<rparr>" and "p' = p\<lparr>t_signal := t_signal p'\<rparr>"
proof -
  obtain a G where part: "p' = p\<lparr>t_signal := a\<rparr>" "s' = s\<lparr>signals := G\<rparr>" "ret \<noteq> 0 \<Longrightarrow> G = signals s"
    "has_flag f CLONE_THREAD \<Longrightarrow> G = signals s"
    "ret = 0 \<Longrightarrow> \<not> has_flag f CLONE_THREAD \<Longrightarrow> signals s a = None \<and> (\<exists>sg. G = (signals s)(a \<mapsto> sg) \<and> sg_oom_mm sg = 0)"
    using assms by (rule copy_signal_part) blast
  have low: "unwind E f i 0 Cleanup_sighand p' = unwind E f i 0 Cleanup_sighand p" using part(1) by (simp add: unwind_sighand)
  show "unwind E f i 0 Cleanup_sighand p' s' = unwind E f i 0 Cleanup_sighand p s" if "ret \<noteq> 0"
    using part(2,3) low that by simp
  have "clean_up E f i 0 p' Cleanup_signal s' = s" if "ret = 0"
    using part that free_new_signal [of s a] by (cases "has_flag f CLONE_THREAD") auto
  then show "unwind E f i 0 Cleanup_signal p' s' = unwind E f i 0 Cleanup_sighand p s" if "ret = 0"
    using low that by (simp only: unwind_step(8))
  show "s' = s\<lparr>signals := signals s'\<rparr>" "p' = p\<lparr>t_signal := t_signal p'\<rparr>" using part(1,2) by simp_all
qed

lemma mm_undone:
  assumes "copy_mm E f current p s = (ret, p', s')" "mm_users s (new_mm E) = None" "t_mm current \<noteq> 0 \<longrightarrow> counted (mm_users s) (t_mm current)"
  shows "ret \<noteq> 0 \<Longrightarrow> unwind E f i 0 Cleanup_signal p' s' = unwind E f i 0 Cleanup_signal p s"
    and "ret = 0 \<Longrightarrow> unwind E f i 0 Cleanup_mm p' s' = unwind E f i 0 Cleanup_signal p s"
    and "s' = s\<lparr>mm_users := mm_users s'\<rparr>"
proof -
  obtain a M where part: "p' = p\<lparr>t_faults := [0, 0, 0, 0], t_mm := a\<rparr>" "s' = s\<lparr>mm_users := M\<rparr>" "ret \<noteq> 0 \<Longrightarrow> M = mm_users s"
    "ret = 0 \<Longrightarrow> joined (mm_users s) M a"
    using assms by (auto elim!: copy_mm_part)
  have low: "unwind E f i 0 Cleanup_signal p' = unwind E f i 0 Cleanup_signal p" using part(1) by (simp add: unwind_signal)
  show "unwind E f i 0 Cleanup_signal p' s' = unwind E f i 0 Cleanup_signal p s" if "ret \<noteq> 0"
    using part(2,3) low that by simp
  show "unwind E f i 0 Cleanup_mm p' s' = unwind E f i 0 Cleanup_signal p s" if "ret = 0"
    using joined_undo [OF part(4) [OF that]] low part(1,2) by (simp add: unwind_step(7) mmput_def split: if_splits)
  show "s' = s\<lparr>mm_users := mm_users s'\<rparr>" using part(2) by simp
qed

lemma signals_restores:
  assumes low: "unwind E (ka_flags args) i 0 Cleanup_fs p s = s0"
    and law: "sighands s (new_sighand E) = None" "signals s (new_signal E) = None" "mm_users s (new_mm E) = None"
      "\<forall>tids n. alloc_pid E tids = Inr n \<longrightarrow> n \<notin> pids s"
    and held: "t_sighand current \<noteq> 0" "counted (sh_counts s) (t_sighand current)" "t_mm current \<noteq> 0 \<longrightarrow> counted (mm_users s) (t_mm current)"
    and p: "t_sighand p = t_sighand current" "t_signal p = t_signal current"
  shows "restores s0 (copy_process_signals E args i trace cur current a p s)"
proof -
  let ?f = "ka_flags args"
  obtain r1 p1 s1 where c1: "copy_sighand E ?f current p s = (r1, p1, s1)" by (metis prod_cases3)
  note sighand = sighand_undone [OF c1 law(1) held(1,2) p(1)]
  have h1: "signals s1 = signals s" "mm_users s1 = mm_users s" "pids s1 = pids s" "t_signal p1 = t_signal current"
    by (subst sighand(3) sighand(4), simp add: p)+
  obtain r2 p2 s2 where c2: "copy_signal E ?f current p1 s1 = (r2, p2, s2)" by (metis prod_cases3)
  note signal = signal_undone [OF c2 law(2) [folded h1(1)] h1(4)]
  have h2: "mm_users s2 = mm_users s" "pids s2 = pids s" by (subst signal(3), simp add: h1)+
  obtain r3 p3 s3 where c3: "copy_mm E ?f current p2 s2 = (r3, p3, s3)" by (metis prod_cases3)
  note mm = mm_undone [OF c3 law(3) [folded h2(1)] held(3) [folded h2(1)]]
  have "pids s3 = pids s" by (subst mm(3), simp add: h2)
  then have ctx: "restores s0 (copy_process_context E args i trace cur current a p3 s3)" if "r1 = 0" "r2 = 0" "r3 = 0"
    using that low law(4) sighand(2) signal(2) mm(2) by (intro context_restores) simp_all
  show ?thesis
    unfolding copy_process_signals_def Let_def
    using low c1 c2 c3 sighand(1,2) signal(1,2) mm(1) ctx by (simp add: or_goto_def restores_same)
qed

lemma parts_restores:
  assumes low: "unwind E (ka_flags args) i 0 Cleanup_audit p s = s0"
    and law: "refs_law E" "fresh_law E s" "parts_held s current"
    and p: "t_files p = t_files current" "t_fs p = t_fs current" "t_sighand p = t_sighand current" "t_signal p = t_signal current"
  shows "restores s0 (copy_process_parts E args i trace cur current a p s)"
proof -
  let ?f = "ka_flags args"
  define s1 where "s1 = acquire Security s"
  define s2 where "s2 = acquire Semundo s1"
  have u1: "unwind E ?f i 0 Cleanup_security p s1 = s0" using low by (simp add: s1_def unwind_step(13))
  have u2: "unwind E ?f i 0 Cleanup_semundo p s2 = s0" using u1 by (simp add: s2_def unwind_step(12))
  have law2: "fresh_law E s2" "parts_held s2 current"
    using law by (simp_all add: fresh_law_def parts_held_def sh_counts_def s2_def s1_def acquire_def)
  obtain r3 p3 s3 where c3: "copy_files E ?f (ka_no_files args) current p s2 = (r3, p3, s3)" by (metis prod_cases3)
  note files = files_undone [OF c3 law(1) law2 p(1)]
  have h3: "fs_users s3 = fs_users s2" "sighands s3 = sighands s2" "signals s3 = signals s2" "mm_users s3 = mm_users s2" "pids s3 = pids s2"
    "t_fs p3 = t_fs current" "t_sighand p3 = t_sighand current" "t_signal p3 = t_signal current"
    by (subst files(3) files(4), simp add: p)+
  obtain r4 p4 s4 where c4: "copy_fs E ?f current p3 s3 = (r4, p4, s4)" by (metis prod_cases3)
  have "fs_users s3 (copy_fs_struct E) = None" "t_fs current \<noteq> 0" "counted (fs_users s3) (t_fs current)"
    using law2 h3 by (simp_all add: fresh_law_def parts_held_def)
  note fs = fs_undone [OF c4 law(1) this h3(6)]
  have h4: "sighands s4 = sighands s2" "signals s4 = signals s2" "mm_users s4 = mm_users s2" "pids s4 = pids s2"
    "t_sighand p4 = t_sighand current" "t_signal p4 = t_signal current"
    by (subst fs(3) fs(4), simp add: h3)+
  have rest: "restores s0 (copy_process_signals E args i trace cur current a p4 s4)" if "r3 = 0" "r4 = 0"
    using law2 h4 u2 files(2) [OF that(1)] fs(2) [OF that(2)]
    by (intro signals_restores) (auto simp: fresh_law_def parts_held_def sh_counts_def)
  show ?thesis
    unfolding copy_process_parts_def Let_def set_up_def
    using low u1 u2 c3 c4 files(1,2) fs(1) rest by (simp add: or_goto_def restores_same flip: s1_def s2_def)
qed

lemma unwind_clear_nproc: "unwind E f i 0 Cleanup_count p (clear_nproc cur s) = clear_nproc cur (unwind E f i 0 Cleanup_count p s)"
  by (simp add: unwind_step(18-20) release_def clear_nproc_def)

lemma child_parts [simp]:
  "t_files (reset_child p) = t_files p" "t_fs (reset_child p) = t_fs p" "t_sighand (reset_child p) = t_sighand p"
  "t_signal (reset_child p) = t_signal p" "t_files (init_child args c) = t_files c" "t_fs (init_child args c) = t_fs c"
  "t_sighand (init_child args c) = t_sighand c" "t_signal (init_child args c) = t_signal c" "t_mm (init_child args c) = t_mm c"
  by (simp_all add: reset_child_def init_child_def Let_def split: option.splits)

lemma laws_kept [simp]:
  "fresh_law E (acquire h s) = fresh_law E s" "parts_held (acquire h s) t = parts_held s t"
  "fresh_law E (clear_nproc cur s) = fresh_law E s" "parts_held (clear_nproc cur s) t = parts_held s t"
  "fresh_law E (s\<lparr>multiprocess := n\<rparr>) = fresh_law E s" "parts_held (s\<lparr>multiprocess := n\<rparr>) t = parts_held s t"
  by (auto simp: fresh_law_def parts_held_def sh_counts_def acquire_def clear_nproc_def)

lemma account_restores:
  assumes low: "unwind E (ka_flags args) i 0 Bad_fork_free p s = s0"
    and law: "refs_law E" "fresh_law E s" "parts_held s current"
    and p: "t_files p = t_files current" "t_fs p = t_fs current" "t_sighand p = t_sighand current" "t_signal p = t_signal current"
  shows "restores s0 (copy_process_account E args i trace cur current a p s) \<or>
         restores (clear_nproc cur s0) (copy_process_account E args i trace cur current a p s)"
proof -
  let ?f = "ka_flags args" and ?p = "reset_child p"
  define s1 where "s1 = acquire Nproc (acquire Creds s)"
  define s2 where "s2 = clear_nproc cur s1"
  define s3 where "s3 = acquire Delayacct s2"
  define s4 where "s4 = acquire Mempolicy s3"
  define s5 where "s5 = acquire Perf s4"
  define s6 where "s6 = acquire Audit s5"
  have u1: "unwind E ?f i 0 Cleanup_count p s1 = s0" using low by (simp add: s1_def unwind_step(18) release_def acquire_def)
  have u2: "unwind E ?f i 0 Cleanup_count p s2 = clear_nproc cur s0" using u1 by (simp add: s2_def unwind_clear_nproc)
  moreover have "unwind E ?f i 0 Cleanup_count p = unwind E ?f i 0 Cleanup_count ?p"
    by (rule unwind_cong) (auto simp: fork_labels_def fun_eq_iff)
  ultimately have u3: "unwind E ?f i 0 Cleanup_delayacct ?p s3 = clear_nproc cur s0" by (simp add: s3_def unwind_step(17))
  have u4: "unwind E ?f i 0 Cleanup_policy ?p s4 = clear_nproc cur s0" using u3 by (simp add: s4_def unwind_step(16))
  have u5: "unwind E ?f i 0 Cleanup_perf ?p s5 = clear_nproc cur s0" using u4 by (simp add: s5_def unwind_step(15))
  have u6: "unwind E ?f i 0 Cleanup_audit ?p s6 = clear_nproc cur s0" using u5 by (simp add: s6_def unwind_step(14))
  have "restores (clear_nproc cur s0) (copy_process_parts E args i trace cur current a ?p s6)"
    using law p by (intro parts_restores [OF u6]) (simp_all add: s6_def s5_def s4_def s3_def s2_def s1_def)
  then show ?thesis
    unfolding copy_process_account_def Let_def set_up_def
    using low u1 u2 u3 u4 u5
    by (simp add: or_goto_def restores_same flip: s1_def s2_def s3_def s4_def s5_def s6_def)
qed

lemma copy_process_restores:
  assumes "refs_law E" "fresh_law E s" "tasks s cur = Some current" "parts_held s current"
  shows "restores s (copy_process E i trace args cur s) \<or> restores (clear_nproc cur s) (copy_process E i trace args cur s)"
proof -
  let ?f = "ka_flags args" and ?s = "if \<not> has_flag (ka_flags args) CLONE_THREAD then s\<lparr>multiprocess := multiprocess s + 1\<rparr> else s"
  have out: "unwind E ?f i 0 Fork_out q ?s = s" for q by (simp add: unwind_step(20))
  then have "unwind E ?f i 0 Bad_fork_free (init_child args current) (acquire Task_struct ?s) = s" by (simp add: unwind_step(19))
  from account_restores [OF this, of current trace cur "new_task E"]
  have "restores s (copy_process_account E args i trace cur current (new_task E) (init_child args current) (acquire Task_struct ?s)) \<or>
        restores (clear_nproc cur s) (copy_process_account E args i trace cur current (new_task E) (init_child args current) (acquire Task_struct ?s))"
    using assms by simp
  then show ?thesis
    unfolding copy_process_def Let_def using assms(3) out by (auto simp: restores_same)
qed

end
