(* ===== verification/Process_Sharing.thy ===== *)
theory Process_Sharing
  imports Fork_Unwinding
begin

text \<open>
  What a new task shares with its parent, and the invariants of the task table under any sequence
  of the calls of \<open>Process_Creation\<close>: reference counts are exact, and tasks of one thread group
  share their signal handlers and their address space.
\<close>

section \<open>A successful copy\_process\<close>

lemma or_goto_Inr: "or_goto r l k = (Inr a, s') \<longleftrightarrow> (\<exists>p s. r = (0, p, s) \<and> k p s = (Inr a, s'))"
  by (cases r) (auto simp: or_goto_def)

lemma set_up_0: "set_up e h p s = (0, p', s') \<longleftrightarrow> e = 0 \<and> p' = p \<and> s' = acquire h s"
  by (auto simp: set_up_def)

text \<open>The parts of the new task \<open>p\<close>, and the state with its references.\<close>

definition same_tables :: "fork_state \<Rightarrow> fork_state \<Rightarrow> bool" where
  "same_tables s s' \<longleftrightarrow> tasks s' = tasks s \<and> mm_users s' = mm_users s \<and> fs_users s' = fs_users s \<and> files_count s' = files_count s \<and>
     sighands s' = sighands s \<and> signals s' = signals s \<and> nr_threads s' = nr_threads s \<and> max_threads s' = max_threads s"

lemma same_tables_acquire [simp]: "same_tables s (acquire h s)"
  by (simp add: same_tables_def acquire_def)

lemma same_tables_trans: "same_tables s t \<Longrightarrow> same_tables t u \<Longrightarrow> same_tables s u"
  by (simp add: same_tables_def)

lemma context_success:
  assumes "copy_process_context E args i trace cur current a p s = (Inr b, s')"
  obtains s1 where "copy_process_attach E args i trace cur current a p s1 = (Inr b, s')" "same_tables s s1"
proof -
  obtain s1 where "copy_process_attach E args i trace cur current a p s1 = (Inr b, s')"
    "s1 = acquire Thread_state (if io_context_made E then acquire Io_context (acquire Namespaces s) else acquire Namespaces s)"
    using assms unfolding copy_process_context_def Let_def or_goto_Inr by (auto simp: set_up_0 split: if_splits)
  moreover have "same_tables s s1" using calculation(2) by (simp add: same_tables_def acquire_def)
  ultimately show thesis using that by blast
qed

text \<open>The signal handling and the address space that the new task \<open>p\<close> shares with the current one.\<close>

definition shares_signals :: "u64 \<Rightarrow> ftask \<Rightarrow> fork_state \<Rightarrow> ftask \<Rightarrow> fork_state \<Rightarrow> bool" where
  "shares_signals flags current s p s' \<longleftrightarrow>
     joined (sh_counts s) (sh_counts s') (t_sighand p) \<and> t_sighand p \<noteq> 0 \<and> joined (mm_users s) (mm_users s') (t_mm p) \<and>
     (if has_flag flags CLONE_SIGHAND then t_sighand p = t_sighand current else sighands s (t_sighand p) = None) \<and>
     (if has_flag flags CLONE_VM then t_mm p = t_mm current else t_mm p = 0 \<or> mm_users s (t_mm p) = None) \<and>
     (if has_flag flags CLONE_THREAD then t_signal p = t_signal current \<and> signals s' = signals s
      else t_signal p \<noteq> 0 \<and> signals s (t_signal p) = None \<and> (\<exists>sg. signals s' = (signals s)(t_signal p \<mapsto> sg) \<and> sg_nr_threads sg = 1 \<and>
             sg_rlim sg = sg_rlim (the (signals s (t_signal current)))))"

definition same_files :: "fork_state \<Rightarrow> fork_state \<Rightarrow> bool" where
  "same_files s s' \<longleftrightarrow> tasks s' = tasks s \<and> fs_users s' = fs_users s \<and> files_count s' = files_count s \<and>
     nr_threads s' = nr_threads s \<and> max_threads s' = max_threads s"

lemma signals_success:
  assumes run: "copy_process_signals E args i trace cur current a p s = (Inr b, s')"
    and law: "sighands s (new_sighand E) = None" "signals s (new_signal E) = None" "mm_users s (new_mm E) = None"
    and held: "t_sighand current \<noteq> 0" "counted (sh_counts s) (t_sighand current)" "t_mm current \<noteq> 0 \<longrightarrow> counted (mm_users s) (t_mm current)"
    and p: "t_sighand p = t_sighand current" "t_signal p = t_signal current"
  obtains p' s'' where "copy_process_attach E args i trace cur current a p' s'' = (Inr b, s')"
    "shares_signals (ka_flags args) current s p' s''" "same_files s s''" "t_files p' = t_files p" "t_fs p' = t_fs p"
proof -
  let ?f = "ka_flags args"
  obtain p1 s1 p2 s2 p3 s3 where c: "copy_sighand E ?f current p s = (0, p1, s1)" "copy_signal E ?f current p1 s1 = (0, p2, s2)"
    "copy_mm E ?f current p2 s2 = (0, p3, s3)" "copy_process_context E args i trace cur current a p3 s3 = (Inr b, s')"
    using run unfolding copy_process_signals_def Let_def or_goto_Inr by blast
  obtain sh S where sh: "p1 = p\<lparr>t_sighand := sh\<rparr>" "s1 = s\<lparr>sighands := S\<rparr>" "joined (sh_counts s) (sh_counts s1) sh" "sh \<noteq> 0"
    "if has_flag ?f CLONE_SIGHAND then sh = t_sighand current else sighands s sh = None"
    by (rule copy_sighand_part [OF c(1) law(1) p(1) held(1,2)]) auto
  have s1: "signals s1 (new_signal E) = None" "t_signal p1 = t_signal current" using law p sh(1,2) by simp_all
  obtain sig G where sig: "p2 = p1\<lparr>t_signal := sig\<rparr>" "s2 = s1\<lparr>signals := G\<rparr>"
    "has_flag ?f CLONE_THREAD \<Longrightarrow> G = signals s1 \<and> sig = t_signal current"
    "\<not> has_flag ?f CLONE_THREAD \<Longrightarrow> sig \<noteq> 0 \<and> signals s1 sig = None \<and> (\<exists>sg. G = (signals s1)(sig \<mapsto> sg) \<and> sg_nr_threads sg = 1 \<and>
       sg_rlim sg = sg_rlim (the (signals s1 (t_signal current))))"
    by (rule copy_signal_part [OF c(2) s1]) blast
  have s2: "mm_users s2 (new_mm E) = None" "t_mm current \<noteq> 0 \<longrightarrow> counted (mm_users s2) (t_mm current)"
    using law held sh(2) sig(2) by simp_all
  obtain m M where m: "p3 = p2\<lparr>t_faults := [0, 0, 0, 0], t_mm := m\<rparr>" "s3 = s2\<lparr>mm_users := M\<rparr>" "joined (mm_users s2) M m"
    "if has_flag ?f CLONE_VM then m = t_mm current else m = 0 \<or> mm_users s2 m = None"
    by (rule copy_mm_part [OF c(3) s2]) auto
  obtain s4 where s4: "copy_process_attach E args i trace cur current a p3 s4 = (Inr b, s')" "same_tables s3 s4"
    using c(4) by (rule context_success)
  have "shares_signals ?f current s p3 s4"
    unfolding shares_signals_def using sh(3-5) sig(3,4) m(3,4) s4(2) by (simp add: same_tables_def sh_counts_def m(1,2) sig(1,2) sh(1,2) split: if_splits)
  moreover have "same_files s s4" using s4(2) by (simp add: same_tables_def same_files_def m(2) sig(2) sh(2))
  ultimately show thesis using that [OF s4(1)] m(1) sig(1) sh(1) by simp
qed

definition shares_files :: "u64 \<Rightarrow> bool \<Rightarrow> ftask \<Rightarrow> fork_state \<Rightarrow> ftask \<Rightarrow> fork_state \<Rightarrow> bool" where
  "shares_files flags no_files current s p s' \<longleftrightarrow>
     joined (files_count s) (files_count s') (t_files p) \<and> joined (fs_users s) (fs_users s') (t_fs p) \<and> t_fs p \<noteq> 0 \<and>
     (if has_flag flags CLONE_FILES then \<not> no_files \<longrightarrow> t_files p = t_files current else t_files p = 0 \<or> files_count s (t_files p) = None) \<and>
     (if has_flag flags CLONE_FS then t_fs p = t_fs current else fs_users s (t_fs p) = None)"

lemma parts_success:
  assumes run: "copy_process_parts E args i trace cur current a p s = (Inr b, s')"
    and law: "refs_law E" "fresh_law E s" "parts_held s current"
    and p: "t_files p = t_files current" "t_fs p = t_fs current" "t_sighand p = t_sighand current" "t_signal p = t_signal current"
  obtains p' s'' where "copy_process_attach E args i trace cur current a p' s'' = (Inr b, s')"
    "shares_signals (ka_flags args) current s p' s''" "shares_files (ka_flags args) (ka_no_files args) current s p' s''"
    "tasks s'' = tasks s" "nr_threads s'' = nr_threads s" "max_threads s'' = max_threads s"
proof -
  let ?f = "ka_flags args" and ?s = "acquire Semundo (acquire Security s)"
  obtain p1 s1 p2 s2 where c: "copy_files E ?f (ka_no_files args) current p ?s = (0, p1, s1)" "copy_fs E ?f current p1 s1 = (0, p2, s2)"
    "copy_process_signals E args i trace cur current a p2 s2 = (Inr b, s')"
    using run unfolding copy_process_parts_def Let_def or_goto_Inr set_up_0 by blast
  have s: "\<forall>a. dup_fd E = Inr a \<longrightarrow> a \<noteq> 0 \<and> files_count ?s a = None" "t_files current \<noteq> 0 \<longrightarrow> counted (files_count ?s) (t_files current)"
    using law by (simp_all add: fresh_law_def parts_held_def acquire_def)
  obtain f F where f: "p1 = p\<lparr>t_files := f\<rparr>" "s1 = ?s\<lparr>files_count := F\<rparr>" "joined (files_count ?s) F f"
    "if has_flag ?f CLONE_FILES then \<not> ka_no_files args \<longrightarrow> f = t_files current else f = 0 \<or> files_count ?s f = None"
    by (rule copy_files_part [OF c(1) law(1) s(1) p(1) s(2)]) auto
  have s1: "fs_users s1 (copy_fs_struct E) = None" "t_fs p1 = t_fs current" "t_fs current \<noteq> 0" "counted (fs_users s1) (t_fs current)"
    using law p f(1,2) by (simp_all add: fresh_law_def parts_held_def acquire_def)
  obtain g G where g: "p2 = p1\<lparr>t_fs := g\<rparr>" "s2 = s1\<lparr>fs_users := G\<rparr>" "joined (fs_users s1) G g" "g \<noteq> 0"
    "if has_flag ?f CLONE_FS then g = t_fs current else fs_users s1 g = None"
    by (rule copy_fs_part [OF c(2) s1]) auto
  have s2: "sighands s2 (new_sighand E) = None" "signals s2 (new_signal E) = None" "mm_users s2 (new_mm E) = None"
    "t_sighand current \<noteq> 0" "counted (sh_counts s2) (t_sighand current)" "t_mm current \<noteq> 0 \<longrightarrow> counted (mm_users s2) (t_mm current)"
    "t_sighand p2 = t_sighand current" "t_signal p2 = t_signal current"
    using law p by (simp_all add: fresh_law_def parts_held_def acquire_def sh_counts_def f(1,2) g(1,2))
  obtain p' s'' where q: "copy_process_attach E args i trace cur current a p' s'' = (Inr b, s')"
    "shares_signals ?f current s2 p' s''" "same_files s2 s''" "t_files p' = t_files p2" "t_fs p' = t_fs p2"
    using c(3) s2 by (rule signals_success)
  have eqs: "sighands s2 = sighands s" "signals s2 = signals s" "mm_users s2 = mm_users s" "files_count ?s = files_count s"
    "fs_users s1 = fs_users s" "tasks s2 = tasks s" "nr_threads s2 = nr_threads s" "max_threads s2 = max_threads s"
    "files_count s2 = F" "fs_users s2 = G" "t_files p2 = f" "t_fs p2 = g"
    by (simp_all add: f(1,2) g(1,2) acquire_def)
  have "shares_signals ?f current s p' s''"
    using q(2) unfolding shares_signals_def sh_counts_def eqs .
  moreover have "shares_files ?f (ka_no_files args) current s p' s''"
    using f(3,4) g(3-5) q(3-5) unfolding shares_files_def same_files_def eqs by simp
  ultimately show thesis using that [OF q(1)] q(3) unfolding same_files_def eqs by blast
qed

text \<open>Linking the task changes counters and flags of signal structures, not their limits.\<close>

definition sg_counts :: "fork_state \<Rightarrow> addr \<rightharpoonup> int" where
  "sg_counts s = map_option sg_nr_threads \<circ> signals s"

definition sg_limits :: "fork_state \<Rightarrow> addr \<rightharpoonup> (u32 \<Rightarrow> rlimit)" where
  "sg_limits s = map_option sg_rlim \<circ> signals s"

definition same_parts :: "fork_state \<Rightarrow> fork_state \<Rightarrow> bool" where
  "same_parts s s' \<longleftrightarrow> mm_users s' = mm_users s \<and> fs_users s' = fs_users s \<and> files_count s' = files_count s \<and>
     sighands s' = sighands s \<and> max_threads s' = max_threads s"

lemma link_task_parts:
  "same_parts s (link_task E tr current a p s)" "tasks (link_task E tr current a p s) = tasks s"
  "sg_limits (link_task E tr current a p s) = sg_limits s"
  "sg_counts (link_task E tr current a p s) = (if t_pid p \<noteq> 0 \<and> t_leader p \<noteq> a then get_ref (sg_counts s) (t_signal current) else sg_counts s)"
  "nr_threads (link_task E tr current a p s) = (if t_pid p \<noteq> 0 then nr_threads s + 1 else nr_threads s)"
  by (simp_all add: link_task_def Let_def logged_def same_parts_def)
    (auto simp: sg_limits_def sg_counts_def get_ref_def fun_eq_iff option.map_comp o_def)

lemma copy_oom_parts:
  "same_parts s (copy_oom_score_adj f current p s)" "tasks (copy_oom_score_adj f current p s) = tasks s"
  "sg_limits (copy_oom_score_adj f current p s) = sg_limits s" "sg_counts (copy_oom_score_adj f current p s) = sg_counts s"
  "nr_threads (copy_oom_score_adj f current p s) = nr_threads s"
  by (simp_all add: copy_oom_score_adj_def Let_def logged_def same_parts_def)
    (auto simp: sg_limits_def sg_counts_def fun_eq_iff option.map_comp o_def)

definition child_of :: "kernel_clone_args \<Rightarrow> addr \<Rightarrow> ftask \<Rightarrow> addr \<Rightarrow> nat \<Rightarrow> ftask \<Rightarrow> fork_state \<Rightarrow> ftask" where
  "child_of args cur current a pid p s = copy_seccomp current (set_parent (ka_flags args) (ka_exit_signal args) cur current
     (t_exit_signal (the (tasks s (t_leader current)))) (set_identity (ka_flags args) current a pid p))"

lemma child_of_parts [simp]:
  "t_files (child_of args cur current a pid p s) = t_files p" "t_fs (child_of args cur current a pid p s) = t_fs p"
  "t_mm (child_of args cur current a pid p s) = t_mm p" "t_sighand (child_of args cur current a pid p s) = t_sighand p"
  "t_signal (child_of args cur current a pid p s) = t_signal p" "t_pid (child_of args cur current a pid p s) = pid"
  "t_leader (child_of args cur current a pid p s) = (if has_flag (ka_flags args) CLONE_THREAD then t_leader current else a)"
  "t_tgid (child_of args cur current a pid p s) = (if has_flag (ka_flags args) CLONE_THREAD then t_tgid current else pid)"
  by (simp_all add: child_of_def copy_seccomp_def set_parent_def set_identity_def Let_def)

lemma publish_success:
  assumes "copy_process_publish E args i trace cur current pidfd a pid (set_identity (ka_flags args) current a pid p) s = (Inr b, s')"
  shows "b = a" "tasks s' = (tasks s)(a \<mapsto> child_of args cur current a pid p s)" "same_parts s s'" "sg_limits s' = sg_limits s"
    "sg_counts s' = (if pid \<noteq> 0 \<and> t_leader (child_of args cur current a pid p s) \<noteq> a then get_ref (sg_counts s) (t_signal current) else sg_counts s)"
    "nr_threads s' = (if pid \<noteq> 0 then nr_threads s + 1 else nr_threads s)"
proof -
  let ?q = "child_of args cur current a pid p s" and ?f = "ka_flags args"
  define s1 where "s1 = link_task E (has_flag ?f CLONE_PTRACE \<or> trace \<noteq> 0) current a ?q (acquire Sched_core s)"
  define s2 where "s2 = s1\<lparr>tasks := (tasks s1)(a \<mapsto> ?q), total_forks := total_forks s1 + 1,
      multiprocess := (if \<not> has_flag ?f CLONE_THREAD then multiprocess s1 - 1 else multiprocess s1)\<rparr>"
  define s3 where "s3 = release Cgroup (if has_flag ?f CLONE_PIDFD then logged (Pidfd_installed pidfd) (release Unused_fd (release Pidfd_file s2)) else s2)"
  have run: "b = a \<and> s' = copy_oom_score_adj ?f current ?q s3"
    using assms unfolding copy_process_publish_def Let_def s3_def s2_def s1_def child_of_def
    by (auto simp: acquire_def split: if_splits)
  have s3: "tasks s3 = (tasks s1)(a \<mapsto> ?q)" "same_parts s1 s3" "sg_limits s3 = sg_limits s1" "nr_threads s3 = nr_threads s1" "sg_counts s3 = sg_counts s1"
    by (simp_all add: s3_def s2_def same_parts_def release_def logged_def sg_limits_def sg_counts_def)
  have s1: "tasks s1 = tasks s" "same_parts s s1" "sg_limits s1 = sg_limits s" "nr_threads s1 = (if pid \<noteq> 0 then nr_threads s + 1 else nr_threads s)"
    "sg_counts s1 = (if pid \<noteq> 0 \<and> t_leader ?q \<noteq> a then get_ref (sg_counts s) (t_signal current) else sg_counts s)"
    using link_task_parts [where s = "acquire Sched_core s" and p = ?q] unfolding s1_def
    by (simp_all add: acquire_def same_parts_def sg_limits_def sg_counts_def)
  show "b = a" using run by simp
  show "tasks s' = (tasks s)(a \<mapsto> ?q)" using run s3(1) s1(1) by (simp add: copy_oom_parts)
  show "same_parts s s'" using run s3(2) s1(2) copy_oom_parts(1) [of s3] by (simp add: same_parts_def)
  show "sg_limits s' = sg_limits s" using run s3(3) s1(3) by (simp add: copy_oom_parts)
  show "sg_counts s' = (if pid \<noteq> 0 \<and> t_leader ?q \<noteq> a then get_ref (sg_counts s) (t_signal current) else sg_counts s)"
    using run s3(5) s1(5) by (simp add: copy_oom_parts)
  show "nr_threads s' = (if pid \<noteq> 0 then nr_threads s + 1 else nr_threads s)" using run s3(4) s1(4) by (simp add: copy_oom_parts)
qed

lemma prepare_pidfd_tables: "prepare_pidfd E args s = (r, s') \<Longrightarrow> same_tables s s'"
  by (auto simp: prepare_pidfd_def pidfd_prepare_raw_def Let_def same_tables_def acquire_def release_def split: if_splits prod.splits)

lemma attach_success:
  assumes "copy_process_attach E args i trace cur current a p s = (Inr b, s')"
  obtains pid where "if i then pid = 0 else alloc_pid E (ka_set_tid args) = Inr pid" "b = a"
    "tasks s' = (tasks s)(a \<mapsto> child_of args cur current a pid p s)" "same_parts s s'" "sg_limits s' = sg_limits s"
    "sg_counts s' = (if pid \<noteq> 0 \<and> t_leader (child_of args cur current a pid p s) \<noteq> a then get_ref (sg_counts s) (t_signal current) else sg_counts s)"
    "nr_threads s' = (if pid \<noteq> 0 then nr_threads s + 1 else nr_threads s)"
proof (cases "if \<not> i then alloc_pid E (ka_set_tid args) else Inr 0")
  case (Inl e)
  then show ?thesis using assms by (simp add: copy_process_attach_def Let_def)
next
  case (Inr pid)
  define s0 where "s0 = (if \<not> i then s\<lparr>pids := insert pid (pids s)\<rparr> else s)"
  obtain r s1 where prep: "prepare_pidfd E args s0 = (r, s1)" by fastforce
  then have "same_tables s0 s1" by (rule prepare_pidfd_tables)
  then have tables: "same_tables s (acquire Cgroup s1)" by (simp add: same_tables_def acquire_def s0_def split: if_splits)
  obtain pidfd where "copy_process_publish E args i trace cur current pidfd a pid (set_identity (ka_flags args) current a pid p) (acquire Cgroup s1) = (Inr b, s')"
    using assms Inr prep unfolding copy_process_attach_def Let_def s0_def
    by (auto simp: or_goto_def set_up_def split: if_splits sum.splits)
  note publish = publish_success [OF this]
  have same: "tasks (acquire Cgroup s1) = tasks s" "same_parts s (acquire Cgroup s1)" "sg_limits (acquire Cgroup s1) = sg_limits s"
    "sg_counts (acquire Cgroup s1) = sg_counts s" "nr_threads (acquire Cgroup s1) = nr_threads s"
    using tables by (simp_all add: same_tables_def same_parts_def sg_limits_def sg_counts_def)
  then have child: "child_of args cur current a pid p (acquire Cgroup s1) = child_of args cur current a pid p s"
    by (simp add: child_of_def)
  show ?thesis
  proof (rule that)
    show "if i then pid = 0 else alloc_pid E (ka_set_tid args) = Inr pid" using Inr by (simp split: if_splits)
    show "same_parts s s'" using publish(3) same(2) by (simp add: same_parts_def)
  qed (use publish same child in simp_all)
qed

text \<open>
  The new task \<open>q\<close> of a successful call: what it shares, and the tables with one more reference to
  each of its parts.
\<close>

lemma child_of_parent:
  "t_real_parent (child_of args cur current a pid p s) =
     (if has_flag (ka_flags args) (CLONE_PARENT OR CLONE_THREAD) then t_real_parent current else cur)"
  by (simp add: child_of_def copy_seccomp_def set_parent_def Let_def)

text \<open>
  What the flags ask for: the new task \<open>q\<close> uses the part of the current task where it is to be
  shared, and otherwise one of its own that was not allocated before.
\<close>

definition shares_as_asked :: "kernel_clone_args \<Rightarrow> addr \<Rightarrow> ftask \<Rightarrow> fork_state \<Rightarrow> ftask \<Rightarrow> bool" where
  "shares_as_asked args cur current s q \<longleftrightarrow> (let flags = ka_flags args in
     (if has_flag flags CLONE_VM then t_mm q = t_mm current else t_mm q = 0 \<or> mm_users s (t_mm q) = None) \<and>
     (if has_flag flags CLONE_FS then t_fs q = t_fs current else fs_users s (t_fs q) = None) \<and>
     (if has_flag flags CLONE_FILES then ka_no_files args \<or> t_files q = t_files current else t_files q = 0 \<or> files_count s (t_files q) = None) \<and>
     (if has_flag flags CLONE_SIGHAND then t_sighand q = t_sighand current else sighands s (t_sighand q) = None) \<and>
     (if has_flag flags CLONE_THREAD then t_signal q = t_signal current \<and> t_leader q = t_leader current \<and> t_tgid q = t_tgid current
      else signals s (t_signal q) = None \<and> t_tgid q = t_pid q) \<and>
     t_real_parent q = (if has_flag flags (CLONE_PARENT OR CLONE_THREAD) then t_real_parent current else cur))"

definition spawned :: "fork_state \<Rightarrow> ftask \<Rightarrow> ftask \<Rightarrow> fork_state \<Rightarrow> bool" where
  "spawned s current q s' \<longleftrightarrow>
     joined (files_count s) (files_count s') (t_files q) \<and> joined (fs_users s) (fs_users s') (t_fs q) \<and> t_fs q \<noteq> 0 \<and>
     joined (sh_counts s) (sh_counts s') (t_sighand q) \<and> t_sighand q \<noteq> 0 \<and> joined (mm_users s) (mm_users s') (t_mm q) \<and>
     joined (sg_counts s) (sg_counts s') (t_signal q) \<and> t_signal q \<noteq> 0 \<and>
     sg_limits s' = (sg_limits s)(t_signal q := sg_limits s (t_signal current)) \<and>
     nr_threads s' = nr_threads s + 1 \<and> max_threads s' = max_threads s"

lemma shares_signals_counts:
  assumes "shares_signals flags current s p s1" "counted (sg_counts s) (t_signal current)" "t_signal current \<noteq> 0"
    and "sg_counts s' = (if has_flag flags CLONE_THREAD then get_ref (sg_counts s1) (t_signal current) else sg_counts s1)"
  shows "joined (sg_counts s) (sg_counts s') (t_signal p)" "t_signal p \<noteq> 0"
    and "sg_limits s1 = (sg_limits s)(t_signal p := sg_limits s (t_signal current))"
proof -
  have sig: "signals s (t_signal current) \<noteq> None" using assms(2) by (auto simp: counted_def sg_counts_def)
  show "joined (sg_counts s) (sg_counts s') (t_signal p)"
  proof (cases "has_flag flags CLONE_THREAD")
    case True
    then show ?thesis using assms by (simp add: shares_signals_def joined_def sg_counts_def)
  next
    case False
    then obtain sg where "t_signal p \<noteq> 0" "signals s (t_signal p) = None" "signals s1 = (signals s)(t_signal p \<mapsto> sg)" "sg_nr_threads sg = 1"
      using assms(1) by (auto simp: shares_signals_def)
    then show ?thesis using assms(4) False by (simp add: joined_def sg_counts_def fun_upd_comp)
  qed
  show "t_signal p \<noteq> 0" using assms(1,3) by (simp add: shares_signals_def split: if_splits)
  show "sg_limits s1 = (sg_limits s)(t_signal p := sg_limits s (t_signal current))"
    using assms(1) sig by (cases "has_flag flags CLONE_THREAD") (auto simp: shares_signals_def sg_limits_def fun_eq_iff)
qed

lemma copy_process_success:
  assumes run: "copy_process E False trace args cur s = (Inr b, s')"
    and law: "refs_law E" "fresh_law E s" "tasks s cur = Some current" "parts_held s current"
    and grp: "counted (sg_counts s) (t_signal current)" "t_signal current \<noteq> 0" "tasks s (t_leader current) \<noteq> None"
  obtains q where "copy_process_checks E (ka_flags args) (sg_unkillable (the (signals s (t_signal current)))) = 0"
    "b = new_task E" "b \<noteq> 0" "nr_threads s < max_threads s" "tasks s' = (tasks (clear_nproc cur s))(b \<mapsto> q)"
    "spawned s current q s'" "shares_as_asked args cur current s q" "\<not> has_flag (ka_flags args) CLONE_THREAD \<Longrightarrow> t_leader q = b" "t_pid q \<noteq> 0" "t_pid q \<notin> pids s"
proof -
  let ?f = "ka_flags args"
  define s0 where "s0 = acquire Task_struct (if \<not> has_flag ?f CLONE_THREAD then s\<lparr>multiprocess := multiprocess s + 1\<rparr> else s)"
  define s1 where "s1 = acquire Audit (acquire Perf (acquire Mempolicy (acquire Delayacct (clear_nproc cur (acquire Nproc (acquire Creds s0))))))"
  have acc: "copy_process_checks E ?f (sg_unkillable (the (signals s (t_signal current)))) = 0 \<and> new_task E \<noteq> 0 \<and>
      copy_process_account E args False trace cur current (new_task E) (init_child args current) s0 = (Inr b, s')"
    using run law(3) unfolding copy_process_def Let_def s0_def by (auto split: if_splits)
  have parts: "copy_process_parts E args False trace cur current (new_task E) (reset_child (init_child args current)) s1 = (Inr b, s')"
    and lim: "nr_threads s0 < max_threads s0"
    using acc unfolding copy_process_account_def Let_def s1_def or_goto_Inr
    by (auto simp: or_goto_Inr set_up_0 acquire_def clear_nproc_def split: if_splits)
  have room: "nr_threads s < max_threads s" using lim by (simp add: s0_def acquire_def split: if_splits)
  have s1: "mm_users s1 = mm_users s" "fs_users s1 = fs_users s" "files_count s1 = files_count s" "sighands s1 = sighands s" "signals s1 = signals s"
    "tasks s1 = tasks (clear_nproc cur s)" "nr_threads s1 = nr_threads s" "max_threads s1 = max_threads s" "fresh_law E s1" "parts_held s1 current"
    using law by (simp_all add: s1_def s0_def) (simp_all add: acquire_def clear_nproc_def)
  obtain p s2 where p: "copy_process_attach E args False trace cur current (new_task E) p s2 = (Inr b, s')"
    "shares_signals ?f current s1 p s2" "shares_files ?f (ka_no_files args) current s1 p s2"
    "tasks s2 = tasks s1" "nr_threads s2 = nr_threads s1" "max_threads s2 = max_threads s1"
    by (rule parts_success [OF parts law(1) s1(9,10)]) simp_all
  obtain pid where pid: "alloc_pid E (ka_set_tid args) = Inr pid" "b = new_task E"
    "tasks s' = (tasks s2)(new_task E \<mapsto> child_of args cur current (new_task E) pid p s2)" "same_parts s2 s'" "sg_limits s' = sg_limits s2"
    "sg_counts s' = (if pid \<noteq> 0 \<and> t_leader (child_of args cur current (new_task E) pid p s2) \<noteq> new_task E then get_ref (sg_counts s2) (t_signal current) else sg_counts s2)"
    "nr_threads s' = (if pid \<noteq> 0 then nr_threads s2 + 1 else nr_threads s2)"
    by (rule attach_success [OF p(1)]) auto
  have fresh: "pid \<noteq> 0" "pid \<notin> pids s" "tasks s (new_task E) = None" using law(2) pid(1) by (auto simp: fresh_law_def)
  have "t_leader current \<noteq> new_task E" using fresh(3) grp(3) by auto
  with pid(6) fresh(1) have cnt: "sg_counts s' = (if has_flag ?f CLONE_THREAD then get_ref (sg_counts s2) (t_signal current) else sg_counts s2)" by simp
  have sig: "shares_signals ?f current s p s2" "shares_files ?f (ka_no_files args) current s p s2"
    using p(2,3) unfolding shares_signals_def shares_files_def sh_counts_def s1 by blast+
  note counts = shares_signals_counts [OF sig(1) grp(1,2) cnt]
  show thesis
  proof (rule that)
    show "spawned s current (child_of args cur current (new_task E) pid p s2) s'"
      unfolding spawned_def using counts sig pid(4,5,7) fresh(1) s1(7,8) p(5,6)
      by (simp add: shares_signals_def shares_files_def same_parts_def sh_counts_def)
    show "shares_as_asked args cur current s (child_of args cur current (new_task E) pid p s2)"
      unfolding shares_as_asked_def Let_def using sig
      by (intro conjI) (auto simp: shares_signals_def shares_files_def child_of_parent)
  qed (use acc room fresh pid(2,3) s1(6) p(4) in simp_all)
qed

end
