(* ===== verification/Task_Table.thy ===== *)
theory Task_Table
  imports Process_Sharing
begin

text \<open>
  Invariants of the task table: the reference count of every structure is the number of tasks that
  use it (plus what other subsystems hold), and tasks of one thread group share their signal
  handlers and address space. They hold along every run of the calls that create tasks or unshare
  parts of them, whatever the outcome of each call.
\<close>

section \<open>Counting the users of a structure\<close>

definition users :: "(ftask \<Rightarrow> addr) \<Rightarrow> (addr \<rightharpoonup> ftask) \<Rightarrow> addr \<Rightarrow> addr set" where
  "users part T a = {t. map_option part (T t) = Some a}"

text \<open>\<open>x a\<close> is the number of references that are not from tasks.\<close>

definition exact :: "(addr \<Rightarrow> int) \<Rightarrow> (addr \<rightharpoonup> ftask) \<Rightarrow> (ftask \<Rightarrow> addr) \<Rightarrow> (addr \<rightharpoonup> int) \<Rightarrow> bool" where
  "exact x T part m \<longleftrightarrow> finite (dom T) \<and> (\<forall>a. 0 \<le> x a) \<and>
     (\<forall>a. a \<noteq> 0 \<longrightarrow> m a = (let n = int (card (users part T a)) + x a in if n = 0 then None else Some n))"

lemma users_finite: "finite (dom T) \<Longrightarrow> finite (users part T a)"
  by (rule finite_subset [of _ "dom T"]) (auto simp: users_def)

lemma users_cong: "map_option part \<circ> T = map_option part \<circ> T' \<Longrightarrow> users part T a = users part T' a"
  by (simp add: users_def fun_eq_iff)

lemma exact_cong:
  assumes "map_option part \<circ> T = map_option part \<circ> T'"
  shows "exact x T part m = exact x T' part m"
proof -
  have "T t = None \<longleftrightarrow> T' t = None" for t using fun_cong [OF assms, of t] by (cases "T t"; cases "T' t") auto
  then have "dom T = dom T'" by (auto simp: dom_def)
  then show ?thesis using users_cong [OF assms] by (simp add: exact_def)
qed

lemma exact_at:
  "exact x T part m \<Longrightarrow> a \<noteq> 0 \<Longrightarrow>
     m a = (if int (card (users part T a)) + x a = 0 then None else Some (int (card (users part T a)) + x a))"
  by (simp add: exact_def Let_def)

lemma exact_counted:
  assumes "exact x T part m" "T t = Some p" "part p \<noteq> 0"
  shows "counted m (part p)"
proof -
  have "finite (users part T (part p))" using assms(1) by (simp add: exact_def users_finite)
  moreover have "t \<in> users part T (part p)" using assms(2) by (simp add: users_def)
  ultimately have "card (users part T (part p)) > 0" by (auto simp: card_gt_0_iff)
  moreover have "0 \<le> x (part p)" using assms(1) by (simp add: exact_def)
  ultimately have "int (card (users part T (part p))) + x (part p) \<ge> 1" by linarith
  then show ?thesis using exact_at [OF assms(1,3)] by (simp add: counted_def)
qed

lemma exact_unused:
  assumes "exact x T part m" "m a = None" "a \<noteq> 0"
  shows "users part T a = {}" "x a = 0"
proof -
  have "0 \<le> x a" "finite (users part T a)" using assms(1) by (simp_all add: exact_def users_finite)
  moreover have "int (card (users part T a)) + x a = 0" using exact_at [OF assms(1,3)] assms(2) by (simp split: if_splits)
  ultimately show "users part T a = {}" "x a = 0" by (simp_all add: add_nonneg_eq_0_iff)
qed

text \<open>A new task joins the structure at its part.\<close>

lemma exact_join:
  assumes "exact x T part m" "joined m m' (part q)" "T b = None"
  shows "exact x (T(b \<mapsto> q)) part m'"
proof -
  have fin: "finite (dom T)" and pos: "\<And>a. 0 \<le> x a" using assms(1) by (simp_all add: exact_def)
  have users: "users part (T(b \<mapsto> q)) a = (if part q = a then insert b (users part T a) else users part T a)" for a
    using assms(3) by (auto simp: users_def)
  have "b \<notin> users part T a" for a using assms(3) by (simp add: users_def)
  then have card: "card (users part (T(b \<mapsto> q)) a) = (if part q = a then Suc (card (users part T a)) else card (users part T a))" for a
    using users_finite [OF fin] by (simp add: users)
  have "m' a = (if int (card (users part (T(b \<mapsto> q)) a)) + x a = 0 then None else Some (int (card (users part (T(b \<mapsto> q)) a)) + x a))"
    if a: "a \<noteq> 0" for a
  proof (cases "part q = a")
    case True
    have "m' a = Some (int (card (users part T a)) + x a + 1)"
    proof (cases "m a")
      case None
      then have "users part T a = {}" "x a = 0" using exact_unused [OF assms(1) _ a] by simp_all
      then show ?thesis using assms(2) True a None by (simp add: joined_def counted_def)
    next
      case (Some n)
      then show ?thesis using assms(2) True a exact_at [OF assms(1) a] by (auto simp: joined_def get_ref_def split: if_splits)
    qed
    then show ?thesis using True pos [of a] by (simp add: card)
  next
    case False
    then show ?thesis using assms(2) exact_at [OF assms(1) a] by (auto simp: card joined_def get_ref_def split: if_splits)
  qed
  then show ?thesis using fin pos by (simp add: exact_def Let_def)
qed

text \<open>A task leaves its structure for a new one of its own.\<close>

lemma exact_move:
  assumes "exact x T part m" "T t = Some p" "part p \<noteq> 0" "b \<noteq> 0" "m b = None" "part q = b"
  shows "exact x (T(t \<mapsto> q)) part (put_ref (m(b \<mapsto> 1)) (part p))"
proof -
  let ?m = "put_ref (m(b \<mapsto> 1)) (part p)" and ?T = "T(t \<mapsto> q)"
  have fin: "finite (dom T)" and pos: "\<And>a. 0 \<le> x a" using assms(1) by (simp_all add: exact_def)
  have c: "counted m (part p)" using assms(1-3) by (rule exact_counted)
  then have ne: "part p \<noteq> b" using assms(5) by (auto simp: counted_def)
  have ub: "users part T b = {}" "x b = 0" using exact_unused [OF assms(1,5,4)] by simp_all
  have users: "users part ?T a = (if a = b then {t} else users part T a - (if a = part p then {t} else {}))" for a
    using assms(2,6) ub(1) ne by (auto simp: users_def) blast+
  have mem: "t \<in> users part T (part p)" using assms(2) by (simp add: users_def)
  have "?m a = (if int (card (users part ?T a)) + x a = 0 then None else Some (int (card (users part ?T a)) + x a))" if a: "a \<noteq> 0" for a
  proof -
    consider "a = b" | "a = part p" | "a \<noteq> b" "a \<noteq> part p" by blast
    then show ?thesis
    proof cases
      case 1
      then show ?thesis using ne ub by (simp add: users put_ref_def)
    next
      case 2
      have "int (card (users part ?T a)) = int (card (users part T a)) - 1"
      proof -
        have "card (users part T a) > 0" using 2 mem users_finite [OF fin, of part a] by (auto simp: card_gt_0_iff)
        then show ?thesis using 2 ne mem by (simp add: users of_nat_diff)
      qed
      then show ?thesis
        using 2 ne c exact_at [OF assms(1) a] by (auto simp: put_ref_def counted_def split: if_splits)
    next
      case 3
      then show ?thesis using exact_at [OF assms(1) a] by (simp add: users put_ref_def)
    qed
  qed
  then show ?thesis using fin pos by (simp add: exact_def Let_def)
qed

section \<open>The invariant\<close>

datatype part = Mm_part | Fs_part | Files_part | Sighand_part | Signal_part

fun part_of :: "part \<Rightarrow> ftask \<Rightarrow> addr" where
  "part_of Mm_part = t_mm"
| "part_of Fs_part = t_fs"
| "part_of Files_part = t_files"
| "part_of Sighand_part = t_sighand"
| "part_of Signal_part = t_signal"

fun count_of :: "part \<Rightarrow> fork_state \<Rightarrow> addr \<rightharpoonup> int" where
  "count_of Mm_part s = mm_users s"
| "count_of Fs_part s = fs_users s"
| "count_of Files_part s = files_count s"
| "count_of Sighand_part s = sh_counts s"
| "count_of Signal_part s = sg_counts s"

definition refs_exact :: "(part \<Rightarrow> addr \<Rightarrow> int) \<Rightarrow> fork_state \<Rightarrow> bool" where
  "refs_exact x s \<longleftrightarrow> (\<forall>k. exact (x k) (tasks s) (part_of k) (count_of k s))"

definition groups_ok :: "(addr \<rightharpoonup> ftask) \<Rightarrow> bool" where
  "groups_ok T \<longleftrightarrow>
     (\<forall>t p. T t = Some p \<longrightarrow> t_fs p \<noteq> 0 \<and> t_sighand p \<noteq> 0 \<and> t_signal p \<noteq> 0 \<and> (\<exists>l. T (t_leader p) = Some l \<and> t_signal l = t_signal p)) \<and>
     (\<forall>t u p q. T t = Some p \<longrightarrow> T u = Some q \<longrightarrow>
        (t_signal p = t_signal q \<longrightarrow> t_sighand p = t_sighand q \<and> t_tgid p = t_tgid q \<and> t_leader p = t_leader q) \<and>
        (t_sighand p = t_sighand q \<longrightarrow> t_mm p = t_mm q))"

definition fork_inv :: "(part \<Rightarrow> addr \<Rightarrow> int) \<Rightarrow> fork_state \<Rightarrow> bool" where
  "fork_inv x s \<longleftrightarrow> refs_exact x s \<and> groups_ok (tasks s) \<and> nr_threads s \<le> max_threads s"

lemma groups_okD:
  assumes "groups_ok T" "T t = Some p"
  shows "t_fs p \<noteq> 0" "t_sighand p \<noteq> 0" "t_signal p \<noteq> 0" "\<exists>l. T (t_leader p) = Some l \<and> t_signal l = t_signal p"
    and "T u = Some q \<Longrightarrow> t_signal p = t_signal q \<Longrightarrow> t_sighand p = t_sighand q \<and> t_tgid p = t_tgid q \<and> t_leader p = t_leader q"
    and "T u = Some q \<Longrightarrow> t_sighand p = t_sighand q \<Longrightarrow> t_mm p = t_mm q"
  using assms unfolding groups_ok_def by (blast, blast, blast, blast, metis, metis)

text \<open>What the invariant looks at.\<close>

definition group_view :: "ftask \<Rightarrow> nat \<times> nat \<times> nat \<times> nat \<times> nat \<times> nat \<times> nat \<times> nat \<times> nat" where
  "group_view t = (t_mm t, t_fs t, t_files t, t_sighand t, t_signal t, t_tgid t, t_leader t, t_pid t, t_real_parent t)"

definition same_view :: "fork_state \<Rightarrow> fork_state \<Rightarrow> bool" where
  "same_view s s' \<longleftrightarrow> map_option group_view \<circ> tasks s' = map_option group_view \<circ> tasks s \<and> (\<forall>k. count_of k s' = count_of k s) \<and>
     sg_limits s' = sg_limits s \<and> nr_threads s' = nr_threads s \<and> max_threads s' = max_threads s"

lemma part_of_view: "map_option group_view \<circ> T' = map_option group_view \<circ> T \<Longrightarrow> map_option (part_of k) \<circ> T' = map_option (part_of k) \<circ> T"
proof -
  assume eq: "map_option group_view \<circ> T' = map_option group_view \<circ> T"
  have "map_option (part_of k) (T' t) = map_option (part_of k) (T t)" for t
    using fun_cong [OF eq, of t] by (cases "T t"; cases "T' t"; cases k) (simp_all add: group_view_def)
  then show ?thesis by (simp add: fun_eq_iff)
qed

lemma groups_ok_view:
  assumes eq: "map_option group_view \<circ> T' = map_option group_view \<circ> T" and ok: "groups_ok T"
  shows "groups_ok T'"
proof -
  have down: "\<exists>p. T t = Some p \<and> group_view p = group_view p'" if "T' t = Some p'" for t p'
    using fun_cong [OF eq, of t] that by (cases "T t") simp_all
  have up: "\<exists>p'. T' t = Some p' \<and> group_view p = group_view p'" if "T t = Some p" for t p
    using fun_cong [OF eq, of t] that by (cases "T' t") simp_all
  have "t_fs p' \<noteq> 0 \<and> t_sighand p' \<noteq> 0 \<and> t_signal p' \<noteq> 0 \<and> (\<exists>l. T' (t_leader p') = Some l \<and> t_signal l = t_signal p')"
    if t: "T' t = Some p'" for t p'
  proof -
    obtain p where p: "T t = Some p" "group_view p = group_view p'" using down [OF t] by blast
    note g = groups_okD(1-4) [OF ok p(1)]
    obtain l where "T (t_leader p) = Some l" "t_signal l = t_signal p" using g(4) by blast
    then show ?thesis using up [of "t_leader p" l] g p(2) by (auto simp: group_view_def)
  qed
  moreover have "(t_signal p' = t_signal q' \<longrightarrow> t_sighand p' = t_sighand q' \<and> t_tgid p' = t_tgid q' \<and> t_leader p' = t_leader q') \<and>
      (t_sighand p' = t_sighand q' \<longrightarrow> t_mm p' = t_mm q')" if t: "T' t = Some p'" "T' u = Some q'" for t u p' q'
  proof -
    obtain p q where "T t = Some p" "group_view p = group_view p'" "T u = Some q" "group_view q = group_view q'"
      using down [OF t(1)] down [OF t(2)] by blast
    then show ?thesis using groups_okD(5,6) [OF ok, of t p u q] by (auto simp: group_view_def)
  qed
  ultimately show ?thesis unfolding groups_ok_def by blast
qed

lemma fork_inv_view:
  assumes "same_view s s'" "fork_inv x s"
  shows "fork_inv x s'"
proof -
  have eq: "map_option group_view \<circ> tasks s' = map_option group_view \<circ> tasks s" using assms(1) by (simp add: same_view_def)
  have "exact (x k) (tasks s') (part_of k) (count_of k s')" for k
    using assms exact_cong [OF part_of_view [OF eq]] by (simp add: same_view_def fork_inv_def refs_exact_def)
  moreover have "groups_ok (tasks s')" using assms(2) groups_ok_view [OF eq] by (simp add: fork_inv_def)
  ultimately show ?thesis using assms by (simp add: fork_inv_def refs_exact_def same_view_def)
qed

lemma fork_inv_held:
  assumes "fork_inv x s" "tasks s t = Some p"
  shows "parts_held s p" "counted (sg_counts s) (t_signal p)" "t_signal p \<noteq> 0" "tasks s (t_leader p) \<noteq> None"
proof -
  have c: "part_of k p \<noteq> 0 \<Longrightarrow> counted (count_of k s) (part_of k p)" for k
    using assms exact_counted [of "x k" "tasks s" "part_of k" "count_of k s" t p] by (simp add: fork_inv_def refs_exact_def)
  note g = groups_okD(1-4) [of "tasks s" t p]
  show sig: "counted (sg_counts s) (t_signal p)" "t_signal p \<noteq> 0"
    using c [of Signal_part] g(3) assms by (simp_all add: fork_inv_def)
  show "tasks s (t_leader p) \<noteq> None" using g(4) assms by (auto simp: fork_inv_def)
  have "signals s (t_signal p) \<noteq> None" using sig(1) by (auto simp: counted_def sg_counts_def)
  then show "parts_held s p"
    using c [of Mm_part] c [of Fs_part] c [of Files_part] c [of Sighand_part] g(1,2) assms by (simp add: parts_held_def fork_inv_def)
qed

section \<open>Creating a task\<close>

lemma view_upd:
  "(\<And>t. group_view (f t) = group_view t) \<Longrightarrow> map_option group_view \<circ> T(a := map_option f (T a)) = map_option group_view \<circ> T"
  by (auto simp: fun_eq_iff option.map_comp o_def)

lemma clear_nproc_view: "same_view s (clear_nproc cur s)"
proof -
  have "count_of k (clear_nproc cur s) = count_of k s" for k
    by (cases k) (simp_all add: clear_nproc_def sh_counts_def sg_counts_def)
  then show ?thesis by (simp add: same_view_def clear_nproc_def view_upd group_view_def sg_limits_def)
qed

lemma checks_imply:
  assumes "copy_process_checks E flags u = 0"
  shows "has_flag flags CLONE_THREAD \<Longrightarrow> has_flag flags CLONE_SIGHAND" "has_flag flags CLONE_SIGHAND \<Longrightarrow> has_flag flags CLONE_VM"
  using assms by (auto simp: copy_process_checks_def split: if_splits)

lemma groups_ok_insert:
  assumes ok: "groups_ok T" and fresh: "T b = None" and nz: "t_fs q \<noteq> 0" "t_sighand q \<noteq> 0" "t_signal q \<noteq> 0"
    and lead: "\<exists>l. (T(b \<mapsto> q)) (t_leader q) = Some l \<and> t_signal l = t_signal q"
    and sig: "\<And>t p. T t = Some p \<Longrightarrow> t_signal p = t_signal q \<Longrightarrow> t_sighand p = t_sighand q \<and> t_tgid p = t_tgid q \<and> t_leader p = t_leader q"
    and hand: "\<And>t p. T t = Some p \<Longrightarrow> t_sighand p = t_sighand q \<Longrightarrow> t_mm p = t_mm q"
  shows "groups_ok (T(b \<mapsto> q))"
proof -
  let ?T = "T(b \<mapsto> q)"
  have leader: "\<exists>l. ?T (t_leader p) = Some l \<and> t_signal l = t_signal p" if t: "?T t = Some p" for t p
  proof (cases "t = b")
    case False
    then obtain l where "T (t_leader p) = Some l" "t_signal l = t_signal p" using t groups_okD(4) [OF ok, of t p] by auto
    then show ?thesis using fresh by auto
  qed (use t lead in simp)
  have pair: "(t_signal p = t_signal p' \<longrightarrow> t_sighand p = t_sighand p' \<and> t_tgid p = t_tgid p' \<and> t_leader p = t_leader p') \<and>
      (t_sighand p = t_sighand p' \<longrightarrow> t_mm p = t_mm p')" if "?T t = Some p" "?T u = Some p'" for t u p p'
  proof -
    consider "t = b" "u = b" | "t \<noteq> b" "u = b" | "t = b" "u \<noteq> b" | "t \<noteq> b" "u \<noteq> b" by blast
    then show ?thesis
    proof cases
      case 2
      then show ?thesis using that sig [of t p] hand [of t p] by simp
    next
      case 3
      then show ?thesis using that sig [of u p'] hand [of u p'] by (simp add: eq_commute)
    next
      case 4
      then show ?thesis using that groups_okD(5,6) [OF ok, of t p u p'] by simp
    qed (use that in simp)
  qed
  have "t_fs p \<noteq> 0 \<and> t_sighand p \<noteq> 0 \<and> t_signal p \<noteq> 0" if "?T t = Some p" for t p
    using that nz groups_okD(1-3) [OF ok, of t p] by (cases "t = b") simp_all
  then show ?thesis using leader pair unfolding groups_ok_def by blast
qed

lemma groups_ok_spawn:
  assumes ok: "groups_ok T" and cur: "T cur = Some c" and fresh: "T b = None" and nz: "t_fs q \<noteq> 0" "t_sighand q \<noteq> 0" "t_signal q \<noteq> 0"
    and flags: "has_flag flags CLONE_THREAD \<Longrightarrow> has_flag flags CLONE_SIGHAND" "has_flag flags CLONE_SIGHAND \<Longrightarrow> has_flag flags CLONE_VM"
    and thread: "has_flag flags CLONE_THREAD \<Longrightarrow> t_signal q = t_signal c \<and> t_leader q = t_leader c \<and> t_tgid q = t_tgid c"
      "has_flag flags CLONE_SIGHAND \<Longrightarrow> t_sighand q = t_sighand c" "has_flag flags CLONE_VM \<Longrightarrow> t_mm q = t_mm c"
    and own: "\<not> has_flag flags CLONE_THREAD \<Longrightarrow> t_leader q = b \<and> (\<forall>t p. T t = Some p \<longrightarrow> t_signal p \<noteq> t_signal q)"
      "\<not> has_flag flags CLONE_SIGHAND \<Longrightarrow> \<forall>t p. T t = Some p \<longrightarrow> t_sighand p \<noteq> t_sighand q"
  shows "groups_ok (T(b \<mapsto> q))"
  using ok fresh nz
proof (rule groups_ok_insert)
  show "\<exists>l. (T(b \<mapsto> q)) (t_leader q) = Some l \<and> t_signal l = t_signal q"
  proof (cases "has_flag flags CLONE_THREAD")
    case True
    obtain l where "T (t_leader c) = Some l" "t_signal l = t_signal c" using groups_okD(4) [OF ok cur] by blast
    then show ?thesis using fresh thread(1) [OF True] by auto
  qed (use own(1) in simp)
next
  fix t p
  assume t: "T t = Some p"
  show "t_sighand p = t_sighand q \<and> t_tgid p = t_tgid q \<and> t_leader p = t_leader q" if "t_signal p = t_signal q"
  proof -
    have th: "has_flag flags CLONE_THREAD" using own(1) t that by blast
    then show ?thesis using groups_okD(5) [OF ok t cur] that thread(1) [OF th] thread(2) flags(1) by simp
  qed
  show "t_mm p = t_mm q" if "t_sighand p = t_sighand q"
  proof -
    have sh: "has_flag flags CLONE_SIGHAND" using own(2) t that by blast
    then show ?thesis using groups_okD(6) [OF ok t cur] that thread(2,3) flags(2) by simp
  qed
qed

lemma copy_process_inv:
  assumes inv: "fork_inv x s" and law: "refs_law E" "fresh_law E s" "tasks s cur = Some current"
    and run: "copy_process E False trace args cur s = (Inr b, s')"
  shows "fork_inv x s'"
proof -
  let ?f = "ka_flags args" and ?T = "tasks (clear_nproc cur s)"
  note held = fork_inv_held [OF inv law(3)]
  obtain q where q: "copy_process_checks E ?f (sg_unkillable (the (signals s (t_signal current)))) = 0" "b = new_task E"
    "nr_threads s < max_threads s" "tasks s' = ?T(b \<mapsto> q)" "spawned s current q s'" "shares_as_asked args cur current s q" "\<not> has_flag ?f CLONE_THREAD \<Longrightarrow> t_leader q = b"
    by (rule copy_process_success [OF run law held]) blast
  have inv0: "fork_inv x (clear_nproc cur s)" using inv by (rule fork_inv_view [OF clear_nproc_view])
  have fresh: "?T b = None" using law(2) q(2) by (auto simp: fresh_law_def clear_nproc_def)
  have cnt: "count_of k (clear_nproc cur s) = count_of k s" for k using clear_nproc_view by (simp add: same_view_def)
  have join: "joined (count_of k s) (count_of k s') (part_of k q)" for k using q(5) by (cases k) (simp_all add: spawned_def)
  have "exact (x k) ?T (part_of k) (count_of k s)" for k using inv0 cnt by (simp add: fork_inv_def refs_exact_def)
  then have refs: "exact (x k) (tasks s') (part_of k) (count_of k s')" for k
    unfolding q(4) using join fresh by (rule exact_join)
  have used: "t_signal p \<noteq> a" if "?T t = Some p" "signals s a = None" for t p a
    using fork_inv_held(2) [OF inv0 that(1)] that(2) by (auto simp: counted_def sg_counts_def clear_nproc_def)
  have used': "t_sighand p \<noteq> a" if "?T t = Some p" "sighands s a = None" for t p a
    using fork_inv_held(1) [OF inv0 that(1)] that(2) by (auto simp: parts_held_def counted_def sh_counts_def clear_nproc_def)
  obtain c where c: "?T cur = Some c" "group_view c = group_view current" using law(3) by (simp add: clear_nproc_def group_view_def)
  have view: "t_signal c = t_signal current" "t_leader c = t_leader current" "t_tgid c = t_tgid current" "t_sighand c = t_sighand current" "t_mm c = t_mm current"
    using c(2) by (simp_all add: group_view_def)
  have "groups_ok (?T(b \<mapsto> q))"
  proof (rule groups_ok_spawn [OF _ c(1) fresh _ _ _ checks_imply [OF q(1)]])
    show "groups_ok ?T" using inv0 by (simp add: fork_inv_def)
    show "t_fs q \<noteq> 0" "t_sighand q \<noteq> 0" "t_signal q \<noteq> 0" using q(5) by (simp_all add: spawned_def)
  qed (use q(6,7) used used' in \<open>auto simp: shares_as_asked_def Let_def view split: if_splits\<close>)
  then show ?thesis using refs q(3-5) by (simp add: fork_inv_def refs_exact_def spawned_def)
qed

lemma same_view_refl: "same_view s s"
  by (simp add: same_view_def)

lemma same_view_trans: "same_view s t \<Longrightarrow> same_view t u \<Longrightarrow> same_view s u"
  by (simp add: same_view_def)

lemma same_viewI:
  assumes "tasks s' = tasks s" "mm_users s' = mm_users s" "fs_users s' = fs_users s" "files_count s' = files_count s"
    "sighands s' = sighands s" "signals s' = signals s" "nr_threads s' = nr_threads s" "max_threads s' = max_threads s"
  shows "same_view s s'"
proof -
  have "count_of k s' = count_of k s" for k using assms by (cases k) (simp_all add: sh_counts_def sg_counts_def)
  then show ?thesis using assms by (simp add: same_view_def sg_limits_def)
qed

lemma task_upd_view:
  assumes "\<And>t. group_view (f t) = group_view t"
  shows "same_view s (s\<lparr>tasks := (tasks s)(a := map_option f (tasks s a))\<rparr>)"
proof -
  have "count_of k (s\<lparr>tasks := (tasks s)(a := map_option f (tasks s a))\<rparr>) = count_of k s" for k
    by (cases k) (simp_all add: sh_counts_def sg_counts_def)
  then show ?thesis using view_upd [OF assms] by (simp add: same_view_def sg_limits_def)
qed

named_theorems view_intro

lemma acquire_view [view_intro]: "same_view s t \<Longrightarrow> same_view s (acquire h t)"
  by (erule same_view_trans) (rule same_viewI, simp_all add: acquire_def)

lemma release_view [view_intro]: "same_view s t \<Longrightarrow> same_view s (release h t)"
  by (erule same_view_trans) (rule same_viewI, simp_all add: release_def)

lemma logged_view [view_intro]: "same_view s t \<Longrightarrow> same_view s (logged e t)"
  by (erule same_view_trans) (rule same_viewI, simp_all add: logged_def)

lemma user_tids_view [view_intro]: "same_view s t \<Longrightarrow> same_view s (t\<lparr>user_tids := u\<rparr>)"
  by (erule same_view_trans) (rule same_viewI, simp_all)

lemma counter_view [view_intro]: "same_view s t \<Longrightarrow> same_view s (t\<lparr>fork_call_counter := n\<rparr>)"
  by (erule same_view_trans) (rule same_viewI, simp_all)

lemma set_vfork_done_view [view_intro]: "same_view s t \<Longrightarrow> same_view s (set_vfork_done a v t)"
  by (erule same_view_trans) (simp add: set_vfork_done_def task_upd_view group_view_def)

lemma complete_vfork_view [view_intro]: "same_view s t \<Longrightarrow> same_view s (complete_vfork_done a t)"
  by (auto simp: complete_vfork_done_def set_vfork_done_view split: option.splits)

lemma if_view [view_intro]: "same_view s t \<Longrightarrow> same_view s u \<Longrightarrow> same_view s (if b then t else u)"
  by simp

lemma wait_view [view_intro]:
  "same_view s t \<Longrightarrow> same_view s (case wait_for_vfork_done E a t of (killed, u) \<Rightarrow> if \<not> killed then logged e u else u)"
  by (simp add: wait_for_vfork_done_def view_intro)

lemma copy_process_any_inv:
  assumes inv: "fork_inv x s" and law: "refs_law E" "fresh_law E s" "tasks s cur = Some current"
  shows "fork_inv x (snd (copy_process E False trace args cur s))"
proof (cases "copy_process E False trace args cur s")
  case (Pair r s1)
  show ?thesis
  proof (cases r)
    case (Inl e)
    then obtain u where "s1 = s\<lparr>user_tids := u\<rparr> \<or> s1 = (clear_nproc cur s)\<lparr>user_tids := u\<rparr>"
      using copy_process_restores [OF law fork_inv_held(1) [OF inv law(3)], of False trace args] Pair
      unfolding restores_def by metis
    then have "same_view s s1" using clear_nproc_view same_view_refl user_tids_view by metis
    then show ?thesis using inv Pair fork_inv_view by simp
  next
    case (Inr b)
    then show ?thesis using copy_process_inv [OF inv law] Pair by simp
  qed
qed

lemma kernel_clone_inv:
  assumes inv: "fork_inv x s" and law: "refs_law E" "fresh_law E s" "tasks s cur = Some current"
  shows "fork_inv x (snd (kernel_clone E args cur s))"
proof (cases "copy_process E False (trace_event E args) args cur s")
  case (Pair r s1)
  have inv1: "fork_inv x s1" using copy_process_any_inv [OF assms, of "trace_event E args" args] Pair by simp
  have "same_view s1 (snd (kernel_clone E args cur s)) \<or> snd (kernel_clone E args cur s) = s"
    using Pair unfolding kernel_clone_def Let_def
    by (cases r) (simp_all add: view_intro same_view_refl)
  then show ?thesis using inv inv1 fork_inv_view by metis
qed

section \<open>Unsharing parts\<close>

lemma groups_ok_same:
  assumes ok: "groups_ok T" and T: "T t = Some p"
    and same: "t_sighand p' = t_sighand p" "t_signal p' = t_signal p" "t_tgid p' = t_tgid p" "t_leader p' = t_leader p" "t_mm p' = t_mm p"
    and nz: "t_fs p' \<noteq> 0"
  shows "groups_ok (T(t \<mapsto> p'))"
proof -
  let ?T = "T(t \<mapsto> p')"
  have down: "\<exists>q. T u = Some q \<and> t_sighand q' = t_sighand q \<and> t_signal q' = t_signal q \<and> t_tgid q' = t_tgid q \<and> t_leader q' = t_leader q \<and> t_mm q' = t_mm q \<and> t_fs q' \<noteq> 0"
    if "?T u = Some q'" for u q'
    using that T same nz groups_okD(1) [OF ok, of u] by (cases "u = t") auto
  have up: "\<exists>q'. ?T u = Some q' \<and> t_signal q' = t_signal q" if "T u = Some q" for u q
    using that T same by (cases "u = t") auto
  have "t_fs q' \<noteq> 0 \<and> t_sighand q' \<noteq> 0 \<and> t_signal q' \<noteq> 0 \<and> (\<exists>l. ?T (t_leader q') = Some l \<and> t_signal l = t_signal q')" if u: "?T u = Some q'" for u q'
  proof -
    obtain q where q: "T u = Some q" "t_sighand q' = t_sighand q" "t_signal q' = t_signal q" "t_leader q' = t_leader q" "t_fs q' \<noteq> 0"
      using down [OF u] by blast
    obtain l where "T (t_leader q) = Some l" "t_signal l = t_signal q" using groups_okD(4) [OF ok q(1)] by blast
    then show ?thesis using up [of "t_leader q" l] q groups_okD(2,3) [OF ok q(1)] by auto
  qed
  moreover have "(t_signal q' = t_signal r' \<longrightarrow> t_sighand q' = t_sighand r' \<and> t_tgid q' = t_tgid r' \<and> t_leader q' = t_leader r') \<and>
      (t_sighand q' = t_sighand r' \<longrightarrow> t_mm q' = t_mm r')" if u: "?T u = Some q'" "?T v = Some r'" for u v q' r'
  proof -
    obtain q r where "T u = Some q" "T v = Some r" "t_sighand q' = t_sighand q" "t_signal q' = t_signal q" "t_tgid q' = t_tgid q"
      "t_leader q' = t_leader q" "t_mm q' = t_mm q" "t_sighand r' = t_sighand r" "t_signal r' = t_signal r" "t_tgid r' = t_tgid r"
      "t_leader r' = t_leader r" "t_mm r' = t_mm r" using down [OF u(1)] down [OF u(2)] by blast
    then show ?thesis using groups_okD(5,6) [OF ok, of u q v r] by auto
  qed
  ultimately show ?thesis unfolding groups_ok_def by blast
qed

lemma move_part_inv:
  assumes inv: "fork_inv x s" and t: "tasks s t = Some p" and k: "k = Fs_part \<or> k = Files_part"
    and b: "b \<noteq> 0" "count_of k s b = None" "part_of k p \<noteq> 0" "part_of k p' = b"
    and p': "\<And>j. j \<noteq> k \<Longrightarrow> part_of j p' = part_of j p" "t_tgid p' = t_tgid p" "t_leader p' = t_leader p"
    and s': "tasks s' = (tasks s)(t \<mapsto> p')" "count_of k s' = put_ref ((count_of k s)(b \<mapsto> 1)) (part_of k p)"
      "\<And>j. j \<noteq> k \<Longrightarrow> count_of j s' = count_of j s" "nr_threads s' = nr_threads s" "max_threads s' = max_threads s"
  shows "fork_inv x s'"
proof -
  have ok: "groups_ok (tasks s)" and refs: "\<And>j. exact (x j) (tasks s) (part_of j) (count_of j s)" using inv by (simp_all add: fork_inv_def refs_exact_def)
  have "exact (x j) (tasks s') (part_of j) (count_of j s')" for j
  proof (cases "j = k")
    case True
    have "exact (x k) ((tasks s)(t \<mapsto> p')) (part_of k) (put_ref ((count_of k s)(b \<mapsto> 1)) (part_of k p))"
      using refs [of k] t b(3,1,2,4) by (rule exact_move)
    then show ?thesis unfolding s'(1) True s'(2) .
  next
    case False
    have "map_option (part_of j) \<circ> (tasks s)(t \<mapsto> p') = map_option (part_of j) \<circ> tasks s"
      using t p'(1) [OF False] by (simp add: fun_eq_iff)
    from exact_cong [OF this] show ?thesis using refs [of j] unfolding s'(1) s'(3) [OF False] by simp
  qed
  moreover have "groups_ok (tasks s')"
    unfolding s'(1) using ok t
  proof (rule groups_ok_same)
    show "t_sighand p' = t_sighand p" "t_signal p' = t_signal p" "t_mm p' = t_mm p"
      using k p'(1) [of Sighand_part] p'(1) [of Signal_part] p'(1) [of Mm_part] by auto
    show "t_fs p' \<noteq> 0" using k b(1,4) p'(1) [of Fs_part] groups_okD(1) [OF ok t] by auto
  qed (use p' in simp_all)
  ultimately show ?thesis using inv s'(4,5) by (simp add: fork_inv_def refs_exact_def)
qed

end
