(* ===== verification/Unshare.thy ===== *)
theory Unshare
  imports Task_Table
begin

text \<open>
  The outcomes of \<open>unshare\<close> (src/Kernel/kernel/fork.c): a call that fails undoes the copies it made,
  and one that succeeds moves the calling task to copies of its own. Both keep the invariant of the
  task table, and so does every run of the calls that create tasks or unshare parts of them.
\<close>

section \<open>Undoing the copies\<close>

lemma unshare_fs_cases:
  assumes "unshare_fs E flags current s = (err, n, s')" "fresh_law E s"
  shows "n = 0 \<and> s' = s \<or> err = 0 \<and> n \<noteq> 0 \<and> t_fs current \<noteq> 0 \<and> fs_users s n = None \<and> s' = s\<lparr>fs_users := (fs_users s)(n \<mapsto> 1)\<rparr>"
proof -
  have "fs_users s (copy_fs_struct E) = None" using assms(2) by (simp add: fresh_law_def)
  then show ?thesis using assms(1) unfolding unshare_fs_def Let_def by (simp split: if_splits) blast
qed

lemma unshare_fd_cases:
  assumes "unshare_fd E flags current s = (err, n, s')" "\<forall>a. dup_fd E = Inr a \<longrightarrow> a \<noteq> 0 \<and> files_count s a = None"
  shows "n = 0 \<and> s' = s \<or> err = 0 \<and> n \<noteq> 0 \<and> t_files current \<noteq> 0 \<and> files_count s n = None \<and> s' = s\<lparr>files_count := (files_count s)(n \<mapsto> 1)\<rparr>"
proof (cases "has_flag flags CLONE_FILES \<and> t_files current \<noteq> 0 \<and> the (files_count s (t_files current)) > 1")
  case True
  then show ?thesis using assms unfolding unshare_fd_def Let_def by (cases "dup_fd E") simp_all
next
  case False
  then show ?thesis using assms(1) unfolding unshare_fd_def Let_def by (simp split: if_splits)
qed

lemma free_fs_undone:
  assumes "unshare_fs E flags current s = (err, n, s1)" "refs_law E" "fresh_law E s"
  shows "free_new_fs E n s1 = s" "free_new_fs E n (acquire h s1) = acquire h s"
  using unshare_fs_cases [OF assms(1,3)] assms(2)
  by (elim disjE; simp add: free_new_fs_def refs_law_def acquire_def fun_upd_idem)+

lemma put_fd_undone:
  assumes "unshare_fd E flags current s = (err, n, s1)" "refs_law E" "\<forall>a. dup_fd E = Inr a \<longrightarrow> a \<noteq> 0 \<and> files_count s a = None"
  shows "put_new_fd E n s1 = s" "put_new_fd E n (acquire h s1) = acquire h s"
  using unshare_fd_cases [OF assms(1,3)] assms(2)
  by (elim disjE; simp add: put_new_fd_def refs_law_def put_new_ref acquire_def)+

lemma release_New_cred: "release New_cred (acquire New_nsproxy (acquire New_cred s)) = acquire New_nsproxy s"
  by (simp add: release_def acquire_def fun_upd_twist)

section \<open>Successful calls\<close>

text \<open>
  The task \<open>p\<close> at \<open>cur\<close> has moved to its own copies \<open>n\<close> and \<open>m\<close> (0 where nothing had to be copied),
  and has given up its references to the old structures.
\<close>

definition unshared :: "addr \<Rightarrow> addr \<Rightarrow> addr \<Rightarrow> ftask \<Rightarrow> fork_state \<Rightarrow> fork_state \<Rightarrow> bool" where
  "unshared n m cur p s s' \<longleftrightarrow>
     tasks s' = (tasks s)(cur \<mapsto> p\<lparr>t_fs := if n = 0 then t_fs p else n, t_files := if m = 0 then t_files p else m\<rparr>) \<and>
     fs_users s' = (if n = 0 then fs_users s else put_ref ((fs_users s)(n \<mapsto> 1)) (t_fs p)) \<and>
     files_count s' = (if m = 0 then files_count s else put_ref ((files_count s)(m \<mapsto> 1)) (t_files p)) \<and>
     mm_users s' = mm_users s \<and> sighands s' = sighands s \<and> signals s' = signals s \<and>
     nr_threads s' = nr_threads s \<and> max_threads s' = max_threads s"

lemma switch_fs_left:
  assumes "fs_users s (t_fs p) = Some k" "k \<ge> 1" "n \<noteq> t_fs p" "refs_law E" "tasks s cur = Some p" "t_fs p \<noteq> 0"
  shows "free_new_fs E (fst (switch_fs cur n s)) (snd (switch_fs cur n s)) =
     s\<lparr>tasks := (tasks s)(cur \<mapsto> p\<lparr>t_fs := n\<rparr>), fs_users := put_ref (fs_users s) (t_fs p)\<rparr>"
  using assms by (simp add: switch_fs_def Let_def free_new_fs_def refs_law_def put_ref_def)

lemma switch_files_left:
  assumes "refs_law E" "tasks s cur = Some p" "t_files p \<noteq> 0"
  shows "put_new_fd E (fst (switch_files cur m s)) (snd (switch_files cur m s)) =
     s\<lparr>tasks := (tasks s)(cur \<mapsto> p\<lparr>t_files := m\<rparr>), files_count := put_ref (files_count s) (t_files p)\<rparr>"
  using assms by (simp add: switch_files_def put_new_fd_def refs_law_def)

text \<open>Dropping what was left behind commutes with the steps between.\<close>

lemma free_new_fs_late:
  "free_new_fs E a (put_new_fd E b s) = put_new_fd E b (free_new_fs E a s)"
  "free_new_fs E a (logged e s) = logged e (free_new_fs E a s)"
  "put_new_fd E b (logged e s) = logged e (put_new_fd E b s)"
  "free_new_fs E a (snd (switch_files cur m s)) = snd (switch_files cur m (free_new_fs E a s))"
  "fst (switch_files cur m (free_new_fs E a s)) = fst (switch_files cur m s)"
  by (simp_all add: free_new_fs_def put_new_fd_def logged_def switch_files_def)

lemma commit_unshared:
  assumes law: "refs_law E" and p: "tasks s cur = Some p" "counted (fs_users s) (t_fs p)" "t_fs p \<noteq> 0"
    and n: "n \<noteq> 0 \<Longrightarrow> fs_users s n = None" and m: "m \<noteq> 0 \<Longrightarrow> t_files p \<noteq> 0"
    and s2: "tasks s2 = tasks s" "fs_users s2 = (if n = 0 then fs_users s else (fs_users s)(n \<mapsto> 1))"
      "files_count s2 = (if m = 0 then files_count s else (files_count s)(m \<mapsto> 1))"
      "mm_users s2 = mm_users s" "sighands s2 = sighands s" "signals s2 = signals s" "nr_threads s2 = nr_threads s" "max_threads s2 = max_threads s"
    and run: "unshare_commit E flags sem n m cr ns cur s2 = (n', m', s3)"
  shows "unshared n m cur p s (free_new_fs E n' (put_new_fd E m' s3))"
proof -
  obtain k where k: "fs_users s (t_fs p) = Some k" "k \<ge> 1" using p(2) by (auto simp: counted_def)
  define t where "t = (let s = (if sem then logged Exit_sem s2 else s2); s = (if has_flag flags CLONE_NEWIPC then logged Exit_shm s else s)
    in (if ns then logged Switch_namespaces s else s))"
  define A where "A = (if n \<noteq> 0 then switch_fs cur n t else (n, t))"
  define B where "B = (if m \<noteq> 0 then switch_files cur m (snd A) else (m, snd A))"
  define u where "u = free_new_fs E (fst A) (snd A)"
  define v where "v = put_new_fd E (fst B) (if m \<noteq> 0 then snd (switch_files cur m u) else u)"
  have f: "tasks t = tasks s2" "fs_users t = fs_users s2" "files_count t = files_count s2" "mm_users t = mm_users s2" "sighands t = sighands s2"
    "signals t = signals s2" "nr_threads t = nr_threads s2" "max_threads t = max_threads s2"
    by (simp_all add: t_def logged_def Let_def)
  have "n' = fst A" "m' = fst B" "s3 = (if cr then logged Commit_creds (snd B) else snd B)"
    using run unfolding unshare_commit_def Let_def t_def [unfolded Let_def, symmetric] A_def [symmetric] by (auto simp add: B_def split_def)
  then have res: "free_new_fs E n' (put_new_fd E m' s3) = (if cr then logged Commit_creds v else v)"
    by (simp add: v_def u_def B_def free_new_fs_late)
  have u: "u = (if n = 0 then t else t\<lparr>tasks := (tasks t)(cur \<mapsto> p\<lparr>t_fs := n\<rparr>), fs_users := put_ref (fs_users t) (t_fs p)\<rparr>)"
  proof (cases "n = 0")
    case True
    then show ?thesis by (simp add: u_def A_def free_new_fs_def)
  next
    case False
    then have "n \<noteq> t_fs p" using n k by auto
    then show ?thesis using False switch_fs_left [of t p k n E cur] k law p f s2 by (simp add: u_def A_def)
  qed
  have uf: "tasks u cur = Some (if n = 0 then p else p\<lparr>t_fs := n\<rparr>)" using p(1) by (simp add: u f s2)
  have "fst B = (if m = 0 then 0 else fst (switch_files cur m u))" by (simp add: B_def u_def free_new_fs_late)
  then have v: "v = (if m = 0 then u else u\<lparr>tasks := (tasks u)(cur \<mapsto> (the (tasks u cur))\<lparr>t_files := m\<rparr>), files_count := put_ref (files_count u) (t_files p)\<rparr>)"
    using switch_files_left [OF law uf, of m] m by (simp add: v_def uf put_new_fd_def [of E 0])
  have "unshared n m cur p s v"
    using p(1) by (simp add: unshared_def v u f s2 fun_upd_idem)
  then show ?thesis unfolding res by (simp add: unshared_def logged_def)
qed

section \<open>The outcomes of unshare\<close>

definition unshare_finish ::
  "fork_env \<Rightarrow> u64 \<Rightarrow> addr \<Rightarrow> addr \<Rightarrow> bool \<Rightarrow> bool \<Rightarrow> addr \<Rightarrow> fork_state \<Rightarrow> fork_state" where
  "unshare_finish E flags n m cr ns cur s =
     (let sem = has_flag flags (CLONE_NEWIPC OR CLONE_SYSVSEM);
          s = (if cr then acquire New_cred s else s); s = (if ns then acquire New_nsproxy s else s) in
      case (if n \<noteq> 0 \<or> m \<noteq> 0 \<or> sem \<or> cr \<or> ns then unshare_commit E flags sem n m cr ns cur s else (n, m, s)) of
        (n, m, s) \<Rightarrow> free_new_fs E n (put_new_fd E m s))"

lemma finish_unshared:
  assumes law: "refs_law E" and p: "tasks s cur = Some p" "counted (fs_users s) (t_fs p)" "t_fs p \<noteq> 0"
    and n: "n \<noteq> 0 \<Longrightarrow> fs_users s n = None" and m: "m \<noteq> 0 \<Longrightarrow> t_files p \<noteq> 0"
    and s2: "s2 = s\<lparr>fs_users := if n = 0 then fs_users s else (fs_users s)(n \<mapsto> 1), files_count := if m = 0 then files_count s else (files_count s)(m \<mapsto> 1)\<rparr>"
  shows "unshared n m cur p s (unshare_finish E flags n m cr ns cur s2)"
proof -
  let ?sem = "has_flag flags (CLONE_NEWIPC OR CLONE_SYSVSEM)"
  define s3 where "s3 = (if cr then acquire New_cred s2 else s2)"
  define s4 where "s4 = (if ns then acquire New_nsproxy s3 else s3)"
  note f = s4_def s3_def s2 acquire_def
  obtain n' m' s' where c: "unshare_commit E flags ?sem n m cr ns cur s4 = (n', m', s')" by (metis prod_cases3)
  have "unshared n m cur p s (free_new_fs E n' (put_new_fd E m' s'))"
    by (rule commit_unshared [OF law p n m _ _ _ _ _ _ _ _ c]) (simp_all add: f)
  moreover have "unshared 0 0 cur p s (free_new_fs E 0 (put_new_fd E 0 s4))" if "n = 0" "m = 0" "\<not> cr" "\<not> ns"
    using that p(1) by (simp add: f unshared_def free_new_fs_def put_new_fd_def fun_upd_idem)
  ultimately show ?thesis
    unfolding unshare_finish_def Let_def s3_def [symmetric] s4_def [symmetric] c by (simp split: if_split)
qed

lemma unshare_steps:
  assumes "unshare_fs E (unshare_implied flags) (the (tasks s cur)) s = (e1, n, s1)" "unshare_fd E (unshare_implied flags) (the (tasks s cur)) s1 = (e2, m, s2)"
    and "unshare_userns E = (e3, cr)" "unshare_nsproxy E = (e4, ns)"
    and "chk = check_unshare_flags E (unshare_implied flags) (sh_count (the (sighands s (t_sighand (the (tasks s cur))))))"
    and "s3 = (if cr then acquire New_cred s2 else s2)" "undo = (\<lambda>s. free_new_fs E n (put_new_fd E m (if cr then release New_cred s else s)))"
  shows "ksys_unshare E flags cur s = (if chk \<noteq> 0 then (chk, s) else if e1 \<noteq> 0 then (e1, s1) else if e2 \<noteq> 0 then (e2, free_new_fs E n s2)
      else if e3 \<noteq> 0 then (e3, free_new_fs E n (put_new_fd E m s2)) else if e4 \<noteq> 0 then (e4, undo s3)
      else if cr \<and> set_cred_ucounts E \<noteq> 0 then (set_cred_ucounts E, undo (if ns then acquire New_nsproxy s3 else s3))
      else (0, unshare_finish E (unshare_implied flags) n m cr ns cur s2))"
  unfolding ksys_unshare_def Let_def assms(5) [symmetric] assms(1-4) prod.case assms(6,7) unshare_finish_def
  by (simp split: prod.splits)

lemma unshare_result:
  assumes law: "refs_law E" "fresh_law E s" and p: "tasks s cur = Some p" "counted (fs_users s) (t_fs p)" "t_fs p \<noteq> 0"
    and run: "ksys_unshare E flags cur s = (err, s')"
  shows "err \<noteq> 0 \<and> s' = s \<or>
      err \<noteq> 0 \<and> unshare_userns E = (0, True) \<and> unshare_nsproxy E = (0, True) \<and> err = set_cred_ucounts E \<and> s' = acquire New_nsproxy s \<or>
      err = 0 \<and> (\<exists>n m. (n \<noteq> 0 \<longrightarrow> fs_users s n = None) \<and> (m \<noteq> 0 \<longrightarrow> files_count s m = None \<and> t_files p \<noteq> 0) \<and> unshared n m cur p s s')"
proof -
  let ?f = "unshare_implied flags"
  obtain e1 n s1 where c1: "unshare_fs E ?f p s = (e1, n, s1)" by (metis prod_cases3)
  obtain e2 m s2 where c2: "unshare_fd E ?f p s1 = (e2, m, s2)" by (metis prod_cases3)
  obtain e3 cr e4 ns where c3: "unshare_userns E = (e3, cr)" "unshare_nsproxy E = (e4, ns)" by fastforce
  note fs = unshare_fs_cases [OF c1 law(2)]
  have "files_count s1 = files_count s" using fs by auto
  then have fresh: "\<forall>a. dup_fd E = Inr a \<longrightarrow> a \<noteq> 0 \<and> files_count s1 a = None" using law(2) by (simp add: fresh_law_def)
  note fd = unshare_fd_cases [OF c2 fresh]
  have e1: "s1 = s" if "e1 \<noteq> 0" using fs that by auto
  have e2: "s2 = s1" if "e2 \<noteq> 0" using fd that by auto
  note undo = free_fs_undone [OF c1 law] put_fd_undone [OF c2 law(1) fresh]
  define s3 where "s3 = (if cr then acquire New_cred s2 else s2)"
  define chk where "chk = check_unshare_flags E ?f (sh_count (the (sighands s (t_sighand p))))"
  define drop where "drop = (\<lambda>s. free_new_fs E n (put_new_fd E m (if cr then release New_cred s else s)))"
  have drop: "drop s3 = s" "cr \<Longrightarrow> drop (acquire New_nsproxy s3) = acquire New_nsproxy s"
    using undo by (simp_all add: drop_def s3_def release_New_cred)
  have new: "n \<noteq> 0 \<Longrightarrow> fs_users s n = None" "m \<noteq> 0 \<Longrightarrow> files_count s m = None \<and> t_files p \<noteq> 0"
      "s2 = s\<lparr>fs_users := if n = 0 then fs_users s else (fs_users s)(n \<mapsto> 1), files_count := if m = 0 then files_count s else (files_count s)(m \<mapsto> 1)\<rparr>"
    using fs fd by (elim disjE; simp)+
  have "unshared n m cur p s (unshare_finish E ?f n m cr ns cur s2)"
    by (rule finish_unshared [OF law(1) p new(1) _ new(3)]) (use new(2) in blast)+
  then have fin: "\<exists>n' m'. (n' \<noteq> 0 \<longrightarrow> fs_users s n' = None) \<and> (m' \<noteq> 0 \<longrightarrow> files_count s m' = None \<and> t_files p \<noteq> 0) \<and>
      unshared n' m' cur p s (unshare_finish E ?f n m cr ns cur s2)" using new(1,2) by blast
  have "(err, s') = (if chk \<noteq> 0 then (chk, s) else if e1 \<noteq> 0 then (e1, s) else if e2 \<noteq> 0 then (e2, s) else if e3 \<noteq> 0 then (e3, s)
      else if e4 \<noteq> 0 then (e4, s) else if cr \<and> set_cred_ucounts E \<noteq> 0 then (set_cred_ucounts E, if ns then acquire New_nsproxy s else s)
      else (0, unshare_finish E ?f n m cr ns cur s2))"
    using unshare_steps [of E flags s cur e1 n s1 e2 m s2 e3 cr e4 ns chk s3 drop, unfolded run] c1 c2 c3 p(1)
    by (simp add: chk_def [symmetric] s3_def [symmetric] drop_def [symmetric] e1 e2 undo drop split: if_split)
  then show ?thesis using c3 fin by (simp split: if_splits) blast
qed

section \<open>The invariant\<close>

lemma unshared_inv:
  assumes inv: "fork_inv x s" and p: "tasks s cur = Some p" and u: "unshared n m cur p s s'"
    and n: "n \<noteq> 0 \<longrightarrow> fs_users s n = None" and m: "m \<noteq> 0 \<longrightarrow> files_count s m = None \<and> t_files p \<noteq> 0"
  shows "fork_inv x s'"
proof -
  let ?p = "if n = 0 then p else p\<lparr>t_fs := n\<rparr>"
  have fs: "t_fs p \<noteq> 0" using fork_inv_held(1) [OF inv p] by (simp add: parts_held_def)
  define s1 where "s1 = (if n = 0 then s else s\<lparr>tasks := (tasks s)(cur \<mapsto> ?p), fs_users := put_ref ((fs_users s)(n \<mapsto> 1)) (t_fs p)\<rparr>)"
  have s1: "tasks s1 = (tasks s)(cur \<mapsto> ?p)" "files_count s1 = files_count s" "nr_threads s1 = nr_threads s" "max_threads s1 = max_threads s"
    "mm_users s1 = mm_users s" "sighands s1 = sighands s" "signals s1 = signals s" using p by (simp_all add: s1_def fun_upd_idem)
  have other: "part_of j (q\<lparr>t_fs := a\<rparr>) = part_of j q" if "j \<noteq> Fs_part" for j q a using that by (cases j) simp_all
  have other': "part_of j (q\<lparr>t_files := a\<rparr>) = part_of j q" if "j \<noteq> Files_part" for j q a using that by (cases j) simp_all
  have inv1: "fork_inv x s1"
  proof (cases "n = 0")
    case False
    have "count_of j s1 = count_of j s" if "j \<noteq> Fs_part" for j
      using that s1 by (cases j) (simp_all add: sh_counts_def sg_counts_def)
    then show ?thesis using False n fs s1
      by (intro move_part_inv [OF inv p, of Fs_part n ?p]) (simp_all add: other s1_def)
  qed (use inv s1_def in simp)
  show ?thesis
  proof (cases "m = 0")
    case True
    have "same_view s1 s'" using u True s1 by (intro same_viewI) (simp_all add: unshared_def s1_def fun_upd_idem)
    then show ?thesis using inv1 by (rule fork_inv_view)
  next
    case False
    have cnt: "count_of j s' = count_of j s1" if "j \<noteq> Files_part" for j
      using that u s1 by (cases j) (simp_all add: unshared_def sh_counts_def sg_counts_def s1_def)
    have t: "tasks s1 cur = Some ?p" using s1(1) by simp
    show ?thesis using False m u s1(1-4) cnt
      by (intro move_part_inv [OF inv1 t, of Files_part m "?p\<lparr>t_files := m\<rparr>"]) (simp_all add: other' unshared_def)
  qed
qed

lemma ksys_unshare_inv:
  assumes "fork_inv x s" "refs_law E" "fresh_law E s" "tasks s cur = Some p"
  shows "fork_inv x (snd (ksys_unshare E flags cur s))"
proof -
  have held: "counted (fs_users s) (t_fs p)" "t_fs p \<noteq> 0" using fork_inv_held(1) [OF assms(1,4)] by (simp_all add: parts_held_def)
  obtain err s' where run: "ksys_unshare E flags cur s = (err, s')" by fastforce
  have "s' = s \<or> s' = acquire New_nsproxy s \<or>
      (\<exists>n m. (n \<noteq> 0 \<longrightarrow> fs_users s n = None) \<and> (m \<noteq> 0 \<longrightarrow> files_count s m = None \<and> t_files p \<noteq> 0) \<and> unshared n m cur p s s')"
    using unshare_result [OF assms(2-4) held run] by blast
  then show ?thesis
    unfolding run snd_conv
    using assms(1) unshared_inv [OF assms(1,4)] fork_inv_view [OF acquire_view [OF same_view_refl]] by blast
qed

lemma unshare_files_inv:
  assumes "fork_inv x s" "refs_law E" "fresh_law E s" "tasks s cur = Some p"
  shows "fork_inv x (snd (unshare_files E cur s))"
proof (cases "unshare_fd E CLONE_FILES p s")
  case (fields e m s1)
  have fresh: "\<forall>a. dup_fd E = Inr a \<longrightarrow> a \<noteq> 0 \<and> files_count s a = None" using assms(3) by (simp add: fresh_law_def)
  from unshare_fd_cases [OF fields fresh] show ?thesis
  proof
    assume "m = 0 \<and> s1 = s"
    then show ?thesis using fields assms(1,4) by (simp add: unshare_files_def)
  next
    assume m: "e = 0 \<and> m \<noteq> 0 \<and> t_files p \<noteq> 0 \<and> files_count s m = None \<and> s1 = s\<lparr>files_count := (files_count s)(m \<mapsto> 1)\<rparr>"
    then have "snd (unshare_files E cur s) = put_new_fd E (fst (switch_files cur m s1)) (snd (switch_files cur m s1))"
      using fields assms(4) by (simp add: unshare_files_def split_def)
    also have "\<dots> = s1\<lparr>tasks := (tasks s1)(cur \<mapsto> p\<lparr>t_files := m\<rparr>), files_count := put_ref (files_count s1) (t_files p)\<rparr>"
      using assms(2,4) m by (intro switch_files_left) simp_all
    finally have "unshared 0 m cur p s (snd (unshare_files E cur s))" using m by (simp add: unshared_def)
    then show ?thesis using unshared_inv [OF assms(1,4)] m by blast
  qed
qed

end
