(* ===== verification/Fork_Runs.thy ===== *)
theory Fork_Runs
  imports Unshare
begin

text \<open>
  What the calls that create tasks promise: a creation that fails leaves nothing behind, one that
  succeeds shares what its flags ask for, it does succeed when no subsystem refuses, and every
  sequence of calls keeps the reference counts exact and the thread groups consistent.
\<close>

section \<open>Successful creations\<close>

lemma same_view_at:
  assumes "same_view s s'"
  shows "map_option group_view (tasks s' t) = map_option group_view (tasks s t)"
proof -
  have "map_option group_view \<circ> tasks s' = map_option group_view \<circ> tasks s" using assms by (simp add: same_view_def)
  from fun_cong [OF this, of t] show ?thesis by simp
qed

lemma kernel_clone_created:
  assumes law: "refs_law E" "fresh_law E s" "fork_inv x s" "tasks s cur = Some current"
    and run: "kernel_clone E args cur s = (nr, s')" "copy_process E False (trace_event E args) args cur s = (Inr b, s1)"
    and args: "\<not> (has_flag (ka_flags args) CLONE_PIDFD \<and> has_flag (ka_flags args) CLONE_PARENT_SETTID \<and> ka_pidfd args = ka_parent_tid args)"
  shows "nr = int (t_pid (the (tasks s1 b)))" "same_view s1 s'"
  using run args unfolding kernel_clone_def Let_def by (auto simp: view_intro same_view_refl)

lemma kernel_clone_outcome:
  assumes law: "refs_law E" "fresh_law E s" "fork_inv x s" "tasks s cur = Some current"
    and run: "kernel_clone E args cur s = (nr, s')" "copy_process E False (trace_event E args) args cur s = (Inr b, s1)"
    and args: "\<not> (has_flag (ka_flags args) CLONE_PIDFD \<and> has_flag (ka_flags args) CLONE_PARENT_SETTID \<and> ka_pidfd args = ka_parent_tid args)"
  shows "\<exists>q. tasks s b = None \<and> tasks s' b = Some q \<and> nr = int (t_pid q) \<and> t_pid q \<noteq> 0 \<and> t_pid q \<notin> pids s \<and>
      shares_as_asked args cur current s q \<and> sg_limits s' (t_signal q) = sg_limits s (t_signal current) \<and>
      (\<forall>t. t \<noteq> b \<longrightarrow> map_option group_view (tasks s' t) = map_option group_view (tasks s t))"
proof -
  note held = fork_inv_held [OF law(3,4)]
  obtain q where q: "b = new_task E" "tasks s1 = (tasks (clear_nproc cur s))(b \<mapsto> q)" "spawned s current q s1" "shares_as_asked args cur current s q"
    "t_pid q \<noteq> 0" "t_pid q \<notin> pids s"
    by (rule copy_process_success [OF run(2) law(1,2,4) held]) blast
  note v = kernel_clone_created [OF assms]
  have tv: "map_option group_view (tasks s' t) = map_option group_view (tasks s1 t)" for t
    using same_view_at [OF v(2)] .
  have c: "map_option group_view (tasks (clear_nproc cur s) t) = map_option group_view (tasks s t)" for t
    using same_view_at [OF clear_nproc_view] .
  obtain q' where q': "tasks s' b = Some q'" "group_view q' = group_view q" using tv [of b] q(2) by auto
  have "nr = int (t_pid q')" using v(1) q(2) q'(2) by (simp add: group_view_def)
  moreover have "shares_as_asked args cur current s q'" "t_pid q' \<noteq> 0" "t_pid q' \<notin> pids s"
    using q(4-6) q'(2) unfolding shares_as_asked_def Let_def group_view_def by simp_all
  moreover have "sg_limits s' (t_signal q') = sg_limits s (t_signal current)"
    using v(2) q(3) q'(2) by (simp add: same_view_def spawned_def group_view_def)
  moreover have "map_option group_view (tasks s' t) = map_option group_view (tasks s t)" if "t \<noteq> b" for t
    using tv [of t] c [of t] q(2) that by simp
  moreover have "tasks s b = None" using law(2) q(1) by (simp add: fresh_law_def)
  ultimately show ?thesis using q'(1) by blast
qed

text \<open>The set-up functions return 0 or a negative error number.\<close>

definition errors_law :: "fork_env \<Rightarrow> bool" where
  "errors_law E \<longleftrightarrow> mpol_dup E \<le> 0 \<and> sched_fork E \<le> 0 \<and> perf_event_init_task E \<le> 0 \<and> audit_alloc E \<le> 0 \<and>
     security_task_alloc E \<le> 0 \<and> copy_semundo E \<le> 0 \<and> copy_namespaces E \<le> 0 \<and> copy_io E \<le> 0 \<and> copy_thread E \<le> 0 \<and>
     cgroup_can_fork E \<le> 0 \<and> (\<forall>e. dup_fd E = Inl e \<longrightarrow> e < 0) \<and> (\<forall>tids e. alloc_pid E tids = Inl e \<longrightarrow> e < 0)"

definition negative :: "(int + addr) \<times> fork_state \<Rightarrow> bool" where
  "negative r \<longleftrightarrow> (\<forall>e. fst r = Inl e \<longrightarrow> e < 0)"

lemma or_goto_negative: "fst r \<le> 0 \<Longrightarrow> (\<And>p s. negative (k p s)) \<Longrightarrow> negative (or_goto r l k)"
  by (cases r) (simp add: or_goto_def negative_def)

lemma attach_negative:
  assumes "errors_law E"
  shows "negative (copy_process_attach E args i trace cur current a p s)"
proof -
  have pub: "negative (copy_process_publish E args i trace cur current pidfd a pid q t)" for pidfd pid q t
    by (simp add: copy_process_publish_def Let_def negative_def)
  have fd: "e < 0" if "prepare_pidfd E args t = (Inl (e, l), u)" for e l t u
    using that by (auto simp: prepare_pidfd_def split: if_splits prod.splits)
  have "cgroup_can_fork E \<le> 0" using assms by (simp add: errors_law_def)
  then have "negative (or_goto (set_up (cgroup_can_fork E) Cgroup q t) l (copy_process_publish E args i trace cur current pidfd a pid))" for q t l pidfd pid
    using pub by (intro or_goto_negative) (simp_all add: set_up_def)
  moreover have "e < 0" if "alloc_pid E tids = Inl e" for tids e using assms that by (simp add: errors_law_def)
  ultimately show ?thesis
    unfolding copy_process_attach_def Let_def by (auto simp: negative_def fd split: sum.split prod.split)
qed

lemma copy_process_negative:
  assumes "errors_law E"
  shows "negative (copy_process E i trace args cur s)"
proof -
  have e: "mpol_dup E \<le> 0" "sched_fork E \<le> 0" "perf_event_init_task E \<le> 0" "audit_alloc E \<le> 0" "security_task_alloc E \<le> 0" "copy_semundo E \<le> 0"
    "copy_namespaces E \<le> 0" "copy_io E \<le> 0" "copy_thread E \<le> 0" "\<And>e. dup_fd E = Inl e \<Longrightarrow> e \<le> 0"
    using assms by (force simp: errors_law_def)+
  have parts: "fst (copy_files E f no c p t) \<le> 0" "fst (copy_fs E f c p t) \<le> 0" "fst (copy_sighand E f c p t) \<le> 0" "fst (copy_signal E f c p t) \<le> 0"
    "fst (copy_mm E f c p t) \<le> 0" "retval \<le> 0 \<Longrightarrow> fst (set_up retval h p t) \<le> 0" for f no c p t retval h
    using e(10) by (simp_all add: copy_files_def copy_fs_def copy_sighand_def copy_signal_def copy_mm_def set_up_def Let_def split: sum.split prod.split)
  have ctx: "negative (copy_process_context E args i trace cur current a p t)" for current a p t
    unfolding copy_process_context_def Let_def using e parts by (intro or_goto_negative attach_negative [OF assms]) simp_all
  have sigs: "negative (copy_process_signals E args i trace cur current a p t)" for current a p t
    unfolding copy_process_signals_def Let_def using parts by (intro or_goto_negative ctx) simp_all
  have all: "negative (copy_process_parts E args i trace cur current a p t)" for current a p t
    unfolding copy_process_parts_def Let_def using e parts by (intro or_goto_negative sigs) simp_all
  have neg: "negative (Inl e, t)" if "e < 0" for e t using that by (simp add: negative_def)
  have chain: "negative (or_goto (set_up (mpol_dup E) Mempolicy p t) l1 (\<lambda>p s. or_goto (sched_fork E, p, s) l2 (\<lambda>p s.
      or_goto (set_up (perf_event_init_task E) Perf p s) l3 (\<lambda>p s. or_goto (set_up (audit_alloc E) Audit p s) l4 (copy_process_parts E args i trace cur current a)))))"
    for current a p t l1 l2 l3 l4 using e parts by (intro or_goto_negative all) simp_all
  have acc: "negative (copy_process_account E args i trace cur current a p t)" for current a p t
    unfolding copy_process_account_def Let_def using chain neg by (simp split: if_split)
  have "copy_process_checks E f u \<noteq> 0 \<Longrightarrow> copy_process_checks E f u < 0" for f u by (simp add: copy_process_checks_def split: if_splits)
  then show ?thesis unfolding copy_process_def Let_def using acc neg by (simp split: if_split)
qed

lemma kernel_clone_positive:
  assumes "errors_law E" "kernel_clone E args cur s = (nr, s')" "0 < nr"
  obtains b s1 where "copy_process E False (trace_event E args) args cur s = (Inr b, s1)"
    "\<not> (has_flag (ka_flags args) CLONE_PIDFD \<and> has_flag (ka_flags args) CLONE_PARENT_SETTID \<and> ka_pidfd args = ka_parent_tid args)"
proof (cases "copy_process E False (trace_event E args) args cur s")
  case (Pair r s1)
  have args: "\<not> (has_flag (ka_flags args) CLONE_PIDFD \<and> has_flag (ka_flags args) CLONE_PARENT_SETTID \<and> ka_pidfd args = ka_parent_tid args)"
    using assms(2,3) by (auto simp: kernel_clone_def)
  have "e < 0" if "r = Inl e" for e using copy_process_negative [OF assms(1), of False "trace_event E args" args cur s] Pair that by (simp add: negative_def)
  then have "\<exists>b. r = Inr b" using assms(2,3) args Pair by (cases r) (auto simp: kernel_clone_def Let_def)
  then show thesis using that Pair args by blast
qed

section \<open>Progress\<close>

text \<open>No subsystem refuses its part of a creation.\<close>

definition all_granted :: "fork_env \<Rightarrow> bool" where
  "all_granted E \<longleftrightarrow> \<not> task_sigpending E \<and> new_task E \<noteq> 0 \<and> copy_creds E \<ge> 0 \<and>
     (over_nproc E \<longrightarrow> is_init_user E \<or> capable_resource E \<or> capable_admin E) \<and> set_kthread_struct E \<and> mpol_dup E = 0 \<and>
     sched_fork E = 0 \<and> perf_event_init_task E = 0 \<and> audit_alloc E = 0 \<and> security_task_alloc E = 0 \<and> copy_semundo E = 0 \<and>
     \<not> isl (dup_fd E) \<and> \<not> fs_in_exec E \<and> copy_fs_struct E \<noteq> 0 \<and> new_sighand E \<noteq> 0 \<and> new_signal E \<noteq> 0 \<and> new_mm E \<noteq> 0 \<and>
     mm_init E \<and> dup_mmap E = 0 \<and> try_module_get E \<and> copy_namespaces E = 0 \<and> copy_io E = 0 \<and> copy_thread E = 0 \<and>
     (\<forall>tids. \<not> isl (alloc_pid E tids)) \<and> get_unused_fd E \<ge> 0 \<and> anon_inode_getfile E \<ge> 0 \<and> (\<forall>a. user_writable E a) \<and>
     cgroup_can_fork E = 0 \<and> pidns_adding E \<and> \<not> fatal_signal_pending E"

lemma or_goto_0 [simp]: "or_goto (0, p, s) l k = k p s"
  by (simp add: or_goto_def)

lemma attach_progress:
  assumes "all_granted E"
  shows "fst (copy_process_attach E args False trace cur current a p s) = Inr a"
proof -
  obtain pid where pid: "alloc_pid E (ka_set_tid args) = Inr pid" using assms by (metis all_granted_def sum.collapse(2))
  have raw: "pidfd_prepare_raw E (2 OR 0x80000) t = (get_unused_fd E, acquire Pidfd_file (acquire Unused_fd t))" for t
    using assms by (simp add: all_granted_def pidfd_prepare_raw_def Let_def has_flag_def)
  have "\<exists>fd s1. prepare_pidfd E args (s\<lparr>pids := insert pid (pids s)\<rparr>) = (Inr fd, s1)"
    unfolding prepare_pidfd_def raw using assms by (simp add: all_granted_def)
  then obtain fd s1 where "prepare_pidfd E args (s\<lparr>pids := insert pid (pids s)\<rparr>) = (Inr fd, s1)" by blast
  then show ?thesis
    using assms by (simp add: all_granted_def copy_process_attach_def Let_def pid set_up_def copy_process_publish_def)
qed

lemma context_progress:
  assumes "all_granted E"
  shows "fst (copy_process_context E args False trace cur current a p s) = Inr a"
  using assms attach_progress [OF assms] by (simp add: copy_process_context_def Let_def set_up_def all_granted_def)

lemma signals_progress:
  assumes "all_granted E"
  shows "fst (copy_process_signals E args False trace cur current a p s) = Inr a"
proof -
  have hand: "fst (copy_sighand E f current p s) = 0" for f p s
    using assms by (simp add: all_granted_def copy_sighand_def Let_def)
  have sig: "fst (copy_signal E f current p s) = 0" for f p s
    using assms by (simp add: all_granted_def copy_signal_def Let_def)
  have mm: "fst (copy_mm E f current p s) = 0" for f p s
    using assms by (simp add: all_granted_def copy_mm_def dup_mm_def Let_def)
  show ?thesis
    using context_progress [OF assms] hand sig mm unfolding copy_process_signals_def Let_def or_goto_def
    by (simp add: split_def)
qed

lemma parts_progress:
  assumes "all_granted E"
  shows "fst (copy_process_parts E args False trace cur current a p s) = Inr a"
proof -
  have files: "fst (copy_files E f no current p s) = 0" for f no p s
    using assms by (cases "dup_fd E") (simp_all add: all_granted_def copy_files_def Let_def)
  have fs: "fst (copy_fs E f current p s) = 0" for f p s
    using assms by (simp add: all_granted_def copy_fs_def Let_def)
  have alloc: "fst (set_up (security_task_alloc E) h p s) = 0" "fst (set_up (copy_semundo E) h p s) = 0" for h p s
    using assms by (simp_all add: all_granted_def set_up_def)
  show ?thesis
    using signals_progress [OF assms] files fs alloc unfolding copy_process_parts_def Let_def or_goto_def
    by (simp add: split_def)
qed

lemma copy_process_progress:
  assumes "all_granted E" "nr_threads s < max_threads s"
    and "copy_process_checks E (ka_flags args) (sg_unkillable (the (signals s (t_signal (the (tasks s cur)))))) = 0"
  shows "fst (copy_process E False trace args cur s) = Inr (new_task E)"
proof -
  have "fst (copy_process_account E args False trace cur current a p t) = Inr a" if "nr_threads t < max_threads t" for current a p t
    using assms(1) that parts_progress [OF assms(1)]
    by (simp add: copy_process_account_def Let_def all_granted_def set_up_def acquire_def clear_nproc_def)
  then show ?thesis using assms by (simp add: copy_process_def Let_def all_granted_def acquire_def)
qed

lemma kernel_clone_progress:
  assumes "refs_law E" "fresh_law E s" "fork_inv x s" "tasks s cur = Some current" "all_granted E" "nr_threads s < max_threads s"
    and "copy_process_checks E (ka_flags args) (sg_unkillable (the (signals s (t_signal current)))) = 0"
    and "\<not> (has_flag (ka_flags args) CLONE_PIDFD \<and> has_flag (ka_flags args) CLONE_PARENT_SETTID \<and> ka_pidfd args = ka_parent_tid args)"
  shows "0 < fst (kernel_clone E args cur s)"
proof -
  obtain s1 where c: "copy_process E False (trace_event E args) args cur s = (Inr (new_task E), s1)"
    using copy_process_progress [of E s args cur "trace_event E args"] assms(4-7) by (metis option.sel prod.collapse)
  from kernel_clone_outcome [OF assms(1-4) prod.collapse [symmetric] c assms(8)] show ?thesis by auto
qed

section \<open>Sequences of calls\<close>

datatype fork_call = Fork_call | Vfork_call | Clone_call u64 u64 u64 u64 u64 | Clone3_call u64 u64 | Kernel_thread_call string u64
  | User_mode_thread_call u64 | Io_thread_call | Set_tid_address_call u64 | Unshare_call u64 | Unshare_files_call

fun exec_fork :: "fork_env \<Rightarrow> fork_call \<Rightarrow> addr \<Rightarrow> fork_state \<Rightarrow> fork_state" where
  "exec_fork E Fork_call cur s = snd (sys_fork E cur s)"
| "exec_fork E Vfork_call cur s = snd (sys_vfork E cur s)"
| "exec_fork E (Clone_call flags newsp ptid ctid tls) cur s = snd (sys_clone E flags newsp ptid ctid tls cur s)"
| "exec_fork E (Clone3_call uargs usize) cur s = snd (sys_clone3 E uargs usize cur s)"
| "exec_fork E (Kernel_thread_call name flags) cur s = snd (kernel_thread E name flags cur s)"
| "exec_fork E (User_mode_thread_call flags) cur s = snd (user_mode_thread E flags cur s)"
| "exec_fork E Io_thread_call cur s = snd (create_io_thread E cur s)"
| "exec_fork E (Set_tid_address_call tidptr) cur s = snd (sys_set_tid_address tidptr cur s)"
| "exec_fork E (Unshare_call flags) cur s = snd (ksys_unshare E flags cur s)"
| "exec_fork E Unshare_files_call cur s = snd (unshare_files E cur s)"

text \<open>
  A step is one call by any task, with any answers from the other subsystems that respect the laws
  of references and allocators.
\<close>

inductive fork_step :: "fork_state \<Rightarrow> fork_state \<Rightarrow> bool" where
  fork_step: "refs_law E \<Longrightarrow> fresh_law E s \<Longrightarrow> tasks s cur = Some current \<Longrightarrow> fork_step s (exec_fork E c cur s)"

inductive fork_run :: "fork_state \<Rightarrow> fork_state \<Rightarrow> bool" where
  run_refl: "fork_run s s"
| run_step: "fork_run s t \<Longrightarrow> fork_step t u \<Longrightarrow> fork_run s u"

inductive_cases fork_stepE: "fork_step s s'"

lemma fork_step_inv:
  assumes "fork_inv x s" "fork_step s s'"
  shows "fork_inv x s'"
  using assms(2)
proof (rule fork_stepE)
  fix E cur current c
  assume s': "s' = exec_fork E c cur s" and law: "refs_law E" "fresh_law E s" "tasks s cur = Some current"
  note clone = kernel_clone_inv [OF assms(1) law]
  show ?thesis
  proof (cases c)
    case (Clone_call flags newsp ptid ctid tls)
    let ?s = "s\<lparr>fork_call_counter := fork_call_counter s + 1\<rparr>"
    have "fork_inv x ?s" using assms(1) by (rule fork_inv_view [OF counter_view [OF same_view_refl]])
    then show ?thesis using kernel_clone_inv [of x ?s E cur current] law by (simp add: s' Clone_call sys_clone_def fresh_law_def)
  next
    case (Clone3_call uargs usize)
    then show ?thesis using clone assms(1) by (simp add: s' sys_clone3_def split: sum.split option.split)
  next
    case (Set_tid_address_call tidptr)
    then show ?thesis using fork_inv_view [OF task_upd_view assms(1)] by (simp add: s' sys_set_tid_address_def group_view_def)
  qed (use clone copy_process_any_inv [OF assms(1) law] ksys_unshare_inv [OF assms(1) law] unshare_files_inv [OF assms(1) law]
      in \<open>simp_all add: s' sys_fork_def sys_vfork_def kernel_thread_def user_mode_thread_def create_io_thread_def\<close>)
qed

section \<open>An example\<close>

text \<open>One task with its own structures, and subsystems that grant everything.\<close>

definition demo_task :: ftask where
  "demo_task = \<lparr>t_pid = 1, t_tgid = 1, t_leader = 1, t_real_parent = 1, t_exit_signal = 17, t_parent_exec_id = 0, t_self_exec_id = 0,
     t_mm = 10, t_fs = 20, t_files = 30, t_sighand = 40, t_signal = 50, t_flags = {}, t_blocked = {}, t_comm = ''init'',
     t_set_child_tid = 0, t_clear_child_tid = 0, t_altstack = False, t_times = [], t_faults = [], t_pdeath_signal = 0,
     t_vfork_done = False, t_seccomp = 0, t_seccomp_work = False, t_no_new_privs = False\<rparr>"

definition demo_signal :: signal_struct where
  "demo_signal = \<lparr>sg_nr_threads = 1, sg_quick_threads = 1, sg_live = 1, sg_sigcnt = 1, sg_rlim = (\<lambda>_. \<lparr>rlim_cur = 5, rlim_max = 9\<rparr>),
     sg_oom_score_adj = 0, sg_oom_score_adj_min = 0, sg_oom_mm = 0, sg_unkillable = False, sg_has_child_subreaper = False,
     sg_is_child_subreaper = False, sg_shared_pending = {}, sg_tty = 0, sg_tgid = 1, sg_pgrp = 1, sg_session = 1\<rparr>"

definition demo_fork_state :: fork_state where
  "demo_fork_state = \<lparr>tasks = [1 \<mapsto> demo_task], mm_users = [10 \<mapsto> 1], fs_users = [20 \<mapsto> 1], files_count = [30 \<mapsto> 1],
     sighands = [40 \<mapsto> \<lparr>sh_count = 1, sh_action = (\<lambda>_. SIG_DFL)\<rparr>], signals = [50 \<mapsto> demo_signal], children = (\<lambda>_. []), pids = {1},
     ledger = (\<lambda>_. 0), multiprocess = 0, nr_threads = 1, max_threads = 4, process_counts = 1, total_forks = 0, user_tids = Map.empty,
     fork_log = [], fork_call_counter = 0\<rparr>"

definition demo_fork_env :: fork_env where
  "demo_fork_env = \<lparr>task_sigpending = False, other_pid_ns = False, new_task = 2, copy_creds = 0, over_nproc = False, is_init_user = False,
     capable_resource = False, capable_admin = False, set_kthread_struct = True, mpol_dup = 0, sched_fork = 0, perf_event_init_task = 0,
     audit_alloc = 0, security_task_alloc = 0, copy_semundo = 0, dup_fd = Inr 31, fs_in_exec = False, copy_fs_struct = 21, new_sighand = 41,
     flush_signal_handlers = (\<lambda>h. h), new_signal = 51, new_mm = 11, mm_init = True, dup_mmap = 0, try_module_get = True,
     copy_namespaces = 0, copy_io = 0, io_context_made = True, copy_thread = 0, alloc_pid = (\<lambda>_. Inr 2), get_unused_fd = 3,
     anon_inode_getfile = 0, user_writable = (\<lambda>_. True), cgroup_can_fork = 0, pidns_adding = True, fatal_signal_pending = False,
     is_child_reaper = False, delayed_signals = {}, ptrace_event_enabled = (\<lambda>_. False), vfork_killed = False,
     put_files_struct = (\<lambda>a m. put_ref m a), put_fs = (\<lambda>a m. put_ref m a), copy_clone_struct = (\<lambda>_ _. Inl (- EFAULT)),
     copy_set_tid = (\<lambda>_ _. None), valid_exit_signal = (\<lambda>_. True), access_ok = (\<lambda>_ _. True), thread_group_empty = True,
     single_threaded = True, unshare_userns = (0, True), unshare_nsproxy = (0, True), set_cred_ucounts = 0,
     free_fs_struct = (\<lambda>a m. m(a := None))\<rparr>"

lemma exact_one: "part p \<noteq> 0 \<Longrightarrow> exact (\<lambda>_. 0) [t \<mapsto> p] part [part p \<mapsto> 1]"
proof -
  have "users part [t \<mapsto> p] a = (if a = part p then {t} else {})" for a by (auto simp: users_def)
  then show ?thesis by (simp add: exact_def)
qed

lemma demo_inv: "fork_inv (\<lambda>_ _. 0) demo_fork_state"
proof -
  let ?s = demo_fork_state
  have "sh_counts ?s = [40 \<mapsto> 1]" "sg_counts ?s = [50 \<mapsto> 1]"
    by (auto simp: sh_counts_def sg_counts_def demo_fork_state_def demo_signal_def)
  then have "exact (\<lambda>_. 0) (tasks ?s) (part_of k) (count_of k ?s)" for k
    using exact_one [of "part_of k" demo_task 1] by (cases k) (simp_all add: demo_fork_state_def demo_task_def)
  moreover have "groups_ok (tasks ?s)" by (simp add: groups_ok_def demo_fork_state_def demo_task_def split: if_splits)
  ultimately show ?thesis by (simp add: fork_inv_def refs_exact_def demo_fork_state_def)
qed

lemma demo_laws:
  "refs_law demo_fork_env" "fresh_law demo_fork_env demo_fork_state" "tasks demo_fork_state 1 = Some demo_task"
  by (simp_all add: refs_law_def fresh_law_def demo_fork_env_def demo_fork_state_def)

lemma demo_granted: "all_granted demo_fork_env"
  by (simp add: all_granted_def demo_fork_env_def)

lemmas clone_defs = kernel_clone_def copy_process_def copy_process_checks_def copy_process_account_def copy_process_parts_def
  copy_process_signals_def copy_process_context_def copy_process_attach_def copy_files_def copy_fs_def copy_sighand_def copy_signal_def
  copy_mm_def dup_mm_def prepare_pidfd_def pidfd_prepare_raw_def set_up_def or_goto_def has_flag_def Let_def acquire_def release_def clear_nproc_def

lemmas demo_defs = demo_fork_env_def demo_fork_state_def demo_task_def demo_signal_def no_args_def

definition demo_refused :: fork_env where
  "demo_refused = demo_fork_env\<lparr>cgroup_can_fork := - EAGAIN\<rparr>"

definition demo_pidfd_args :: kernel_clone_args where
  "demo_pidfd_args = no_args\<lparr>ka_flags := CLONE_PIDFD, ka_pidfd := 0x700, ka_exit_signal := SIGCHLD\<rparr>"

lemma demo_parts: "parts_held demo_fork_state demo_task"
  using fork_inv_held(1) [OF demo_inv demo_laws(3)] .

definition demo_ucounts :: fork_env where
  "demo_ucounts = demo_fork_env\<lparr>set_cred_ucounts := - EAGAIN\<rparr>"

definition demo_thread_args :: kernel_clone_args where
  "demo_thread_args = no_args\<lparr>ka_flags := CLONE_VM OR CLONE_FS OR CLONE_FILES OR CLONE_SIGHAND OR CLONE_THREAD\<rparr>"

definition demo_tid :: fork_state where
  "demo_tid = exec_fork demo_fork_env (Set_tid_address_call 0x500) 1 demo_fork_state"

lemma demo_thread_pos: "0 < fst (kernel_clone demo_fork_env demo_thread_args 1 demo_fork_state)"
proof -
  have "copy_process_checks demo_fork_env (ka_flags demo_thread_args) (sg_unkillable (the (signals demo_fork_state (t_signal demo_task)))) = 0"
    "nr_threads demo_fork_state < max_threads demo_fork_state" "\<not> has_flag (ka_flags demo_thread_args) CLONE_PIDFD"
    by (simp_all add: copy_process_checks_def demo_thread_args_def demo_defs has_flag_def)
  then show ?thesis using kernel_clone_progress [OF demo_laws(1,2) demo_inv demo_laws(3) demo_granted] by blast
qed

section \<open>Properties\<close>




text \<open>
  C16: an \<open>unshare\<close> that fails leaves the task and every structure as they were, except when the
  last step, \<open>set_cred_ucounts\<close>, fails after new namespaces were created: these are never released.
\<close>

theorem unshare_error:
  assumes "refs_law E" "fresh_law E s" "fork_inv x s" "tasks s cur = Some p" "ksys_unshare E flags cur s = (err, s')" "err \<noteq> 0"
  shows "s' = s \<or> unshare_userns E = (0, True) \<and> unshare_nsproxy E = (0, True) \<and> err = set_cred_ucounts E \<and> s' = acquire New_nsproxy s"
proof -
  have "counted (fs_users s) (t_fs p)" "t_fs p \<noteq> 0" using fork_inv_held(1) [OF assms(3,4)] by (simp_all add: parts_held_def)
  from unshare_result [OF assms(1,2,4) this assms(5)] show ?thesis using assms(6) by blast
qed

theorem unshare_error_witness:
  "fst (ksys_unshare demo_ucounts (CLONE_NEWUSER OR CLONE_NEWUTS) 1 demo_fork_state) = - EAGAIN \<and>
   ledger (snd (ksys_unshare demo_ucounts (CLONE_NEWUSER OR CLONE_NEWUTS) 1 demo_fork_state)) New_nsproxy = 1 \<and>
   snd (ksys_unshare demo_ucounts (CLONE_NEWUSER OR CLONE_NEWUTS) 1 demo_fork_state) = acquire New_nsproxy demo_fork_state"
proof -
  let ?r = "ksys_unshare demo_ucounts (CLONE_NEWUSER OR CLONE_NEWUTS) 1 demo_fork_state"
  have r: "fst ?r = - EAGAIN" and u: "ledger (snd ?r) New_nsproxy = 1"
    by (simp_all add: ksys_unshare_def unshare_implied_def check_unshare_flags_def unshare_fs_def unshare_fd_def free_new_fs_def put_new_fd_def
      demo_ucounts_def demo_defs has_flag_def Let_def acquire_def release_def)
  have law: "refs_law demo_ucounts" "fresh_law demo_ucounts demo_fork_state"
    using demo_laws by (simp_all add: demo_ucounts_def refs_law_def fresh_law_def)
  have "ledger demo_fork_state New_nsproxy = 0" by (simp add: demo_fork_state_def)
  then have "snd ?r \<noteq> demo_fork_state" using u by auto
  then show ?thesis
    using r u unshare_error [OF law demo_inv demo_laws(3) prod.collapse [symmetric], of "CLONE_NEWUSER OR CLONE_NEWUTS"] by simp
qed










end
