(* ===== verification/Syscall_Counters.thy ===== *)
theory Syscall_Counters
  imports File_Transfer File_Open Fork_Runs
begin

text \<open>
  The counters of system calls that the project adds to \<open>read\<close>, \<open>write\<close>, \<open>open\<close> and \<open>clone\<close>, and the
  call \<open>luis_track_syscall_usage\<close> that reports them. The state puts together the parts of the kernel
  the counted calls work on: reading and writing go through the descriptors that opening installs.
\<close>

section \<open>State and calls\<close>

record 'd kernel_state =
  vfs_part :: "'d vfs"
  fd_part :: "'d fd_state"
  fork_part :: fork_state
  read_call_counter :: u64
  write_call_counter :: u64

text \<open>The files as the descriptors of the process name them.\<close>

definition vfs_of :: "'d kernel_state \<Rightarrow> 'd vfs" where
  "vfs_of w = (vfs_part w)\<lparr>fd_table := fd_files (fd_part w), world := fs_world (fd_part w)\<rparr>"

definition set_vfs :: "'d vfs \<Rightarrow> 'd kernel_state \<Rightarrow> 'd kernel_state" where
  "set_vfs v w = w\<lparr>vfs_part := v, fd_part := (fd_part w)\<lparr>fs_world := world v\<rparr>\<rparr>"

definition sys_read :: "'d vfs_env \<Rightarrow> u32 \<Rightarrow> u64 \<Rightarrow> u64 \<Rightarrow> 'd kernel_state \<Rightarrow> int \<times> 'd kernel_state" where
  "sys_read E fd buf count w =
     (let w = w\<lparr>read_call_counter := read_call_counter w + 1\<rparr> in
      case ksys_read E fd buf count (vfs_of w) of (ret, v) \<Rightarrow> (ret, set_vfs v w))"

definition sys_write :: "'d vfs_env \<Rightarrow> u32 \<Rightarrow> u64 \<Rightarrow> u64 \<Rightarrow> 'd kernel_state \<Rightarrow> int \<times> 'd kernel_state" where
  "sys_write E fd buf count w =
     (let w = w\<lparr>write_call_counter := write_call_counter w + 1\<rparr> in
      case ksys_write E fd buf count (vfs_of w) of (ret, v) \<Rightarrow> (ret, set_vfs v w))"

record track_counters =
  counter_open :: u64
  counter_read :: u64
  counter_write :: u64
  counter_fork :: u64

definition luis_track_syscall_usage :: "user_out \<Rightarrow> 'd kernel_state \<Rightarrow> int \<times> track_counters option" where
  "luis_track_syscall_usage trackers w =
     (let local_trackers = \<lparr>counter_open = open_call_counter (fd_part w), counter_read = read_call_counter w,
            counter_write = write_call_counter w, counter_fork = fork_call_counter (fork_part w)\<rparr>
      in case copy_to_user trackers local_trackers of None \<Rightarrow> (- EFAULT, None) | Some t \<Rightarrow> (0, Some t))"

text \<open>The calls of a process, with what the rest of the kernel answers to each.\<close>

datatype ('n, 'd) counted_call =
    Read_call "'d vfs_env" u32 u64 u64
  | Write_call "'d vfs_env" u32 u64 u64
  | Pread_call "'d vfs_env" u32 u64 u64 loff_t
  | Pwrite_call "'d vfs_env" u32 u64 u64 loff_t
  | Fd_call "('n, 'd) open_env" fd_call
  | Task_call fork_env fork_call addr

fun exec_counted :: "('n, 'd) counted_call \<Rightarrow> 'd kernel_state \<Rightarrow> 'd kernel_state" where
  "exec_counted (Read_call E fd buf count) w = snd (sys_read E fd buf count w)"
| "exec_counted (Write_call E fd buf count) w = snd (sys_write E fd buf count w)"
| "exec_counted (Pread_call E fd buf count pos) w = set_vfs (snd (ksys_pread64 E fd buf count pos (vfs_of w))) w"
| "exec_counted (Pwrite_call E fd buf count pos) w = set_vfs (snd (ksys_pwrite64 E fd buf count pos (vfs_of w))) w"
| "exec_counted (Fd_call E c) w = w\<lparr>fd_part := snd (exec_fd (E, c) (fd_part w))\<rparr>"
| "exec_counted (Task_call E c cur) w = w\<lparr>fork_part := exec_fork E c cur (fork_part w)\<rparr>"

section \<open>Who moves the counters\<close>

definition counts_open :: "fd_call \<Rightarrow> bool" where
  "counts_open c \<longleftrightarrow> (case c of Open _ _ _ \<Rightarrow> True | Openat _ _ _ _ \<Rightarrow> True | Creat _ _ \<Rightarrow> True | _ \<Rightarrow> False)"

lemma do_sys_openat2_counter [simp]:
  "open_call_counter (snd (do_sys_openat2 E dfd filename how s)) = open_call_counter s"
  by (simp add: do_sys_openat2_def Let_def split: sum.split prod.split)

lemma exec_fd_counter:
  "open_call_counter (snd (exec_fd (E, c) s)) = open_call_counter s + (if counts_open c then 1 else 0)"
  by (cases c) (simp_all add: counts_open_def sys_open_def sys_openat_def sys_openat2_def sys_creat_def do_sys_open_def sys_close_def Let_def
      split: sum.split option.split prod.split)

text \<open>Creating a task leaves the counter alone, \<open>clone\<close> moves it before.\<close>

lemma counter_basic [simp]:
  "fork_call_counter (acquire h s) = fork_call_counter s" "fork_call_counter (release h s) = fork_call_counter s"
  "fork_call_counter (logged e s) = fork_call_counter s" "fork_call_counter (mmput mm s) = fork_call_counter s"
  "fork_call_counter (cleanup_sighand a s) = fork_call_counter s" "fork_call_counter (clear_nproc cur s) = fork_call_counter s"
  "fork_call_counter (free_new_fs E n s) = fork_call_counter s" "fork_call_counter (put_new_fd E m s) = fork_call_counter s"
  "fork_call_counter (set_vfork_done a v s) = fork_call_counter s"
  by (simp_all add: acquire_def release_def logged_def mmput_def cleanup_sighand_def clear_nproc_def free_new_fs_def put_new_fd_def set_vfork_done_def)

lemma free_signal_counter [simp]: "fork_call_counter (free_signal_struct a s) = fork_call_counter s"
  by (simp add: free_signal_struct_def Let_def split: option.split)

lemma clean_up_counter: "fork_call_counter (clean_up E f i pid p l s) = fork_call_counter s"
  by (cases l) simp_all

lemma unwind_counter [simp]: "fork_call_counter (unwind E f i pid l p s) = fork_call_counter s"
proof -
  have "fork_call_counter (fold (clean_up E f i pid p) ls t) = fork_call_counter t" for ls t
    by (induction ls arbitrary: t) (simp_all add: clean_up_counter)
  then show ?thesis by (simp add: unwind_def)
qed

definition counter_is :: "u64 \<Rightarrow> (int + addr) \<times> fork_state \<Rightarrow> bool" where
  "counter_is n r \<longleftrightarrow> fork_call_counter (snd r) = n"

lemma or_goto_counter:
  "fork_call_counter (snd (snd r)) = n \<Longrightarrow> (\<And>p s. fork_call_counter (l p s) = fork_call_counter s) \<Longrightarrow>
     (\<And>p s. fork_call_counter s = n \<Longrightarrow> counter_is n (k p s)) \<Longrightarrow> counter_is n (or_goto r l k)"
  by (cases r) (simp add: or_goto_def counter_is_def)

lemma publish_counter:
  "counter_is (fork_call_counter s) (copy_process_publish E args i trace cur current pidfd a pid p s)"
  by (simp add: counter_is_def copy_process_publish_def link_task_def copy_oom_score_adj_def logged_def Let_def)

lemma attach_counter:
  "counter_is (fork_call_counter s) (copy_process_attach E args i trace cur current a p s)"
proof -
  have fd: "fork_call_counter (snd (prepare_pidfd E args t)) = fork_call_counter t" for t
    by (simp add: prepare_pidfd_def pidfd_prepare_raw_def Let_def)
  have "counter_is (fork_call_counter t) (or_goto (set_up r h q t) (unwind E f i pid l) (copy_process_publish E args i trace cur current fd a pid))" for r h q t f pid l fd
    by (rule or_goto_counter) (simp_all add: set_up_def publish_counter [unfolded counter_is_def] counter_is_def)
  then have cgroup: "fork_call_counter (snd (or_goto (set_up r h q t) (unwind E f i pid l) (copy_process_publish E args i trace cur current fd a pid))) =
      fork_call_counter t" for r h q t f pid l fd by (simp add: counter_is_def)
  show ?thesis
  proof (cases "if \<not> i then alloc_pid E (ka_set_tid args) else Inr 0")
    case (Inl e)
    then show ?thesis by (simp add: copy_process_attach_def counter_is_def)
  next
    case (Inr pid)
    define t where "t = (if \<not> i then s\<lparr>pids := insert pid (pids s)\<rparr> else s)"
    obtain r u where r: "prepare_pidfd E args t = (r, u)" by fastforce
    then have u: "fork_call_counter u = fork_call_counter s" using fd [of t] by (simp add: t_def split: if_splits)
    show ?thesis
      unfolding copy_process_attach_def Let_def Inr sum.case t_def [symmetric] r prod.case counter_is_def
      by (cases r) (auto simp: u cgroup)
  qed
qed

lemma copy_process_counter: "counter_is (fork_call_counter s) (copy_process E i trace args cur s)"
proof -
  have parts: "fork_call_counter (snd (snd (copy_files E f no c p t))) = fork_call_counter t" "fork_call_counter (snd (snd (copy_fs E f c p t))) = fork_call_counter t"
    "fork_call_counter (snd (snd (copy_sighand E f c p t))) = fork_call_counter t" "fork_call_counter (snd (snd (copy_signal E f c p t))) = fork_call_counter t"
    "fork_call_counter (snd (snd (copy_mm E f c p t))) = fork_call_counter t" "fork_call_counter (snd (snd (set_up r h p t))) = fork_call_counter t"
    for f no c p t r h
    by (simp_all add: copy_files_def copy_fs_def copy_sighand_def copy_signal_def copy_mm_def dup_mm_def set_up_def Let_def split: sum.split)
  have att: "counter_is n (copy_process_attach E args i trace cur current a p t)" if "fork_call_counter t = n" for n current a p t
    using attach_counter [of t] that by simp
  have ctx: "counter_is n (copy_process_context E args i trace cur current a p t)" if "fork_call_counter t = n" for n current a p t
    unfolding copy_process_context_def Let_def using that parts att by (intro or_goto_counter) simp_all
  have sigs: "counter_is n (copy_process_signals E args i trace cur current a p t)" if "fork_call_counter t = n" for n current a p t
    unfolding copy_process_signals_def Let_def using that parts ctx by (intro or_goto_counter) simp_all
  have all: "counter_is n (copy_process_parts E args i trace cur current a p t)" if "fork_call_counter t = n" for n current a p t
    unfolding copy_process_parts_def Let_def using that parts sigs by (intro or_goto_counter) simp_all
  have chain: "counter_is n (or_goto (set_up (mpol_dup E) Mempolicy p t) (unwind E f i 0 l1) (\<lambda>p s. or_goto (sched_fork E, p, s) (unwind E f i 0 l2) (\<lambda>p s.
      or_goto (set_up (perf_event_init_task E) Perf p s) (unwind E f i 0 l3) (\<lambda>p s. or_goto (set_up (audit_alloc E) Audit p s) (unwind E f i 0 l4)
      (copy_process_parts E args i trace cur current a)))))" if "fork_call_counter t = n" for n current a p t f l1 l2 l3 l4
    using that parts all by (intro or_goto_counter) simp_all
  have ends: "counter_is n (r, t)" if "fork_call_counter t = n" for n r t using that by (simp add: counter_is_def)
  have acc: "counter_is n (copy_process_account E args i trace cur current a p t)" if "fork_call_counter t = n" for n current a p t
    unfolding copy_process_account_def Let_def using that chain ends by (simp split: if_split)
  show ?thesis unfolding copy_process_def Let_def using acc ends by (simp split: if_split)
qed

lemma kernel_clone_counter: "fork_call_counter (snd (kernel_clone E args cur s)) = fork_call_counter s"
proof -
  have compl: "fork_call_counter (complete_vfork_done a t) = fork_call_counter t" for a t
    by (simp add: complete_vfork_done_def split: option.split)
  have wait: "fork_call_counter (case wait_for_vfork_done E a t of (killed, u) \<Rightarrow> if \<not> killed then logged e u else u) = fork_call_counter t" for a t e
    by (simp add: wait_for_vfork_done_def compl)
  obtain r t where r: "copy_process E False (trace_event E args) args cur s = (r, t)" by fastforce
  then have "fork_call_counter t = fork_call_counter s"
    using copy_process_counter [of s E False "trace_event E args" args cur] by (simp add: counter_is_def)
  then show ?thesis using r wait unfolding kernel_clone_def Let_def by (cases r) (auto split: if_split)
qed

lemma unshare_counter:
  "fork_call_counter (snd (ksys_unshare E flags cur s)) = fork_call_counter s"
  "fork_call_counter (snd (unshare_files E cur s)) = fork_call_counter s"
proof -
  have fs: "fork_call_counter (snd (snd (unshare_fs E f c t))) = fork_call_counter t"
    and fd: "fork_call_counter (snd (snd (unshare_fd E f c t))) = fork_call_counter t"
    and sw: "fork_call_counter (snd (switch_fs cur a t)) = fork_call_counter t" "fork_call_counter (snd (switch_files cur a t)) = fork_call_counter t" for f c t a
    by (simp_all add: unshare_fs_def unshare_fd_def switch_fs_def switch_files_def Let_def split: sum.split)
  have commit: "fork_call_counter (snd (snd (unshare_commit E f sem n m cr ns cur t))) = fork_call_counter t" for f sem n m cr ns t
    using sw by (simp add: unshare_commit_def Let_def split_def)
  have finish: "fork_call_counter (unshare_finish E f n m cr ns cur t) = fork_call_counter t" for f n m cr ns t
    using commit by (simp add: unshare_finish_def Let_def split_def)
  obtain e1 n s1 where c1: "unshare_fs E (unshare_implied flags) (the (tasks s cur)) s = (e1, n, s1)" by (metis prod_cases3)
  obtain e2 m s2 where c2: "unshare_fd E (unshare_implied flags) (the (tasks s cur)) s1 = (e2, m, s2)" by (metis prod_cases3)
  obtain e3 cr e4 ns where c3: "unshare_userns E = (e3, cr)" "unshare_nsproxy E = (e4, ns)" by fastforce
  have "fork_call_counter s1 = fork_call_counter s" "fork_call_counter s2 = fork_call_counter s"
    using fs [of "unshare_implied flags" "the (tasks s cur)" s] fd [of "unshare_implied flags" "the (tasks s cur)" s1] c1 c2 by simp_all
  then show "fork_call_counter (snd (ksys_unshare E flags cur s)) = fork_call_counter s"
    unfolding unshare_steps [OF c1 c2 c3 refl refl refl] using finish by simp
  show "fork_call_counter (snd (unshare_files E cur s)) = fork_call_counter s"
    using fd [of CLONE_FILES "the (tasks s cur)" s] sw by (simp add: unshare_files_def split_def)
qed

definition counts_fork :: "fork_call \<Rightarrow> bool" where
  "counts_fork c \<longleftrightarrow> (case c of Clone_call _ _ _ _ _ \<Rightarrow> True | _ \<Rightarrow> False)"

lemma exec_fork_counter:
  "fork_call_counter (exec_fork E c cur s) = fork_call_counter s + (if counts_fork c then 1 else 0)"
proof -
  have io: "fork_call_counter (snd (create_io_thread E cur s)) = fork_call_counter s"
    using copy_process_counter by (simp add: create_io_thread_def Let_def counter_is_def)
  show ?thesis
    by (cases c) (simp_all add: counts_fork_def sys_fork_def sys_vfork_def sys_clone_def sys_clone3_def kernel_thread_def user_mode_thread_def
        sys_set_tid_address_def kernel_clone_counter unshare_counter io split: sum.split option.split)
qed

section \<open>What is reported\<close>

fun reads_in :: "('n, 'd) counted_call \<Rightarrow> bool" where
  "reads_in (Read_call _ _ _ _) = True"
| "reads_in _ = False"

fun writes_in :: "('n, 'd) counted_call \<Rightarrow> bool" where
  "writes_in (Write_call _ _ _ _) = True"
| "writes_in _ = False"

fun opens_in :: "('n, 'd) counted_call \<Rightarrow> bool" where
  "opens_in (Fd_call _ c) = counts_open c"
| "opens_in _ = False"

fun forks_in :: "('n, 'd) counted_call \<Rightarrow> bool" where
  "forks_in (Task_call _ c _) = counts_fork c"
| "forks_in _ = False"

lemma set_vfs_counters [simp]:
  "read_call_counter (set_vfs v w) = read_call_counter w" "write_call_counter (set_vfs v w) = write_call_counter w"
  "open_call_counter (fd_part (set_vfs v w)) = open_call_counter (fd_part w)" "fork_part (set_vfs v w) = fork_part w"
  by (simp_all add: set_vfs_def)

lemma exec_counted_counters:
  "read_call_counter (exec_counted c w) = read_call_counter w + (if reads_in c then 1 else 0)"
  "write_call_counter (exec_counted c w) = write_call_counter w + (if writes_in c then 1 else 0)"
  "open_call_counter (fd_part (exec_counted c w)) = open_call_counter (fd_part w) + (if opens_in c then 1 else 0)"
  "fork_call_counter (fork_part (exec_counted c w)) = fork_call_counter (fork_part w) + (if forks_in c then 1 else 0)"
proof -
  show "read_call_counter (exec_counted c w) = read_call_counter w + (if reads_in c then 1 else 0)"
    by (cases c) (simp_all add: sys_read_def sys_write_def split_def Let_def)
  show "write_call_counter (exec_counted c w) = write_call_counter w + (if writes_in c then 1 else 0)"
    by (cases c) (simp_all add: sys_read_def sys_write_def split_def Let_def)
  show "open_call_counter (fd_part (exec_counted c w)) = open_call_counter (fd_part w) + (if opens_in c then 1 else 0)"
    by (cases c) (simp_all add: sys_read_def sys_write_def split_def Let_def exec_fd_counter)
  show "fork_call_counter (fork_part (exec_counted c w)) = fork_call_counter (fork_part w) + (if forks_in c then 1 else 0)"
    by (cases c) (simp_all add: sys_read_def sys_write_def split_def Let_def exec_fork_counter)
qed

definition run_counted :: "('n, 'd) counted_call list \<Rightarrow> 'd kernel_state \<Rightarrow> 'd kernel_state" where
  "run_counted cs w = fold exec_counted cs w"

lemma run_counters:
  "read_call_counter (run_counted cs w) = read_call_counter w + of_nat (length (filter reads_in cs))"
  "write_call_counter (run_counted cs w) = write_call_counter w + of_nat (length (filter writes_in cs))"
  "open_call_counter (fd_part (run_counted cs w)) = open_call_counter (fd_part w) + of_nat (length (filter opens_in cs))"
  "fork_call_counter (fork_part (run_counted cs w)) = fork_call_counter (fork_part w) + of_nat (length (filter forks_in cs))"
  unfolding run_counted_def by (induction cs arbitrary: w) (simp_all add: exec_counted_counters)


definition demo_kernel :: "unit kernel_state" where
  "demo_kernel = \<lparr>vfs_part = demo_vfs 0, fd_part = fd_state0, fork_part = demo_fork_state, read_call_counter = 0, write_call_counter = 0\<rparr>"


end
