(* ===== verification/Boot_Options.thy ===== *)
theory Boot_Options
  imports Kernel_Base "HOL-Library.Sublist"
begin

text \<open>
  The kernel command line, from \<^verbatim>\<open>src/Kernel/Init/main.c\<close>: the options handed to the init program
  (\<open>argv_init\<close>, \<open>envp_init\<close>), the table of setup functions, and the buffers in which the command
  lines are built. A string is the list of its characters before the NUL; a buffer is a list of
  characters with its NULs, and writing outside of it stops the model. The parser of the command
  line (\<open>parse_args\<close>) and the comparison of parameter names are fields of the environment.
\<close>

section \<open>C strings in buffers\<close>

abbreviation NUL :: char where "NUL \<equiv> CHR 0x00"

text \<open>Why the boot stops: \<open>BUG\<close>, an access outside an array, or \<open>panic\<close> with its message.\<close>

datatype halt = Bug | Out_of_bounds | Panic string

definition and_then :: "halt + 'a \<Rightarrow> ('a \<Rightarrow> halt + 'b) \<Rightarrow> halt + 'b" where
  "and_then r f = (case r of Inl h \<Rightarrow> Inl h | Inr a \<Rightarrow> f a)"

lemma and_then_simps [simp]: "and_then (Inr a) f = f a" "and_then (Inl h) f = Inl h"
  by (simp_all add: and_then_def)

definition cstr :: "nat \<Rightarrow> string \<Rightarrow> string" where
  "cstr p buf = takeWhile (\<lambda>c. c \<noteq> NUL) (drop p buf)"

definition strcpy :: "nat \<Rightarrow> string \<Rightarrow> string \<Rightarrow> halt + string" where
  "strcpy p s buf =
     (if p + length s + 1 \<le> length buf then Inr (take p buf @ s @ [NUL] @ drop (p + length s + 1) buf)
      else Inl Out_of_bounds)"

definition memmove :: "nat \<Rightarrow> nat \<Rightarrow> nat \<Rightarrow> string \<Rightarrow> string" where
  "memmove dst src n buf = take dst buf @ take n (drop src buf) @ drop (dst + n) buf"

abbreviation plain :: "string \<Rightarrow> bool" where
  "plain s \<equiv> NUL \<notin> set s"

lemma cstr_plain: "plain s \<Longrightarrow> length p = n \<Longrightarrow> cstr n (p @ s @ NUL # r) = s"
  by (auto simp: cstr_def takeWhile_tail)

lemma cstr_plain_0: "plain s \<Longrightarrow> cstr 0 (s @ NUL # r) = s"
  using cstr_plain [of s "[]" 0] by simp

lemma strcpy_fits: "p + length s + 1 \<le> length buf \<Longrightarrow>
    strcpy p s buf = Inr (take p buf @ s @ NUL # drop (p + length s + 1) buf)"
  by (simp add: strcpy_def)

lemma dropWhile_rest: "dropWhile P xs = y # ys \<Longrightarrow> length ys < length xs"
  using length_dropWhile_le [of P xs] by simp

section \<open>State\<close>

text \<open>
  The variables of the file that options change. \<open>argv_init\<close> and \<open>envp_init\<close> are arrays of
  \<open>MAX_INIT_ARGS + 2\<close> pointers, \<open>None\<close> being NULL; \<open>panic_later\<close> is paired with \<open>panic_param\<close>.
  \<open>setup_log\<close> lists the calls of setup functions that other files registered.
\<close>

record options =
  reset_devices :: u32
  console_loglevel :: int
  argv_init :: "string option list"
  envp_init :: "string option list"
  panic_later :: "(string \<times> string) option"
  execute_command :: "string option"
  ramdisk_execute_command :: "string option"
  blacklisted_initcalls :: "string list"
  randomize_kstack_offset :: bool
  rodata_enabled :: bool
  bootconfig_found :: bool
  early_done :: bool
  setup_log :: "(nat \<times> string option) list"

text \<open>Setup functions: those of this file, and the ones of other files by number.\<close>

datatype setup_fn = Set_reset_devices | Debug_kernel | Quiet_kernel | Loglevel | Warn_bootconfig | Init_setup
  | Rdinit_setup | Early_randomize_kstack_offset | Initcall_blacklist | Set_debug_rodata | Other_setup nat

record obs_kernel_param =
  op_str :: string
  setup_func :: "setup_fn option"
  op_early :: bool

text \<open>
  An option as the parser leaves it in the buffer: its name, a NUL, and when there is a value
  this value and another NUL, with a quotation mark in front when the value was quoted.
\<close>

record boot_arg =
  arg_param :: string
  arg_val :: "(string \<times> bool) option"

datatype parse_end = Args_end | Args_dashes string | Args_error int

record boot_env =
  max_init :: nat
  setup_table :: "obs_kernel_param list"
  parameqn :: "string \<Rightarrow> string \<Rightarrow> nat \<Rightarrow> bool"
  parameq :: "string \<Rightarrow> string \<Rightarrow> bool"
  sysctl_is_alias :: "string \<Rightarrow> bool"
  get_option :: "string option \<Rightarrow> int option"
  kstrtobool :: "string option \<Rightarrow> int + bool"
  arch_parse_debug_rodata :: "string option \<Rightarrow> bool"
  other_setup :: "nat \<Rightarrow> string option \<Rightarrow> int"
  parse_args :: "bool \<Rightarrow> string \<Rightarrow> boot_arg list \<times> parse_end"
  boot_command_line :: string
  command_line_size :: nat
  console_loglevel_quiet :: int
  memblock_ok :: "nat \<Rightarrow> bool"

section \<open>Setup functions\<close>

definition set_reset_devices :: "options \<Rightarrow> int \<times> options" where
  "set_reset_devices s = (1, s\<lparr>reset_devices := 1\<rparr>)"

definition debug_kernel :: "options \<Rightarrow> int \<times> options" where
  "debug_kernel s = (0, s\<lparr>console_loglevel := 10\<rparr>)"

definition quiet_kernel :: "boot_env \<Rightarrow> options \<Rightarrow> int \<times> options" where
  "quiet_kernel E s = (0, s\<lparr>console_loglevel := console_loglevel_quiet E\<rparr>)"

definition loglevel :: "boot_env \<Rightarrow> string option \<Rightarrow> options \<Rightarrow> int \<times> options" where
  "loglevel E str s =
     (case get_option E str of Some newlevel \<Rightarrow> (0, s\<lparr>console_loglevel := newlevel\<rparr>) | None \<Rightarrow> (- EINVAL, s))"

definition warn_bootconfig :: "options \<Rightarrow> int \<times> options" where
  "warn_bootconfig s = (0, s)"

text \<open>The loop that sets the entries from \<open>1\<close> up to \<open>MAX_INIT_ARGS - 1\<close> of \<open>argv_init\<close> to NULL.\<close>

definition clear_args :: "nat \<Rightarrow> string option list \<Rightarrow> string option list" where
  "clear_args m argv = take 1 argv @ replicate (m - 1) None @ drop (1 + (m - 1)) argv"

definition init_setup :: "boot_env \<Rightarrow> string option \<Rightarrow> options \<Rightarrow> int \<times> options" where
  "init_setup E str s = (1, s\<lparr>execute_command := str, argv_init := clear_args (max_init E) (argv_init s)\<rparr>)"

definition rdinit_setup :: "boot_env \<Rightarrow> string option \<Rightarrow> options \<Rightarrow> int \<times> options" where
  "rdinit_setup E str s = (1, s\<lparr>ramdisk_execute_command := str, argv_init := clear_args (max_init E) (argv_init s)\<rparr>)"

definition early_randomize_kstack_offset :: "boot_env \<Rightarrow> string option \<Rightarrow> options \<Rightarrow> int \<times> options" where
  "early_randomize_kstack_offset E buf s =
     (case kstrtobool E buf of Inl ret \<Rightarrow> (ret, s) | Inr b \<Rightarrow> (0, s\<lparr>randomize_kstack_offset := b\<rparr>))"

text \<open>
  \<open>blacklist_loop\<close>: the parts of \<open>str\<close> between commas (\<open>strsep\<close>), each copied into a new entry at
  the head of the list; the two allocations of an entry stop the boot when they fail.
\<close>

function blacklist_loop :: "boot_env \<Rightarrow> string \<Rightarrow> string list \<Rightarrow> halt + string list" where
  "blacklist_loop E str l =
     (let str_entry = takeWhile (\<lambda>c. c \<noteq> CHR '','') str in
      if \<not> memblock_ok E 24 then Inl (Panic ''initcall_blacklist: Failed to allocate'')
      else if \<not> memblock_ok E (length str_entry + 1) then Inl (Panic ''initcall_blacklist: Failed to allocate'')
      else case dropWhile (\<lambda>c. c \<noteq> CHR '','') str of [] \<Rightarrow> Inr (str_entry # l)
           | _ # rest \<Rightarrow> blacklist_loop E rest (str_entry # l))"
  by auto
termination
  by (relation "measure (\<lambda>(E, str, l). length str)") (auto dest: dropWhile_rest)

declare blacklist_loop.simps [simp del]

definition initcall_blacklist :: "boot_env \<Rightarrow> string option \<Rightarrow> options \<Rightarrow> halt + int \<times> options" where
  "initcall_blacklist E str s =
     (case str of None \<Rightarrow> Inr (1, s)
      | Some str \<Rightarrow> and_then (blacklist_loop E str (blacklisted_initcalls s)) (\<lambda>l. Inr (1, s\<lparr>blacklisted_initcalls := l\<rparr>)))"

definition set_debug_rodata :: "boot_env \<Rightarrow> string option \<Rightarrow> options \<Rightarrow> int \<times> options" where
  "set_debug_rodata E str s =
     (if arch_parse_debug_rodata E str then (0, s)
      else if str = Some ''on'' then (0, s\<lparr>rodata_enabled := True\<rparr>)
      else if str = Some ''off'' then (0, s\<lparr>rodata_enabled := False\<rparr>)
      else (0, s))"

fun run_setup :: "boot_env \<Rightarrow> setup_fn \<Rightarrow> string option \<Rightarrow> options \<Rightarrow> halt + int \<times> options" where
  "run_setup E Set_reset_devices str s = Inr (set_reset_devices s)"
| "run_setup E Debug_kernel str s = Inr (debug_kernel s)"
| "run_setup E Quiet_kernel str s = Inr (quiet_kernel E s)"
| "run_setup E Loglevel str s = Inr (loglevel E str s)"
| "run_setup E Warn_bootconfig str s = Inr (warn_bootconfig s)"
| "run_setup E Init_setup str s = Inr (init_setup E str s)"
| "run_setup E Rdinit_setup str s = Inr (rdinit_setup E str s)"
| "run_setup E Early_randomize_kstack_offset str s = Inr (early_randomize_kstack_offset E str s)"
| "run_setup E Initcall_blacklist str s = initcall_blacklist E str s"
| "run_setup E Set_debug_rodata str s = Inr (set_debug_rodata E str s)"
| "run_setup E (Other_setup n) str s = Inr (other_setup E n str, s\<lparr>setup_log := setup_log s @ [(n, str)]\<rparr>)"

text \<open>The entries this file registers with \<open>__setup\<close> and \<open>early_param\<close>, in the order of the file.\<close>

definition main_setups :: "obs_kernel_param list" where
  "main_setups =
     [\<lparr>op_str = ''reset_devices'', setup_func = Some Set_reset_devices, op_early = False\<rparr>,
      \<lparr>op_str = ''debug'', setup_func = Some Debug_kernel, op_early = True\<rparr>,
      \<lparr>op_str = ''quiet'', setup_func = Some Quiet_kernel, op_early = True\<rparr>,
      \<lparr>op_str = ''loglevel'', setup_func = Some Loglevel, op_early = True\<rparr>,
      \<lparr>op_str = ''bootconfig'', setup_func = Some Warn_bootconfig, op_early = True\<rparr>,
      \<lparr>op_str = ''init='', setup_func = Some Init_setup, op_early = False\<rparr>,
      \<lparr>op_str = ''rdinit='', setup_func = Some Rdinit_setup, op_early = False\<rparr>,
      \<lparr>op_str = ''randomize_kstack_offset'', setup_func = Some Early_randomize_kstack_offset, op_early = True\<rparr>,
      \<lparr>op_str = ''initcall_blacklist='', setup_func = Some Initcall_blacklist, op_early = False\<rparr>,
      \<lparr>op_str = ''rodata'', setup_func = Some Set_debug_rodata, op_early = True\<rparr>]"

section \<open>Options in the buffer of the parser\<close>

text \<open>
  \<open>repair_env_string\<close> on a buffer, with \<open>param\<close> and \<open>val\<close> as positions: the NUL after the name
  becomes \<open>=\<close> again, and a value that was quoted moves one position to the left.
\<close>

definition repair_env_string :: "nat \<Rightarrow> nat option \<Rightarrow> string \<Rightarrow> halt + string" where
  "repair_env_string param val buf =
     (case val of None \<Rightarrow> Inr buf
      | Some val \<Rightarrow>
          if val = param + length (cstr param buf) + 1 then Inr (buf[val - 1 := CHR ''=''])
          else if val = param + length (cstr param buf) + 2 then
            Inr (memmove (val - 1) val (length (cstr val buf) + 1) (buf[val - 2 := CHR ''='']))
          else Inl Bug)"

definition arg_buffer :: "boot_arg \<Rightarrow> string" where
  "arg_buffer a = arg_param a @ [NUL] @
     (case arg_val a of None \<Rightarrow> [] | Some (v, quoted) \<Rightarrow> (if quoted then [CHR 0x22] else []) @ v @ [NUL])"

definition arg_val_at :: "boot_arg \<Rightarrow> nat option" where
  "arg_val_at a = map_option (\<lambda>(v, quoted). length (arg_param a) + (if quoted then 2 else 1)) (arg_val a)"

text \<open>The string at \<open>param\<close> after the repair.\<close>

definition repaired :: "boot_arg \<Rightarrow> halt + string" where
  "repaired a = and_then (repair_env_string 0 (arg_val_at a) (arg_buffer a)) (\<lambda>buf. Inr (cstr 0 buf))"

definition whole :: "boot_arg \<Rightarrow> string" where
  "whole a = arg_param a @ (case arg_val a of None \<Rightarrow> [] | Some (v, _) \<Rightarrow> CHR ''='' # v)"

definition plain_arg :: "boot_arg \<Rightarrow> bool" where
  "plain_arg a \<longleftrightarrow> plain (arg_param a) \<and> (case arg_val a of None \<Rightarrow> True | Some (v, _) \<Rightarrow> plain v)"

lemma repaired_whole:
  assumes "plain_arg a"
  shows "repaired a = Inr (whole a)"
proof (cases "arg_val a")
  case None
  then show ?thesis using assms cstr_plain_0 [of "arg_param a" "[]"]
    by (simp add: repaired_def repair_env_string_def arg_val_at_def arg_buffer_def whole_def plain_arg_def)
next
  case (Some vq)
  obtain v q where vq: "arg_val a = Some (v, q)" using Some by (cases vq) auto
  let ?p = "arg_param a"
  have p: "plain ?p" and v: "plain v" using assms vq by (auto simp: plain_arg_def)
  have name: "cstr 0 (?p @ NUL # r) = ?p" for r using cstr_plain_0 [OF p] .
  have all: "cstr 0 (?p @ CHR ''='' # v @ NUL # r) = ?p @ CHR ''='' # v" for r
    using cstr_plain_0 [of "?p @ CHR ''='' # v" r] p v by simp
  show ?thesis
  proof (cases q)
    case True
    have val: "cstr (Suc (Suc (length ?p))) (?p @ NUL # CHR 0x22 # v @ [NUL]) = v"
      using cstr_plain [OF v, of "?p @ [NUL, CHR 0x22]" "length ?p + 2" "[]"] by simp
    show ?thesis using True vq name all [of "[NUL]"] val
      by (simp add: repaired_def repair_env_string_def arg_val_at_def arg_buffer_def whole_def memmove_def list_update_append)
  next
    case False
    show ?thesis using False vq name all [of "[]"]
      by (simp add: repaired_def repair_env_string_def arg_val_at_def arg_buffer_def whole_def list_update_append)
  qed
qed

section \<open>Handlers of the parser\<close>

text \<open>\<open>line[n]\<close> and \<open>line + n\<close> of a string.\<close>

definition char_at :: "string \<Rightarrow> nat \<Rightarrow> halt + char" where
  "char_at line n = (if n < length line then Inr (line ! n) else if n = length line then Inr NUL else Inl Out_of_bounds)"

definition tail_at :: "string \<Rightarrow> nat \<Rightarrow> halt + string" where
  "tail_at line n = (if n \<le> length line then Inr (drop n line) else Inl Out_of_bounds)"

fun checksetup_from :: "boot_env \<Rightarrow> string \<Rightarrow> bool \<Rightarrow> obs_kernel_param list \<Rightarrow> options \<Rightarrow> halt + bool \<times> options" where
  "checksetup_from E line had_early_param [] s = Inr (had_early_param, s)"
| "checksetup_from E line had_early_param (p # ps) s =
     (let n = length (op_str p) in
      if parameqn E line (op_str p) n then
        if op_early p then
          and_then (char_at line n) (\<lambda>c. checksetup_from E line (had_early_param \<or> c = NUL \<or> c = CHR ''='') ps s)
        else case setup_func p of None \<Rightarrow> Inr (True, s)
             | Some f \<Rightarrow>
                 and_then (tail_at line n) (\<lambda>str. and_then (run_setup E f (Some str) s)
                   (\<lambda>(r, s). if r \<noteq> 0 then Inr (True, s) else checksetup_from E line had_early_param ps s))
      else checksetup_from E line had_early_param ps s)"

text \<open>The body of the loop runs before the first test for the end of the table.\<close>

definition obsolete_checksetup :: "boot_env \<Rightarrow> string \<Rightarrow> options \<Rightarrow> halt + bool \<times> options" where
  "obsolete_checksetup E line s =
     (if setup_table E = [] then Inl Out_of_bounds else checksetup_from E line False (setup_table E) s)"

text \<open>
  The loops over the arrays. \<open>init_arg_slot\<close>: the first free entry, or \<open>None\<close> when entry \<open>m\<close> is
  reached. \<open>arg_slot\<close> and \<open>env_slot\<close> go on and note that entry \<open>m\<close> was reached; \<open>env_slot\<close> also ends
  at an entry that sets the same variable.
\<close>

fun init_arg_slot :: "nat \<Rightarrow> nat \<Rightarrow> string option list \<Rightarrow> halt + nat option" where
  "init_arg_slot m i [] = Inl Out_of_bounds"
| "init_arg_slot m i (None # xs) = Inr (Some i)"
| "init_arg_slot m i (Some x # xs) = (if i = m then Inr None else init_arg_slot m (i + 1) xs)"

fun arg_slot :: "nat \<Rightarrow> nat \<Rightarrow> bool \<Rightarrow> string option list \<Rightarrow> halt + nat \<times> bool" where
  "arg_slot m i hit [] = Inl Out_of_bounds"
| "arg_slot m i hit (None # xs) = Inr (i, hit)"
| "arg_slot m i hit (Some x # xs) = arg_slot m (i + 1) (hit \<or> i = m) xs"

fun env_slot :: "string \<Rightarrow> nat \<Rightarrow> nat \<Rightarrow> nat \<Rightarrow> bool \<Rightarrow> string option list \<Rightarrow> halt + nat \<times> bool" where
  "env_slot line n m i hit [] = Inl Out_of_bounds"
| "env_slot line n m i hit (None # xs) = Inr (i, hit)"
| "env_slot line n m i hit (Some x # xs) =
     (if take n line = take n x then Inr (i, hit \<or> i = m) else env_slot line n m (i + 1) (hit \<or> i = m) xs)"

definition store_at :: "nat \<Rightarrow> 'a \<Rightarrow> 'a option list \<Rightarrow> halt + 'a option list" where
  "store_at i x xs = (if i < length xs then Inr (xs[i := Some x]) else Inl Out_of_bounds)"

definition set_init_arg :: "boot_env \<Rightarrow> boot_arg \<Rightarrow> options \<Rightarrow> halt + options" where
  "set_init_arg E a s =
     (if panic_later s \<noteq> None then Inr s
      else and_then (repaired a) (\<lambda>param.
        and_then (init_arg_slot (max_init E) 0 (argv_init s)) (\<lambda>slot.
          case slot of None \<Rightarrow> Inr (s\<lparr>panic_later := Some (''init'', param)\<rparr>)
          | Some i \<Rightarrow> and_then (store_at i param (argv_init s)) (\<lambda>argv. Inr (s\<lparr>argv_init := argv\<rparr>)))))"

definition hand_env :: "boot_env \<Rightarrow> nat \<Rightarrow> string \<Rightarrow> options \<Rightarrow> halt + options" where
  "hand_env E len param s =
     and_then (env_slot param (len + 1) (max_init E) 0 False (envp_init s)) (\<lambda>(i, hit).
       and_then (store_at i param (envp_init s)) (\<lambda>envp.
         Inr (s\<lparr>panic_later := (if hit then Some (''env'', param) else panic_later s), envp_init := envp\<rparr>)))"

definition hand_arg :: "boot_env \<Rightarrow> string \<Rightarrow> options \<Rightarrow> halt + options" where
  "hand_arg E param s =
     and_then (arg_slot (max_init E) 0 False (argv_init s)) (\<lambda>(i, hit).
       and_then (store_at i param (argv_init s)) (\<lambda>argv.
         Inr (s\<lparr>panic_later := (if hit then Some (''init'', param) else panic_later s), argv_init := argv\<rparr>)))"

definition unknown_bootoption :: "boot_env \<Rightarrow> boot_arg \<Rightarrow> options \<Rightarrow> halt + options" where
  "unknown_bootoption E a s =
     (let len = length (arg_param a) in
      if sysctl_is_alias E (arg_param a) then Inr s
      else and_then (repaired a) (\<lambda>param.
        and_then (obsolete_checksetup E param s) (\<lambda>(taken, s).
          if taken then Inr s
          else if CHR ''.'' \<in> set (take len param) then Inr s
          else if panic_later s \<noteq> None then Inr s
          else if arg_val a \<noteq> None then hand_env E len param s
          else hand_arg E param s)))"

fun early_from :: "boot_env \<Rightarrow> string \<Rightarrow> string option \<Rightarrow> obs_kernel_param list \<Rightarrow> options \<Rightarrow> halt + options" where
  "early_from E param val [] s = Inr s"
| "early_from E param val (p # ps) s =
     (if op_early p \<and> parameq E param (op_str p) \<or> param = ''console'' \<and> op_str p = ''earlycon'' then
        case setup_func p of None \<Rightarrow> Inl Bug
        | Some f \<Rightarrow> and_then (run_setup E f val s) (\<lambda>(r, s). early_from E param val ps s)
      else early_from E param val ps s)"

definition do_early_param :: "boot_env \<Rightarrow> boot_arg \<Rightarrow> options \<Rightarrow> halt + options" where
  "do_early_param E a s = early_from E (arg_param a) (map_option fst (arg_val a)) (setup_table E) s"

definition bootconfig_params :: "boot_arg \<Rightarrow> options \<Rightarrow> halt + options" where
  "bootconfig_params a s = Inr (if arg_param a = ''bootconfig'' then s\<lparr>bootconfig_found := True\<rparr> else s)"

text \<open>The parser hands the options to a handler one after another.\<close>

primrec feed :: "(boot_arg \<Rightarrow> options \<Rightarrow> halt + options) \<Rightarrow> boot_arg list \<Rightarrow> options \<Rightarrow> halt + options" where
  "feed h [] s = Inr s"
| "feed h (a # as) s = and_then (h a s) (feed h as)"

definition parse_early_options :: "boot_env \<Rightarrow> string \<Rightarrow> options \<Rightarrow> halt + options" where
  "parse_early_options E cmdline s = feed (do_early_param E) (fst (parse_args E False cmdline)) s"

definition parse_early_param :: "boot_env \<Rightarrow> options \<Rightarrow> halt + options" where
  "parse_early_param E s =
     (if early_done s then Inr s
      else and_then (parse_early_options E (take (command_line_size E - 1) (boot_command_line E)) s)
        (\<lambda>s. Inr (s\<lparr>early_done := True\<rparr>)))"

section \<open>The arrays stay in bounds\<close>

text \<open>The outcome of a step is a panic of an allocation, or a state with \<open>P\<close>.\<close>

definition safe :: "('a \<Rightarrow> bool) \<Rightarrow> halt + 'a \<Rightarrow> bool" where
  "safe P r \<longleftrightarrow> (case r of Inl h \<Rightarrow> (\<exists>msg. h = Panic msg) | Inr a \<Rightarrow> P a)"

lemma safe_simps [simp]: "safe P (Inr a) = P a" "safe P (Inl h) = (\<exists>msg. h = Panic msg)"
  by (simp_all add: safe_def)

lemma safe_and_then: "\<lbrakk>safe P r; \<And>a. r = Inr a \<Longrightarrow> P a \<Longrightarrow> safe Q (f a)\<rbrakk> \<Longrightarrow> safe Q (and_then r f)"
  by (cases r) auto

definition first_null :: "'a option list \<Rightarrow> nat" where
  "first_null xs = length (takeWhile (\<lambda>x. x \<noteq> None) xs)"

lemma first_null_simps [simp]: "first_null [] = 0" "first_null (None # xs) = 0" "first_null (Some x # xs) = Suc (first_null xs)"
  by (simp_all add: first_null_def)

lemma first_null_less: "None \<in> set xs \<Longrightarrow> first_null xs < length xs"
  by (induction xs) (auto simp: first_null_def)

lemma first_null_le: "i < length xs \<Longrightarrow> xs ! i = None \<Longrightarrow> first_null xs \<le> i"
  by (induction xs arbitrary: i) (auto simp: first_null_def nth_Cons split: nat.splits)

lemma init_arg_slot_eq:
  "\<lbrakk>None \<in> set xs; i \<le> m\<rbrakk> \<Longrightarrow> init_arg_slot m i xs = Inr (if i + first_null xs \<le> m then Some (i + first_null xs) else None)"
  by (induction m i xs rule: init_arg_slot.induct) auto

lemma arg_slot_eq:
  "None \<in> set xs \<Longrightarrow> arg_slot m i hit xs = Inr (i + first_null xs, hit \<or> i \<le> m \<and> m < i + first_null xs)"
  by (induction m i hit xs rule: arg_slot.induct) auto

text \<open>The entry of \<open>envp_init\<close> that an environment option takes: the one that sets the same variable, or a free one.\<close>

definition env_index :: "string \<Rightarrow> nat \<Rightarrow> string option list \<Rightarrow> nat" where
  "env_index line n xs = length (takeWhile (\<lambda>x. x \<noteq> None \<and> take n line \<noteq> take n (the x)) xs)"

lemma env_index_simps [simp]:
  "env_index line n [] = 0" "env_index line n (None # xs) = 0"
  "env_index line n (Some x # xs) = (if take n line = take n x then 0 else Suc (env_index line n xs))"
  by (simp_all add: env_index_def)

lemma env_index_le: "env_index line n xs \<le> first_null xs"
  by (induction xs rule: list.induct) (auto simp: first_null_def env_index_def)

lemma env_slot_eq:
  "None \<in> set xs \<Longrightarrow> env_slot line n m i hit xs =
     Inr (i + env_index line n xs, hit \<or> i \<le> m \<and> m < i + env_index line n xs + (if xs ! env_index line n xs = None then 0 else 1))"
  by (induction line n m i hit xs rule: env_slot.induct) auto

text \<open>
  The invariant: both arrays have their size, and as long as no panic is due the last entry is
  NULL, so that every loop over the array ends inside it.
\<close>

definition options_ok :: "boot_env \<Rightarrow> options \<Rightarrow> bool" where
  "options_ok E s \<longleftrightarrow> length (argv_init s) = max_init E + 2 \<and> length (envp_init s) = max_init E + 2 \<and>
     (panic_later s = None \<longrightarrow> argv_init s ! (max_init E + 1) = None \<and> envp_init s ! (max_init E + 1) = None)"

definition setup_law :: "boot_env \<Rightarrow> bool" where
  "setup_law E \<longleftrightarrow> setup_table E \<noteq> [] \<and> (\<forall>line str n. parameqn E line str n \<longrightarrow> n \<le> length line) \<and>
     (\<forall>p \<in> set (setup_table E). op_early p \<longrightarrow> setup_func p \<noteq> None)"

lemma clear_args_nth:
  "m < length xs \<Longrightarrow> i < length xs \<Longrightarrow> clear_args m xs ! i = (if 1 \<le> i \<and> i < m then None else xs ! i)"
  by (auto simp: clear_args_def nth_append nth_Cons min_def split: nat.splits)

lemma length_clear_args: "m < length xs \<Longrightarrow> length (clear_args m xs) = length xs"
  by (auto simp: clear_args_def min_def)

lemma blacklist_loop_safe: "safe (\<lambda>_. True) (blacklist_loop E str l)"
  by (induction E str l rule: blacklist_loop.induct) (subst blacklist_loop.simps, auto simp: Let_def split: list.split)

lemmas setup_defs = set_reset_devices_def debug_kernel_def quiet_kernel_def loglevel_def warn_bootconfig_def init_setup_def
  rdinit_setup_def early_randomize_kstack_offset_def set_debug_rodata_def

definition setup_kept :: "boot_env \<Rightarrow> options \<Rightarrow> options \<Rightarrow> bool" where
  "setup_kept E s t \<longleftrightarrow> envp_init t = envp_init s \<and> panic_later t = panic_later s \<and>
     (argv_init t = argv_init s \<or> argv_init t = clear_args (max_init E) (argv_init s))"

lemma run_setup_safe: "safe (\<lambda>(r, t). setup_kept E s t) (run_setup E f str s)"
proof (cases f)
  case Initcall_blacklist
  then show ?thesis using blacklist_loop_safe [of E "the str" "blacklisted_initcalls s"]
    by (cases "blacklist_loop E (the str) (blacklisted_initcalls s)") (auto simp: initcall_blacklist_def setup_kept_def split: option.split)
qed (auto simp: setup_defs setup_kept_def split: option.split sum.split)

lemma setup_kept_ok: "options_ok E s \<Longrightarrow> setup_kept E s t \<Longrightarrow> options_ok E t"
  by (auto simp: options_ok_def setup_kept_def length_clear_args clear_args_nth)

lemma checksetup_from_safe:
  assumes "setup_law E" "set ps \<subseteq> set (setup_table E)" "options_ok E s"
  shows "safe (\<lambda>(taken, t). options_ok E t \<and> panic_later t = panic_later s) (checksetup_from E line had ps s)"
  using assms(2,3)
proof (induction ps arbitrary: had s)
  case (Cons p ps)
  let ?n = "length (op_str p)"
  have step: "safe (\<lambda>(taken, u). options_ok E u \<and> panic_later u = panic_later s) (checksetup_from E line h ps t)"
    if "options_ok E t" "panic_later t = panic_later s" for h t
    using Cons.IH [of t h] Cons.prems(1) that by simp
  show ?case
  proof (cases "parameqn E line (op_str p) ?n")
    case True
    then have n: "?n \<le> length line" using assms(1) by (auto simp: setup_law_def)
    have run: "safe (\<lambda>(r, t). options_ok E t \<and> panic_later t = panic_later s) (run_setup E f str s)" for f str
      using run_setup_safe [of E s f str] setup_kept_ok [OF Cons.prems(2)]
      by (cases "run_setup E f str s") (auto simp: setup_kept_def)
    show ?thesis
    proof (cases "op_early p")
      case True
      then show ?thesis using \<open>parameqn E line (op_str p) ?n\<close> n step Cons.prems(2) by (simp add: Let_def char_at_def)
    next
      case False
      then show ?thesis using \<open>parameqn E line (op_str p) ?n\<close> n Cons.prems(2) step
        by (auto simp: Let_def tail_at_def split: option.split prod.split intro!: safe_and_then [OF run])
    qed
  qed (use step Cons.prems(2) in \<open>simp add: Let_def\<close>)
qed simp

lemma obsolete_checksetup_safe:
  "\<lbrakk>setup_law E; options_ok E s\<rbrakk> \<Longrightarrow> safe (\<lambda>(taken, t). options_ok E t \<and> panic_later t = panic_later s) (obsolete_checksetup E line s)"
  using checksetup_from_safe by (auto simp: obsolete_checksetup_def setup_law_def)

lemma argv_ends:
  assumes "options_ok E s" "panic_later s = None"
  shows "None \<in> set (argv_init s) \<and> None \<in> set (envp_init s) \<and> first_null (argv_init s) \<le> max_init E + 1 \<and>
    first_null (envp_init s) \<le> max_init E + 1"
  using assms first_null_le [of "max_init E + 1" "argv_init s"] first_null_le [of "max_init E + 1" "envp_init s"]
    nth_mem [of "max_init E + 1" "argv_init s"] nth_mem [of "max_init E + 1" "envp_init s"]
  by (auto simp: options_ok_def)

lemma set_init_arg_safe:
  assumes "options_ok E s" "plain_arg a"
  shows "safe (options_ok E) (set_init_arg E a s)"
proof (cases "panic_later s")
  case None
  note ends = argv_ends [OF assms(1) None]
  show ?thesis using assms(1) None ends
    by (auto simp: set_init_arg_def repaired_whole [OF assms(2)] init_arg_slot_eq store_at_def options_ok_def)
qed (use assms in \<open>simp add: set_init_arg_def\<close>)

lemma hand_arg_safe:
  assumes "options_ok E s" "panic_later s = None"
  shows "safe (options_ok E) (hand_arg E param s)"
  using assms argv_ends [OF assms] by (auto simp: hand_arg_def arg_slot_eq store_at_def options_ok_def)

lemma hand_env_safe:
  assumes "options_ok E s" "panic_later s = None"
  shows "safe (options_ok E) (hand_env E n param s)"
  using assms argv_ends [OF assms] env_index_le [of param "n + 1" "envp_init s"]
  by (auto simp: hand_env_def env_slot_eq store_at_def options_ok_def)

lemma unknown_bootoption_safe:
  assumes "setup_law E" "options_ok E s" "plain_arg a"
  shows "safe (options_ok E) (unknown_bootoption E a s)"
proof (cases "sysctl_is_alias E (arg_param a)")
  case False
  have "safe (options_ok E) (if taken then Inr t else if CHR ''.'' \<in> set (take len (whole a)) then Inr t
      else if panic_later t \<noteq> None then Inr t else if arg_val a \<noteq> None then hand_env E len (whole a) t else hand_arg E (whole a) t)"
    if "options_ok E t" for taken t len
    using that hand_arg_safe hand_env_safe by (cases "panic_later t") simp_all
  then show ?thesis unfolding unknown_bootoption_def Let_def repaired_whole [OF assms(3)]
    using False by (auto intro!: safe_and_then [OF obsolete_checksetup_safe [OF assms(1,2)]])
qed (use assms in \<open>simp add: unknown_bootoption_def\<close>)

lemma early_from_safe:
  "\<lbrakk>setup_law E; set ps \<subseteq> set (setup_table E); \<forall>p \<in> set ps. op_str p = ''earlycon'' \<longrightarrow> setup_func p \<noteq> None; options_ok E s\<rbrakk> \<Longrightarrow>
   safe (options_ok E) (early_from E param val ps s)"
proof (induction ps arbitrary: s)
  case (Cons p ps)
  have run: "safe (\<lambda>(r, t). options_ok E t) (run_setup E f str s)" for f str
    using run_setup_safe [of E s f str] setup_kept_ok [OF Cons.prems(4)] by (cases "run_setup E f str s") auto
  have "op_early p \<Longrightarrow> setup_func p \<noteq> None" using Cons.prems(1,2) by (auto simp: setup_law_def)
  then show ?case using Cons run
    by (auto split: option.split intro!: safe_and_then [OF run])
qed simp

section \<open>Handlers and what they keep\<close>

text \<open>
  A handler that keeps \<open>I\<close> on options with \<open>A\<close>, unless an allocation fails: then so does the parser
  that feeds it.
\<close>

locale option_handler =
  fixes h :: "boot_arg \<Rightarrow> options \<Rightarrow> halt + options"
    and I :: "options \<Rightarrow> bool"
    and A :: "boot_arg \<Rightarrow> bool"
  assumes handler_keeps: "\<lbrakk>A a; I s\<rbrakk> \<Longrightarrow> safe I (h a s)"
begin

lemma feed_keeps: "\<lbrakk>list_all A as; I s\<rbrakk> \<Longrightarrow> safe I (feed h as s)"
  by (induction as arbitrary: s) (auto intro: safe_and_then [OF handler_keeps])

end

interpretation init_args: option_handler "set_init_arg E" "options_ok E" plain_arg for E
  by unfold_locales (rule set_init_arg_safe)

interpretation boot_args: option_handler "unknown_bootoption E" "options_ok E" "\<lambda>a. setup_law E \<and> plain_arg a" for E
  by unfold_locales (auto intro: unknown_bootoption_safe)

interpretation config_args: option_handler bootconfig_params "options_ok E" "\<lambda>_. True" for E
  by unfold_locales (auto simp: bootconfig_params_def options_ok_def)

end
