(* ===== verification/Boot_Arguments.thy ===== *)
theory Boot_Arguments
  imports Boot_Options
begin

text \<open>
  What the init program is handed of the kernel command line: the arrays of \<open>Boot_Options\<close> against
  plain lists, the notice about unknown options, and the part of \<open>start_kernel\<close> that reads all
  options.
\<close>

section \<open>What init is handed\<close>

text \<open>
  The specification: the arguments and the environment as plain lists. An option without value
  joins the arguments, one with a value replaces the variable of the same name or joins the
  environment, and \<open>init=\<close> and \<open>rdinit=\<close> drop the arguments before them.
\<close>

fun setup_result :: "boot_env \<Rightarrow> setup_fn \<Rightarrow> string option \<Rightarrow> int" where
  "setup_result E Loglevel str = (if get_option E str = None then - EINVAL else 0)"
| "setup_result E Early_randomize_kstack_offset str = (case kstrtobool E str of Inl r \<Rightarrow> r | Inr b \<Rightarrow> 0)"
| "setup_result E (Other_setup n) str = other_setup E n str"
| "setup_result E f str = (if f \<in> {Set_reset_devices, Init_setup, Rdinit_setup, Initcall_blacklist} then 1 else 0)"

fun setups_for :: "boot_env \<Rightarrow> string \<Rightarrow> bool \<Rightarrow> obs_kernel_param list \<Rightarrow> setup_fn list \<times> bool" where
  "setups_for E line had [] = ([], had)"
| "setups_for E line had (p # ps) =
     (let n = length (op_str p) in
      if \<not> parameqn E line (op_str p) n then setups_for E line had ps
      else if op_early p then setups_for E line (had \<or> n = length line \<or> line ! n = CHR ''='') ps
      else case setup_func p of None \<Rightarrow> ([], True)
           | Some f \<Rightarrow> if setup_result E f (Some (drop n line)) \<noteq> 0 then ([f], True)
                else map_prod (Cons f) id (setups_for E line had ps))"

fun put_env :: "nat \<Rightarrow> string \<Rightarrow> string list \<Rightarrow> string list" where
  "put_env n line [] = [line]"
| "put_env n line (e # es) = (if take n line = take n e then line # es else e # put_env n line es)"

definition resets :: "setup_fn list \<Rightarrow> bool" where
  "resets fs \<longleftrightarrow> Init_setup \<in> set fs \<or> Rdinit_setup \<in> set fs"

definition spec_option :: "boot_env \<Rightarrow> boot_arg \<Rightarrow> string list \<times> string list \<Rightarrow> string list \<times> string list" where
  "spec_option E a = (\<lambda>(args, envs).
     if sysctl_is_alias E (arg_param a) then (args, envs)
     else case setups_for E (whole a) False (setup_table E) of (fs, taken) \<Rightarrow>
       let args = (if resets fs then [] else args) in
       if taken \<or> CHR ''.'' \<in> set (arg_param a) then (args, envs)
       else if arg_val a = None then (args @ [whole a], envs)
       else (args, put_env (length (arg_param a) + 1) (whole a) envs))"

text \<open>An array of \<open>n\<close> entries that holds a list, followed by NULL entries.\<close>

definition array_of :: "nat \<Rightarrow> 'a list \<Rightarrow> 'a option list" where
  "array_of n ys = map Some ys @ replicate (n - length ys) None"

lemma length_array_of: "length ys \<le> n \<Longrightarrow> length (array_of n ys) = n"
  by (simp add: array_of_def)

lemma first_null_array_of: "length ys < n \<Longrightarrow> first_null (array_of n ys) = length ys"
  by (cases "n - length ys") (auto simp: array_of_def first_null_def takeWhile_append)

lemma array_of_snoc: "length ys < n \<Longrightarrow> (array_of n ys)[length ys := Some y] = array_of n (ys @ [y])"
  by (cases "n - length ys") (auto simp: array_of_def list_update_append replicate_append_same split: nat.split dest: Suc_diff_Suc)

lemma None_array_of: "length ys < n \<Longrightarrow> None \<in> set (array_of n ys)"
  by (simp add: array_of_def)

lemma nth_array_of: "i < n \<Longrightarrow> length ys \<le> n \<Longrightarrow> array_of n ys ! i = (if i < length ys then Some (ys ! i) else None)"
  by (auto simp: array_of_def nth_append)

lemma env_index_array_of:
  "length ys < n \<Longrightarrow> env_index line k (array_of n ys) = length (takeWhile (\<lambda>y. take k line \<noteq> take k y) ys)"
proof (induction ys arbitrary: n)
  case Nil
  then show ?case by (cases n) (auto simp: array_of_def)
next
  case (Cons y ys)
  then show ?case using Cons.IH [of "n - 1"] by (cases n) (auto simp: array_of_def)
qed

lemma put_env_update:
  "put_env k line ys = (let i = length (takeWhile (\<lambda>y. take k line \<noteq> take k y) ys) in
     if i < length ys then ys[i := line] else ys @ [line])"
  by (induction ys) (auto simp: Let_def)

lemma array_of_update: "i < length ys \<Longrightarrow> (array_of n ys)[i := Some y] = array_of n (ys[i := y])"
  by (simp add: array_of_def list_update_append map_update)

lemma array_of_put_env:
  assumes "length ys < n"
  shows "(array_of n ys)[env_index line k (array_of n ys) := Some line] = array_of n (put_env k line ys)"
proof -
  let ?i = "length (takeWhile (\<lambda>y. take k line \<noteq> take k y) ys)"
  have "?i \<le> length ys" by (rule length_takeWhile_le)
  then consider "?i < length ys" | "?i = length ys" by linarith
  then show ?thesis
    by cases (simp_all add: env_index_array_of [OF assms] put_env_update array_of_update array_of_snoc [OF assms])
qed

lemma clear_args_array_of:
  assumes "length ys < m"
  shows "clear_args m (array_of (m + 2) (y # ys)) = array_of (m + 2) [y]"
proof (rule nth_equalityI)
  show "length (clear_args m (array_of (m + 2) (y # ys))) = length (array_of (m + 2) [y])"
    using assms by (simp add: length_clear_args length_array_of)
  show "clear_args m (array_of (m + 2) (y # ys)) ! i = array_of (m + 2) [y] ! i"
    if "i < length (clear_args m (array_of (m + 2) (y # ys)))" for i
    using that assms by (auto simp: length_clear_args length_array_of clear_args_nth nth_array_of nth_Cons split: nat.split)
qed

lemma run_setup_effect:
  assumes "run_setup E f str s = Inr (r, t)"
  shows "r = setup_result E f str \<and> envp_init t = envp_init s \<and> panic_later t = panic_later s \<and>
    argv_init t = (if resets [f] then clear_args (max_init E) (argv_init s) else argv_init s)"
proof (cases f)
  case Initcall_blacklist
  then show ?thesis using assms
    by (cases "blacklist_loop E (the str) (blacklisted_initcalls s)")
      (auto simp: initcall_blacklist_def resets_def split: option.splits)
qed (use assms in \<open>auto simp: setup_defs resets_def split: option.splits sum.splits if_splits\<close>)

lemma resets_result: "resets [f] \<Longrightarrow> setup_result E f str \<noteq> 0"
  by (cases f) (auto simp: resets_def)

definition setup_done :: "boot_env \<Rightarrow> options \<Rightarrow> setup_fn list \<times> bool \<Rightarrow> bool \<times> options \<Rightarrow> bool" where
  "setup_done E s fs r \<longleftrightarrow> fst r = snd fs \<and> envp_init (snd r) = envp_init s \<and> panic_later (snd r) = panic_later s \<and>
     argv_init (snd r) = (if resets (fst fs) then clear_args (max_init E) (argv_init s) else argv_init s)"

lemma checksetup_from_effect:
  assumes "setup_law E" "plain line" "checksetup_from E line had ps s = Inr r"
  shows "setup_done E s (setups_for E line had ps) r"
  using assms(3)
proof (induction ps arbitrary: had s)
  case (Cons p ps)
  let ?n = "length (op_str p)"
  show ?case
  proof (cases "parameqn E line (op_str p) ?n")
    case True
    then have n: "?n \<le> length line" using assms(1) by (auto simp: setup_law_def)
    show ?thesis
    proof (cases "op_early p")
      case True
      have "?n < length line \<Longrightarrow> line ! ?n \<noteq> NUL" using assms(2) nth_mem by metis
      then have "char_at line ?n = Inr c \<Longrightarrow> (c = NUL \<or> c = CHR ''='') = (?n = length line \<or> line ! ?n = CHR ''='')" for c
        using n by (auto simp: char_at_def split: if_splits)
      then show ?thesis using Cons.IH Cons.prems True \<open>parameqn E line (op_str p) ?n\<close> n
        by (cases "char_at line ?n") (auto simp: Let_def)
    next
      case False
      show ?thesis
      proof (cases "setup_func p")
        case None
        then show ?thesis using Cons.prems False \<open>parameqn E line (op_str p) ?n\<close> by (auto simp: Let_def setup_done_def resets_def)
      next
        case (Some f)
        let ?str = "Some (drop ?n line)"
        obtain q t where q: "run_setup E f ?str s = Inr (q, t)" and
          r: "(if q \<noteq> 0 then Inr (True, t) else checksetup_from E line had ps t) = Inr r"
          using Cons.prems False Some \<open>parameqn E line (op_str p) ?n\<close> n
          by (cases "run_setup E f ?str s") (auto simp: Let_def tail_at_def)
        note eff = run_setup_effect [OF q]
        show ?thesis
        proof (cases "q = 0")
          case True
          then have "\<not> resets [f]" using eff resets_result by metis
          then show ?thesis using Cons.IH [of had t] r True eff False Some \<open>parameqn E line (op_str p) ?n\<close>
            by (simp add: Let_def setup_done_def resets_def)
        next
          case False
          then show ?thesis using r eff \<open>\<not> op_early p\<close> Some \<open>parameqn E line (op_str p) ?n\<close> by (auto simp: Let_def setup_done_def)
        qed
      qed
    qed
  next
    case False
    then show ?thesis using Cons by (simp add: Let_def)
  qed
qed (auto simp: resets_def setup_done_def)

lemma obsolete_checksetup_effect:
  "\<lbrakk>setup_law E; plain line; obsolete_checksetup E line s = Inr r\<rbrakk> \<Longrightarrow>
   setup_done E s (setups_for E line False (setup_table E)) r"
  using checksetup_from_effect by (auto simp: obsolete_checksetup_def split: if_splits)

definition handed :: "boot_env \<Rightarrow> string list \<times> string list \<Rightarrow> options \<Rightarrow> bool" where
  "handed E x s \<longleftrightarrow> panic_later s = None \<and> length (fst x) \<le> max_init E \<and> length (snd x) \<le> max_init E + 1 \<and>
     argv_init s = array_of (max_init E + 2) (''init'' # fst x) \<and> envp_init s = array_of (max_init E + 2) (snd x)"

lemma hand_arg_handed:
  assumes "handed E (args, envs) s" "length args < max_init E" "hand_arg E param s = Inr t"
  shows "handed E (args @ [param], envs) t"
  using assms by (auto simp: handed_def hand_arg_def arg_slot_eq None_array_of first_null_array_of store_at_def length_array_of array_of_snoc [where ys = "_ # _", simplified])

lemma length_put_env: "length (put_env n line es) \<le> length es + 1"
  by (induction es) auto

lemma hand_env_handed:
  assumes "handed E (args, envs) s" "hand_env E n param s = Inr t"
  shows "(panic_later t = None \<longrightarrow> handed E (args, put_env (n + 1) param envs) t) \<and> (length envs \<le> max_init E \<longrightarrow> panic_later t = None)"
proof -
  let ?e = "array_of (max_init E + 2) envs"
  let ?i = "env_index param (n + 1) ?e"
  have envs: "length envs < max_init E + 2" using assms(1) by (simp add: handed_def)
  have i: "?i = length (takeWhile (\<lambda>y. take (n + 1) param \<noteq> take (n + 1) y) envs)" using env_index_array_of [OF envs] .
  then have le: "?i \<le> length envs" by (simp add: length_takeWhile_le)
  have null: "?e ! ?i = None \<longleftrightarrow> ?i = length envs" using le envs by (simp add: nth_array_of)
  have t: "t = s\<lparr>panic_later := (if max_init E < ?i + (if ?e ! ?i = None then 0 else 1) then Some (''env'', param) else None),
      envp_init := array_of (max_init E + 2) (put_env (n + 1) param envs)\<rparr>"
    using assms envs le by (auto simp: handed_def hand_env_def env_slot_eq None_array_of store_at_def length_array_of array_of_put_env [OF envs, simplified])
  have "length (put_env (n + 1) param envs) = (if ?i < length envs then length envs else length envs + 1)"
    unfolding i by (simp add: put_env_update Let_def)
  then have "panic_later t = None \<longrightarrow> length (put_env (n + 1) param envs) \<le> max_init E + 1"
    using envs le null assms(1) by (auto simp: t handed_def)
  then show ?thesis using assms(1) le null by (auto simp: t handed_def)
qed

lemma whole_name: "take (length (arg_param a)) (whole a) = arg_param a"
  by (simp add: whole_def)

lemma plain_whole: "plain_arg a \<Longrightarrow> plain (whole a)"
  by (auto simp: plain_arg_def whole_def split: option.splits)

lemma unknown_bootoption_handed:
  assumes "setup_law E" "plain_arg a" "handed E x s" "length (fst x) < max_init E" "unknown_bootoption E a s = Inr t"
  shows "(panic_later t = None \<longrightarrow> handed E (spec_option E a x) t) \<and> (length (snd x) \<le> max_init E \<longrightarrow> panic_later t = None)"
proof (cases "sysctl_is_alias E (arg_param a)")
  case True
  then show ?thesis using assms by (auto simp: unknown_bootoption_def spec_option_def handed_def split: prod.split)
next
  case False
  obtain args envs where x: "x = (args, envs)" by fastforce
  obtain fs taken where fs: "setups_for E (whole a) False (setup_table E) = (fs, taken)" by fastforce
  obtain tk u where u: "obsolete_checksetup E (whole a) s = Inr (tk, u)"
    using assms(2,5) False by (cases "obsolete_checksetup E (whole a) s") (auto simp: unknown_bootoption_def repaired_whole)
  have "setup_done E s (fs, taken) (tk, u)"
    using obsolete_checksetup_effect [OF assms(1) plain_whole [OF assms(2)] u] fs by simp
  then have tk: "tk = taken" and eff: "handed E (if resets fs then [] else args, envs) u"
    using assms(3,4) x by (auto simp: setup_done_def handed_def clear_args_array_of [simplified])
  have t: "(if taken then Inr u else if CHR ''.'' \<in> set (arg_param a) then Inr u else if arg_val a \<noteq> None then hand_env E (length (arg_param a)) (whole a) u
      else hand_arg E (whole a) u) = Inr t"
    using assms(5) False u eff tk by (auto simp: unknown_bootoption_def Let_def repaired_whole [OF assms(2)] whole_name handed_def)
  consider "taken \<or> CHR ''.'' \<in> set (arg_param a)" | "\<not> taken" "CHR ''.'' \<notin> set (arg_param a)" "arg_val a \<noteq> None"
    | "\<not> taken" "CHR ''.'' \<notin> set (arg_param a)" "arg_val a = None" by blast
  then show ?thesis
  proof cases
    case 1
    then show ?thesis using t eff False x fs by (auto simp: spec_option_def Let_def handed_def split: if_splits)
  next
    case 2
    then show ?thesis using t hand_env_handed [OF eff] False x fs by (auto simp: spec_option_def Let_def)
  next
    case 3
    then have "handed E ((if resets fs then [] else args) @ [whole a], envs) t"
      using hand_arg_handed [OF eff] t assms(4) x by auto
    then show ?thesis using 3 False x fs by (simp add: spec_option_def Let_def handed_def)
  qed
qed

lemma unknown_bootoption_panic:
  assumes "setup_law E" "plain_arg a" "unknown_bootoption E a s = Inr t" "panic_later s \<noteq> None"
  shows "panic_later t \<noteq> None"
proof (cases "sysctl_is_alias E (arg_param a)")
  case True
  then show ?thesis using assms by (simp add: unknown_bootoption_def)
next
  case False
  obtain tk u where u: "obsolete_checksetup E (whole a) s = Inr (tk, u)"
    using assms(2,3) False by (cases "obsolete_checksetup E (whole a) s") (auto simp: unknown_bootoption_def repaired_whole)
  have "panic_later u = panic_later s"
    using obsolete_checksetup_effect [OF assms(1) plain_whole [OF assms(2)] u] by (simp add: setup_done_def)
  then have "t = u" using assms(3,4) False u by (simp add: unknown_bootoption_def Let_def repaired_whole [OF assms(2)] split: if_splits)
  then show ?thesis using assms(4) \<open>panic_later u = panic_later s\<close> by simp
qed

lemma feed_panic:
  "\<lbrakk>setup_law E; list_all plain_arg as; feed (unknown_bootoption E) as s = Inr t; panic_later s \<noteq> None\<rbrakk> \<Longrightarrow> panic_later t \<noteq> None"
proof (induction as arbitrary: s)
  case (Cons a as)
  obtain u where u: "unknown_bootoption E a s = Inr u" "feed (unknown_bootoption E) as u = Inr t"
    using Cons.prems(3) by (cases "unknown_bootoption E a s") auto
  have "panic_later u \<noteq> None" using unknown_bootoption_panic [OF Cons.prems(1) _ u(1) Cons.prems(4)] Cons.prems(2) by simp
  then show ?case using Cons.IH [OF Cons.prems(1) _ u(2)] Cons.prems(2) by simp
qed simp

lemma spec_option_length:
  "length (fst (spec_option E a x)) \<le> length (fst x) + (if arg_val a = None then 1 else 0) \<and>
   length (snd (spec_option E a x)) \<le> length (snd x) + 1"
  using length_put_env [of "length (arg_param a) + 1" "whole a" "snd x"]
  by (auto simp: spec_option_def Let_def split: prod.split)

lemma feed_handed:
  assumes "setup_law E" "list_all plain_arg as" "handed E x s" "feed (unknown_bootoption E) as s = Inr t"
    and "length (fst x) + length (filter (\<lambda>a. arg_val a = None) as) < max_init E"
  shows "(panic_later t = None \<longrightarrow> handed E (fold (spec_option E) as x) t) \<and>
    (length (snd x) + length as \<le> max_init E + 1 \<longrightarrow> panic_later t = None)"
  using assms(2-)
proof (induction as arbitrary: x s)
  case Nil
  then show ?case by (simp add: handed_def)
next
  case (Cons a as)
  obtain u where u: "unknown_bootoption E a s = Inr u" "feed (unknown_bootoption E) as u = Inr t"
    using Cons.prems(3) by (cases "unknown_bootoption E a s") auto
  have plain: "plain_arg a" "list_all plain_arg as" using Cons.prems(1) by auto
  note step = unknown_bootoption_handed [OF assms(1) plain(1) Cons.prems(2) _ u(1)]
  have step: "panic_later u = None \<longrightarrow> handed E (spec_option E a x) u" "length (snd x) \<le> max_init E \<longrightarrow> panic_later u = None"
    using step Cons.prems(4) by auto
  show ?case
  proof (cases "panic_later u")
    case None
    have "length (fst (spec_option E a x)) + length (filter (\<lambda>a. arg_val a = None) as) < max_init E"
      using Cons.prems(4) spec_option_length [of E a x] by (auto split: if_splits)
    then show ?thesis using Cons.IH [OF plain(2) _ u(2)] step None spec_option_length [of E a x] by fastforce
  next
    case (Some m)
    then show ?thesis using feed_panic [OF assms(1) plain(2) u(2)] step by auto
  qed
qed

section \<open>Reporting the options that go to user space\<close>

text \<open>\<open>until_null\<close>: the loop \<open>for (p = ...; *p; p++)\<close>. \<open>print_each\<close>: \<open>end += sprintf(end, " %s", *p)\<close> for each string.\<close>

fun until_null :: "string option list \<Rightarrow> halt + string list" where
  "until_null [] = Inl Out_of_bounds"
| "until_null (None # xs) = Inr []"
| "until_null (Some x # xs) = and_then (until_null xs) (\<lambda>ys. Inr (x # ys))"

fun print_each :: "string list \<Rightarrow> nat \<times> string \<Rightarrow> halt + nat \<times> string" where
  "print_each [] eb = Inr eb"
| "print_each (x # xs) eb =
     and_then (strcpy (fst eb) (CHR '' '' # x) (snd eb)) (\<lambda>buf. print_each xs (fst eb + 1 + length x, buf))"

text \<open>The result is the text of the notice, if one is printed.\<close>

definition print_unknown_bootoptions :: "boot_env \<Rightarrow> options \<Rightarrow> halt + string option" where
  "print_unknown_bootoptions E s =
     (if panic_later s \<noteq> None \<or> argv_init s ! 1 = None \<and> envp_init s ! 2 = None then Inr None
      else and_then (until_null (drop 1 (argv_init s))) (\<lambda>args.
        and_then (until_null (drop 2 (envp_init s))) (\<lambda>envs.
          let len = 1 + sum_list (map (\<lambda>x. 1 + length x) args) + sum_list (map (\<lambda>x. 1 + length x) envs) in
          if \<not> memblock_ok E len then Inr None
          else and_then (print_each args (0, replicate len NUL)) (\<lambda>eb.
            and_then (print_each envs eb) (\<lambda>(e, buf). Inr (Some (cstr 1 buf)))))))"

lemma until_null_array_of: "length ys < n \<Longrightarrow> until_null (array_of n ys) = Inr ys"
proof (induction ys arbitrary: n)
  case Nil
  then show ?case by (cases n) (auto simp: array_of_def)
next
  case (Cons y ys)
  then show ?case using Cons.IH [of "n - 1"] by (cases n) (auto simp: array_of_def)
qed

lemma drop_array_of: "k \<le> length ys \<Longrightarrow> drop k (array_of n ys) = array_of (n - k) (drop k ys)"
  by (simp add: array_of_def drop_map)

definition spaced_text :: "string list \<Rightarrow> string" where
  "spaced_text xs = concat (map (\<lambda>x. CHR '' '' # x) xs)"

lemma length_spaced_text: "length (spaced_text xs) = sum_list (map (\<lambda>x. 1 + length x) xs)"
  by (induction xs) (auto simp: spaced_text_def)

lemma print_each_eq:
  "e + length (spaced_text xs) + 1 \<le> length buf \<Longrightarrow> xs \<noteq> [] \<Longrightarrow>
   print_each xs (e, buf) = Inr (e + length (spaced_text xs), take e buf @ spaced_text xs @ NUL # drop (e + length (spaced_text xs) + 1) buf)"
proof (induction xs arbitrary: e buf)
  case (Cons x xs)
  let ?buf = "take e buf @ (CHR '' '' # x) @ NUL # drop (e + length x + 2) buf"
  have e: "strcpy e (CHR '' '' # x) buf = Inr ?buf" using Cons.prems by (simp add: strcpy_def spaced_text_def)
  show ?case
  proof (cases "xs = []")
    case True
    then show ?thesis using e by (simp add: spaced_text_def)
  next
    case False
    have st: "spaced_text (x # xs) = (CHR '' '' # x) @ spaced_text xs" by (simp add: spaced_text_def)
    have "print_each xs (e + 1 + length x, ?buf) = Inr (e + 1 + length x + length (spaced_text xs),
        take (e + 1 + length x) ?buf @ spaced_text xs @ NUL # drop (e + 1 + length x + length (spaced_text xs) + 1) ?buf)"
      using Cons.prems st False by (intro Cons.IH) auto
    moreover have "take (e + 1 + length x) ?buf = take e buf @ CHR '' '' # x" using Cons.prems st by simp
    moreover have "drop (e + 1 + length x + length (spaced_text xs) + 1) ?buf = drop (e + length (spaced_text (x # xs)) + 1) buf"
      using Cons.prems st False by (cases xs) (auto simp: spaced_text_def drop_Cons' algebra_simps)
    ultimately show ?thesis using e st by simp
  qed
qed simp

lemma until_null_ends: "None \<in> set xs \<Longrightarrow> \<exists>ys. until_null xs = Inr ys"
  by (induction xs rule: until_null.induct) auto

text \<open>Printing two groups of strings fills a buffer of the counted length exactly.\<close>

lemma print_both:
  assumes "args @ envs \<noteq> []" "len = 1 + sum_list (map (\<lambda>x. 1 + length x) args) + sum_list (map (\<lambda>x. 1 + length x) envs)"
  shows "and_then (print_each args (0, replicate len NUL)) (print_each envs) =
    Inr (len - 1, spaced_text (args @ envs) @ [NUL])"
proof -
  have len: "len = 1 + length (spaced_text args) + length (spaced_text envs)" using assms(2) by (simp add: length_spaced_text)
  have app: "spaced_text (args @ envs) = spaced_text args @ spaced_text envs" by (simp add: spaced_text_def)
  have nil: "spaced_text [] = []" by (simp add: spaced_text_def)
  show ?thesis
  proof (cases "args = []")
    case True
    then show ?thesis using print_each_eq [of 0 envs "replicate len NUL"] assms(1) len nil by simp
  next
    case False
    have a: "print_each args (0, replicate len NUL) =
        Inr (length (spaced_text args), spaced_text args @ NUL # replicate (length (spaced_text envs)) NUL)"
      using print_each_eq [of 0 args "replicate len NUL"] False len by simp
    show ?thesis
    proof (cases "envs = []")
      case True
      then show ?thesis using a len nil by simp
    next
      case False
      have "print_each envs (length (spaced_text args), spaced_text args @ NUL # replicate (length (spaced_text envs)) NUL) =
          Inr (len - 1, spaced_text args @ spaced_text envs @ [NUL])"
        using print_each_eq [of "length (spaced_text args)" envs "spaced_text args @ NUL # replicate (length (spaced_text envs)) NUL"] False len
        by simp
      then show ?thesis using a app by simp
    qed
  qed
qed

lemma print_unknown_bootoptions_eq:
  assumes "panic_later s = None" "until_null (drop 1 (argv_init s)) = Inr args" "until_null (drop 2 (envp_init s)) = Inr envs"
    "args @ envs \<noteq> []" "\<forall>x \<in> set (args @ envs). plain x"
    "memblock_ok E (1 + sum_list (map (\<lambda>x. 1 + length x) args) + sum_list (map (\<lambda>x. 1 + length x) envs))"
    "\<not> (argv_init s ! 1 = None \<and> envp_init s ! 2 = None)"
  shows "print_unknown_bootoptions E s = Inr (Some (tl (spaced_text (args @ envs))))"
proof -
  let ?t = "spaced_text (args @ envs)"
  obtain c r where c: "?t = c # r" using assms(4) by (cases "args @ envs") (auto simp: spaced_text_def)
  have "plain ?t" using assms(5) by (auto simp: spaced_text_def)
  then have "cstr 1 (?t @ [NUL]) = tl ?t" using cstr_plain [of r "[c]" 1 "[]"] c by simp
  then show ?thesis using assms print_both [OF assms(4) refl]
    by (cases "print_each args (0, replicate (1 + sum_list (map (\<lambda>x. 1 + length x) args) + sum_list (map (\<lambda>x. 1 + length x) envs)) NUL)")
      (auto simp: print_unknown_bootoptions_def Let_def)
qed

lemma print_unknown_bootoptions_safe:
  assumes "options_ok E s" "1 \<le> max_init E"
  shows "safe (\<lambda>_. True) (print_unknown_bootoptions E s)"
proof (cases "panic_later s \<noteq> None \<or> argv_init s ! 1 = None \<and> envp_init s ! 2 = None")
  case False
  let ?m = "max_init E"
  have len: "length (argv_init s) = ?m + 2" "length (envp_init s) = ?m + 2" "argv_init s ! (?m + 1) = None" "envp_init s ! (?m + 1) = None"
    using assms(1) False by (auto simp: options_ok_def)
  have "drop 1 (argv_init s) ! ?m = None" "?m < length (drop 1 (argv_init s))" "drop 2 (envp_init s) ! (?m - 1) = None" "?m - 1 < length (drop 2 (envp_init s))"
    using len assms(2) by simp_all
  then obtain args envs where e: "until_null (drop 1 (argv_init s)) = Inr args" "until_null (drop 2 (envp_init s)) = Inr envs"
    using until_null_ends nth_mem by metis
  have "drop 1 (argv_init s) = argv_init s ! 1 # drop 2 (argv_init s)" "drop 2 (envp_init s) = envp_init s ! 2 # drop 3 (envp_init s)"
    using len assms(2) by (simp_all add: Cons_nth_drop_Suc [symmetric] numeral_2_eq_2 numeral_3_eq_3)
  then have "args @ envs \<noteq> []" using e False by (cases "argv_init s ! 1"; cases "envp_init s ! 2") (auto simp: and_then_def split: sum.splits)
  from print_both [OF this refl] show ?thesis using False e
    by (cases "print_each args (0, replicate (1 + sum_list (map (\<lambda>x. 1 + length x) args) + sum_list (map (\<lambda>x. 1 + length x) envs)) NUL)")
      (auto simp: print_unknown_bootoptions_def Let_def)
qed (simp add: print_unknown_bootoptions_def)

section \<open>The options of a boot\<close>

definition options_init :: "boot_env \<Rightarrow> options" where
  "options_init E =
     \<lparr>reset_devices = 0, console_loglevel = 7, argv_init = array_of (max_init E + 2) [''init''],
      envp_init = array_of (max_init E + 2) [''HOME=/'', ''TERM=linux''], panic_later = None, execute_command = None,
      ramdisk_execute_command = Some ''/init'', blacklisted_initcalls = [], randomize_kstack_offset = False,
      rodata_enabled = True, bootconfig_found = False, early_done = False, setup_log = []\<rparr>"

text \<open>
  The part of \<open>start_kernel\<close> that reads the options: early options, the command line, the
  arguments after the dashes, and the arguments of the boot configuration.
\<close>

definition boot_options :: "boot_env \<Rightarrow> string \<Rightarrow> string option \<Rightarrow> options \<Rightarrow> halt + options" where
  "boot_options E static_command_line extra_init_args s =
     and_then (parse_early_param E s) (\<lambda>s.
       case parse_args E True static_command_line of (as, after_dashes) \<Rightarrow>
       and_then (feed (unknown_bootoption E) as s) (\<lambda>s.
       and_then (print_unknown_bootoptions E s) (\<lambda>_.
       and_then (case after_dashes of Args_dashes rest \<Rightarrow> feed (set_init_arg E) (fst (parse_args E False rest)) s | _ \<Rightarrow> Inr s) (\<lambda>s.
       case extra_init_args of None \<Rightarrow> Inr s
       | Some extra \<Rightarrow> feed (set_init_arg E) (fst (parse_args E False extra)) s))))"

definition options_law :: "boot_env \<Rightarrow> bool" where
  "options_law E \<longleftrightarrow> 1 \<le> max_init E \<and> setup_law E \<and> (\<forall>p \<in> set (setup_table E). op_str p = ''earlycon'' \<longrightarrow> setup_func p \<noteq> None) \<and>
     (\<forall>b line. list_all plain_arg (fst (parse_args E b line)))"

interpretation early_args: option_handler "do_early_param E" "options_ok E" "\<lambda>_. options_law E" for E
  by unfold_locales (auto simp: do_early_param_def options_law_def intro: early_from_safe)

lemma parse_early_param_safe: "\<lbrakk>options_law E; options_ok E s\<rbrakk> \<Longrightarrow> safe (options_ok E) (parse_early_param E s)"
  using early_args.feed_keeps [of E "fst (parse_args E False (take (command_line_size E - 1) (boot_command_line E)))" s]
  by (auto simp: parse_early_param_def parse_early_options_def options_ok_def list_all_iff intro!: safe_and_then)

lemma feed_options_safe:
  "\<lbrakk>options_law E; list_all plain_arg as; options_ok E s\<rbrakk> \<Longrightarrow> safe (options_ok E) (feed (unknown_bootoption E) as s)"
  by (rule boot_args.feed_keeps) (auto simp: list_all_iff options_law_def)

lemma options_init_ok: "options_law E \<Longrightarrow> options_ok E (options_init E)"
  by (simp add: options_ok_def options_init_def options_law_def length_array_of nth_array_of)

lemma boot_options_keeps:
  assumes "options_law E" "options_ok E s"
  shows "safe (options_ok E) (boot_options E line extra s)"
proof -
  have plain: "list_all plain_arg (fst (parse_args E b l))" for b l using assms by (simp add: options_law_def)
  have m: "1 \<le> max_init E" using assms by (simp add: options_law_def)
  obtain as e where pa: "parse_args E True line = (as, e)" by fastforce
  have as: "list_all plain_arg as" using plain [of True line] pa by simp
  show ?thesis
    unfolding boot_options_def pa
    by (intro safe_and_then [OF parse_early_param_safe [OF assms]])
      (auto split: parse_end.split option.split
        intro!: safe_and_then [OF feed_options_safe [OF assms(1) as]] safe_and_then [OF print_unknown_bootoptions_safe [OF _ m]]
          safe_and_then [of "options_ok E"] feed_options_safe [OF assms(1) as] init_args.feed_keeps plain)
qed

text \<open>
  Reading the options never leaves an array, dereferences a null setup function or reaches
  \<open>BUG\<close>, whatever the command lines hold and however many options they have; it ends with
  NULL-terminated arrays or with \<open>panic_later\<close> set. Only a failed allocation stops it.
\<close>

theorem boot_options_safe:
  assumes "options_law E"
  shows "case boot_options E line extra (options_init E) of Inl h \<Rightarrow> \<exists>msg. h = Panic msg
    | Inr s \<Rightarrow> length (argv_init s) = max_init E + 2 \<and> length (envp_init s) = max_init E + 2 \<and>
        (panic_later s = None \<longrightarrow> argv_init s ! (max_init E + 1) = None \<and> envp_init s ! (max_init E + 1) = None)"
  using boot_options_keeps [OF assms options_init_ok [OF assms], of line extra] by (auto simp: safe_def options_ok_def split: sum.splits)

text \<open>
  A small command line on an array of five pointers: \<open>init_env_arg_limit\<close> is 3.
\<close>

definition word_arg :: "string \<Rightarrow> boot_arg" where
  "word_arg p = \<lparr>arg_param = p, arg_val = None\<rparr>"

definition value_arg :: "string \<Rightarrow> string \<Rightarrow> boot_arg" where
  "value_arg p v = \<lparr>arg_param = p, arg_val = Some (v, False)\<rparr>"

definition demo_boot :: "boot_arg list \<Rightarrow> boot_env" where
  "demo_boot as =
     \<lparr>max_init = 3, setup_table = main_setups, parameqn = (\<lambda>line str n. n \<le> length line \<and> take n line = take n str),
      parameq = (=), sysctl_is_alias = (\<lambda>_. False), get_option = (\<lambda>_. None), kstrtobool = (\<lambda>_. Inl (- 22)),
      arch_parse_debug_rodata = (\<lambda>_. False), other_setup = (\<lambda>_ _. 0),
      parse_args = (\<lambda>known line. (if known \<and> list_all plain_arg as then as else [], Args_end)),
      boot_command_line = [], command_line_size = 2048, console_loglevel_quiet = 4, memblock_ok = (\<lambda>_. True)\<rparr>"

lemma demo_boot_law: "options_law (demo_boot as)"
  by (simp add: options_law_def setup_law_def demo_boot_def main_setups_def)

lemma demo_boot_max: "max_init (demo_boot as) = 3"
  by (simp add: demo_boot_def)

theorem boot_options_safe_witness:
  "case boot_options (demo_boot [word_arg ''a'', word_arg ''b'', word_arg ''c'', word_arg ''d'']) [] None
       (options_init (demo_boot [word_arg ''a'', word_arg ''b'', word_arg ''c'', word_arg ''d''])) of
     Inl h \<Rightarrow> \<exists>msg. h = Panic msg | Inr s \<Rightarrow> length (argv_init s) = 5 \<and> length (envp_init s) = 5"
  using boot_options_safe [OF demo_boot_law, of "[word_arg ''a'', word_arg ''b'', word_arg ''c'', word_arg ''d'']" "[]" None]
  by (auto simp: demo_boot_max split: sum.splits)

text \<open>
  C25: the init program is started with the options as the specification hands them over: the
  arguments in order after the last \<open>init=\<close> or \<open>rdinit=\<close>, and one environment entry per variable
  with its last value. This holds for fewer than \<open>MAX_INIT_ARGS\<close> options without a value, unless
  \<open>panic_later\<close> is set, which does not happen when all the options fit.
\<close>

theorem options_refine_lists:
  assumes "options_law E" "list_all plain_arg as" "feed (unknown_bootoption E) as (options_init E) = Inr s"
    "length (filter (\<lambda>a. arg_val a = None) as) < max_init E"
    "fold (spec_option E) as ([], [''HOME=/'', ''TERM=linux'']) = (args, envs)"
  shows "(length as + 1 \<le> max_init E \<longrightarrow> panic_later s = None) \<and>
    (panic_later s = None \<longrightarrow>
       argv_init s = array_of (max_init E + 2) (''init'' # args) \<and> envp_init s = array_of (max_init E + 2) envs)"
proof -
  have "handed E ([], [''HOME=/'', ''TERM=linux'']) (options_init E)"
    using assms(1) by (simp add: handed_def options_init_def options_law_def)
  from feed_handed [OF _ assms(2) this assms(3)] assms(1,4,5) show ?thesis by (auto simp: handed_def options_law_def)
qed

lemmas boot_eval = unknown_bootoption_def repaired_whole plain_arg_def whole_def obsolete_checksetup_def demo_boot_def main_setups_def
  word_arg_def value_arg_def hand_env_def hand_arg_def store_at_def char_at_def tail_at_def options_init_def array_of_def
  clear_args_def setup_defs

theorem options_refine_lists_witness:
  "\<exists>s. feed (unknown_bootoption (demo_boot [])) [word_arg ''auto'', value_arg ''init'' ''/bin/sh'', word_arg ''b'', value_arg ''HOME'' ''/r'']
       (options_init (demo_boot [])) = Inr s \<and> panic_later s = None \<and>
     argv_init s = [Some ''init'', Some ''b'', None, None, None] \<and>
     envp_init s = [Some ''HOME=/r'', Some ''TERM=linux'', None, None, None]"
proof -
  let ?E = "demo_boot []" and ?as = "[word_arg ''auto'', value_arg ''init'' ''/bin/sh'', word_arg ''b'', value_arg ''HOME'' ''/r'']"
  have plain: "list_all plain_arg ?as" by (simp add: plain_arg_def word_arg_def value_arg_def)
  have run: "\<exists>s. feed (unknown_bootoption ?E) ?as (options_init ?E) = Inr s \<and> panic_later s = None"
    by (simp add: boot_eval numeral_eq_Suc)
  then obtain s where s: "feed (unknown_bootoption ?E) ?as (options_init ?E) = Inr s" "panic_later s = None" by blast
  have fits: "length (filter (\<lambda>a. arg_val a = None) ?as) < max_init ?E" by (simp add: demo_boot_max word_arg_def value_arg_def)
  have spec: "fold (spec_option ?E) ?as ([], [''HOME=/'', ''TERM=linux'']) = ([''b''], [''HOME=/r'', ''TERM=linux''])"
    by (simp add: spec_option_def resets_def boot_eval)
  show ?thesis using s options_refine_lists [OF demo_boot_law plain s(1) fits spec] by (auto simp: demo_boot_max array_of_def numeral_eq_Suc)
qed

text \<open>
  \<open>init=\<close> clears the entries up to \<open>MAX_INIT_ARGS - 1\<close> only: when \<open>MAX_INIT_ARGS\<close> arguments come
  before it, the last of them stays and is passed to the program again.
\<close>

lemma init_keeps_last_argument:
  "\<exists>s. feed (unknown_bootoption (demo_boot []))
      [word_arg ''a'', word_arg ''b'', word_arg ''c'', value_arg ''init'' ''/x'', word_arg ''d'', word_arg ''e''] (options_init (demo_boot [])) = Inr s \<and>
     panic_later s = None \<and> argv_init s = [Some ''init'', Some ''d'', Some ''e'', Some ''c'', None]"
  by (simp add: boot_eval numeral_eq_Suc)

end
