(* ===== verification/Boot_Config.thy ===== *)
theory Boot_Config
  imports Boot_Arguments
begin

text \<open>
  The boot configuration and the command lines built from it, from \<^verbatim>\<open>src/Kernel/Init/main.c\<close>: finding
  the configuration at the end of the initial ram disk, printing its keys as a command line, and
  putting the command lines together in buffers of a computed size. The tree of keys and its
  parser, the checksum and the allocator are fields of the environment.
\<close>

section \<open>State\<close>

text \<open>
  One key of the configuration below a node: its name, or the error of composing it, and the
  values of its array, or \<open>None\<close> when it has no value.
\<close>

record xbc_key =
  key_name :: "int + string"
  key_values :: "string list option"

record config_env =
  initrd_bytes :: "u64 \<Rightarrow> u8"
  xbc_calc_checksum :: "u8 list \<Rightarrow> u32"
  xbc_get_embedded_bootconfig :: "u8 list option"
  xbc_data_max :: nat
  xbc_init :: "u8 list \<Rightarrow> int"
  xbc_find_node :: "string \<Rightarrow> xbc_key list option"
  config_force :: bool

record config =
  initrd_start :: u64
  initrd_end :: u64
  initargs_offs :: nat
  extra_command_line :: "string option"
  extra_init_args :: "string option"
  saved_command_line :: string
  static_command_line :: string
  saved_command_line_len :: nat

section \<open>The configuration in the initial ram disk\<close>

text \<open>\<open>"#BOOTCONFIG\n"\<close>\<close>

definition BOOTCONFIG_MAGIC :: "u8 list" where
  "BOOTCONFIG_MAGIC = [35, 66, 79, 79, 84, 67, 79, 78, 70, 73, 71, 10]"

definition bytes_at :: "(u64 \<Rightarrow> u8) \<Rightarrow> u64 \<Rightarrow> nat \<Rightarrow> u8 list" where
  "bytes_at mem a n = map (\<lambda>i. mem (a + of_nat i)) [0..<n]"

text \<open>\<open>le32_to_cpu\<close> of the four bytes at an address.\<close>

definition le32_at :: "(u64 \<Rightarrow> u8) \<Rightarrow> u64 \<Rightarrow> u32" where
  "le32_at mem a = ucast (mem a) OR push_bit 8 (ucast (mem (a + 1))) OR push_bit 16 (ucast (mem (a + 2))) OR push_bit 24 (ucast (mem (a + 3)))"

text \<open>The loop that looks for the magic word at \<open>data\<close> and up to three bytes before; \<open>n\<close> rounds are left.\<close>

fun find_magic :: "(u64 \<Rightarrow> u8) \<Rightarrow> nat \<Rightarrow> u64 \<Rightarrow> u64 option" where
  "find_magic mem 0 data = None"
| "find_magic mem (Suc n) data =
     (if bytes_at mem data (length BOOTCONFIG_MAGIC) = BOOTCONFIG_MAGIC then Some data else find_magic mem n (data - 1))"

text \<open>The result is the address and size of the configuration; \<open>initrd_end\<close> moves to its start.\<close>

definition get_boot_config_from_initrd :: "config_env \<Rightarrow> config \<Rightarrow> (u64 \<times> u32) option \<times> config" where
  "get_boot_config_from_initrd E s =
     (if initrd_end s = 0 then (None, s)
      else case find_magic (initrd_bytes E) 4 (initrd_end s - of_nat (length BOOTCONFIG_MAGIC)) of None \<Rightarrow> (None, s)
      | Some data \<Rightarrow>
          let hdr = data - 8; size = le32_at (initrd_bytes E) hdr; csum = le32_at (initrd_bytes E) (hdr + 4);
            data = hdr - ucast size in
          if data < initrd_start s then (None, s)
          else if xbc_calc_checksum E (bytes_at (initrd_bytes E) data (unat size)) \<noteq> csum then (None, s)
          else (Some (data, size), s\<lparr>initrd_end := data\<rparr>))"

section \<open>Printing keys\<close>

text \<open>
  \<open>snprintf(buf, rest(buf, end), ...)\<close> of a text at position \<open>p\<close> of a buffer: as much as fits is
  written with a NUL, nothing when there is no room; the result is the length of the text.
\<close>

definition snprintf_at :: "nat \<Rightarrow> string \<Rightarrow> string \<Rightarrow> string" where
  "snprintf_at p t buf =
     (let room = length buf - p in
      if room = 0 then buf else take p buf @ take (room - 1) t @ [NUL] @ drop (p + min (room - 1) (length t) + 1) buf)"

definition quoted_text :: "string \<Rightarrow> string \<Rightarrow> string" where
  "quoted_text name val = name @ [CHR ''='', CHR 0x22] @ val @ [CHR 0x22, CHR '' '']"

fun print_values :: "string \<Rightarrow> string list \<Rightarrow> nat \<times> string \<Rightarrow> nat \<times> string" where
  "print_values name [] pb = pb"
| "print_values name (v # vs) (p, buf) =
     print_values name vs (p + length (quoted_text name v), snprintf_at p (quoted_text name v) buf)"

text \<open>
  \<open>xbc_snprint_cmdline\<close> writes at position \<open>p\<close>; the buffer may be empty, and the position goes on past
  its end. The result is the final position or the error of a key.
\<close>

fun xbc_snprint_cmdline :: "xbc_key list \<Rightarrow> nat \<times> string \<Rightarrow> int + nat \<times> string" where
  "xbc_snprint_cmdline [] pb = Inr pb"
| "xbc_snprint_cmdline (k # ks) (p, buf) =
     (case key_name k of Inl ret \<Rightarrow> Inl ret
      | Inr name \<Rightarrow>
          case key_values k of
            None \<Rightarrow> xbc_snprint_cmdline ks (p + length name + 1, snprintf_at p (name @ '' '') buf)
          | Some vs \<Rightarrow> xbc_snprint_cmdline ks (print_values name vs (p, buf)))"

definition xbc_make_cmdline :: "boot_env \<Rightarrow> config_env \<Rightarrow> string \<Rightarrow> string option" where
  "xbc_make_cmdline B E key =
     (case xbc_find_node E key of None \<Rightarrow> None
      | Some root \<Rightarrow>
          case xbc_snprint_cmdline root (0, []) of Inl _ \<Rightarrow> None
          | Inr (len, _) \<Rightarrow>
              if len = 0 then None
              else if \<not> memblock_ok B (len + 1) then None
              else case xbc_snprint_cmdline root (0, replicate (len + 1) NUL) of Inl _ \<Rightarrow> None
                   | Inr (ret, buf) \<Rightarrow> if ret > len then None else Some (cstr 0 buf))"

section \<open>Reading the configuration and building the command lines\<close>

definition setup_boot_config :: "boot_env \<Rightarrow> config_env \<Rightarrow> options \<times> config \<Rightarrow> halt + options \<times> config" where
  "setup_boot_config B E = (\<lambda>(opt, s).
     (case get_boot_config_from_initrd E s of (found, s) \<Rightarrow>
      let data = (case found of Some (addr, sz) \<Rightarrow> Some (bytes_at (initrd_bytes E) addr (unat sz))
                  | None \<Rightarrow> xbc_get_embedded_bootconfig E);
        tmp_cmdline = take (command_line_size B - 1) (boot_command_line B) in
      case parse_args B False tmp_cmdline of (as, err) \<Rightarrow>
      and_then (feed bootconfig_params as opt) (\<lambda>opt.
        if (\<exists>n. err = Args_error n) \<or> \<not> (bootconfig_found opt \<or> config_force E) then Inr (opt, s)
        else
          let s = (case err of Args_dashes rest \<Rightarrow> s\<lparr>initargs_offs := length tmp_cmdline - length rest\<rparr> | _ \<Rightarrow> s) in
          case data of None \<Rightarrow> Inr (opt, s)
          | Some bytes \<Rightarrow>
              if length bytes \<ge> xbc_data_max E then Inr (opt, s)
              else if xbc_init E bytes < 0 then Inr (opt, s)
              else Inr (opt, s\<lparr>extra_command_line := xbc_make_cmdline B E ''kernel'',
                extra_init_args := xbc_make_cmdline B E ''init''\<rparr>))))"

definition append_init_args :: "string \<Rightarrow> nat \<Rightarrow> nat \<Rightarrow> string \<Rightarrow> string \<Rightarrow> halt + string" where
  "append_init_args boot offs xlen args buf =
     (if offs \<noteq> 0 then
        and_then (strcpy (xlen + offs) args buf) (\<lambda>buf.
          and_then (tail_at boot (offs - 1)) (\<lambda>rest. strcpy (xlen + offs + length args) rest buf))
      else
        let len = length (cstr 0 buf) in
        and_then (strcpy len '' -- '' buf) (\<lambda>buf. strcpy (len + 4) args buf))"

definition setup_command_line :: "boot_env \<Rightarrow> string \<Rightarrow> config \<Rightarrow> halt + config" where
  "setup_command_line B command_line s =
     (let boot = boot_command_line B;
        xlen = (case extra_command_line s of None \<Rightarrow> 0 | Some x \<Rightarrow> length x);
        ilen = (case extra_init_args s of None \<Rightarrow> 0 | Some x \<Rightarrow> length x + 4);
        len = xlen + length boot + 1 in
      if \<not> memblock_ok B (len + ilen) then Inl (Panic ''setup_command_line: Failed to allocate'')
      else if \<not> memblock_ok B len then Inl (Panic ''setup_command_line: Failed to allocate'')
      else
        let saved = replicate (len + ilen) NUL; static = replicate len NUL in
        and_then (if xlen \<noteq> 0 then strcpy 0 (the (extra_command_line s)) saved else Inr saved) (\<lambda>saved.
        and_then (if xlen \<noteq> 0 then strcpy 0 (the (extra_command_line s)) static else Inr static) (\<lambda>static.
        and_then (strcpy xlen boot saved) (\<lambda>saved.
        and_then (strcpy xlen command_line static) (\<lambda>static.
        and_then (if ilen \<noteq> 0 then append_init_args boot (initargs_offs s) xlen (the (extra_init_args s)) saved else Inr saved) (\<lambda>saved.
          Inr (s\<lparr>saved_command_line := cstr 0 saved, static_command_line := cstr 0 static,
            saved_command_line_len := length (cstr 0 saved)\<rparr>)))))))"

section \<open>Keys are printed completely\<close>

text \<open>The text of the keys, which two passes over them agree on.\<close>

definition key_text :: "xbc_key \<Rightarrow> string" where
  "key_text k = (case key_name k of Inl _ \<Rightarrow> [] | Inr name \<Rightarrow>
     case key_values k of None \<Rightarrow> name @ '' '' | Some vs \<Rightarrow> concat (map (quoted_text name) vs))"

definition keys_ok :: "xbc_key list \<Rightarrow> bool" where
  "keys_ok ks \<longleftrightarrow> list_all (\<lambda>k. \<exists>name. key_name k = Inr name) ks"

text \<open>A buffer holds the string \<open>pre\<close> and has room for \<open>t\<close> after it.\<close>

definition room_for :: "string \<Rightarrow> string \<Rightarrow> string \<Rightarrow> bool" where
  "room_for pre t buf \<longleftrightarrow> (\<exists>r. buf = pre @ NUL # r \<and> length t \<le> length r)"

lemma snprintf_room:
  assumes "room_for pre (t @ u) buf"
  shows "room_for (pre @ t) u (snprintf_at (length pre) t buf)"
proof -
  obtain r where r: "buf = pre @ NUL # r" "length t + length u \<le> length r" using assms by (auto simp: room_for_def)
  then have "snprintf_at (length pre) t buf = pre @ t @ NUL # drop (length t) r"
    by (auto simp: snprintf_at_def Let_def min_def)
  then show ?thesis using r(2) by (auto simp: room_for_def)
qed

lemma print_values_room:
  "room_for pre (concat (map (quoted_text name) vs) @ u) buf \<Longrightarrow>
   \<exists>buf'. print_values name vs (length pre, buf) = (length (pre @ concat (map (quoted_text name) vs)), buf') \<and>
     room_for (pre @ concat (map (quoted_text name) vs)) u buf'"
proof (induction vs arbitrary: pre buf)
  case (Cons v vs)
  from Cons.IH [of "pre @ quoted_text name v" "snprintf_at (length pre) (quoted_text name v) buf"] snprintf_room [of pre "quoted_text name v" _ buf] Cons.prems
  show ?case by simp
qed simp

lemma print_values_position: "fst (print_values name vs (p, buf)) = p + length (concat (map (quoted_text name) vs))"
  by (induction vs arbitrary: p buf) auto

lemma xbc_snprint_position:
  "keys_ok ks \<Longrightarrow> \<exists>buf'. xbc_snprint_cmdline ks (p, buf) = Inr (p + length (concat (map key_text ks)), buf')"
proof (induction ks arbitrary: p buf)
  case (Cons k ks)
  obtain name where n: "key_name k = Inr name" using Cons.prems by (auto simp: keys_ok_def)
  have ok: "keys_ok ks" using Cons.prems by (simp add: keys_ok_def)
  show ?case
  proof (cases "key_values k")
    case None
    then show ?thesis using Cons.IH [OF ok, of "p + length name + 1" "snprintf_at p (name @ '' '') buf"] n
      by (auto simp: key_text_def [of k])
  next
    case (Some vs)
    obtain q b where "print_values name vs (p, buf) = (q, b)" by fastforce
    then show ?thesis using Cons.IH [OF ok, of q b] n Some print_values_position [of name vs p buf] by (auto simp: key_text_def [of k])
  qed
qed simp

lemma xbc_snprint_room:
  "\<lbrakk>keys_ok ks; room_for pre (concat (map key_text ks) @ u) buf\<rbrakk> \<Longrightarrow>
   \<exists>buf'. xbc_snprint_cmdline ks (length pre, buf) = Inr (length (pre @ concat (map key_text ks)), buf') \<and>
     room_for (pre @ concat (map key_text ks)) u buf'"
proof (induction ks arbitrary: pre buf)
  case (Cons k ks)
  obtain name where n: "key_name k = Inr name" using Cons.prems by (auto simp: keys_ok_def)
  have ok: "keys_ok ks" using Cons.prems by (simp add: keys_ok_def)
  show ?case
  proof (cases "key_values k")
    case None
    then have t: "key_text k = name @ '' ''" using n by (simp add: key_text_def)
    show ?thesis using Cons.IH [OF ok snprintf_room [of pre "key_text k"]] Cons.prems(2) n None t by simp
  next
    case (Some vs)
    then have t: "key_text k = concat (map (quoted_text name) vs)" using n by (simp add: key_text_def)
    obtain b where "print_values name vs (length pre, buf) = (length (pre @ key_text k), b)"
      "room_for (pre @ key_text k) (concat (map key_text ks) @ u) b"
      using print_values_room [of pre name vs "concat (map key_text ks) @ u" buf] Cons.prems(2) t by auto
    then show ?thesis using Cons.IH [OF ok] n Some by fastforce
  qed
qed simp

lemma xbc_make_cmdline_eq:
  assumes "xbc_find_node E key = Some ks" "keys_ok ks" "concat (map key_text ks) \<noteq> []" "plain (concat (map key_text ks))"
    "memblock_ok B (length (concat (map key_text ks)) + 1)"
  shows "xbc_make_cmdline B E key = Some (concat (map key_text ks))"
proof -
  let ?t = "concat (map key_text ks)"
  obtain b where count: "xbc_snprint_cmdline ks (0, []) = Inr (length ?t, b)" using xbc_snprint_position [OF assms(2), of 0 "[]"] by auto
  have "room_for [] (?t @ []) (replicate (length ?t + 1) NUL)" by (simp add: room_for_def)
  then obtain buf where print: "xbc_snprint_cmdline ks (0, replicate (length ?t + 1) NUL) = Inr (length ?t, buf)" and "room_for ?t [] buf"
    using xbc_snprint_room [OF assms(2), of "[]" "[]" "replicate (length ?t + 1) NUL"] by auto
  then have "cstr 0 buf = ?t" using cstr_plain_0 [OF assms(4)] by (auto simp: room_for_def)
  then show ?thesis using assms count print by (simp add: xbc_make_cmdline_def)
qed

section \<open>The command lines fit\<close>

lemma strcpy_append:
  "length pre = p \<Longrightarrow> length t < length r \<Longrightarrow> strcpy p t (pre @ r) = Inr (pre @ t @ NUL # drop (length t + 1) r)"
  by (simp add: strcpy_def)

lemma append_init_args_eq:
  assumes "offs \<le> length boot" "length r = length args + 4" "plain x" "plain boot"
  shows "\<exists>r'. append_init_args boot offs (length x) args (x @ boot @ NUL # r) =
    Inr (x @ (if offs = 0 then boot @ '' -- '' @ args else take offs boot @ args @ drop (offs - 1) boot) @ NUL # r')"
proof (cases "offs = 0")
  case True
  have "cstr 0 (x @ boot @ NUL # r) = x @ boot" using cstr_plain_0 [of "x @ boot" r] assms(3,4) by simp
  then show ?thesis using True assms(2)
    strcpy_append [of "x @ boot" "length (x @ boot)" "'' -- ''" "NUL # r"]
    strcpy_append [of "x @ boot @ '' -- ''" "length (x @ boot) + 4" args "NUL # drop (Suc (Suc (Suc (Suc 0)))) r"]
    by (simp add: append_init_args_def Let_def)
next
  case False
  have split: "x @ boot @ NUL # r = (x @ take offs boot) @ drop offs boot @ NUL # r" by simp
  let ?r = "drop (length args + 1) (drop offs boot @ NUL # r)"
  have one: "strcpy (length x + offs) args (x @ boot @ NUL # r) = Inr ((x @ take offs boot @ args) @ NUL # ?r)"
    unfolding split using assms(1,2) by (subst strcpy_append) auto
  have two: "strcpy (length x + offs + length args) (drop (offs - 1) boot) ((x @ take offs boot @ args) @ NUL # ?r) =
      Inr ((x @ take offs boot @ args) @ drop (offs - 1) boot @ NUL # drop (length (drop (offs - 1) boot) + 1) (NUL # ?r))"
    using assms(1,2) False by (intro strcpy_append) auto
  show ?thesis using False assms(1) one two by (auto simp: append_init_args_def tail_at_def)
qed

lemma strcpy_start:
  "length x \<le> n \<Longrightarrow> \<exists>r. (if length x \<noteq> 0 then strcpy 0 x (replicate (n + 1) NUL) else Inr (replicate (n + 1) NUL)) = Inr (x @ r) \<and>
     length r = n + 1 - length x"
  by (cases "x = []") (auto simp: strcpy_def)

text \<open>The command line that is kept: the kernel keys in front, the init keys before the init arguments of the boot command line.\<close>

definition saved_line :: "string \<Rightarrow> string \<Rightarrow> nat \<Rightarrow> string option \<Rightarrow> string" where
  "saved_line x boot offs init_args = x @ (case init_args of None \<Rightarrow> boot
     | Some y \<Rightarrow> if offs = 0 then boot @ '' -- '' @ y else take offs boot @ y @ drop (offs - 1) boot)"

definition line_law :: "boot_env \<Rightarrow> string \<Rightarrow> config \<Rightarrow> bool" where
  "line_law B command_line s \<longleftrightarrow> plain (boot_command_line B) \<and> plain command_line \<and>
     length command_line \<le> length (boot_command_line B) \<and> initargs_offs s \<le> length (boot_command_line B) \<and>
     (\<forall>y. extra_command_line s = Some y \<or> extra_init_args s = Some y \<longrightarrow> plain y)"

text \<open>The sizes of the two buffers.\<close>

definition static_size :: "boot_env \<Rightarrow> config \<Rightarrow> nat" where
  "static_size B s = (case extra_command_line s of None \<Rightarrow> 0 | Some x \<Rightarrow> length x) + length (boot_command_line B) + 1"

definition saved_size :: "boot_env \<Rightarrow> config \<Rightarrow> nat" where
  "saved_size B s = static_size B s + (case extra_init_args s of None \<Rightarrow> 0 | Some x \<Rightarrow> length x + 4)"

lemma setup_command_line_eq:
  assumes "line_law B command_line s" "memblock_ok B (saved_size B s)" "memblock_ok B (static_size B s)"
  shows "setup_command_line B command_line s =
    (let x = (case extra_command_line s of None \<Rightarrow> [] | Some y \<Rightarrow> y);
       saved = saved_line x (boot_command_line B) (initargs_offs s) (extra_init_args s) in
     Inr (s\<lparr>saved_command_line := saved, static_command_line := x @ command_line, saved_command_line_len := length saved\<rparr>))"
proof -
  define x where "x = (case extra_command_line s of None \<Rightarrow> [] | Some y \<Rightarrow> y)"
  let ?b = "boot_command_line B" and ?offs = "initargs_offs s"
  have law: "plain ?b" "length command_line \<le> length ?b" "plain command_line" "?offs \<le> length ?b" "plain x"
    "\<And>y. extra_init_args s = Some y \<Longrightarrow> plain y"
    using assms(1) by (auto simp: line_law_def x_def split: option.splits)
  have mem: "memblock_ok B (length x + length ?b + 1 + (case extra_init_args s of None \<Rightarrow> 0 | Some x \<Rightarrow> length x + 4))"
    "memblock_ok B (length x + length ?b + 1)"
    using assms(2,3) by (simp_all add: saved_size_def static_size_def x_def split: option.splits)
  let ?ilen = "case extra_init_args s of None \<Rightarrow> 0 | Some x \<Rightarrow> length x + 4"
  have xlen: "(case extra_command_line s of None \<Rightarrow> 0 | Some x \<Rightarrow> length x) = length x" "length x \<noteq> 0 \<Longrightarrow> the (extra_command_line s) = x"
    by (auto simp: x_def split: option.splits)
  obtain r where r: "(if length x \<noteq> 0 then strcpy 0 x (replicate (length x + length ?b + ?ilen + 1) NUL)
      else Inr (replicate (length x + length ?b + ?ilen + 1) NUL)) = Inr (x @ r)" "length r = length ?b + ?ilen + 1"
    using strcpy_start [of x "length x + length ?b + ?ilen"] by auto
  obtain q where q: "(if length x \<noteq> 0 then strcpy 0 x (replicate (length x + length ?b + 1) NUL)
      else Inr (replicate (length x + length ?b + 1) NUL)) = Inr (x @ q)" "length q = length ?b + 1"
    using strcpy_start [of x "length x + length ?b"] by auto
  let ?r = "drop (length ?b + 1) r"
  have boot: "strcpy (length x) ?b (x @ r) = Inr (x @ ?b @ NUL # ?r)" using r(2) by (intro strcpy_append) auto
  have static: "strcpy (length x) command_line (x @ q) = Inr (x @ command_line @ NUL # drop (length command_line + 1) q)"
    using q(2) law(2) by (intro strcpy_append) auto
  have cs: "cstr 0 (x @ command_line @ NUL # u) = x @ command_line" for u using cstr_plain_0 [of "x @ command_line"] law(3,5) by simp
  have cb: "cstr 0 (x @ t @ NUL # u) = x @ t" if "plain t" for t u using cstr_plain_0 [of "x @ t"] that law(5) by simp
  have n: "length x + length ?b + 1 + ?ilen = length x + length ?b + ?ilen + 1" by simp
  note start = setup_command_line_def Let_def xlen(1) n
  note mem = mem [unfolded n]
  show ?thesis
  proof (cases "extra_init_args s")
    case None
    then show ?thesis using r(1) q(1) boot static cs cb [OF law(1)] xlen(2) mem unfolding start x_def [symmetric] saved_line_def
      by (cases "length x = 0") auto
  next
    case (Some y)
    obtain r' where "append_init_args ?b ?offs (length x) y (x @ ?b @ NUL # ?r) =
        Inr (x @ (if ?offs = 0 then ?b @ '' -- '' @ y else take ?offs ?b @ y @ drop (?offs - 1) ?b) @ NUL # r')"
      using append_init_args_eq [OF law(4) _ law(5,1), of ?r y] r(2) Some by auto
    moreover have "plain (if ?offs = 0 then ?b @ '' -- '' @ y else take ?offs ?b @ y @ drop (?offs - 1) ?b)"
      using law(1,6) Some by (auto dest: in_set_takeD in_set_dropD)
    ultimately show ?thesis using r(1) q(1) boot static cs cb xlen(2) mem Some unfolding start x_def [symmetric] saved_line_def
      by (cases "length x = 0") auto
  qed
qed

text \<open>
  C27: the command lines fit the buffers whose sizes are computed before, with or without a boot
  configuration and with or without init arguments, and no byte is written outside; the kept line
  and the line to be parsed are the texts put together in the documented order. The architecture
  passes a command line no longer than the one it saved.
\<close>

theorem command_lines_fit:
  assumes "line_law B command_line s" "memblock_ok B (saved_size B s)" "memblock_ok B (static_size B s)"
  shows "setup_command_line B command_line s =
    (let x = (case extra_command_line s of None \<Rightarrow> [] | Some y \<Rightarrow> y);
       saved = saved_line x (boot_command_line B) (initargs_offs s) (extra_init_args s) in
     Inr (s\<lparr>saved_command_line := saved, static_command_line := x @ command_line, saved_command_line_len := length saved\<rparr>))"
  by (rule setup_command_line_eq [OF assms])

definition demo_line :: boot_env where
  "demo_line = (demo_boot [])\<lparr>boot_command_line := ''quiet -- a''\<rparr>"

definition demo_config :: config where
  "demo_config =
     \<lparr>initrd_start = 0x100000000, initrd_end = 0x100000000, initargs_offs = 9, extra_command_line = Some ''x=1 '',
      extra_init_args = Some ''b '', saved_command_line = [], static_command_line = [], saved_command_line_len = 0\<rparr>"

theorem command_lines_fit_witness:
  "\<exists>s. setup_command_line demo_line ''quiet -- a'' demo_config = Inr s \<and> saved_command_line s = ''x=1 quiet -- b  a'' \<and>
     static_command_line s = ''x=1 quiet -- a'' \<and> saved_command_line_len s = 17"
proof -
  have "line_law demo_line ''quiet -- a'' demo_config" "memblock_ok demo_line n" for n
    by (auto simp: line_law_def demo_line_def demo_boot_def demo_config_def)
  then show ?thesis using command_lines_fit [of demo_line "''quiet -- a''" demo_config]
    by (simp add: saved_line_def demo_line_def demo_config_def Let_def)
qed

section \<open>A configuration appended to the ram disk is found\<close>

text \<open>
  What \<open>bootconfig -a\<close> appends to a ram disk: the configuration, its size and checksum in little
  endian, the magic word, and up to three bytes with which the boot loader fills the image up.
\<close>

definition le32_bytes :: "u32 \<Rightarrow> u8 list" where
  "le32_bytes w = [ucast w, ucast (drop_bit 8 w), ucast (drop_bit 16 w), ucast (drop_bit 24 w)]"

definition ram_disk :: "config_env \<Rightarrow> u8 list \<Rightarrow> u8 list \<Rightarrow> u8 list \<Rightarrow> u8 list" where
  "ram_disk E files conf pad =
     files @ conf @ le32_bytes (of_nat (length conf)) @ le32_bytes (xbc_calc_checksum E conf) @ BOOTCONFIG_MAGIC @ pad"

definition loaded :: "(u64 \<Rightarrow> u8) \<Rightarrow> u64 \<Rightarrow> u8 list \<Rightarrow> bool" where
  "loaded mem a bs \<longleftrightarrow> bytes_at mem a (length bs) = bs"

lemma bytes_at_nth: "i < n \<Longrightarrow> bytes_at mem a n ! i = mem (a + of_nat i)"
  by (simp add: bytes_at_def)

lemma loaded_part:
  assumes "loaded mem a (xs @ ys @ zs)"
  shows "loaded mem (a + of_nat (length xs)) ys"
proof -
  have "bytes_at mem a (length (xs @ ys @ zs)) ! (length xs + i) = ys ! i" if "i < length ys" for i
    using assms that by (simp add: loaded_def nth_append)
  then have "mem (a + of_nat (length xs) + of_nat i) = ys ! i" if "i < length ys" for i
    using that bytes_at_nth [of "length xs + i" "length (xs @ ys @ zs)" mem a] by (simp add: add.assoc)
  then show ?thesis by (auto simp: loaded_def bytes_at_def intro!: nth_equalityI)
qed

lemma le32_at_bytes:
  assumes "loaded mem a (le32_bytes w)"
  shows "le32_at mem a = w"
proof -
  have m: "mem a = ucast w" "mem (a + 1) = ucast (drop_bit 8 w)" "mem (a + 2) = ucast (drop_bit 16 w)" "mem (a + 3) = ucast (drop_bit 24 w)"
    using assms by (auto simp: loaded_def le32_bytes_def bytes_at_def upt_rec numeral_eq_Suc)
  show ?thesis unfolding le32_at_def m
  proof (rule bit_word_eqI)
    fix n assume "n < LENGTH(32)"
    then consider "n < 8" | "8 \<le> n" "n < 16" | "16 \<le> n" "n < 24" | "24 \<le> n" "n < 32" by fastforce
    then show "bit (ucast (ucast w :: u8) OR push_bit 8 (ucast (ucast (drop_bit 8 w) :: u8)) OR push_bit 16 (ucast (ucast (drop_bit 16 w) :: u8)) OR
        push_bit 24 (ucast (ucast (drop_bit 24 w) :: u8)) :: u32) n = bit w n"
      by cases (auto simp: bit_simps)
  qed
qed

lemma bytes_at_loaded:
  assumes "loaded mem a bs" "k + n \<le> length bs"
  shows "bytes_at mem (a + of_nat k) n = take n (drop k bs)"
proof -
  have "bs = take k bs @ take n (drop k bs) @ drop (k + n) bs" by (metis append_take_drop_id drop_drop add.commute)
  then have "loaded mem (a + of_nat (length (take k bs))) (take n (drop k bs))" using assms(1) loaded_part by metis
  then show ?thesis using assms(2) by (simp add: loaded_def)
qed

lemma length_magic: "length BOOTCONFIG_MAGIC = 12"
  by (simp add: BOOTCONFIG_MAGIC_def)

text \<open>The magic word does not occur again inside itself, so that fill bytes do not hide it.\<close>

lemma find_magic_padded:
  assumes "loaded mem a (pre @ BOOTCONFIG_MAGIC @ pad)" "length pad \<le> 3" "i \<le> length pad"
  shows "find_magic mem (Suc i + k) (a + of_nat (length pre + i)) = Some (a + of_nat (length pre))"
  using assms(3)
proof (induction i arbitrary: k)
  case 0
  then show ?case using loaded_part [OF assms(1)] by (simp add: loaded_def)
next
  case (Suc i)
  let ?bs = "pre @ BOOTCONFIG_MAGIC @ pad"
  have i: "i = 0 \<or> i = 1 \<or> i = 2" using Suc.prems assms(2) by linarith
  have "hd (bytes_at mem (a + of_nat (length pre + Suc i)) 12) = BOOTCONFIG_MAGIC ! Suc i"
    using i Suc.prems bytes_at_loaded [OF assms(1), of "length pre + Suc i" 12] by (auto simp: BOOTCONFIG_MAGIC_def)
  moreover have "BOOTCONFIG_MAGIC ! Suc i \<noteq> hd BOOTCONFIG_MAGIC" using i by (auto simp: BOOTCONFIG_MAGIC_def)
  ultimately have "bytes_at mem (a + of_nat (length pre + Suc i)) (length BOOTCONFIG_MAGIC) \<noteq> BOOTCONFIG_MAGIC"
    using length_magic by metis
  then show ?case using Suc.IH [of k] Suc.prems by (simp add: algebra_simps)
qed

text \<open>
  C28: a configuration that was appended to the ram disk, with its size, checksum and magic word
  and up to three bytes of fill, is what the kernel finds; the ram disk then ends where the
  configuration starts.
\<close>

theorem appended_config_found:
  assumes "loaded (initrd_bytes E) (initrd_start s) (ram_disk E files conf pad)" "length pad \<le> 3" "length conf < 2 ^ 32"
    "initrd_end s = initrd_start s + of_nat (length (ram_disk E files conf pad))"
    "unat (initrd_start s) + length (ram_disk E files conf pad) < 2 ^ 64"
  shows "get_boot_config_from_initrd E s =
    (Some (initrd_start s + of_nat (length files), of_nat (length conf)), s\<lparr>initrd_end := initrd_start s + of_nat (length files)\<rparr>) \<and>
    bytes_at (initrd_bytes E) (initrd_start s + of_nat (length files)) (length conf) = conf"
proof -
  let ?m = "initrd_bytes E" and ?a = "initrd_start s" and ?sz = "le32_bytes (of_nat (length conf))" and ?cs = "le32_bytes (xbc_calc_checksum E conf)"
  let ?pre = "files @ conf @ ?sz @ ?cs"
  have rd: "ram_disk E files conf pad = ?pre @ BOOTCONFIG_MAGIC @ pad" by (simp add: ram_disk_def)
  have ld: "loaded ?m ?a (?pre @ BOOTCONFIG_MAGIC @ pad)" using assms(1) rd by simp
  have [simp]: "length ?sz = 4" "length ?cs = 4" by (simp_all add: le32_bytes_def)
  have "find_magic ?m (Suc (length pad) + (3 - length pad)) (?a + of_nat (length ?pre + length pad)) = Some (?a + of_nat (length ?pre))"
    using find_magic_padded [OF ld assms(2) order_refl] .
  then have magic: "find_magic ?m 4 (initrd_end s - of_nat (length BOOTCONFIG_MAGIC)) = Some (?a + of_nat (length ?pre))"
    using assms(2,4) rd by (simp add: algebra_simps BOOTCONFIG_MAGIC_def)
  let ?c = "?a + of_nat (length files)"
  have "loaded ?m (?a + of_nat (length (files @ conf))) ?sz" using loaded_part [of ?m ?a "files @ conf" ?sz] ld by simp
  then have sz: "le32_at ?m (?c + of_nat (length conf)) = of_nat (length conf)" using le32_at_bytes by (simp add: add.assoc)
  have "loaded ?m (?a + of_nat (length (files @ conf @ ?sz))) ?cs" using loaded_part [of ?m ?a "files @ conf @ ?sz" ?cs] ld by simp
  then have cs: "le32_at ?m (?c + of_nat (length conf) + 4) = xbc_calc_checksum E conf" using le32_at_bytes by (simp add: add.assoc)
  have conf: "bytes_at ?m ?c (length conf) = conf" using loaded_part [of ?m ?a files conf "?sz @ ?cs @ BOOTCONFIG_MAGIC @ pad"] ld by (simp add: loaded_def)
  have un: "unat (of_nat (length conf) :: u32) = length conf" using assms(3) by (simp add: unat_of_nat take_bit_nat_eq_self)
  have uc: "ucast (of_nat (length conf) :: u32) = (of_nat (length conf) :: u64)" using assms(3) by (simp add: unsigned_of_nat take_bit_nat_eq_self)
  have at: "unat (?a + of_nat n) = unat ?a + n" if "n \<le> length (ram_disk E files conf pad)" for n
    using that assms(5) by (simp add: unat_word_ariths unat_of_nat)
  have le: "\<not> ?c < ?a" using at [of "length files"] by (simp add: word_less_nat_alt ram_disk_def)
  have ne: "initrd_end s \<noteq> 0" using at [OF order_refl] assms(4) by (simp add: ram_disk_def BOOTCONFIG_MAGIC_def unat_eq_0 [symmetric])
  show ?thesis using magic sz cs conf un uc le ne by (simp add: get_boot_config_from_initrd_def Let_def algebra_simps)
qed

text \<open>Memory that holds an image from an address on.\<close>

definition image_at :: "u64 \<Rightarrow> u8 list \<Rightarrow> u64 \<Rightarrow> u8" where
  "image_at base bs a = bs ! unat (a - base)"

lemma image_at_loaded: "length bs < 2 ^ 64 \<Longrightarrow> loaded (image_at base bs) base bs"
  by (auto simp: loaded_def bytes_at_def image_at_def unat_of_nat take_bit_nat_eq_self intro!: nth_equalityI)

definition demo_config_env :: config_env where
  "demo_config_env =
     \<lparr>initrd_bytes = image_at 0x100000000 ([1, 2, 7] @ [1, 0, 0, 0] @ [7, 0, 0, 0] @ BOOTCONFIG_MAGIC @ [0]), xbc_calc_checksum = (\<lambda>bs. ucast (hd bs)),
      xbc_get_embedded_bootconfig = None, xbc_data_max = 32767, xbc_init = (\<lambda>_. 0), xbc_find_node = (\<lambda>_. None), config_force = False\<rparr>"

theorem appended_config_found_witness:
  "get_boot_config_from_initrd demo_config_env (demo_config\<lparr>initrd_end := 0x100000018\<rparr>) =
     (Some (0x100000002, 1), demo_config\<lparr>initrd_end := 0x100000002\<rparr>)"
proof -
  have rd: "ram_disk demo_config_env [1, 2] [7] [0] = [1, 2, 7] @ [1, 0, 0, 0] @ [7, 0, 0, 0] @ BOOTCONFIG_MAGIC @ [0]"
    by (simp add: ram_disk_def demo_config_env_def le32_bytes_def)
  have "loaded (initrd_bytes demo_config_env) (initrd_start (demo_config\<lparr>initrd_end := 0x100000018\<rparr>)) (ram_disk demo_config_env [1, 2] [7] [0])"
    unfolding rd using image_at_loaded by (simp add: demo_config_env_def demo_config_def BOOTCONFIG_MAGIC_def)
  from appended_config_found [OF this] show ?thesis unfolding rd by (simp add: demo_config_def BOOTCONFIG_MAGIC_def)
qed

text \<open>Whatever the image holds, what is found lies inside the ram disk.\<close>

lemma find_magic_near: "find_magic mem n data = Some d \<Longrightarrow> \<exists>i < n. d = data - of_nat i"
proof (induction n arbitrary: data)
  case (Suc n)
  show ?case
  proof (cases "bytes_at mem data (length BOOTCONFIG_MAGIC) = BOOTCONFIG_MAGIC")
    case True
    then show ?thesis using Suc.prems by (intro exI [of _ 0]) auto
  next
    case False
    then obtain i where "i < n" "d = data - 1 - of_nat i" using Suc by auto
    then show ?thesis by (intro exI [of _ "Suc i"]) (auto simp: algebra_simps)
  qed
qed simp

lemma unat_minus: "n \<le> unat a \<Longrightarrow> n < 2 ^ 64 \<Longrightarrow> unat (a - of_nat n :: u64) = unat a - n"
  by (subst unat_sub) (auto simp: word_le_nat_alt unat_of_nat take_bit_nat_eq_self)

lemma found_config_inside:
  assumes "get_boot_config_from_initrd E s = (Some (d, sz), s')" "2 ^ 33 \<le> unat (initrd_start s)" "initrd_start s \<le> initrd_end s"
  shows "unat (initrd_start s) \<le> unat d \<and> unat d + unat sz + 20 \<le> unat (initrd_end s) \<and> initrd_end s' = d"
proof -
  let ?m = "initrd_bytes E"
  obtain h where h: "find_magic ?m 4 (initrd_end s - of_nat (length BOOTCONFIG_MAGIC)) = Some h"
    using assms(1) by (cases "find_magic ?m 4 (initrd_end s - of_nat (length BOOTCONFIG_MAGIC))") (auto simp: get_boot_config_from_initrd_def split: if_splits)
  obtain i where i: "i < 4" "h = initrd_end s - of_nat (length BOOTCONFIG_MAGIC) - of_nat i" using find_magic_near [OF h] by blast
  have sz: "sz = le32_at ?m (h - 8)" and d: "d = h - 8 - ucast sz" "\<not> d < initrd_start s" "initrd_end s' = d"
    using assms(1) h by (auto simp: get_boot_config_from_initrd_def Let_def split: if_splits)
  have d': "d = initrd_end s - of_nat (20 + i + unat sz)" using d(1) i(2) length_magic by (simp add: algebra_simps of_nat_unat)
  have lt: "unat sz < 2 ^ 32" using unsigned_less [of sz] by (simp add: order_less_le_trans)
  then have "20 + i + unat sz \<le> unat (initrd_end s)" using i(1) assms(2,3) by (simp add: word_le_nat_alt)
  then have "unat d = unat (initrd_end s) - (20 + i + unat sz)" unfolding d' using i(1) lt by (intro unat_minus) simp_all
  then show ?thesis using d(2,3) \<open>20 + i + unat sz \<le> unat (initrd_end s)\<close> by (simp add: word_less_nat_alt)
qed

end
