(* ===== verification/Boot_Start.thy ===== *)
theory Boot_Start
  imports Boot_Config
begin

text \<open>
  The start of the kernel, from \<^verbatim>\<open>src/Kernel/Init/main.c\<close>: \<open>start_kernel\<close>, the initcalls, and the two
  threads that finish the boot, \<open>rest_init\<close> and \<open>kernel_init\<close>, which run interleaved. A call into a
  subsystem outside the sources is an entry of the trace; it may change the preemption count and
  the interrupt flag of the processor.
\<close>

section \<open>State\<close>

datatype system_states = SYSTEM_BOOTING | SYSTEM_SCHEDULING | SYSTEM_FREEING_INITMEM | SYSTEM_RUNNING

text \<open>The states are passed in this order.\<close>

instantiation system_states :: linorder
begin

definition state_rank :: "system_states \<Rightarrow> nat" where
  "state_rank st = (case st of SYSTEM_BOOTING \<Rightarrow> 0 | SYSTEM_SCHEDULING \<Rightarrow> 1 | SYSTEM_FREEING_INITMEM \<Rightarrow> 2 | SYSTEM_RUNNING \<Rightarrow> 3)"

definition less_eq_system_states :: "system_states \<Rightarrow> system_states \<Rightarrow> bool" where
  "less_eq_system_states a b \<longleftrightarrow> state_rank a \<le> state_rank b"

definition less_system_states :: "system_states \<Rightarrow> system_states \<Rightarrow> bool" where
  "less_system_states a b \<longleftrightarrow> state_rank a < state_rank b"

instance
  by standard (auto simp: less_eq_system_states_def less_system_states_def state_rank_def split: system_states.splits)

end

text \<open>What the boot does, in order: a call of a subsystem, an initcall with its result, a program tried as init.\<close>

datatype boot_event = Call string | Initcall nat int | Warn nat string | Exec string

record processor =
  preempt_count :: int
  irqs_disabled :: bool

record boot =
  boot_options_of :: options
  boot_config :: config
  cpu :: processor
  early_boot_irqs_disabled :: bool
  system_state :: system_states
  init_pid :: "int option"
  kthreadd_pid :: "int option"
  kthreadd_task :: "int option"
  kthreadd_done :: nat
  cad_pid :: "int option"
  trace :: "boot_event list"

record start_env =
  boot_of :: boot_env
  config_of :: config_env
  subsystem :: "string \<Rightarrow> processor \<Rightarrow> processor"
  arch_command_line :: string
  arch_parses_early :: bool
  initcall :: "nat \<Rightarrow> processor \<Rightarrow> int \<times> processor"
  symbol_of :: "nat \<Rightarrow> string"
  initcall_entries :: "nat list"
  initcall_levels :: "nat list"
  constructors :: "string list"
  kzalloc_ok :: "nat \<Rightarrow> bool"
  initcall_debug :: bool
  has_late_time_init :: bool
  efi_runtime :: bool
  initrd_below_start_ok :: bool
  initrd_page_low :: "u64 \<Rightarrow> bool"
  user_mode_thread_pid :: int
  kernel_thread_pid :: int
  find_task_by_pid :: "int \<Rightarrow> bool"
  console_opens :: bool
  init_eaccess :: "string option \<Rightarrow> int"
  kernel_execve :: "string \<Rightarrow> string list \<Rightarrow> string list \<Rightarrow> int"
  config_default_init :: string
  strict_kernel_rwx :: bool

abbreviation log_event :: "boot_event \<Rightarrow> boot \<Rightarrow> boot" where
  "log_event e s \<equiv> s\<lparr>trace := trace s @ [e]\<rparr>"

definition subsystem_call :: "start_env \<Rightarrow> string \<Rightarrow> boot \<Rightarrow> boot" where
  "subsystem_call E name s = s\<lparr>cpu := subsystem E name (cpu s), trace := trace s @ [Call name]\<rparr>"

definition subsystem_calls :: "start_env \<Rightarrow> string list \<Rightarrow> boot \<Rightarrow> boot" where
  "subsystem_calls E names s = fold (subsystem_call E) names s"

definition local_irq_disable :: "boot \<Rightarrow> boot" where
  "local_irq_disable s = s\<lparr>cpu := (cpu s)\<lparr>irqs_disabled := True\<rparr>\<rparr>"

definition local_irq_enable :: "boot \<Rightarrow> boot" where
  "local_irq_enable s = s\<lparr>cpu := (cpu s)\<lparr>irqs_disabled := False\<rparr>\<rparr>"

section \<open>Initcalls\<close>

text \<open>\<open>strreplace(fn_name, ' ', '\0')\<close> ends the name at its first blank.\<close>

definition initcall_blacklisted :: "start_env \<Rightarrow> nat \<Rightarrow> boot \<Rightarrow> bool" where
  "initcall_blacklisted E fn s =
     (let l = blacklisted_initcalls (boot_options_of s) in
      l \<noteq> [] \<and> list_ex (\<lambda>entry. takeWhile (\<lambda>c. c \<noteq> CHR '' '') (symbol_of E fn) = entry) l)"

text \<open>The processor and the message after an initcall that was entered with \<open>count\<close>.\<close>

definition initcall_restore :: "int \<Rightarrow> processor \<Rightarrow> processor" where
  "initcall_restore count c =
     (let c = (if preempt_count c \<noteq> count then c\<lparr>preempt_count := count\<rparr> else c) in
      if irqs_disabled c then c\<lparr>irqs_disabled := False\<rparr> else c)"

definition initcall_message :: "int \<Rightarrow> processor \<Rightarrow> string" where
  "initcall_message count c =
     (if preempt_count c \<noteq> count then ''preemption imbalance '' else []) @ (if irqs_disabled c then ''disabled interrupts '' else [])"

definition do_one_initcall :: "start_env \<Rightarrow> nat \<Rightarrow> boot \<Rightarrow> int \<times> boot" where
  "do_one_initcall E fn s =
     (let count = preempt_count (cpu s) in
      if initcall_blacklisted E fn s then (- EPERM, s)
      else case initcall E fn (cpu s) of (ret, c) \<Rightarrow>
        (ret, s\<lparr>cpu := initcall_restore count c,
          trace := trace s @ Initcall fn ret # (if initcall_message count c \<noteq> [] then [Warn fn (initcall_message count c)] else [])\<rparr>))"

definition run_initcalls :: "start_env \<Rightarrow> nat list \<Rightarrow> boot \<Rightarrow> boot" where
  "run_initcalls E fns s = fold (\<lambda>fn s. snd (do_one_initcall E fn s)) fns s"

text \<open>The entries between two pointers into the table.\<close>

definition entries_between :: "start_env \<Rightarrow> nat \<Rightarrow> nat \<Rightarrow> nat list" where
  "entries_between E a b = take (b - a) (drop a (initcall_entries E))"

definition initcall_level_names :: "string list" where
  "initcall_level_names = [''pure'', ''core'', ''postcore'', ''arch'', ''subsys'', ''fs'', ''device'', ''late'']"

definition do_initcall_level :: "start_env \<Rightarrow> nat \<Rightarrow> boot \<Rightarrow> boot" where
  "do_initcall_level E level s =
     run_initcalls E (entries_between E (initcall_levels E ! level) (initcall_levels E ! (level + 1)))
       (log_event (Call (''parse_args '' @ initcall_level_names ! level)) s)"

definition do_initcalls :: "start_env \<Rightarrow> boot \<Rightarrow> halt + boot" where
  "do_initcalls E s =
     (if \<not> kzalloc_ok E (saved_command_line_len (boot_config s) + 1) then Inl (Panic ''do_initcalls: Failed to allocate'')
      else Inr (fold (do_initcall_level E) [0..<length (initcall_levels E) - 1] s))"

definition do_ctors :: "start_env \<Rightarrow> boot \<Rightarrow> boot" where
  "do_ctors E s = subsystem_calls E (constructors E) s"

definition do_basic_setup :: "start_env \<Rightarrow> boot \<Rightarrow> halt + boot" where
  "do_basic_setup E s = do_initcalls E (do_ctors E (subsystem_calls E [''cpuset_init_smp'', ''driver_init'', ''init_irq_proc''] s))"

definition do_pre_smp_initcalls :: "start_env \<Rightarrow> boot \<Rightarrow> boot" where
  "do_pre_smp_initcalls E s = run_initcalls E (entries_between E 0 (initcall_levels E ! 0)) s"

section \<open>Starting the init program\<close>

definition run_init_process :: "start_env \<Rightarrow> string \<Rightarrow> boot \<Rightarrow> halt + int \<times> boot" where
  "run_init_process E init_filename s =
     (let opt = boot_options_of s; opt = opt\<lparr>argv_init := (argv_init opt)[0 := Some init_filename]\<rparr> in
      and_then (until_null (argv_init opt)) (\<lambda>argv. and_then (until_null (envp_init opt)) (\<lambda>envp.
        Inr (kernel_execve E init_filename argv envp, log_event (Exec init_filename) (s\<lparr>boot_options_of := opt\<rparr>)))))"

definition try_to_run_init_process :: "start_env \<Rightarrow> string \<Rightarrow> boot \<Rightarrow> halt + int \<times> boot" where
  "try_to_run_init_process E init_filename s = run_init_process E init_filename s"

text \<open>The chain of \<open>||\<close>: each program is tried until one can be executed.\<close>

fun try_each :: "start_env \<Rightarrow> string list \<Rightarrow> boot \<Rightarrow> halt + boot" where
  "try_each E [] s = Inl (Panic ''No working init found.'')"
| "try_each E (f # fs) s = and_then (try_to_run_init_process E f s) (\<lambda>(ret, s). if ret = 0 then Inr s else try_each E fs s)"

text \<open>The end of \<open>kernel_init\<close>, from the test of \<open>ramdisk_execute_command\<close> on.\<close>

definition execute_default :: "start_env \<Rightarrow> boot \<Rightarrow> halt + boot" where
  "execute_default E s =
     (let fallback = try_each E [''/sbin/init'', ''/etc/init'', ''/bin/init'', ''/bin/sh''] in
      if config_default_init E \<noteq> [] then
        and_then (run_init_process E (config_default_init E) s) (\<lambda>(ret, s). if ret \<noteq> 0 then fallback s else Inr s)
      else fallback s)"

definition execute_requested :: "start_env \<Rightarrow> boot \<Rightarrow> halt + boot" where
  "execute_requested E s =
     (case execute_command (boot_options_of s) of
        Some f \<Rightarrow> and_then (run_init_process E f s) (\<lambda>(ret, s).
          if ret = 0 then Inr s else Inl (Panic (''Requested init '' @ f @ '' failed'')))
      | None \<Rightarrow> execute_default E s)"

definition execute_init :: "start_env \<Rightarrow> boot \<Rightarrow> halt + boot" where
  "execute_init E s =
     (case ramdisk_execute_command (boot_options_of s) of
        Some f \<Rightarrow> and_then (run_init_process E f s) (\<lambda>(ret, s). if ret = 0 then Inr s else execute_requested E s)
      | None \<Rightarrow> execute_requested E s)"

section \<open>The first part of the boot\<close>

text \<open>\<open>setup_arch\<close> may already have the early options parsed.\<close>

definition start_kernel_early :: "start_env \<Rightarrow> boot \<Rightarrow> halt + boot" where
  "start_kernel_early E s =
     (let s = subsystem_calls E [''set_task_stack_end_magic'', ''smp_setup_processor_id'', ''debug_objects_early_init'',
          ''init_vmlinux_build_id'', ''cgroup_init_early''] s;
        s = (local_irq_disable s)\<lparr>early_boot_irqs_disabled := True\<rparr>;
        s = subsystem_calls E [''boot_cpu_init'', ''page_address_init'', ''early_security_init'', ''setup_arch''] s in
      and_then (if arch_parses_early E then parse_early_param (boot_of E) (boot_options_of s) else Inr (boot_options_of s)) (\<lambda>opt.
      and_then (setup_boot_config (boot_of E) (config_of E) (opt, boot_config s)) (\<lambda>(opt, conf).
      and_then (setup_command_line (boot_of E) (arch_command_line E) conf) (\<lambda>conf.
        let s = subsystem_calls E [''setup_nr_cpu_ids'', ''setup_per_cpu_areas'', ''smp_prepare_boot_cpu'', ''boot_cpu_hotplug_init'',
            ''jump_label_init''] (s\<lparr>boot_options_of := opt, boot_config := conf\<rparr>) in
        and_then (boot_options (boot_of E) (static_command_line conf) (extra_init_args conf) opt) (\<lambda>opt.
          Inr (s\<lparr>boot_options_of := opt\<rparr>))))))"

definition start_kernel_core :: "start_env \<Rightarrow> boot \<Rightarrow> boot" where
  "start_kernel_core E s =
     (let s = subsystem_calls E [''random_init_early'', ''setup_log_buf'', ''vfs_caches_init_early'', ''sort_main_extable'',
          ''trap_init'', ''mm_core_init'', ''poking_init'', ''ftrace_init'', ''early_trace_init'', ''sched_init''] s;
        s = (if \<not> irqs_disabled (cpu s) then local_irq_disable s else s);
        s = subsystem_calls E [''radix_tree_init'', ''maple_tree_init'', ''housekeeping_init'', ''workqueue_init_early'',
          ''rcu_init'', ''trace_init''] s;
        s = (if initcall_debug E then subsystem_calls E [''register_trace_initcall_start'', ''register_trace_initcall_finish''] s else s);
        s = subsystem_calls E [''context_tracking_init'', ''early_irq_init'', ''init_IRQ'', ''tick_init'', ''rcu_init_nohz'',
          ''init_timers'', ''srcu_init'', ''hrtimers_init'', ''softirq_init'', ''timekeeping_init'', ''time_init'', ''random_init'',
          ''kfence_init'', ''boot_init_stack_canary'', ''perf_event_init'', ''profile_init'', ''call_function_init''] s in
      subsystem_calls E [''kmem_cache_init_late'', ''console_init''] (local_irq_enable (s\<lparr>early_boot_irqs_disabled := False\<rparr>)))"

text \<open>A ram disk below the usable memory has been overwritten and is disabled.\<close>

definition check_initrd :: "start_env \<Rightarrow> boot \<Rightarrow> boot" where
  "check_initrd E s =
     (let start = initrd_start (boot_config s) in
      if start \<noteq> 0 \<and> \<not> initrd_below_start_ok E \<and> initrd_page_low E start
      then s\<lparr>boot_config := (boot_config s)\<lparr>initrd_start := 0\<rparr>\<rparr> else s)"

definition start_kernel_late :: "start_env \<Rightarrow> boot \<Rightarrow> boot" where
  "start_kernel_late E s =
     (let s = check_initrd E (subsystem_calls E [''lockdep_init'', ''locking_selftest''] s);
        s = subsystem_calls E [''setup_per_cpu_pageset'', ''numa_policy_init'', ''acpi_early_init''] s;
        s = (if has_late_time_init E then subsystem_call E ''late_time_init'' s else s);
        s = subsystem_calls E [''sched_clock_init'', ''calibrate_delay'', ''arch_cpu_finalize_init'', ''pid_idr_init'', ''anon_vma_init''] s;
        s = (if efi_runtime E then subsystem_call E ''efi_enter_virtual_mode'' s else s) in
      subsystem_calls E [''thread_stack_cache_init'', ''cred_init'', ''fork_init'', ''proc_caches_init'', ''uts_ns_init'', ''key_init'',
        ''security_init'', ''dbg_late_init'', ''net_ns_init'', ''vfs_caches_init'', ''pagecache_init'', ''signals_init'',
        ''seq_file_init'', ''proc_root_init'', ''nsfs_init'', ''cpuset_init'', ''cgroup_init'', ''taskstats_init_early'',
        ''delayacct_init'', ''acpi_subsystem_init'', ''arch_post_acpi_subsys_init'', ''kcsan_init''] s)"

text \<open>\<open>start_kernel\<close> up to the call of \<open>rest_init\<close>.\<close>

definition start_kernel :: "start_env \<Rightarrow> boot \<Rightarrow> halt + boot" where
  "start_kernel E s =
     and_then (start_kernel_early E s) (\<lambda>s.
       let s = start_kernel_core E s in
       case panic_later (boot_options_of s) of
         Some (what, param) \<Rightarrow> Inl (Panic (''Too many boot '' @ what @ '' vars at '' @ param))
       | None \<Rightarrow> Inr (start_kernel_late E s))"

section \<open>The two threads\<close>

text \<open>
  The bodies of \<open>rest_init\<close> and \<open>kernel_init\<close> as lists of steps, one per statement. A step may wait
  (\<open>None\<close>), stop the boot, or go on with a new state.
\<close>

type_synonym step = "boot \<Rightarrow> (halt + boot) option"

definition plain_step :: "(boot \<Rightarrow> boot) \<Rightarrow> step" where
  "plain_step f s = Some (Inr (f s))"

definition call_step :: "start_env \<Rightarrow> string \<Rightarrow> step" where
  "call_step E name = plain_step (subsystem_call E name)"

definition halting_step :: "(boot \<Rightarrow> halt + boot) \<Rightarrow> step" where
  "halting_step f s = Some (f s)"

definition set_state :: "system_states \<Rightarrow> step" where
  "set_state st = plain_step (\<lambda>s. s\<lparr>system_state := st\<rparr>)"

definition spawn_init :: "start_env \<Rightarrow> step" where
  "spawn_init E = plain_step (\<lambda>s. s\<lparr>init_pid := Some (user_mode_thread_pid E)\<rparr>)"

text \<open>Setting \<open>PF_NO_SETAFFINITY\<close> dereferences the task that was found.\<close>

definition pin_init :: "start_env \<Rightarrow> step" where
  "pin_init E = halting_step (\<lambda>s. if find_task_by_pid E (the (init_pid s)) then Inr (subsystem_call E ''set_cpus_allowed_ptr'' s) else Inl Bug)"

definition spawn_kthreadd :: "start_env \<Rightarrow> step" where
  "spawn_kthreadd E = plain_step (\<lambda>s. s\<lparr>kthreadd_pid := Some (kernel_thread_pid E)\<rparr>)"

definition find_kthreadd :: "start_env \<Rightarrow> step" where
  "find_kthreadd E = plain_step (\<lambda>s. s\<lparr>kthreadd_task := (if find_task_by_pid E (the (kthreadd_pid s)) then kthreadd_pid s else None)\<rparr>)"

definition complete_kthreadd :: step where
  "complete_kthreadd = plain_step (\<lambda>s. s\<lparr>kthreadd_done := kthreadd_done s + 1\<rparr>)"

definition wait_for_kthreadd :: step where
  "wait_for_kthreadd s = (if kthreadd_done s = 0 then None else Some (Inr (s\<lparr>kthreadd_done := kthreadd_done s - 1\<rparr>)))"

definition rest_init :: "start_env \<Rightarrow> step list" where
  "rest_init E =
     [call_step E ''rcu_scheduler_starting'', spawn_init E, pin_init E, call_step E ''numa_default_policy'', spawn_kthreadd E,
      find_kthreadd E, set_state SYSTEM_SCHEDULING, complete_kthreadd, call_step E ''schedule_preempt_disabled'',
      call_step E ''cpu_startup_entry'']"

definition console_on_rootfs :: "start_env \<Rightarrow> boot \<Rightarrow> boot" where
  "console_on_rootfs E s =
     (if console_opens E then subsystem_calls E [''filp_open'', ''init_dup'', ''init_dup'', ''init_dup'', ''fput''] s
      else subsystem_call E ''filp_open'' s)"

definition check_early_init :: "start_env \<Rightarrow> boot \<Rightarrow> boot" where
  "check_early_init E s =
     (if init_eaccess E (ramdisk_execute_command (boot_options_of s)) \<noteq> 0 then
        subsystem_call E ''prepare_namespace'' (s\<lparr>boot_options_of := (boot_options_of s)\<lparr>ramdisk_execute_command := None\<rparr>\<rparr>)
      else s)"

definition kernel_init_freeable :: "start_env \<Rightarrow> step list" where
  "kernel_init_freeable E =
     [call_step E ''gfp_allowed_mask'', call_step E ''set_mems_allowed'', plain_step (\<lambda>s. s\<lparr>cad_pid := init_pid s\<rparr>),
      call_step E ''smp_prepare_cpus'', call_step E ''workqueue_init'', call_step E ''init_mm_internals'',
      call_step E ''rcu_init_tasks_generic'', plain_step (do_pre_smp_initcalls E), call_step E ''lockup_detector_init'',
      call_step E ''smp_init'', call_step E ''sched_init_smp'', call_step E ''workqueue_init_topology'', call_step E ''padata_init'',
      call_step E ''page_alloc_init_late'', halting_step (do_basic_setup E), call_step E ''kunit_run_all_tests'',
      call_step E ''wait_for_initramfs'', plain_step (console_on_rootfs E), plain_step (check_early_init E),
      call_step E ''integrity_load_keys'']"

definition mark_readonly :: "start_env \<Rightarrow> boot \<Rightarrow> boot" where
  "mark_readonly E s =
     (if strict_kernel_rwx E \<and> rodata_enabled (boot_options_of s)
      then subsystem_calls E [''rcu_barrier'', ''mark_rodata_ro'', ''rodata_test''] s else s)"

definition kernel_init :: "start_env \<Rightarrow> step list" where
  "kernel_init E =
     wait_for_kthreadd # kernel_init_freeable E @
     [call_step E ''async_synchronize_full'', set_state SYSTEM_FREEING_INITMEM, call_step E ''kprobe_free_init_mem'',
      call_step E ''ftrace_free_init_mem'', call_step E ''kgdb_free_init_mem'', call_step E ''xbc_exit'',
      call_step E ''free_initmem_default'', plain_step (mark_readonly E), call_step E ''pti_finalize'', set_state SYSTEM_RUNNING,
      call_step E ''numa_default_policy'', call_step E ''rcu_end_inkernel_boot'', call_step E ''do_sysctl_args'',
      halting_step (execute_init E)]"

text \<open>
  The machine after \<open>start_kernel\<close>: how far each thread has come. \<open>kernel_init\<close> can run as soon as
  it has been created, and any of the two threads may run next.
\<close>

record machine =
  memory :: boot
  boot_at :: nat
  init_at :: nat

inductive boot_step :: "start_env \<Rightarrow> machine \<Rightarrow> machine \<Rightarrow> bool" for E where
  boot_runs: "\<lbrakk>boot_at m < length (rest_init E); (rest_init E ! boot_at m) (memory m) = Some (Inr s)\<rbrakk> \<Longrightarrow>
    boot_step E m (m\<lparr>memory := s, boot_at := boot_at m + 1\<rparr>)"
| init_runs: "\<lbrakk>init_pid (memory m) \<noteq> None; init_at m < length (kernel_init E); (kernel_init E ! init_at m) (memory m) = Some (Inr s)\<rbrakk> \<Longrightarrow>
    boot_step E m (m\<lparr>memory := s, init_at := init_at m + 1\<rparr>)"

inductive reachable :: "start_env \<Rightarrow> machine \<Rightarrow> machine \<Rightarrow> bool" for E where
  reach_refl: "reachable E m m"
| reach_step: "reachable E m n \<Longrightarrow> boot_step E n k \<Longrightarrow> reachable E m k"

inductive_cases boot_stepE: "boot_step E m n"

end
