(* ===== verification/Boot_Threads.thy ===== *)
theory Boot_Threads
  imports Boot_Start
begin

text \<open>
  The end of the boot: the initcalls, the interleaving of the two threads, the choice of the init
  program, and what \<open>start_kernel\<close> does with too many options.
\<close>

section \<open>What the threads share\<close>

definition initcalls_run :: "boot \<Rightarrow> nat list" where
  "initcalls_run s = concat (map (\<lambda>e. case e of Initcall fn ret \<Rightarrow> [fn] | _ \<Rightarrow> []) (trace s))"

definition runnable :: "start_env \<Rightarrow> boot \<Rightarrow> nat list \<Rightarrow> nat list" where
  "runnable E s fns = filter (\<lambda>fn. \<not> initcall_blacklisted E fn s) fns"

text \<open>The part of the state that the order of the boot depends on.\<close>

definition shared :: "boot \<Rightarrow> system_states \<times> int option \<times> int option \<times> int option \<times> nat \<times> string list" where
  "shared s = (system_state s, init_pid s, kthreadd_pid s, kthreadd_task s, kthreadd_done s, blacklisted_initcalls (boot_options_of s))"

definition quiet :: "step \<Rightarrow> bool" where
  "quiet f \<longleftrightarrow> (\<forall>s. f s \<noteq> None) \<and> (\<forall>s t. f s = Some (Inr t) \<longrightarrow> shared t = shared s \<and> initcalls_run t = initcalls_run s)"

definition silent :: "(boot \<Rightarrow> boot) \<Rightarrow> bool" where
  "silent f \<longleftrightarrow> (\<forall>s. shared (f s) = shared s \<and> initcalls_run (f s) = initcalls_run s)"

lemma silent_call: "silent (subsystem_call E name)"
  by (simp add: silent_def subsystem_call_def shared_def initcalls_run_def)

lemma silent_fold: "(\<And>x. x \<in> set xs \<Longrightarrow> silent (f x)) \<Longrightarrow> silent (fold f xs)"
  by (induction xs) (auto simp: silent_def)

lemma silent_calls: "silent (subsystem_calls E names)"
  using silent_fold [of names "subsystem_call E"] silent_call by (simp add: silent_def subsystem_calls_def)

lemma silent_id: "silent (\<lambda>s. s)"
  by (simp add: silent_def)

lemma silent_if: "silent f \<Longrightarrow> silent g \<Longrightarrow> silent (\<lambda>s. if b s then f s else g s)"
  by (simp add: silent_def)

lemma quiet_plain: "silent f \<Longrightarrow> quiet (plain_step f)"
  by (auto simp: quiet_def silent_def plain_step_def)

lemma quiet_call: "quiet (call_step E name)"
  by (simp add: call_step_def quiet_plain silent_call)

lemma silent_console: "silent (console_on_rootfs E)"
  unfolding console_on_rootfs_def [abs_def] by (intro silent_if silent_calls silent_call)

lemma silent_check: "silent (check_early_init E)"
  by (simp add: silent_def check_early_init_def subsystem_call_def shared_def initcalls_run_def)

lemma silent_readonly: "silent (mark_readonly E)"
  unfolding mark_readonly_def [abs_def] by (intro silent_if silent_calls silent_id)

lemma silent_cad: "silent (\<lambda>s. s\<lparr>cad_pid := init_pid s\<rparr>)"
  by (simp add: silent_def shared_def initcalls_run_def)

lemma run_init_process_quiet:
  "run_init_process E f s = Inr (r, t) \<Longrightarrow> shared t = shared s \<and> initcalls_run t = initcalls_run s"
  by (auto simp: run_init_process_def Let_def and_then_def shared_def initcalls_run_def split: sum.splits)

lemma run_init_process_cases:
  obtains h where "run_init_process E f s = Inl h" | r t where "run_init_process E f s = Inr (r, t)" "shared t = shared s" "initcalls_run t = initcalls_run s"
proof (cases "run_init_process E f s")
  case (Inr p)
  then show ?thesis using that(2) run_init_process_quiet by (cases p) metis
qed (use that in blast)

lemma try_each_quiet: "try_each E fs s = Inr t \<Longrightarrow> shared t = shared s \<and> initcalls_run t = initcalls_run s"
proof (induction fs arbitrary: s)
  case (Cons f fs)
  show ?case
    by (rule run_init_process_cases [of E f s]) (use Cons in \<open>auto simp: try_to_run_init_process_def split: if_splits\<close>)
qed simp

lemma execute_default_quiet: "execute_default E s = Inr t \<Longrightarrow> shared t = shared s \<and> initcalls_run t = initcalls_run s"
  by (rule run_init_process_cases [of E "config_default_init E" s])
    (auto simp: execute_default_def Let_def simp del: try_each.simps split: if_splits dest: try_each_quiet)

lemma execute_requested_quiet: "execute_requested E s = Inr t \<Longrightarrow> shared t = shared s \<and> initcalls_run t = initcalls_run s"
  by (rule run_init_process_cases [of E "the (execute_command (boot_options_of s))" s])
    (auto simp: execute_requested_def split: if_splits option.splits dest: execute_default_quiet)

lemma execute_init_quiet: "execute_init E s = Inr t \<Longrightarrow> shared t = shared s \<and> initcalls_run t = initcalls_run s"
  by (rule run_init_process_cases [of E "the (ramdisk_execute_command (boot_options_of s))" s])
    (auto simp: execute_init_def split: if_splits option.splits dest: execute_requested_quiet)

lemma quiet_execute: "quiet (halting_step (execute_init E))"
  using execute_init_quiet by (simp add: quiet_def halting_step_def)

lemmas quiet_steps = quiet_call quiet_plain silent_console silent_check silent_readonly silent_cad quiet_execute

section \<open>Initcalls run once, in order\<close>

lemma blacklisted_shared: "shared t = shared s \<Longrightarrow> initcall_blacklisted E fn t = initcall_blacklisted E fn s"
  by (simp add: initcall_blacklisted_def shared_def)

lemma runnable_shared: "shared t = shared s \<Longrightarrow> runnable E t fns = runnable E s fns"
  using blacklisted_shared [of t s] by (simp add: runnable_def)

lemma do_one_initcall_shared:
  "shared (snd (do_one_initcall E fn s)) = shared s \<and>
   initcalls_run (snd (do_one_initcall E fn s)) = initcalls_run s @ runnable E s [fn]"
  by (cases "initcall E fn (cpu s)") (simp add: do_one_initcall_def Let_def runnable_def shared_def initcalls_run_def)

text \<open>An initcall that leaves the preemption count or the interrupts changed is corrected.\<close>

lemma initcall_restore_cpu: "preempt_count (initcall_restore count c) = count" "\<not> irqs_disabled (initcall_restore count c)"
  by (simp_all add: initcall_restore_def Let_def)

lemma do_one_initcall_restores:
  assumes "\<not> irqs_disabled (cpu s)"
  shows "preempt_count (cpu (snd (do_one_initcall E fn s))) = preempt_count (cpu s) \<and>
    \<not> irqs_disabled (cpu (snd (do_one_initcall E fn s))) \<and>
    fst (do_one_initcall E fn s) = (if initcall_blacklisted E fn s then - EPERM else fst (initcall E fn (cpu s)))"
  using assms by (cases "initcall E fn (cpu s)") (simp add: do_one_initcall_def Let_def initcall_restore_cpu)

lemma run_initcalls_shared:
  "shared (run_initcalls E fns s) = shared s \<and> initcalls_run (run_initcalls E fns s) = initcalls_run s @ runnable E s fns"
proof (induction fns arbitrary: s)
  case Nil
  then show ?case by (simp add: run_initcalls_def runnable_def)
next
  case (Cons fn fns)
  let ?t = "snd (do_one_initcall E fn s)"
  have "run_initcalls E (fn # fns) s = run_initcalls E fns ?t" by (simp add: run_initcalls_def)
  moreover have "runnable E s (fn # fns) = runnable E s [fn] @ runnable E s fns" by (simp add: runnable_def)
  ultimately show ?case using Cons.IH [of ?t] do_one_initcall_shared [of E fn s] runnable_shared [of ?t s E fns] by simp
qed

lemma do_initcall_level_shared:
  "shared (do_initcall_level E l s) = shared s \<and> initcalls_run (do_initcall_level E l s) =
     initcalls_run s @ runnable E s (entries_between E (initcall_levels E ! l) (initcall_levels E ! (l + 1)))"
proof -
  let ?t = "log_event (Call (''parse_args '' @ initcall_level_names ! l)) s"
  have "shared ?t = shared s" "initcalls_run ?t = initcalls_run s" by (simp_all add: shared_def initcalls_run_def)
  then show ?thesis using run_initcalls_shared [of E _ ?t] runnable_shared [of ?t s] by (simp add: do_initcall_level_def)
qed

lemma levels_shared:
  "shared (fold (do_initcall_level E) ls s) = shared s \<and> initcalls_run (fold (do_initcall_level E) ls s) =
     initcalls_run s @ runnable E s (concat (map (\<lambda>l. entries_between E (initcall_levels E ! l) (initcall_levels E ! (l + 1))) ls))"
proof (induction ls arbitrary: s)
  case Nil
  then show ?case by (simp add: runnable_def)
next
  case (Cons l ls)
  let ?t = "do_initcall_level E l s"
  have "runnable E ?t = runnable E s" using runnable_shared [of ?t s] do_initcall_level_shared [of E l s] by blast
  then show ?case using Cons.IH [of ?t] do_initcall_level_shared [of E l s] by (simp add: runnable_def)
qed

text \<open>The pointers into the table of initcalls are in order, and the last one is its end.\<close>

definition levels_law :: "start_env \<Rightarrow> bool" where
  "levels_law E \<longleftrightarrow> length (initcall_levels E) = 9 \<and> sorted (initcall_levels E) \<and> initcall_levels E ! 8 = length (initcall_entries E)"

lemma entries_join: "a \<le> b \<Longrightarrow> b \<le> c \<Longrightarrow> entries_between E a b @ entries_between E b c = entries_between E a c"
proof -
  assume "a \<le> b" "b \<le> c"
  then have "c - a = (b - a) + (c - b)" "drop b (initcall_entries E) = drop (b - a) (drop a (initcall_entries E))" by simp_all
  then show ?thesis by (simp only: entries_between_def take_add)
qed

lemma levels_join:
  assumes "levels_law E" "k \<le> 8"
  shows "concat (map (\<lambda>l. entries_between E (initcall_levels E ! l) (initcall_levels E ! (l + 1))) [0..<k]) =
    entries_between E (initcall_levels E ! 0) (initcall_levels E ! k)"
  using assms(2)
proof (induction k)
  case 0
  then show ?case by (simp add: entries_between_def)
next
  case (Suc k)
  have "initcall_levels E ! 0 \<le> initcall_levels E ! k" "initcall_levels E ! k \<le> initcall_levels E ! Suc k"
    using assms(1) Suc.prems by (auto simp: levels_law_def sorted_iff_nth_mono)
  then show ?case using Suc entries_join by simp
qed

lemma do_initcalls_shared:
  assumes "levels_law E" "do_initcalls E s = Inr t"
  shows "shared t = shared s \<and> initcalls_run t =
    initcalls_run s @ runnable E s (entries_between E (initcall_levels E ! 0) (length (initcall_entries E)))"
  using assms levels_shared [of E "[0..<8]" s] levels_join [OF assms(1), of 8]
  by (auto simp: do_initcalls_def levels_law_def split: if_splits)

lemma do_basic_setup_shared:
  assumes "levels_law E" "do_basic_setup E s = Inr t"
  shows "shared t = shared s \<and> initcalls_run t =
    initcalls_run s @ runnable E s (entries_between E (initcall_levels E ! 0) (length (initcall_entries E)))"
proof -
  let ?u = "do_ctors E (subsystem_calls E [''cpuset_init_smp'', ''driver_init'', ''init_irq_proc''] s)"
  have "shared ?u = shared s" "initcalls_run ?u = initcalls_run s" using silent_calls by (simp_all add: do_ctors_def silent_def)
  then show ?thesis using do_initcalls_shared [OF assms(1), of ?u t] runnable_shared [of ?u s] assms(2) by (simp add: do_basic_setup_def)
qed

lemma do_pre_smp_shared:
  "shared (do_pre_smp_initcalls E s) = shared s \<and>
   initcalls_run (do_pre_smp_initcalls E s) = initcalls_run s @ runnable E s (entries_between E 0 (initcall_levels E ! 0))"
  using run_initcalls_shared by (simp add: do_pre_smp_initcalls_def)

section \<open>The threads in any interleaving\<close>

lemma kernel_init_length: "length (kernel_init E) = 35" "length (rest_init E) = 10"
  by (simp_all add: kernel_init_def kernel_init_freeable_def rest_init_def)

lemma kernel_init_steps:
  "kernel_init E ! 0 = wait_for_kthreadd" "kernel_init E ! 8 = plain_step (do_pre_smp_initcalls E)"
  "kernel_init E ! 15 = halting_step (do_basic_setup E)" "kernel_init E ! 22 = set_state SYSTEM_FREEING_INITMEM"
  "kernel_init E ! 30 = set_state SYSTEM_RUNNING"
  by (simp_all add: kernel_init_def kernel_init_freeable_def)

lemma kernel_init_quiet:
  assumes "i < 35" "i \<notin> {0, 8, 15, 22, 30}"
  shows "quiet (kernel_init E ! i)"
proof -
  have "list_all (\<lambda>i. i \<in> {0, 8, 15, 22, 30} \<or> quiet (kernel_init E ! i)) [0..<35]"
    by (simp add: upt_rec kernel_init_def kernel_init_freeable_def quiet_steps)
  moreover have "i \<in> set [0..<35]" using assms(1) by simp
  ultimately show ?thesis using assms(2) unfolding list_all_iff by blast
qed

text \<open>
  The state of the boot as a function of how far the threads have come, from a machine whose
  memory is \<open>s0\<close>.
\<close>

definition stage :: "machine \<Rightarrow> system_states" where
  "stage m = (if init_at m > 30 then SYSTEM_RUNNING else if init_at m > 22 then SYSTEM_FREEING_INITMEM
     else if boot_at m > 6 then SYSTEM_SCHEDULING else SYSTEM_BOOTING)"

definition initcalls_done :: "start_env \<Rightarrow> boot \<Rightarrow> nat \<Rightarrow> nat list" where
  "initcalls_done E s0 i = (if i > 15 then runnable E s0 (initcall_entries E)
     else if i > 8 then runnable E s0 (entries_between E 0 (initcall_levels E ! 0)) else [])"

definition boot_inv :: "start_env \<Rightarrow> boot \<Rightarrow> machine \<Rightarrow> bool" where
  "boot_inv E s0 m \<longleftrightarrow> boot_at m \<le> 10 \<and> init_at m \<le> 35 \<and> (init_at m > 0 \<longrightarrow> boot_at m \<ge> 8) \<and>
     shared (memory m) =
       (stage m, if boot_at m \<ge> 2 then Some (user_mode_thread_pid E) else None,
        if boot_at m \<ge> 5 then Some (kernel_thread_pid E) else None,
        if boot_at m \<ge> 6 \<and> find_task_by_pid E (kernel_thread_pid E) then Some (kernel_thread_pid E) else None,
        if boot_at m \<ge> 8 \<and> init_at m = 0 then 1 else 0, blacklisted_initcalls (boot_options_of s0)) \<and>
     initcalls_run (memory m) = initcalls_done E s0 (init_at m)"

text \<open>The memory with which \<open>rest_init\<close> starts.\<close>

definition before_rest_init :: "boot \<Rightarrow> bool" where
  "before_rest_init s \<longleftrightarrow> system_state s = SYSTEM_BOOTING \<and> init_pid s = None \<and> kthreadd_pid s = None \<and> kthreadd_task s = None \<and>
     kthreadd_done s = 0 \<and> initcalls_run s = []"

definition start_machine :: "boot \<Rightarrow> machine" where
  "start_machine s = \<lparr>memory = s, boot_at = 0, init_at = 0\<rparr>"

lemma boot_inv_start: "before_rest_init s \<Longrightarrow> boot_inv E s (start_machine s)"
  by (simp add: before_rest_init_def boot_inv_def start_machine_def shared_def stage_def initcalls_done_def)

lemmas step_defs = plain_step_def halting_step_def set_state_def

lemma rest_init_steps:
  "rest_init E ! Suc 0 = spawn_init E" "rest_init E ! 2 = pin_init E" "rest_init E ! 4 = spawn_kthreadd E" "rest_init E ! 5 = find_kthreadd E"
  "rest_init E ! 6 = set_state SYSTEM_SCHEDULING" "rest_init E ! 7 = complete_kthreadd"
  by (simp_all add: rest_init_def)

lemma rest_init_quiet: "i \<in> {0, 3, 8, 9} \<Longrightarrow> quiet (rest_init E ! i)"
  by (auto simp: rest_init_def quiet_call)

lemma boot_runs_inv:
  assumes "boot_inv E s0 m" "boot_at m < 10" "(rest_init E ! boot_at m) (memory m) = Some (Inr s)"
  shows "boot_inv E s0 (m\<lparr>memory := s, boot_at := boot_at m + 1\<rparr>)"
proof -
  have "boot_at m \<in> {0, 3, 8, 9} \<or> boot_at m = 1 \<or> boot_at m = 2 \<or> boot_at m = 4 \<or> boot_at m = 5 \<or> boot_at m = 6 \<or> boot_at m = 7"
    using assms(2) by auto
  then consider "boot_at m \<in> {0, 3, 8, 9}" | "boot_at m = 1" | "boot_at m = 2" | "boot_at m = 4" | "boot_at m = 5" | "boot_at m = 6" | "boot_at m = 7"
    by blast
  then show ?thesis
  proof cases
    case 1
    then have "shared s = shared (memory m)" "initcalls_run s = initcalls_run (memory m)"
      using rest_init_quiet assms(3) unfolding quiet_def by blast+
    then show ?thesis using assms(1) 1 by (auto simp: boot_inv_def stage_def)
  next
    case 2
    then show ?thesis using assms by (auto simp: boot_inv_def stage_def rest_init_steps step_defs spawn_init_def shared_def initcalls_run_def)
  next
    case 3
    then show ?thesis using assms
      by (auto simp: boot_inv_def stage_def rest_init_steps step_defs pin_init_def shared_def initcalls_run_def subsystem_call_def split: if_splits)
  next
    case 4
    then show ?thesis using assms by (auto simp: boot_inv_def stage_def rest_init_steps step_defs spawn_kthreadd_def shared_def initcalls_run_def)
  next
    case 5
    then show ?thesis using assms by (auto simp: boot_inv_def stage_def rest_init_steps step_defs find_kthreadd_def shared_def initcalls_run_def)
  next
    case 6
    then show ?thesis using assms by (auto simp: boot_inv_def stage_def rest_init_steps step_defs shared_def initcalls_run_def)
  next
    case 7
    then show ?thesis using assms by (auto simp: boot_inv_def stage_def rest_init_steps step_defs complete_kthreadd_def shared_def initcalls_run_def)
  qed
qed

lemma initcalls_join:
  "levels_law E \<Longrightarrow> entries_between E 0 (initcall_levels E ! 0) @ entries_between E (initcall_levels E ! 0) (length (initcall_entries E)) = initcall_entries E"
proof -
  assume law: "levels_law E"
  then have "initcall_levels E ! 0 \<le> initcall_levels E ! 8" unfolding levels_law_def by (intro sorted_nth_mono) auto
  then have "initcall_levels E ! 0 \<le> length (initcall_entries E)" using law by (simp add: levels_law_def)
  then show ?thesis using entries_join [of 0 "initcall_levels E ! 0"] by (simp add: entries_between_def)
qed

lemma init_runs_inv:
  assumes "levels_law E" "boot_inv E s0 m" "init_at m < 35" "(kernel_init E ! init_at m) (memory m) = Some (Inr s)"
  shows "boot_inv E s0 (m\<lparr>memory := s, init_at := init_at m + 1\<rparr>)"
proof -
  have bl: "initcall_blacklisted E fn (memory m) = initcall_blacklisted E fn s0" for fn
    using assms(2) by (simp add: boot_inv_def shared_def initcall_blacklisted_def)
  then have run: "runnable E (memory m) fns = runnable E s0 fns" for fns by (simp add: runnable_def)
  consider "init_at m \<notin> {0, 8, 15, 22, 30}" | "init_at m = 0" | "init_at m = 8" | "init_at m = 15" | "init_at m = 22" | "init_at m = 30" by blast
  then show ?thesis
  proof cases
    case 1
    then have "shared s = shared (memory m)" "initcalls_run s = initcalls_run (memory m)"
      using kernel_init_quiet [OF assms(3) 1] assms(4) unfolding quiet_def by blast+
    then show ?thesis using assms(2,3) 1 by (auto simp: boot_inv_def stage_def initcalls_done_def)
  next
    case 2
    then show ?thesis using assms(2,4)
      by (auto simp: boot_inv_def stage_def kernel_init_steps wait_for_kthreadd_def shared_def initcalls_run_def initcalls_done_def split: if_splits)
  next
    case 3
    then have s: "s = do_pre_smp_initcalls E (memory m)" using assms(4) by (simp add: kernel_init_steps step_defs)
    have "shared s = shared (memory m)" "initcalls_run s = initcalls_run (memory m) @ runnable E s0 (entries_between E 0 (initcall_levels E ! 0))"
      using do_pre_smp_shared [of E "memory m"] run unfolding s by simp_all
    then show ?thesis using assms(2) 3 by (auto simp: boot_inv_def stage_def initcalls_done_def)
  next
    case 4
    then have "do_basic_setup E (memory m) = Inr s" using assms(4) by (simp add: kernel_init_steps step_defs)
    then have "shared s = shared (memory m)"
      "initcalls_run s = initcalls_run (memory m) @ runnable E s0 (entries_between E (initcall_levels E ! 0) (length (initcall_entries E)))"
      using do_basic_setup_shared [OF assms(1)] run by simp_all
    moreover have "runnable E s0 (initcall_entries E) =
        runnable E s0 (entries_between E 0 (initcall_levels E ! 0)) @ runnable E s0 (entries_between E (initcall_levels E ! 0) (length (initcall_entries E)))"
      using initcalls_join [OF assms(1)] unfolding runnable_def by (metis filter_append)
    ultimately show ?thesis using assms(2) 4 by (auto simp: boot_inv_def stage_def initcalls_done_def)
  next
    case 5
    then show ?thesis using assms(2,4)
      by (auto simp: boot_inv_def stage_def kernel_init_steps step_defs shared_def initcalls_run_def initcalls_done_def)
  next
    case 6
    then show ?thesis using assms(2,4)
      by (auto simp: boot_inv_def stage_def kernel_init_steps step_defs shared_def initcalls_run_def initcalls_done_def)
  qed
qed

lemma reachable_inv:
  assumes "reachable E m n" "levels_law E" "boot_inv E s0 m"
  shows "boot_inv E s0 n"
  using assms(1,3)
proof induction
  case reach_refl
  then show ?case .
next
  case (reach_step a b c)
  have "boot_inv E s0 b" using reach_step.IH reach_step.prems .
  with reach_step.hyps(2) show ?case
    by cases (use boot_runs_inv init_runs_inv [OF assms(2)] in \<open>auto simp: kernel_init_length\<close>)
qed

lemma reachable_shared:
  assumes "levels_law E" "before_rest_init s" "reachable E (start_machine s) m"
  shows "boot_inv E s m" "system_state (memory m) = stage m" "kthreadd_done (memory m) = (if boot_at m \<ge> 8 \<and> init_at m = 0 then 1 else 0)"
    "init_pid (memory m) = (if boot_at m \<ge> 2 then Some (user_mode_thread_pid E) else None)"
    "kthreadd_task (memory m) = (if boot_at m \<ge> 6 \<and> find_task_by_pid E (kernel_thread_pid E) then Some (kernel_thread_pid E) else None)"
  using reachable_inv [OF assms(3,1) boot_inv_start [OF assms(2)]] by (simp_all add: boot_inv_def shared_def)

lemma rest_init_never_waits: "i < 10 \<Longrightarrow> (rest_init E ! i) s \<noteq> None"
proof -
  assume "i < 10"
  moreover have "list_all (\<lambda>f. f s \<noteq> None) (rest_init E)"
    by (simp add: rest_init_def step_defs call_step_def spawn_init_def pin_init_def spawn_kthreadd_def find_kthreadd_def complete_kthreadd_def)
  ultimately show ?thesis by (simp add: list_all_length kernel_init_length)
qed

lemma kernel_init_waits_once: "i < 35 \<Longrightarrow> 0 < i \<Longrightarrow> (kernel_init E ! i) s \<noteq> None"
proof -
  assume i: "i < 35" "0 < i"
  show ?thesis
  proof (cases "i \<in> {8, 15, 22, 30}")
    case True
    then show ?thesis by (auto simp: kernel_init_steps step_defs)
  next
    case False
    then show ?thesis using kernel_init_quiet [of i E] i by (auto simp: quiet_def)
  qed
qed

text \<open>
  C23: however the two threads interleave, \<open>kernel_init\<close> does its work only after \<open>kthreadd\<close> has been
  created and found and scheduling has begun; the system state only moves forward; and the boot is
  never stuck: while a thread is unfinished, one of them can run.
\<close>

theorem boot_threads_ordered:
  assumes "levels_law E" "before_rest_init s" "reachable E (start_machine s) m" "find_task_by_pid E (kernel_thread_pid E)"
  shows "(0 < init_at m \<longrightarrow> kthreadd_task (memory m) = Some (kernel_thread_pid E) \<and> SYSTEM_SCHEDULING \<le> system_state (memory m)) \<and>
    (\<forall>n. boot_step E m n \<longrightarrow> system_state (memory m) \<le> system_state (memory n)) \<and>
    (boot_at m < length (rest_init E) \<and> (rest_init E ! boot_at m) (memory m) \<noteq> None \<or>
     init_pid (memory m) \<noteq> None \<and> init_at m < length (kernel_init E) \<and> (kernel_init E ! init_at m) (memory m) \<noteq> None \<or>
     boot_at m = length (rest_init E) \<and> init_at m = length (kernel_init E))"
proof -
  note inv = reachable_shared [OF assms(1-3)]
  have bounds: "boot_at m \<le> 10" "init_at m \<le> 35" "0 < init_at m \<longrightarrow> 8 \<le> boot_at m" using inv(1) by (simp_all add: boot_inv_def)
  have first: "0 < init_at m \<longrightarrow> kthreadd_task (memory m) = Some (kernel_thread_pid E) \<and> SYSTEM_SCHEDULING \<le> system_state (memory m)"
    using inv(2,5) bounds assms(4) by (auto simp: stage_def less_eq_system_states_def state_rank_def)
  have "system_state (memory m) \<le> system_state (memory n)" if "boot_step E m n" for n
  proof -
    have "stage m \<le> stage n" using that by cases (auto simp: stage_def less_eq_system_states_def state_rank_def)
    then show ?thesis using inv(2) reachable_shared(2) [OF assms(1,2) reach_step [OF assms(3) that]] by simp
  qed
  moreover have "boot_at m < 10 \<or> init_at m < 35 \<and> boot_at m = 10 \<or> boot_at m = 10 \<and> init_at m = 35" using bounds by linarith
  then have "boot_at m < length (rest_init E) \<and> (rest_init E ! boot_at m) (memory m) \<noteq> None \<or>
     init_pid (memory m) \<noteq> None \<and> init_at m < length (kernel_init E) \<and> (kernel_init E ! init_at m) (memory m) \<noteq> None \<or>
     boot_at m = length (rest_init E) \<and> init_at m = length (kernel_init E)"
  proof (elim disjE conjE)
    assume "init_at m < 35" "boot_at m = 10"
    then show ?thesis using inv(3,4) kernel_init_waits_once [of "init_at m" E "memory m"]
      by (cases "init_at m = 0") (auto simp: kernel_init_length kernel_init_steps wait_for_kthreadd_def)
  qed (use rest_init_never_waits in \<open>auto simp: kernel_init_length\<close>)
  ultimately show ?thesis using first by blast
qed

text \<open>
  C24: when \<open>kernel_init\<close> has finished, however it was interleaved, every registered initcall has run
  exactly once and in the order of the table (the early ones before the levels), except those
  whose name is on the blacklist; and at any moment before, a part of this sequence has run.
\<close>

theorem initcalls_once_in_order:
  assumes "levels_law E" "before_rest_init s" "reachable E (start_machine s) m"
  shows "prefix (initcalls_run (memory m))
      (filter (\<lambda>fn. takeWhile (\<lambda>c. c \<noteq> CHR '' '') (symbol_of E fn) \<notin> set (blacklisted_initcalls (boot_options_of s))) (initcall_entries E)) \<and>
    (init_at m = length (kernel_init E) \<longrightarrow> initcalls_run (memory m) =
      filter (\<lambda>fn. takeWhile (\<lambda>c. c \<noteq> CHR '' '') (symbol_of E fn) \<notin> set (blacklisted_initcalls (boot_options_of s))) (initcall_entries E))"
proof -
  have run: "runnable E s fns = filter (\<lambda>fn. takeWhile (\<lambda>c. c \<noteq> CHR '' '') (symbol_of E fn) \<notin> set (blacklisted_initcalls (boot_options_of s))) fns" for fns
    by (auto simp: runnable_def initcall_blacklisted_def list_ex_iff Let_def intro!: filter_cong)
  have "initcalls_run (memory m) = initcalls_done E s (init_at m)" using reachable_shared(1) [OF assms] by (simp add: boot_inv_def)
  moreover have "prefix (initcalls_done E s (init_at m)) (runnable E s (initcall_entries E))"
    using initcalls_join [OF assms(1)] by (auto simp: initcalls_done_def runnable_def) (metis filter_append prefixI)
  ultimately show ?thesis unfolding run [symmetric] by (simp add: kernel_init_length initcalls_done_def)
qed

section \<open>Which program becomes init\<close>

text \<open>The programs that may be tried, in order.\<close>

definition candidates :: "start_env \<Rightarrow> options \<Rightarrow> string list" where
  "candidates E opt = (case ramdisk_execute_command opt of Some f \<Rightarrow> [f] | None \<Rightarrow> []) @
     (case execute_command opt of Some f \<Rightarrow> [f]
      | None \<Rightarrow> (if config_default_init E \<noteq> [] then [config_default_init E] else []) @ [''/sbin/init'', ''/etc/init'', ''/bin/init'', ''/bin/sh''])"

definition works :: "start_env \<Rightarrow> string list \<Rightarrow> string list \<Rightarrow> string \<Rightarrow> bool" where
  "works E args envs f \<longleftrightarrow> kernel_execve E f (f # args) envs = 0"

text \<open>The arrays hold arguments \<open>args\<close> after the name of the program, and the environment \<open>envs\<close>.\<close>

definition ready :: "nat \<Rightarrow> string list \<Rightarrow> string list \<Rightarrow> boot \<Rightarrow> bool" where
  "ready n args envs s \<longleftrightarrow> (\<exists>a. argv_init (boot_options_of s) = array_of n (a # args)) \<and> length args + 1 < n \<and>
     envp_init (boot_options_of s) = array_of n envs \<and> length envs < n"

definition started :: "nat \<Rightarrow> string list \<Rightarrow> string \<Rightarrow> string list \<Rightarrow> boot \<Rightarrow> boot" where
  "started n args f tried s =
     s\<lparr>boot_options_of := (boot_options_of s)\<lparr>argv_init := array_of n (f # args)\<rparr>, trace := trace s @ map Exec tried\<rparr>"

lemma started_ready: "ready n args envs s \<Longrightarrow> ready n args envs (started n args f tried s)"
  by (auto simp: ready_def started_def)

lemma started_twice: "started n args g ys (started n args f xs s) = started n args g (xs @ ys) s"
  by (simp add: started_def)

lemma started_options:
  "execute_command (boot_options_of (started n args f xs s)) = execute_command (boot_options_of s)"
  by (simp add: started_def)

lemma run_init_process_ready:
  assumes "ready n args envs s"
  shows "run_init_process E f s = Inr (kernel_execve E f (f # args) envs, started n args f [f] s)"
proof -
  obtain a where a: "argv_init (boot_options_of s) = array_of n (a # args)" using assms by (auto simp: ready_def)
  have "(array_of n (a # args))[0 := Some f] = array_of n (f # args)" using array_of_update [of 0 "a # args" n f] by simp
  then show ?thesis using assms a until_null_array_of [of "f # args" n] until_null_array_of [of envs n]
    by (simp add: run_init_process_def Let_def ready_def started_def)
qed

definition tries :: "start_env \<Rightarrow> nat \<Rightarrow> string list \<Rightarrow> string list \<Rightarrow> string list \<Rightarrow> boot \<Rightarrow> halt + boot \<Rightarrow> bool" where
  "tries E n args envs fs s r \<longleftrightarrow>
     (case find (works E args envs) fs of
        Some f \<Rightarrow> r = Inr (started n args f (takeWhile (\<lambda>f. \<not> works E args envs f) fs @ [f]) s)
      | None \<Rightarrow> \<exists>msg. r = Inl (Panic msg))"

lemma tries_Cons:
  assumes "ready n args envs s" "\<not> works E args envs f \<Longrightarrow> tries E n args envs fs (started n args f [f] s) (g (started n args f [f] s))"
  shows "tries E n args envs (f # fs) s (and_then (run_init_process E f s) (\<lambda>(ret, s). if ret = 0 then Inr s else g s))"
  using assms by (auto simp: tries_def run_init_process_ready works_def started_twice split: option.splits)

lemma tries_each: "ready n args envs s \<Longrightarrow> tries E n args envs fs s (try_each E fs s)"
proof (induction fs arbitrary: s)
  case (Cons f fs)
  then show ?case using tries_Cons [of n args envs s E f fs "try_each E fs"] started_ready by (simp add: try_to_run_init_process_def)
qed (simp add: tries_def)

lemma if_swap: "(if a \<noteq> 0 then x else y) = (if a = 0 then y else x)" for a :: int
  by simp

lemma tries_default:
  "ready n args envs s \<Longrightarrow> tries E n args envs ((if config_default_init E \<noteq> [] then [config_default_init E] else []) @
     [''/sbin/init'', ''/etc/init'', ''/bin/init'', ''/bin/sh'']) s (execute_default E s)"
  using tries_Cons [of n args envs s E "config_default_init E" _ "try_each E [''/sbin/init'', ''/etc/init'', ''/bin/init'', ''/bin/sh'']"]
    tries_each started_ready
  by (simp add: execute_default_def Let_def if_swap del: try_each.simps)

lemma tries_requested:
  assumes "ready n args envs s"
  shows "tries E n args envs (case execute_command (boot_options_of s) of Some f \<Rightarrow> [f]
      | None \<Rightarrow> (if config_default_init E \<noteq> [] then [config_default_init E] else []) @ [''/sbin/init'', ''/etc/init'', ''/bin/init'', ''/bin/sh''])
    s (execute_requested E s)"
proof (cases "execute_command (boot_options_of s)")
  case None
  then show ?thesis using tries_default [OF assms] by (simp add: execute_requested_def)
next
  case (Some f)
  then show ?thesis using tries_Cons [OF assms, of E f "[]" "\<lambda>_. Inl (Panic (''Requested init '' @ f @ '' failed''))"]
    by (simp add: execute_requested_def tries_def)
qed

text \<open>
  C26: \<open>kernel_init\<close> starts the first program that can be executed among the one of the ram disk, the
  one asked for with \<open>init=\<close> or, when none was asked for, the configured default and four standard
  paths; each is tried with the arguments and the environment of the command line. When none can
  be executed, and when the one asked for cannot, the boot panics.
\<close>

theorem init_program_chosen:
  assumes "ready n args envs s"
  shows "case find (works E args envs) (candidates E (boot_options_of s)) of
      Some f \<Rightarrow> execute_init E s = Inr (started n args f (takeWhile (\<lambda>f. \<not> works E args envs f) (candidates E (boot_options_of s)) @ [f]) s)
    | None \<Rightarrow> \<exists>msg. execute_init E s = Inl (Panic msg)"
proof -
  have "tries E n args envs (candidates E (boot_options_of s)) s (execute_init E s)"
  proof (cases "ramdisk_execute_command (boot_options_of s)")
    case None
    then show ?thesis using tries_requested [OF assms] by (simp add: execute_init_def candidates_def)
  next
    case (Some f)
    then show ?thesis
      using tries_Cons [OF assms, of E f _ "execute_requested E"] tries_requested [OF started_ready [OF assms], of E f "[f]"]
      by (simp add: execute_init_def candidates_def started_options)
  qed
  then show ?thesis by (simp add: tries_def)
qed

section \<open>From the command line to the first threads\<close>

lemma plain_cstr: "plain (cstr p buf)"
  by (auto simp: cstr_def dest: set_takeWhileD)

lemma xbc_make_cmdline_plain: "xbc_make_cmdline B E key = Some t \<Longrightarrow> plain t"
  using plain_cstr by (auto simp: xbc_make_cmdline_def split: option.splits sum.splits prod.splits if_splits)

text \<open>What the architecture hands over: a command line no longer than the one it saved.\<close>

definition arch_law :: "start_env \<Rightarrow> bool" where
  "arch_law E \<longleftrightarrow> options_law (boot_of E) \<and> plain (boot_command_line (boot_of E)) \<and> plain (arch_command_line E) \<and>
     length (arch_command_line E) \<le> length (boot_command_line (boot_of E))"

definition config_init :: "config \<Rightarrow> bool" where
  "config_init c \<longleftrightarrow> initargs_offs c = 0 \<and> extra_command_line c = None \<and> extra_init_args c = None"

lemma initrd_keeps_init: "config_init c \<Longrightarrow> config_init (snd (get_boot_config_from_initrd C c))"
  by (auto simp: get_boot_config_from_initrd_def config_init_def Let_def split: option.split)

lemma setup_boot_config_law:
  assumes "arch_law E" "options_ok (boot_of E) opt" "config_init c"
  shows "safe (\<lambda>(opt, c). options_ok (boot_of E) opt \<and> line_law (boot_of E) (arch_command_line E) c)
    (setup_boot_config (boot_of E) (config_of E) (opt, c))"
proof -
  let ?B = "boot_of E" and ?C = "config_of E"
  let ?tmp = "take (command_line_size ?B - 1) (boot_command_line ?B)"
  obtain found c' where g: "get_boot_config_from_initrd ?C c = (found, c')" by fastforce
  obtain as err where pa: "parse_args ?B False ?tmp = (as, err)" by fastforce
  have c': "config_init c'" using initrd_keeps_init [OF assms(3), of ?C] g by simp
  define d where "d = (case err of Args_dashes rest \<Rightarrow> c'\<lparr>initargs_offs := length ?tmp - length rest\<rparr> | _ \<Rightarrow> c')"
  have law: "line_law ?B (arch_command_line E) c'" "line_law ?B (arch_command_line E) d"
    using assms(1) c' by (auto simp: line_law_def arch_law_def config_init_def d_def min_def split: parse_end.split)
  have law': "line_law ?B (arch_command_line E) (d\<lparr>extra_command_line := xbc_make_cmdline ?B ?C k, extra_init_args := xbc_make_cmdline ?B ?C i\<rparr>)" for k i
    using law(2) xbc_make_cmdline_plain by (auto simp: line_law_def)
  show ?thesis
    unfolding setup_boot_config_def prod.case g pa Let_def d_def [symmetric]
    by (rule safe_and_then [OF config_args.feed_keeps [OF _ assms(2)]]) (auto simp: law law' list_all_iff split: option.split)
qed

lemma setup_command_line_safe:
  assumes "line_law B line c"
  shows "safe (\<lambda>_. True) (setup_command_line B line c)"
proof (cases "memblock_ok B (saved_size B c) \<and> memblock_ok B (static_size B c)")
  case True
  then show ?thesis using setup_command_line_eq [OF assms] by (simp add: Let_def)
next
  case False
  then show ?thesis by (auto simp: setup_command_line_def Let_def saved_size_def static_size_def)
qed

lemma call_keeps:
  "boot_options_of (subsystem_call E name s) = boot_options_of s" "boot_config (subsystem_call E name s) = boot_config s"
  "early_boot_irqs_disabled (subsystem_call E name s) = early_boot_irqs_disabled s"
  "before_rest_init (subsystem_call E name s) = before_rest_init s"
  by (simp_all add: subsystem_call_def before_rest_init_def initcalls_run_def)

lemma calls_keep:
  "boot_options_of (subsystem_calls E names s) = boot_options_of s" "boot_config (subsystem_calls E names s) = boot_config s"
  "early_boot_irqs_disabled (subsystem_calls E names s) = early_boot_irqs_disabled s"
  "before_rest_init (subsystem_calls E names s) = before_rest_init s"
  by (induction names arbitrary: s) (simp_all add: subsystem_calls_def call_keeps)

lemma irq_keeps:
  "boot_options_of (local_irq_disable s) = boot_options_of s" "boot_config (local_irq_disable s) = boot_config s"
  "early_boot_irqs_disabled (local_irq_disable s) = early_boot_irqs_disabled s" "before_rest_init (local_irq_disable s) = before_rest_init s"
  "boot_options_of (local_irq_enable s) = boot_options_of s" "boot_config (local_irq_enable s) = boot_config s"
  "early_boot_irqs_disabled (local_irq_enable s) = early_boot_irqs_disabled s" "before_rest_init (local_irq_enable s) = before_rest_init s"
  by (simp_all add: local_irq_disable_def local_irq_enable_def before_rest_init_def initcalls_run_def)

lemma field_keeps:
  "before_rest_init (s\<lparr>early_boot_irqs_disabled := b\<rparr>) = before_rest_init s"
  "before_rest_init (s\<lparr>boot_options_of := opt\<rparr>) = before_rest_init s"
  "before_rest_init (s\<lparr>boot_config := c\<rparr>) = before_rest_init s"
  "before_rest_init (s\<lparr>boot_options_of := opt, boot_config := c\<rparr>) = before_rest_init s"
  by (simp_all add: before_rest_init_def initcalls_run_def)

lemmas start_keeps = call_keeps calls_keep irq_keeps field_keeps

lemma start_kernel_core_keeps:
  "boot_options_of (start_kernel_core E s) = boot_options_of s" "\<not> early_boot_irqs_disabled (start_kernel_core E s)"
  "before_rest_init (start_kernel_core E s) = before_rest_init s"
  unfolding start_kernel_core_def Let_def by (simp_all add: start_keeps)

lemma start_kernel_late_keeps:
  "boot_options_of (start_kernel_late E s) = boot_options_of s" "early_boot_irqs_disabled (start_kernel_late E s) = early_boot_irqs_disabled s"
  "before_rest_init (start_kernel_late E s) = before_rest_init s"
  unfolding start_kernel_late_def Let_def check_initrd_def by (simp_all add: start_keeps)

lemma start_kernel_early_safe:
  assumes "arch_law E" "options_ok (boot_of E) (boot_options_of s)" "config_init (boot_config s)" "before_rest_init s"
  shows "safe (\<lambda>t. options_ok (boot_of E) (boot_options_of t) \<and> before_rest_init t) (start_kernel_early E s)"
proof -
  have law: "options_law (boot_of E)" using assms(1) by (simp add: arch_law_def)
  have early: "safe (options_ok (boot_of E)) (if arch_parses_early E then parse_early_param (boot_of E) opt else Inr opt)"
    if "options_ok (boot_of E) opt" for opt
    using parse_early_param_safe [OF law that] that by simp
  show ?thesis unfolding start_kernel_early_def Let_def
    by (rule safe_and_then [OF early])
      (auto simp: start_keeps assms intro!: safe_and_then [OF setup_boot_config_law [OF assms(1) _ assms(3)]]
        safe_and_then [OF setup_command_line_safe] safe_and_then [OF boot_options_keeps [OF law]])
qed


section \<open>A boot\<close>

text \<open>Running one thread to its end.\<close>

fun run_steps :: "step list \<Rightarrow> boot \<Rightarrow> boot option" where
  "run_steps [] s = Some s"
| "run_steps (f # fs) s = (case f s of Some (Inr t) \<Rightarrow> run_steps fs t | _ \<Rightarrow> None)"

lemma reachable_trans: "reachable E n k \<Longrightarrow> reachable E m n \<Longrightarrow> reachable E m k"
  by (induction rule: reachable.induct) (auto intro: reach_step)

lemma run_boot_reachable:
  "run_steps (drop i (rest_init E)) (memory m) = Some t \<Longrightarrow> i \<le> 10 \<Longrightarrow> boot_at m = i \<Longrightarrow> reachable E m (m\<lparr>memory := t, boot_at := 10\<rparr>)"
proof (induction "10 - i" arbitrary: i m)
  case 0
  then have "m\<lparr>memory := t, boot_at := 10\<rparr> = m" by (cases m) (simp add: kernel_init_length)
  then show ?case by (simp add: reach_refl)
next
  case (Suc n)
  have d: "drop i (rest_init E) = rest_init E ! i # drop (Suc i) (rest_init E)"
    using Suc.hyps(2) by (simp add: Cons_nth_drop_Suc kernel_init_length)
  obtain u where u: "(rest_init E ! i) (memory m) = Some (Inr u)" "run_steps (drop (Suc i) (rest_init E)) u = Some t"
    using Suc.prems(1) unfolding d by (auto split: option.splits sum.splits)
  let ?n = "m\<lparr>memory := u, boot_at := Suc i\<rparr>"
  have "boot_step E m ?n" using boot_runs [of m E u] u(1) Suc.prems Suc.hyps(2) by (simp add: kernel_init_length)
  moreover have "reachable E ?n (m\<lparr>memory := t, boot_at := 10\<rparr>)" using Suc.hyps(1) [of "Suc i" ?n] Suc.hyps(2) Suc.prems u(2) by simp
  ultimately show ?case using reachable_trans reach_step [OF reach_refl] by blast
qed

lemma run_init_reachable:
  assumes "levels_law E" "before_rest_init s" "reachable E (start_machine s) m" "2 \<le> boot_at m"
    "run_steps (drop (init_at m) (kernel_init E)) (memory m) = Some t" "init_at m \<le> 35"
  shows "reachable E m (m\<lparr>memory := t, init_at := 35\<rparr>)"
  using assms(3-)
proof (induction "35 - init_at m" arbitrary: m)
  case 0
  then have "m\<lparr>memory := t, init_at := 35\<rparr> = m" by (cases m) (simp add: kernel_init_length)
  then show ?case by (simp add: reach_refl)
next
  case (Suc n)
  have d: "drop (init_at m) (kernel_init E) = kernel_init E ! init_at m # drop (Suc (init_at m)) (kernel_init E)"
    using Suc.hyps(2) by (simp add: Cons_nth_drop_Suc kernel_init_length)
  obtain u where u: "(kernel_init E ! init_at m) (memory m) = Some (Inr u)" "run_steps (drop (Suc (init_at m)) (kernel_init E)) u = Some t"
    using Suc.prems(3) unfolding d by (auto split: option.splits sum.splits)
  let ?n = "m\<lparr>memory := u, init_at := Suc (init_at m)\<rparr>"
  have "init_pid (memory m) \<noteq> None" using reachable_shared(4) [OF assms(1,2) Suc.prems(1)] Suc.prems(2) by simp
  then have step: "boot_step E m ?n" using init_runs [of m E u] u(1) Suc.hyps(2) by (simp add: kernel_init_length)
  have "reachable E ?n (?n\<lparr>memory := t, init_at := 35\<rparr>)"
    using Suc.hyps(1) [of ?n] reach_step [OF Suc.prems(1) step] Suc.hyps(2) Suc.prems(2,4) u(2) by simp
  then show ?case using reachable_trans [OF _ reach_step [OF reach_refl step]] by simp
qed

definition demo_start :: start_env where
  "demo_start =
     \<lparr>boot_of = demo_boot [], config_of = demo_config_env, subsystem = (\<lambda>_ c. c), arch_command_line = [], arch_parses_early = True,
      initcall = (\<lambda>fn c. (0, c\<lparr>preempt_count := preempt_count c + 1\<rparr>)), symbol_of = (\<lambda>fn. if fn = 1 then ''b_init [mod]'' else ''a_init''),
      initcall_entries = [3, 1, 2], initcall_levels = [1, 1, 1, 1, 1, 1, 1, 2, 3], constructors = [], kzalloc_ok = (\<lambda>_. True),
      initcall_debug = False, has_late_time_init = False, efi_runtime = False, initrd_below_start_ok = True, initrd_page_low = (\<lambda>_. False),
      user_mode_thread_pid = 1, kernel_thread_pid = 2, find_task_by_pid = (\<lambda>_. True), console_opens = True,
      init_eaccess = (\<lambda>_. 0), kernel_execve = (\<lambda>f argv envp. if f = ''/bin/sh'' then 0 else - 2), config_default_init = [], strict_kernel_rwx = True\<rparr>"

definition demo_memory :: boot where
  "demo_memory =
     \<lparr>boot_options_of = (options_init (demo_boot []))\<lparr>blacklisted_initcalls := [''b_init'']\<rparr>, boot_config = demo_config\<lparr>initargs_offs := 0,
        extra_command_line := None, extra_init_args := None\<rparr>,
      cpu = \<lparr>preempt_count = 0, irqs_disabled = False\<rparr>, early_boot_irqs_disabled = False, system_state = SYSTEM_BOOTING, init_pid = None,
      kthreadd_pid = None, kthreadd_task = None, kthreadd_done = 0, cad_pid = None, trace = []\<rparr>"

lemma demo_levels: "levels_law demo_start"
  by (simp add: levels_law_def demo_start_def)

lemma demo_before: "before_rest_init demo_memory"
  by (simp add: before_rest_init_def demo_memory_def initcalls_run_def)

lemma demo_ready: "ready 5 [] [''HOME=/'', ''TERM=linux''] demo_memory"
  by (auto simp: ready_def demo_memory_def options_init_def demo_boot_max)

theorem init_program_chosen_witness:
  "execute_init demo_start demo_memory =
     Inr (started 5 [] ''/bin/sh'' [''/init'', ''/sbin/init'', ''/etc/init'', ''/bin/init'', ''/bin/sh''] demo_memory)"
proof -
  have "candidates demo_start (boot_options_of demo_memory) = [''/init'', ''/sbin/init'', ''/etc/init'', ''/bin/init'', ''/bin/sh'']"
    by (simp add: candidates_def demo_start_def demo_memory_def options_init_def)
  then show ?thesis using init_program_chosen [OF demo_ready, of demo_start] by (simp add: works_def demo_start_def)
qed

lemmas run_eval = rest_init_def kernel_init_def kernel_init_freeable_def step_defs call_step_def spawn_init_def pin_init_def
  spawn_kthreadd_def find_kthreadd_def complete_kthreadd_def wait_for_kthreadd_def subsystem_call_def subsystem_calls_def
  do_pre_smp_initcalls_def do_basic_setup_def do_ctors_def do_initcalls_def do_initcall_level_def run_initcalls_def entries_between_def
  do_one_initcall_def initcall_blacklisted_def initcall_restore_def initcall_message_def console_on_rootfs_def check_early_init_def mark_readonly_def

lemma demo_boot_runs:
  "\<exists>t u. run_steps (rest_init demo_start) demo_memory = Some t \<and> run_steps (kernel_init demo_start) t = Some u"
  by (simp add: run_eval demo_start_def demo_memory_def demo_boot_def options_init_def upt_rec execute_init_def execute_requested_def
    execute_default_def run_init_process_def Let_def try_to_run_init_process_def array_of_def numeral_eq_Suc)

lemma demo_reachable: "\<exists>m. reachable demo_start (start_machine demo_memory) m \<and> boot_at m = 10 \<and> init_at m = 35"
proof -
  obtain t u where run: "run_steps (rest_init demo_start) demo_memory = Some t" "run_steps (kernel_init demo_start) t = Some u"
    using demo_boot_runs by blast
  let ?m = "(start_machine demo_memory)\<lparr>memory := t, boot_at := 10\<rparr>"
  have boot: "reachable demo_start (start_machine demo_memory) ?m"
    using run_boot_reachable [of 0 demo_start "start_machine demo_memory" t] run(1) by (simp add: start_machine_def)
  have "reachable demo_start ?m (?m\<lparr>memory := u, init_at := 35\<rparr>)"
    using run_init_reachable [OF demo_levels demo_before boot] run(2) by (simp add: start_machine_def)
  then show ?thesis using reachable_trans boot by fastforce
qed

theorem boot_threads_ordered_witness:
  "\<exists>m. reachable demo_start (start_machine demo_memory) m \<and> init_at m = 35 \<and> kthreadd_task (memory m) = Some 2 \<and>
     SYSTEM_SCHEDULING \<le> system_state (memory m)"
proof -
  obtain m where m: "reachable demo_start (start_machine demo_memory) m" "init_at m = 35" using demo_reachable by blast
  have pid: "find_task_by_pid demo_start (kernel_thread_pid demo_start)" "kernel_thread_pid demo_start = 2" by (simp_all add: demo_start_def)
  show ?thesis using boot_threads_ordered [OF demo_levels demo_before m(1) pid(1)] m pid(2) by auto
qed

theorem initcalls_once_in_order_witness:
  "\<exists>m. reachable demo_start (start_machine demo_memory) m \<and> initcalls_run (memory m) = [3, 2]"
proof -
  obtain m where m: "reachable demo_start (start_machine demo_memory) m" "init_at m = 35" using demo_reachable by blast
  have "filter (\<lambda>fn. takeWhile (\<lambda>c. c \<noteq> CHR '' '') (symbol_of demo_start fn) \<notin> set (blacklisted_initcalls (boot_options_of demo_memory)))
      (initcall_entries demo_start) = [3, 2]"
    by (simp add: demo_start_def demo_memory_def)
  then show ?thesis using initcalls_once_in_order [OF demo_levels demo_before m(1)] m by (auto simp: kernel_init_length)
qed


end
