(* ===== verification/Spec2Isabelle.thy ===== *)
theory Spec2Isabelle
  imports Credentials Rlimits Memory_Limits Priorities Process_Groups Uts_Names Resource_Usage Process_Control
    System_Info Proc_Modules File_Copy File_Open Attribute_Calls Fork_Runs Syscall_Counters Boot_Threads
begin

text \<open>
  This development verifies the kernel code under \<^verbatim>\<open>src/Kernel\<close> and the modules under
  \<^verbatim>\<open>src/Modulos\<close>: a Linux kernel with added system calls and \<^verbatim>\<open>/proc\<close> files. The boot
  starts the first two processes; processes create others, and each makes system calls on its
  credentials, limits, memory map and files; the modules report what the kernel counts.

  \<^bold>\<open>Parts of the program and the theories that model them.\<close> Every function of the source becomes a
  HOL function with the same name (prefixed with \<open>sys_\<close> or \<open>compat_sys_\<close> for a
  \<open>SYSCALL_DEFINE\<close>); it takes its arguments, an environment record and the state it
  touches, and returns the \<open>long\<close> of the call and the new state. Each early return of the
  code is a branch of the model. Unsigned and signed machine integers are words; where a value is
  read as a signed number this is written out.

    \<^item> \<open>Kernel_Base\<close>, \<open>Byte_Text\<close>: C types, error numbers, flag words, user pointers, runs of calls,
      three interfaces (calls that keep an invariant, that move along a preorder, that change
      nothing on an error), and byte strings with \<open>sscanf\<close> and decimal printing.
    \<^item> \<open>Credentials\<close>: the \<open>setuid\<close> family of \<^verbatim>\<open>kernel/sys.c\<close>; state: the credentials of a task.
    \<^item> \<open>Rlimits\<close>: \<open>do_prlimit\<close>, \<open>getrlimit\<close>, \<open>setrlimit\<close>, \<open>prlimit64\<close> and their 32-bit
      forms; state: the limits of every \<open>signal_struct\<close>.
    \<^item> \<open>Memory_Limits\<close>: the four calls of \<^verbatim>\<open>kernel/fase3/syscall3.c\<close>; state: the heap of list
      nodes, the list and the limits of \<open>Rlimits\<close>, which the calls change through \<open>do_prlimit\<close>.
    \<^item> \<open>Priorities\<close>, \<open>Process_Groups\<close>, \<open>Uts_Names\<close>, \<open>Resource_Usage\<close>: the calls of
      \<^verbatim>\<open>kernel/sys.c\<close> on nice values, groups and sessions, system names, and times.
    \<^item> \<open>Mm_Layout\<close>, \<open>Process_Tree\<close>, \<open>Process_Control\<close>: \<open>prctl\<close> with what it does to the memory
      map, \<open>walk_process_tree\<close> of \<^verbatim>\<open>kernel/fork.c\<close>, and the dispatcher over both.
    \<^item> \<open>System_Info\<close>: \<open>sysinfo\<close> and the added calls \<open>luis_capture_memory_snapshot\<close>,
      \<open>luis_get_io_throttle\<close>, \<open>luis_tamalloc\<close> of \<^verbatim>\<open>kernel/sys.c\<close>.
    \<^item> \<open>Proc_Modules\<close>: the five modules, which read what \<open>System_Info\<close> reads and print it.
    \<^item> \<open>File_Offsets\<close>, \<open>File_Transfer\<close>, \<open>File_Copy\<close>: \<^verbatim>\<open>fs/read_write.c\<close>, from the position of a
      file over the read and write calls to \<open>sendfile\<close> and \<open>copy_file_range\<close>.
    \<^item> \<open>File_Open\<close>: \<^verbatim>\<open>fs/open.c\<close>, the \<open>open\<close> family, \<open>close\<close> and \<open>do_dentry_open\<close>.
    \<^item> \<open>File_Attributes\<close>: the rest of \<^verbatim>\<open>fs/open.c\<close>, from \<open>truncate\<close> and \<open>fallocate\<close> over \<open>access\<close>,
      \<open>chdir\<close> and \<open>chroot\<close> to \<open>chmod\<close> and \<open>chown\<close>; state: the resources a task holds, its
      credentials and directories, and the file system. \<open>Attribute_Calls\<close> has the sequences of these calls.
    \<^item> \<open>Process_Creation\<close>: \<open>copy_process\<close>, \<open>kernel_clone\<close>, the \<open>clone\<close> family and \<open>unshare\<close> of
      \<^verbatim>\<open>kernel/fork.c\<close>; state: the tasks and the reference counts of the structures they use.
      \<open>Fork_Unwinding\<close> shows that the error labels undo what was done, \<open>Process_Sharing\<close> what a
      success has shared, \<open>Task_Table\<close> and \<open>Unshare\<close> that exact counts and consistent thread groups
      are kept; \<open>Fork_Runs\<close> has the properties of the calls and of their sequences.
    \<^item> \<open>Syscall_Counters\<close>: the counters in \<open>read\<close>, \<open>write\<close>, \<open>open\<close> and \<open>clone\<close> with
      \<open>luis_track_syscall_usage\<close>, over the states of \<open>File_Transfer\<close>, \<open>File_Open\<close> and
      \<open>Process_Creation\<close> put together.
    \<^item> \<open>Boot_Options\<close>, \<open>Boot_Arguments\<close>, \<open>Boot_Config\<close>: the kernel command line in \<^verbatim>\<open>Init/main.c\<close>: setup
      functions, what init is handed, the boot configuration and the buffers of the command lines.
    \<^item> \<open>Boot_Start\<close>, \<open>Boot_Threads\<close>: \<open>start_kernel\<close>, initcalls, and \<open>rest_init\<close> and \<open>kernel_init\<close> as two threads
      with a step relation over all their interleavings.


  \<^bold>\<open>What is shown.\<close> For every group the functional behaviour of its main operations on all
  branches, and invariants over arbitrary sequences of calls: no call sequence without
  capabilities gains an id or raises a hard limit; the list of the limiter stays sound and
  refines a finite map; layouts, groups, sessions, marks and file descriptors keep their
  invariants; reference counts stay exact while processes are created, fail to be created and
  unshare; an open, a clone or a change of attributes that fails gives back what it took; file
  types never change; positions, copied ranges and the arrays and buffers of the boot stay in
  bounds. Loops end: the walk over the process tree equals a recursive one, \<open>getrusage\<close> returns after
  at most one retry, the retries of \<open>chmod\<close> and \<open>chown\<close> and the scaling loops of \<open>sysinfo\<close> stop. Round
  trips: limits, the auxiliary vector, host names, decimal numbers, the boot configuration. The
  two threads of the boot keep their order in every interleaving and are never stuck. This theory
  holds what spans components: the limiter and the limit calls of other processes interleaved.

  \<^bold>\<open>Code outside \<open>src/\<close>.\<close> Security hooks, allocators, file systems, path lookup, pid lookup,
  user-memory access and the architecture enter as fields of the environment record of a
  component. A theorem that relies on their behaviour says so in a named predicate (for example
  \<open>fd_law\<close>: the descriptor allocator returns an unused descriptor), and has a witness with concrete
  functions.

  \<^bold>\<open>Bounds and fuel.\<close> No definition uses fuel. Recursion is structural or has a termination proof
  (\<open>walk_levels\<close>: the number of unvisited nodes; \<open>loop_segments\<close>: the bytes left; \<open>blacklist_loop\<close>: the
  text left); the retry loops of \<open>getrusage\<close>, \<open>chmod\<close> and \<open>chown\<close> and the scaling loop of the 32-bit
  \<open>sysinfo\<close> are partial functions that are proved to return. Fixed sizes are those of the source
  (65-byte names, 20 entries of \<open>luis_get_io_throttle\<close>, 32 levels of pid namespaces, eight levels of
  initcalls); \<open>MAX_INIT_ARGS\<close> is a parameter.

  \<^bold>\<open>Not modelled.\<close> Locking, RCU and memory ordering: a call is atomic, concurrency is interleaving
  of calls (of statements, for the two threads of the boot). In \<^verbatim>\<open>kernel/fork.c\<close>: the allocation of task structures, stacks and caches, the copy of
  the mappings of an address space (\<open>dup_mmap\<close>), and the polling of a pidfd. In
  \<^verbatim>\<open>Init/main.c\<close>: printing and the tracing of initcalls; the initialisers of other subsystems are
  calls in a trace. \<^verbatim>\<open>Include/syscalls.h\<close>, \<^verbatim>\<open>uts.h\<close> and \<^verbatim>\<open>syscall_64.tbl\<close> (declarations and
  tables without behaviour), the generated \<^verbatim>\<open>.mod.c\<close> files, and the user-space test programs.
  In \<^verbatim>\<open>fs/read_write.c\<close>: the asynchronous \<open>vfs_iocb_iter_read\<close> and \<open>vfs_iocb_iter_write\<close>.
\<close>

section \<open>The limiter and the resource-limit system calls, interleaved\<close>

text \<open>
  The limiter of \<open>syscall3.c\<close> writes the same \<open>signal->rlim\<close> entries as \<open>setrlimit\<close> and
  \<open>prlimit64\<close>. A run of the machine interleaves both: \<open>mixed_call\<close> is one call of either
  kind, on the state that the limiter's list shares with the limits.
\<close>

datatype mixed_call = Limiter mlim_env mlim_op | Limits rlim_env rlim_op

fun exec_mixed :: "mixed_call \<Rightarrow> mlim_state \<Rightarrow> int \<times> mlim_state" where
  "exec_mixed (Limiter E op) st = exec_mlim (E, op) st"
| "exec_mixed (Limits E op) st =
     (case exec_rlim (E, op) (task_limits st) of (ret, rs) \<Rightarrow> (ret, st\<lparr>task_limits := rs\<rparr>))"

text \<open>The limiter runs on one task table; everybody else is without \<open>CAP_SYS_RESOURCE\<close>.\<close>

fun confined_call :: "(int \<Rightarrow> rtask option) \<Rightarrow> mixed_call \<Rightarrow> bool" where
  "confined_call ft (Limiter E op) \<longleftrightarrow> limiter_call ft (E, op)"
| "confined_call ft (Limits E op) \<longleftrightarrow> \<not> cap_sys_resource E"

definition capped :: "(int \<Rightarrow> rtask option) \<Rightarrow> mlim_state \<Rightarrow> bool" where
  "capped ft st \<longleftrightarrow> (\<forall>pid lim. registered st pid = Some lim \<longrightarrow>
     (\<exists>task. ft pid = Some task \<and> rlim_max (rlims (task_limits st) (rt_signal task) RLIMIT_AS) \<le> lim))"

lemma in_step_capped: "in_step ft st \<Longrightarrow> capped ft st"
  unfolding in_step_def capped_def by fastforce

lemma limiter_step_capped:
  assumes "limiter_step ft st st'" and "distinct_processes ft" and "capped ft st"
  shows "capped ft st'"
proof (cases "st' = st")
  case False
  with assms(1) obtain pid task l where task: "ft pid = Some task"
    and lims: "rlims (task_limits st') = (rlims (task_limits st))(rt_signal task :=
      (rlims (task_limits st) (rt_signal task))(RLIMIT_AS := \<lparr>rlim_cur = l, rlim_max = l\<rparr>))"
    and other: "\<And>q. q \<noteq> pid \<Longrightarrow> registered st' q = registered st q"
    and this_pid: "registered st' pid = Some l \<or> registered st' pid = None"
    unfolding limiter_step_def by blast
  show ?thesis
    unfolding capped_def
  proof (intro allI impI)
    fix q lim assume q: "registered st' q = Some lim"
    show "\<exists>u. ft q = Some u \<and> rlim_max (rlims (task_limits st') (rt_signal u) RLIMIT_AS) \<le> lim"
    proof (cases "q = pid")
      case True
      with q this_pid task lims show ?thesis by auto
    next
      case False
      with q other assms(3) obtain u where u: "ft q = Some u"
        "rlim_max (rlims (task_limits st) (rt_signal u) RLIMIT_AS) \<le> lim"
        unfolding capped_def by metis
      moreover have "rt_signal u \<noteq> rt_signal task"
        using assms(2) u(1) task False unfolding distinct_processes_def by blast
      ultimately show ?thesis using lims by simp
    qed
  qed
qed (use assms(3) in simp)

lemma limits_capped: "\<lbrakk>capped ft st; hard_limits_le (task_limits st) rs\<rbrakk> \<Longrightarrow> capped ft (st\<lparr>task_limits := rs\<rparr>)"
  unfolding capped_def hard_limits_le_def by simp (meson order_trans)

interpretation mixed: syscall_invariant exec_mixed
  "\<lambda>c. confined_call ft c \<and> distinct_processes ft" "\<lambda>st. mlim_inv st \<and> capped ft st" for ft
proof unfold_locales
  fix c st assume c: "confined_call ft c \<and> distinct_processes ft" and st: "mlim_inv st \<and> capped ft st"
  show "mlim_inv (snd (exec_mixed c st)) \<and> capped ft (snd (exec_mixed c st))"
  proof (cases c)
    case (Limiter E op)
    with c st exec_mlim_step [of st ft E op] mlim.exec_inv [of "(E, op)" st] show ?thesis
      by (auto simp: ends_def limiter_call_def intro: limiter_step_capped)
  next
    case (Limits E op)
    with c st rlim_hard.exec_R [of "(E, op)" "task_limits st"] show ?thesis
      by (simp add: split_beta limits_capped)
  qed
qed



end
